(* ===== verification/Prelude.thy ===== *)
theory Prelude
  imports Main "HOL-Library.Word" "HOL-Library.Signed_Division"
    "HOL-Library.While_Combinator"
begin

text \<open>
  Shared vocabulary of the development: the outcome type of fallible code (C++ exceptions and
  undefined behaviour as values), the C integer conversions and divisions that the sources use,
  byte copies (\<open>memcpy\<close> into and out of a \<open>std::vector<char>\<close>), bit sets
  (\<open>boost::dynamic_bitset\<close>), and the generic lemmas on them. The collections
  \<open>c_int\<close>, \<open>byte_copy\<close> and \<open>result_simps\<close> carry the component proofs.
\<close>

named_theorems c_int "C integer conversions and divisions in their exact range"
named_theorems byte_copy "copies into and out of byte vectors"
named_theorems result_simps "sequencing of fallible operations"

section \<open>Outcomes of fallible code\<close>

text \<open>
  The exception classes of \<open>src/src/utils/exceptions.h\<close> (all derive from
  \<open>std::runtime_error\<close> and carry a message) and the exceptions of the standard library.
\<close>

datatype exn_class = LhException | ParseException | TorrentException | FileException
  | ReaderException | StdException

text \<open>
  A C++ operation that does not return a value either throws or has no defined behaviour
  (an index outside a vector, a copy outside a buffer, a null dereference).
\<close>

datatype failure = Throw exn_class string | Undefined

type_synonym 'a result = "failure + 'a"

definition bind_result :: "'a result \<Rightarrow> ('a \<Rightarrow> 'b result) \<Rightarrow> 'b result" where
  "bind_result r f = (case r of Inl e \<Rightarrow> Inl e | Inr x \<Rightarrow> f x)"

section \<open>C integers\<close>

text \<open>
  Values of C type \<open>int\<close> and \<open>std::int64_t\<close> are modelled by \<open>int\<close>; a conversion
  to a narrower type keeps the low bits, as the compilers the project supports do.
  \<open>sdiv\<close> and \<open>smod\<close> of \<open>Signed_Division\<close> are C's truncating \<open>/\<close> and
  \<open>%\<close>.
\<close>

definition to_int32 :: "int \<Rightarrow> int" where
  "to_int32 x = (x + 2 ^ 31) mod 2 ^ 32 - 2 ^ 31"

definition to_int64 :: "int \<Rightarrow> int" where
  "to_int64 x = (x + 2 ^ 63) mod 2 ^ 64 - 2 ^ 63"

definition to_size_t :: "int \<Rightarrow> int" where
  "to_size_t x = x mod 2 ^ 64"

text \<open>The \<open>ceil(a / double(b))\<close> of two integers.\<close>

definition ceil_div :: "int \<Rightarrow> int \<Rightarrow> int" where
  "ceil_div a b = - ((- a) div b)"

section \<open>Bytes, byte vectors and bit sets\<close>

type_synonym byte = "8 word"

text \<open>
  \<open>overlay xs off ys\<close> is the vector after \<open>memcpy(&xs[off], ys, n)\<close> where \<open>n\<close>
  is the length of \<open>ys\<close>; \<open>slice xs off n\<close> is what \<open>memcpy(dst, &xs[off], n)\<close>
  copies.
\<close>

definition overlay :: "'a list \<Rightarrow> nat \<Rightarrow> 'a list \<Rightarrow> 'a list" where
  "overlay xs off ys = take off xs @ ys @ drop (off + length ys) xs"

definition slice :: "'a list \<Rightarrow> nat \<Rightarrow> nat \<Rightarrow> 'a list" where
  "slice xs off n = take n (drop off xs)"

text \<open>Test, set and clear of a bit; \<open>bitset_set\<close> fails outside the set.\<close>

definition bit_test :: "bool list \<Rightarrow> int \<Rightarrow> bool" where
  "bit_test bs i = (0 \<le> i \<and> nat i < length bs \<and> bs ! nat i)"

definition bitset_set :: "bool list \<Rightarrow> int \<Rightarrow> bool list result" where
  "bitset_set bs i =
     (if 0 \<le> i \<and> nat i < length bs then Inr (bs[nat i := True]) else Inl Undefined)"

primrec bitset_set_all :: "bool list \<Rightarrow> int list \<Rightarrow> bool list result" where
  "bitset_set_all bs [] = Inr bs"
| "bitset_set_all bs (i # is) =
     bind_result (bitset_set bs i) (\<lambda>bs'. bitset_set_all bs' is)"

text \<open>What a C string shows of a text: everything before the first zero byte.\<close>

definition c_str :: "string \<Rightarrow> string" where
  "c_str s = takeWhile (\<lambda>c. c \<noteq> CHR 0x00) s"

section \<open>Lemmas\<close>

lemma bind_result_Inl [simp, result_simps]: "bind_result (Inl e) f = Inl e"
  by (simp add: bind_result_def)

lemma bind_result_Inr [simp, result_simps]: "bind_result (Inr x) f = f x"
  by (simp add: bind_result_def)

lemma bind_result_eq_Inr [result_simps]:
  "bind_result r f = Inr y \<longleftrightarrow> (\<exists>x. r = Inr x \<and> f x = Inr y)"
  by (auto simp: bind_result_def split: sum.splits)

lemma to_int32_id [c_int]: "- (2 ^ 31) \<le> x \<Longrightarrow> x < 2 ^ 31 \<Longrightarrow> to_int32 x = x"
  by (simp add: to_int32_def)

lemma to_int32_range: "- (2 ^ 31) \<le> to_int32 x \<and> to_int32 x < 2 ^ 31"
proof -
  have "0 \<le> (x + 2 ^ 31) mod 2 ^ 32" and "(x + 2 ^ 31) mod 2 ^ 32 < (2 ^ 32 :: int)"
    by simp_all
  then show ?thesis by (simp add: to_int32_def)
qed

lemma to_int64_id [c_int]: "- (2 ^ 63) \<le> x \<Longrightarrow> x < 2 ^ 63 \<Longrightarrow> to_int64 x = x"
  by (simp add: to_int64_def)

lemma to_size_t_id [c_int]: "0 \<le> x \<Longrightarrow> x < 2 ^ 64 \<Longrightarrow> to_size_t x = x"
  by (simp add: to_size_t_def)

lemma sdiv_nonneg [c_int]: "0 \<le> a \<Longrightarrow> 0 \<le> b \<Longrightarrow> a sdiv b = a div b" for a b :: int
  by (cases "a = 0"; cases "b = 0") (auto simp: signed_divide_int_def)

lemma ceil_div_bounds:
  assumes "0 < b"
  shows "a \<le> ceil_div a b * b" and "ceil_div a b * b < a + b"
proof -
  have r: "0 \<le> (- a) mod b" "(- a) mod b < b" using assms by simp_all
  have "ceil_div a b * b = a + (- a) mod b"
    using div_mult_mod_eq [of "- a" b] unfolding ceil_div_def by linarith
  with r show "a \<le> ceil_div a b * b" and "ceil_div a b * b < a + b" by simp_all
qed

lemma ceil_div_nonneg: "0 \<le> a \<Longrightarrow> 0 < b \<Longrightarrow> 0 \<le> ceil_div a b"
  by (simp add: ceil_div_def div_nonpos_pos_le0)

lemma length_overlay [simp, byte_copy]:
  "off + length ys \<le> length xs \<Longrightarrow> length (overlay xs off ys) = length xs"
  by (simp add: overlay_def)

lemma slice_overlay_same [simp, byte_copy]:
  "off + length ys \<le> length xs \<Longrightarrow> slice (overlay xs off ys) off (length ys) = ys"
  by (simp add: overlay_def slice_def)

lemma length_slice [simp, byte_copy]:
  "off + n \<le> length xs \<Longrightarrow> length (slice xs off n) = n"
  by (simp add: slice_def)

lemma overlay_Nil [simp, byte_copy]: "overlay xs off [] = xs"
  by (simp add: overlay_def)

lemma overlay_append [byte_copy]:
  assumes "off + length ys + length zs \<le> length xs"
  shows "overlay (overlay xs off ys) (off + length ys) zs = overlay xs off (ys @ zs)"
proof -
  have "off \<le> length xs" using assms by simp
  then show ?thesis by (simp add: overlay_def min_def ac_simps)
qed

lemma slice_append [byte_copy]: "slice xs off (n + m) = slice xs off n @ slice xs (off + n) m"
  unfolding slice_def by (simp add: take_add add.commute [of off])

lemma slice_0 [simp, byte_copy]: "slice xs off 0 = []"
  by (simp add: slice_def)

lemma bitset_set_eq_Inr:
  "bitset_set bs i = Inr bs' \<longleftrightarrow> 0 \<le> i \<and> nat i < length bs \<and> bs' = bs[nat i := True]"
  by (auto simp: bitset_set_def)

lemma bitset_set_length: "bitset_set bs i = Inr bs' \<Longrightarrow> length bs' = length bs"
  by (simp add: bitset_set_eq_Inr)

lemma bitset_set_test:
  assumes "bitset_set bs i = Inr bs'"
  shows "bit_test bs' j = (i = j \<or> bit_test bs j)"
proof (cases "i = j")
  case False
  with assms have "0 \<le> j \<Longrightarrow> nat i \<noteq> nat j" by (auto simp: bitset_set_eq_Inr)
  with assms False show ?thesis by (auto simp: bitset_set_eq_Inr bit_test_def)
qed (use assms in \<open>simp add: bitset_set_eq_Inr bit_test_def\<close>)

lemma bitset_set_all_length: "bitset_set_all bs is = Inr bs' \<Longrightarrow> length bs' = length bs"
proof (induction "is" arbitrary: bs)
  case (Cons i "is")
  then obtain bs1 where "bitset_set bs i = Inr bs1" "bitset_set_all bs1 is = Inr bs'"
    by (auto simp: bind_result_eq_Inr)
  with Cons.IH [of bs1] bitset_set_length show ?case by metis
qed simp

lemma bitset_set_all_test:
  "bitset_set_all bs is = Inr bs' \<Longrightarrow> bit_test bs' j = (j \<in> set is \<or> bit_test bs j)"
proof (induction "is" arbitrary: bs)
  case (Cons i "is")
  then obtain bs1 where 1: "bitset_set bs i = Inr bs1" "bitset_set_all bs1 is = Inr bs'"
    by (auto simp: bind_result_eq_Inr)
  show ?case using Cons.IH [OF 1(2)] bitset_set_test [OF 1(1)] by auto
qed simp

lemma bitset_set_all_ok:
  "\<forall>i \<in> set is. 0 \<le> i \<and> i < int (length bs) \<Longrightarrow> \<exists>bs'. bitset_set_all bs is = Inr bs'"
proof (induction "is" arbitrary: bs)
  case (Cons i "is")
  have i: "0 \<le> i" "nat i < length bs" using Cons.prems by auto
  have "\<exists>bs'. bitset_set_all (bs[nat i := True]) is = Inr bs'"
    using Cons.prems by (intro Cons.IH) simp
  with i show ?case by (simp add: bitset_set_def)
qed simp

lemma bit_test_replicate_False [simp]: "\<not> bit_test (replicate n False) i"
  by (simp add: bit_test_def)

text \<open>Counting under an update.\<close>

lemma length_filter_update:
  "i < length xs \<Longrightarrow> int (length (filter P (xs[i := y]))) =
     int (length (filter P xs)) - (if P (xs ! i) then 1 else 0) + (if P y then 1 else 0)"
proof (induction xs arbitrary: i)
  case (Cons x xs)
  show ?case
  proof (cases i)
    case (Suc k)
    with Cons.prems have "k < length xs" by simp
    from Cons.IH [OF this] Suc show ?thesis by (simp split: if_splits)
  qed simp
qed simp

end
