(* ===== verification/Libtorrent.thy ===== *)
theory Libtorrent
  imports Prelude
begin

text \<open>
  The parts of libtorrent that the sources call on a torrent. libtorrent is not part of the
  repository, so its operations are a parameter: a record of functions over an arbitrary type
  \<open>'h\<close> of torrent objects, passed to every definition that calls them. What the properties
  rely on is the predicate \<open>piece_api_ok\<close>, the documented behaviour of setting and reading
  piece priorities. \<open>lt_demo\<close> is a concrete object with these operations, on which the
  witnesses evaluate.
\<close>

section \<open>The operations on one torrent\<close>

record 'h lt_api =
  lt_have_piece :: "'h \<Rightarrow> int \<Rightarrow> bool"
  lt_piece_priority :: "'h \<Rightarrow> int \<Rightarrow> int"
  lt_set_piece_priority :: "'h \<Rightarrow> int \<Rightarrow> int \<Rightarrow> 'h"
  lt_prioritize_pieces :: "'h \<Rightarrow> (int \<times> int) list \<Rightarrow> 'h"
  lt_get_piece_priorities :: "'h \<Rightarrow> int list"
  lt_set_piece_deadline :: "'h \<Rightarrow> int \<Rightarrow> int \<Rightarrow> 'h"
  lt_reset_piece_deadline :: "'h \<Rightarrow> int \<Rightarrow> 'h"
  lt_we_dont_have :: "'h \<Rightarrow> int \<Rightarrow> 'h"
  lt_file_priority :: "'h \<Rightarrow> int \<Rightarrow> int"
  lt_set_file_priority :: "'h \<Rightarrow> int \<Rightarrow> int \<Rightarrow> 'h"
  lt_save_resume_data :: "'h \<Rightarrow> 'h"
  lt_set_auto_managed :: "'h \<Rightarrow> bool \<Rightarrow> 'h"
  lt_unset_stop_when_ready :: "'h \<Rightarrow> 'h"
  lt_clear_error :: "'h \<Rightarrow> 'h"
  lt_pause :: "'h \<Rightarrow> 'h"
  lt_resume :: "'h \<Rightarrow> 'h"

text \<open>
  Documented behaviour of piece priorities: setting one piece changes that piece only, a list
  of requests is carried out piece by piece, and neither changes what has been downloaded.
  The priorities are those of the \<open>n\<close> pieces of the torrent.
\<close>

definition piece_api_ok :: "'h lt_api \<Rightarrow> nat \<Rightarrow> bool" where
  "piece_api_ok api n \<longleftrightarrow>
     (\<forall>h i j v. 0 \<le> i \<and> i < int n \<longrightarrow>
        lt_piece_priority api (lt_set_piece_priority api h i v) j =
          (if j = i then v else lt_piece_priority api h j)) \<and>
     (\<forall>h i j v. lt_have_piece api (lt_set_piece_priority api h i v) j = lt_have_piece api h j) \<and>
     (\<forall>h i d j. lt_piece_priority api (lt_set_piece_deadline api h i d) j = lt_piece_priority api h j \<and>
        lt_have_piece api (lt_set_piece_deadline api h i d) j = lt_have_piece api h j) \<and>
     (\<forall>h rs. lt_prioritize_pieces api h rs =
        foldl (\<lambda>h r. lt_set_piece_priority api h (fst r) (snd r)) h rs) \<and>
     (\<forall>h. length (lt_get_piece_priorities api h) = n \<and>
        (\<forall>i<n. lt_get_piece_priorities api h ! i = lt_piece_priority api h (int i)))"

section \<open>A concrete torrent object\<close>

text \<open>A torrent object of four pieces that keeps what it is told and records the other calls.\<close>

record lt_demo =
  d_prio :: "int \<Rightarrow> int"
  d_have :: "int \<Rightarrow> bool"
  d_file_prio :: "int \<Rightarrow> int"
  d_calls :: "string list"

definition demo_call :: "string \<Rightarrow> lt_demo \<Rightarrow> lt_demo" where
  "demo_call c d = d\<lparr>d_calls := d_calls d @ [c]\<rparr>"

definition demo_set_prio :: "lt_demo \<Rightarrow> int \<Rightarrow> int \<Rightarrow> lt_demo" where
  "demo_set_prio d i v = d\<lparr>d_prio := (d_prio d)(i := v)\<rparr>"

definition demo_api :: "lt_demo lt_api" where
  "demo_api = \<lparr>
     lt_have_piece = d_have,
     lt_piece_priority = d_prio,
     lt_set_piece_priority = demo_set_prio,
     lt_prioritize_pieces = (\<lambda>d rs. foldl (\<lambda>d r. demo_set_prio d (fst r) (snd r)) d rs),
     lt_get_piece_priorities = (\<lambda>d. map (d_prio d) [0, 1, 2, 3]),
     lt_set_piece_deadline = (\<lambda>d i t. d),
     lt_reset_piece_deadline = (\<lambda>d i. d),
     lt_we_dont_have = (\<lambda>d i. d\<lparr>d_have := (d_have d)(i := False)\<rparr>),
     lt_file_priority = d_file_prio,
     lt_set_file_priority = (\<lambda>d i v. d\<lparr>d_file_prio := (d_file_prio d)(i := v)\<rparr>),
     lt_save_resume_data = demo_call ''save_resume_data'',
     lt_set_auto_managed = (\<lambda>d v. demo_call (if v then ''auto_managed'' else ''manual'') d),
     lt_unset_stop_when_ready = demo_call ''unset_stop_when_ready'',
     lt_clear_error = demo_call ''clear_error'',
     lt_pause = demo_call ''pause'',
     lt_resume = demo_call ''resume''\<rparr>"

text \<open>None of the four pieces is downloaded, all have priority 1.\<close>

definition demo_handle :: lt_demo where
  "demo_handle = \<lparr>d_prio = (\<lambda>i. 1), d_have = (\<lambda>i. False), d_file_prio = (\<lambda>i. 1), d_calls = []\<rparr>"

lemmas demo_api_simps = demo_api_def demo_set_prio_def demo_call_def

lemma piece_api_ok_demo: "piece_api_ok demo_api 4"
proof -
  have "map (d_prio d) [0, 1, 2, 3] ! i = d_prio d (int i)" if "i < 4" for d :: lt_demo and i
  proof -
    from that have "i \<in> {0, 1, 2, 3}" by auto
    then show ?thesis by auto
  qed
  then show ?thesis by (simp add: piece_api_ok_def demo_api_def demo_set_prio_def)
qed

end
