(* ===== verification/Memory_Storage.thy ===== *)
theory Memory_Storage
  imports Libtorrent
begin

text \<open>
  The in-memory piece storage of \<open>src/src/bittorrent/memory_storage.h\<close> and
  \<open>memory_storage.cpp\<close>: a fixed pool of buffers, each as long as a piece, handed out to
  pieces on their first write and taken back from the least recently used pieces when the pool
  is full. This theory holds the data types and every operation of the class; its invariant and
  properties are in the theories that import it.

  The libtorrent object that \<open>m_handle\<close> and \<open>m_torrent\<close> point to is shared with the
  \<open>Torrent\<close> class, so it is passed in and out of the operations (\<open>h\<close>); the record
  keeps whether the pointer is set. \<open>std::chrono::system_clock::now()\<close> reads the parameter
  \<open>now\<close>: its \<open>k\<close>-th reading is \<open>now k\<close>, and \<open>ms_ticks\<close> counts the readings.
  Logging is left out; \<open>ms_is_logging\<close> is kept because two operations set it.
\<close>

section \<open>Data\<close>

record memory_piece =
  p_index :: int
  p_length :: int
  p_size :: int
  p_bi :: int
  p_is_completed :: bool
  p_is_read :: bool

record memory_buffer =
  b_index :: int
  b_length :: int
  b_buffer :: "byte list"
  b_pi :: int
  b_is_used :: bool
  b_accessed :: int

record memory_storage =
  ms_reader_pieces :: "bool list"
  ms_reserved_pieces :: "bool list"
  ms_capacity :: int
  ms_piece_count :: int
  ms_piece_length :: int
  ms_pieces :: "memory_piece list"
  ms_buffer_size :: int
  ms_buffer_limit :: int
  ms_buffer_used :: int
  ms_buffer_reserved :: int
  ms_buffers :: "memory_buffer list"
  ms_is_logging :: bool
  ms_is_initialized :: bool
  ms_is_reading :: bool
  ms_is_handled :: bool
  ms_has_handle :: bool
  ms_ticks :: nat

text \<open>The libtorrent file layout that the constructor reads from \<open>params.files\<close>.\<close>

record file_layout =
  fl_num_pieces :: int
  fl_piece_length :: int
  fl_piece_size :: "int \<Rightarrow> int"

type_synonym clock = "nat \<Rightarrow> int"

section \<open>Pieces and buffers\<close>

definition new_memory_piece :: "int \<Rightarrow> int \<Rightarrow> memory_piece" where
  "new_memory_piece i len = \<lparr>p_index = i, p_length = len, p_size = 0, p_bi = -1,
     p_is_completed = False, p_is_read = False\<rparr>"

definition is_buffered :: "memory_piece \<Rightarrow> bool" where
  "is_buffered p \<longleftrightarrow> p_bi p \<noteq> -1"

definition piece_reset :: "memory_piece \<Rightarrow> memory_piece" where
  "piece_reset p = p\<lparr>p_bi := -1, p_is_completed := False, p_is_read := False, p_size := 0\<rparr>"

text \<open>The constructor leaves \<open>accessed\<close> at the epoch (a value-initialised time point).\<close>

definition new_memory_buffer :: "int \<Rightarrow> int \<Rightarrow> memory_buffer" where
  "new_memory_buffer i len = \<lparr>b_index = i, b_length = len, b_buffer = replicate (nat len) 0,
     b_pi = -1, b_is_used = False, b_accessed = 0\<rparr>"

definition is_assigned :: "memory_buffer \<Rightarrow> bool" where
  "is_assigned b \<longleftrightarrow> b_pi b \<noteq> -1"

definition buffer_reset :: "int \<Rightarrow> memory_buffer \<Rightarrow> memory_buffer" where
  "buffer_reset t b = b\<lparr>b_is_used := False, b_pi := -1, b_accessed := t,
     b_buffer := replicate (length (b_buffer b)) 0\<rparr>"

section \<open>Construction and sizing\<close>

text \<open>
  \<open>int(rint(ceil(capacity / double(piece_length))))\<close>, capped by the number of pieces. The
  quotient of two integers below \<open>2 ^ 53\<close> rounds to a double that has the exact ceiling.
\<close>

definition buffers_for :: "int \<Rightarrow> int \<Rightarrow> int \<Rightarrow> int" where
  "buffers_for capacity piece_length piece_count =
     (let n = to_int32 (ceil_div capacity piece_length) in
      if n > piece_count then piece_count else n)"

text \<open>
  The constructor does not initialise \<open>is_handled\<close>: its value is the parameter
  \<open>garbage\<close>. \<open>memory_size\<close> is the global \<open>lh::memory_size\<close>.
\<close>

definition new_memory_storage :: "bool \<Rightarrow> int \<Rightarrow> file_layout \<Rightarrow> memory_storage" where
  "new_memory_storage garbage memory_size files =
     (let n = fl_num_pieces files; len = fl_piece_length files;
          size = buffers_for memory_size len n in
      \<lparr>ms_reader_pieces = replicate (nat (n + 10)) False,
       ms_reserved_pieces = replicate (nat (n + 10)) False,
       ms_capacity = memory_size, ms_piece_count = n, ms_piece_length = len,
       ms_pieces = map (\<lambda>i. new_memory_piece i (fl_piece_size files i)) (map int [0..<nat n]),
       ms_buffer_size = size, ms_buffer_limit = size, ms_buffer_used = 0, ms_buffer_reserved = 0,
       ms_buffers = [], ms_is_logging = False, ms_is_initialized = False, ms_is_reading = False,
       ms_is_handled = garbage, ms_has_handle = False, ms_ticks = 0\<rparr>)"

definition bitset_resize :: "bool list \<Rightarrow> nat \<Rightarrow> bool list" where
  "bitset_resize bs n = take n bs @ replicate (n - length bs) False"

definition initialize :: "memory_storage \<Rightarrow> memory_storage" where
  "initialize s = s\<lparr>
     ms_buffers := ms_buffers s @
       map (\<lambda>i. new_memory_buffer (int i) (ms_piece_length s)) [0..<nat (ms_buffer_size s)],
     ms_reader_pieces := bitset_resize (ms_reader_pieces s) (nat (ms_piece_count s + 10)),
     ms_reserved_pieces := bitset_resize (ms_reserved_pieces s) (nat (ms_piece_count s + 10)),
     ms_is_initialized := True\<rparr>"

definition get_memory_size :: "memory_storage \<Rightarrow> int" where
  "get_memory_size s = ms_capacity s"

definition set_memory_size :: "int \<Rightarrow> memory_storage \<Rightarrow> memory_storage" where
  "set_memory_size n s =
     (if n \<le> ms_capacity s then s
      else
        let prev = ms_buffer_size s;
            size = buffers_for n (ms_piece_length s) (ms_piece_count s);
            s1 = s\<lparr>ms_capacity := n, ms_buffer_size := size, ms_buffer_limit := size\<rparr>
        in if prev = size then s1
           else s1\<lparr>ms_buffers := ms_buffers s @
                  map (\<lambda>i. new_memory_buffer (int i) (ms_piece_length s)) [nat prev..<nat size]\<rparr>)"

definition get_buffers_count :: "memory_storage \<Rightarrow> int" where
  "get_buffers_count s =
     ms_buffer_size s - int (length (filter (\<lambda>b. b) (ms_reserved_pieces s)))"

section \<open>Reader and reserved pieces\<close>

definition update_reader_pieces :: "int list \<Rightarrow> memory_storage \<Rightarrow> memory_storage result" where
  "update_reader_pieces ps s =
     (if \<not> ms_is_initialized s then Inr s
      else bind_result (bitset_set_all (replicate (length (ms_reader_pieces s)) False) ps)
             (\<lambda>bs. Inr (s\<lparr>ms_reader_pieces := bs\<rparr>)))"

definition update_reserved_pieces :: "int list \<Rightarrow> memory_storage \<Rightarrow> memory_storage result" where
  "update_reserved_pieces ps s =
     (if \<not> ms_is_initialized s then Inr s
      else bind_result (bitset_set_all (replicate (length (ms_reserved_pieces s)) False) ps)
             (\<lambda>bs. Inr (s\<lparr>ms_buffer_reserved := int (length ps), ms_reserved_pieces := bs\<rparr>)))"

definition is_reserved :: "memory_storage \<Rightarrow> int \<Rightarrow> bool" where
  "is_reserved s i \<longleftrightarrow> ms_is_initialized s \<and> bit_test (ms_reserved_pieces s) i"

definition is_readered :: "'h lt_api \<Rightarrow> 'h \<Rightarrow> memory_storage \<Rightarrow> int \<Rightarrow> bool" where
  "is_readered api h s i =
     (if \<not> ms_is_initialized s then False
      else if \<not> ms_has_handle s then True
      else lt_piece_priority api h i \<noteq> 0)"

definition set_torrent_handle :: "memory_storage \<Rightarrow> memory_storage" where
  "set_torrent_handle s = s\<lparr>ms_has_handle := True, ms_is_handled := True\<rparr>"

definition enable_logging :: "memory_storage \<Rightarrow> memory_storage" where
  "enable_logging s = s\<lparr>ms_is_logging := True\<rparr>"

definition disable_logging :: "memory_storage \<Rightarrow> memory_storage" where
  "disable_logging s = s\<lparr>ms_is_logging := False\<rparr>"

section \<open>Taking buffers back\<close>

text \<open>A set \<open>is_handled\<close> with a null \<open>m_handle\<close> dereferences the null pointer.\<close>

definition restore_piece :: "'h lt_api \<Rightarrow> int \<Rightarrow> 'h \<Rightarrow> memory_storage \<Rightarrow> 'h result" where
  "restore_piece api pc h s =
     (if \<not> ms_is_handled s then Inr h
      else if \<not> ms_has_handle s then Inl Undefined
      else Inr (lt_we_dont_have api
             (lt_set_piece_priority api (lt_reset_piece_deadline api h pc) pc 0) pc))"

text \<open>The loop of \<open>find_last_buffer\<close>; the accumulator is \<open>(bi, minTime)\<close>.\<close>

definition last_buffer_step ::
  "'h lt_api \<Rightarrow> 'h \<Rightarrow> memory_storage \<Rightarrow> int \<Rightarrow> bool \<Rightarrow> int \<times> int \<Rightarrow> memory_buffer \<Rightarrow> int \<times> int" where
  "last_buffer_step api h s pc check_read acc b =
     (if b_is_used b \<and> is_assigned b \<and> \<not> is_reserved s (b_pi b) \<and> b_pi b \<noteq> pc \<and>
         (\<not> check_read \<or> \<not> is_readered api h s (b_pi b)) \<and> b_accessed b < snd acc
      then (b_index b, b_accessed b) else acc)"

definition find_last_buffer ::
  "'h lt_api \<Rightarrow> clock \<Rightarrow> int \<Rightarrow> bool \<Rightarrow> 'h \<Rightarrow> memory_storage \<Rightarrow> int \<times> memory_storage" where
  "find_last_buffer api now pc check_read h s =
     (fst (foldl (last_buffer_step api h s pc check_read) (-1, now (ms_ticks s)) (ms_buffers s)),
      s\<lparr>ms_ticks := Suc (ms_ticks s)\<rparr>)"

definition remove_piece ::
  "'h lt_api \<Rightarrow> clock \<Rightarrow> int \<Rightarrow> 'h \<Rightarrow> memory_storage \<Rightarrow> ('h \<times> memory_storage) result" where
  "remove_piece api now bi h s =
     (if \<not> (0 \<le> bi \<and> nat bi < length (ms_buffers s)) then Inl Undefined
      else
        let b = ms_buffers s ! nat bi;
            pc = b_pi b;
            s1 = s\<lparr>ms_buffers := (ms_buffers s)[nat bi := buffer_reset (now (ms_ticks s)) b],
                   ms_buffer_used := ms_buffer_used s - 1,
                   ms_ticks := Suc (ms_ticks s)\<rparr>
        in if pc \<noteq> -1 \<and> pc < ms_piece_count s then
             if \<not> (0 \<le> pc \<and> nat pc < length (ms_pieces s)) then Inl Undefined
             else
               let s2 = s1\<lparr>ms_pieces := (ms_pieces s)[nat pc := piece_reset (ms_pieces s ! nat pc)]\<rparr>
               in bind_result (restore_piece api pc h s2) (\<lambda>h'. Inr (h', s2))
           else Inr (h, s1))"

text \<open>
  One pass of the loop of \<open>trim\<close>. \<open>reader_pieces.empty()\<close> asks whether the bit set has
  no bits at all, not whether no bit is set. A pass that finds no buffer changes nothing but
  the number of clock readings.
\<close>

definition trim_pass ::
  "'h lt_api \<Rightarrow> clock \<Rightarrow> int \<Rightarrow> 'h \<Rightarrow> memory_storage \<Rightarrow> ('h \<times> memory_storage) result" where
  "trim_pass api now pc h s =
     (let (bi, s1) = (if ms_reader_pieces s \<noteq> [] then find_last_buffer api now pc True h s
                      else (-1, s))
      in if bi \<noteq> -1 then remove_piece api now bi h s1
         else
           let (bi, s2) = find_last_buffer api now pc False h s1
           in if bi \<noteq> -1 then remove_piece api now bi h s2 else Inr (h, s2))"

definition over_limit :: "memory_storage \<Rightarrow> bool" where
  "over_limit s \<longleftrightarrow> ms_buffer_used s \<ge> ms_buffer_limit s"

text \<open>
  The loop may run forever, so \<open>trim\<close> is an option: \<open>None\<close> when it does not return.
\<close>

definition trim_loop ::
  "'h lt_api \<Rightarrow> clock \<Rightarrow> int \<Rightarrow> 'h \<times> memory_storage \<Rightarrow> ('h \<times> memory_storage) result option" where
  "trim_loop api now pc hs =
     while_option (\<lambda>r. case r of Inl e \<Rightarrow> False | Inr (h, s) \<Rightarrow> over_limit s)
       (\<lambda>r. bind_result r (\<lambda>(h, s). trim_pass api now pc h s)) (Inr hs)"

definition trim ::
  "'h lt_api \<Rightarrow> clock \<Rightarrow> int \<Rightarrow> 'h \<Rightarrow> memory_storage \<Rightarrow> ('h \<times> memory_storage) result option" where
  "trim api now pc h s =
     (if ms_capacity s < 0 \<or> ms_buffer_used s < ms_buffer_limit s then Some (Inr (h, s))
      else trim_loop api now pc (h, s))"

section \<open>Handing buffers out\<close>

text \<open>The index the loop of \<open>get_buffer\<close> stops at: the first buffer that is not used.\<close>

fun first_unused :: "memory_buffer list \<Rightarrow> nat option" where
  "first_unused [] = None"
| "first_unused (b # bs) = (if b_is_used b then map_option Suc (first_unused bs) else Some 0)"

definition get_buffer ::
  "'h lt_api \<Rightarrow> clock \<Rightarrow> int \<Rightarrow> bool \<Rightarrow> 'h \<Rightarrow> memory_storage \<Rightarrow> (bool \<times> 'h \<times> memory_storage) result" where
  "get_buffer api now pc is_write h s =
     (if \<not> (0 \<le> pc \<and> nat pc < length (ms_pieces s)) then Inl Undefined
      else
        let p = ms_pieces s ! nat pc in
        if is_buffered p then Inr (True, h, s)
        else if \<not> is_write then Inr (is_buffered p, h, s)
        else if ms_is_reading s \<and> \<not> is_readered api h s (p_index p) then
          bind_result (restore_piece api (p_index p) h s) (\<lambda>h'. Inr (False, h', s))
        else if \<not> nat (ms_buffer_size s) \<le> length (ms_buffers s) then Inl Undefined
        else case first_unused (take (nat (ms_buffer_size s)) (ms_buffers s)) of
            None \<Rightarrow> Inr (False, h, s)
          | Some i \<Rightarrow>
              let b = ms_buffers s ! i;
                  b' = b\<lparr>b_is_used := True, b_pi := p_index p, b_accessed := now (ms_ticks s)\<rparr>;
                  p' = p\<lparr>p_bi := b_index b\<rparr>;
                  s1 = s\<lparr>ms_buffers := (ms_buffers s)[i := b'],
                         ms_pieces := (ms_pieces s)[nat pc := p'],
                         ms_ticks := Suc (ms_ticks s)\<rparr>;
                  s2 = (if bit_test (ms_reserved_pieces s) (p_index p)
                        then s1\<lparr>ms_buffer_limit := ms_buffer_limit s - 1\<rparr>
                        else s1\<lparr>ms_buffer_used := ms_buffer_used s + 1\<rparr>)
              in Inr (is_buffered p', h, s2))"

definition get_read_buffer where
  "get_read_buffer api now pc h s = get_buffer api now pc False h s"

definition get_write_buffer where
  "get_write_buffer api now pc h s = get_buffer api now pc True h s"

section \<open>Reading and writing\<close>

text \<open>
  \<open>readv\<close> copies into the caller's buffers, one after the other; \<open>n\<close> bytes starting at
  \<open>file_offset\<close> of \<open>mem\<close> go to the front of \<open>b\<close>. The length is computed in
  \<open>size_t\<close>, where a difference below zero wraps around, and a copy outside either buffer is
  undefined.
\<close>

fun readv_loop :: "byte list \<Rightarrow> int \<Rightarrow> byte list list \<Rightarrow> (int \<times> byte list list) result" where
  "readv_loop mem off [] = Inr (0, [])"
| "readv_loop mem off (b # bs) =
     (let to_copy = to_int32 (min (to_size_t (int (length mem) - off)) (int (length b))) in
      if 0 \<le> off \<and> 0 \<le> to_copy \<and> off + to_copy \<le> int (length mem) \<and> to_copy \<le> int (length b) then
        bind_result (readv_loop mem (off + to_copy) bs)
          (\<lambda>(n, rest). Inr (to_copy + n, overlay b 0 (slice mem (nat off) (nat to_copy)) # rest))
      else Inl Undefined)"

definition readv ::
  "'h lt_api \<Rightarrow> clock \<Rightarrow> byte list list \<Rightarrow> int \<Rightarrow> int \<Rightarrow> 'h \<Rightarrow> memory_storage \<Rightarrow>
    (int \<times> byte list list \<times> 'h \<times> memory_storage) result" where
  "readv api now bufs piece offset h s =
     (if \<not> ms_is_initialized s then Inr (0, bufs, h, s)
      else bind_result (get_read_buffer api now piece h s) (\<lambda>(ok, h1, s1).
        if \<not> ok then Inr (0, bufs, h1, s1)
        else
          let p = ms_pieces s1 ! nat piece; bi = p_bi p in
          if \<not> (0 \<le> bi \<and> nat bi < length (ms_buffers s1)) then Inl Undefined
          else
            let b = ms_buffers s1 ! nat bi in
            bind_result (readv_loop (b_buffer b) offset bufs) (\<lambda>(n, bufs').
              let p' = (if p_is_completed p \<and> offset + n \<ge> p_size p
                        then p\<lparr>p_is_read := True\<rparr> else p)
              in Inr (n, bufs', h1,
                   s1\<lparr>ms_pieces := (ms_pieces s1)[nat piece := p'],
                      ms_buffers := (ms_buffers s1)[nat bi := b\<lparr>b_accessed := now (ms_ticks s1)\<rparr>],
                      ms_ticks := Suc (ms_ticks s1)\<rparr>))))"

fun writev_loop :: "int \<Rightarrow> byte list \<Rightarrow> int \<Rightarrow> byte list list \<Rightarrow> (int \<times> byte list) result" where
  "writev_loop len mem off [] = Inr (0, mem)"
| "writev_loop len mem off (b # bs) =
     (let to_copy = to_int32 (min (to_size_t (len - off)) (int (length b))) in
      if 0 \<le> off \<and> 0 \<le> to_copy \<and> off + to_copy \<le> int (length mem) \<and> to_copy \<le> int (length b) then
        bind_result (writev_loop len (overlay mem (nat off) (take (nat to_copy) b)) (off + to_copy) bs)
          (\<lambda>(n, mem'). Inr (to_copy + n, mem'))
      else Inl Undefined)"

text \<open>\<open>writev\<close> up to the call of \<open>trim\<close>, then \<open>writev\<close> itself.\<close>

definition writev_copy ::
  "clock \<Rightarrow> byte list list \<Rightarrow> int \<Rightarrow> int \<Rightarrow> memory_storage \<Rightarrow> (int \<times> memory_storage) result" where
  "writev_copy now bufs piece offset s =
     (let p = ms_pieces s ! nat piece; bi = p_bi p in
      if \<not> (0 \<le> bi \<and> nat bi < length (ms_buffers s)) then Inl Undefined
      else
        let b = ms_buffers s ! nat bi in
        bind_result (writev_loop (p_length p) (b_buffer b) offset bufs) (\<lambda>(n, mem).
          Inr (n, s\<lparr>ms_pieces := (ms_pieces s)[nat piece := p\<lparr>p_size := p_size p + n\<rparr>],
                    ms_buffers := (ms_buffers s)[nat bi :=
                      b\<lparr>b_buffer := mem, b_accessed := now (ms_ticks s)\<rparr>],
                    ms_ticks := Suc (ms_ticks s)\<rparr>)))"

definition writev ::
  "'h lt_api \<Rightarrow> clock \<Rightarrow> byte list list \<Rightarrow> int \<Rightarrow> int \<Rightarrow> 'h \<Rightarrow> memory_storage \<Rightarrow>
    (int \<times> 'h \<times> memory_storage) result option" where
  "writev api now bufs piece offset h s =
     (if \<not> ms_is_initialized s then Some (Inr (0, h, s))
      else case get_write_buffer api now piece h s of
          Inl e \<Rightarrow> Some (Inl e)
        | Inr (ok, h1, s1) \<Rightarrow>
            if \<not> ok then Some (Inr (0, h1, s1))
            else case writev_copy now bufs piece offset s1 of
                Inl e \<Rightarrow> Some (Inl e)
              | Inr (n, s2) \<Rightarrow>
                  if ms_buffer_used s2 \<ge> ms_buffer_limit s2 then
                    map_option (\<lambda>r. bind_result r (\<lambda>(h3, s3). Inr (n, h3, s3)))
                      (trim api now piece h1 s2)
                  else Some (Inr (n, h1, s2)))"

end
