(* ===== verification/Memory_Invariant.thy ===== *)
theory Memory_Invariant
  imports Memory_Storage
begin

text \<open>
  The well-formedness invariant of the memory storage and its preservation by every operation.
  A well-formed storage owns each buffer at most once: a piece that names a buffer is the piece
  that buffer names, buffers not in use hold zeros only, and every index the code computes is
  inside its vector, so that no operation on a valid piece is undefined.
\<close>

section \<open>The invariant\<close>

definition piece_ok :: "memory_storage \<Rightarrow> nat \<Rightarrow> bool" where
  "piece_ok s i \<longleftrightarrow>
     (let p = ms_pieces s ! i in
      p_index p = int i \<and> 0 \<le> p_length p \<and> p_length p \<le> ms_piece_length s \<and>
      \<not> p_is_completed p \<and> \<not> p_is_read p \<and>
      (p_bi p \<noteq> -1 \<longrightarrow> 0 \<le> p_bi p \<and> nat (p_bi p) < length (ms_buffers s) \<and>
         b_pi (ms_buffers s ! nat (p_bi p)) = int i))"

definition buffer_ok :: "memory_storage \<Rightarrow> nat \<Rightarrow> bool" where
  "buffer_ok s j \<longleftrightarrow>
     (let b = ms_buffers s ! j in
      b_index b = int j \<and> length (b_buffer b) = nat (ms_piece_length s) \<and>
      b_is_used b = (b_pi b \<noteq> -1) \<and>
      (\<not> b_is_used b \<longrightarrow> b_buffer b = replicate (nat (ms_piece_length s)) 0) \<and>
      (b_pi b \<noteq> -1 \<longrightarrow> 0 \<le> b_pi b \<and> nat (b_pi b) < length (ms_pieces s) \<and>
         p_bi (ms_pieces s ! nat (b_pi b)) = int j))"

definition shape_ok :: "memory_storage \<Rightarrow> bool" where
  "shape_ok s \<longleftrightarrow>
     0 \<le> ms_piece_count s \<and> length (ms_pieces s) = nat (ms_piece_count s) \<and>
     0 < ms_piece_length s \<and> ms_piece_length s < 2 ^ 31 \<and>
     0 \<le> ms_buffer_size s \<and> ms_buffer_size s \<le> ms_piece_count s \<and>
     length (ms_buffers s) = (if ms_is_initialized s then nat (ms_buffer_size s) else 0) \<and>
     length (ms_reader_pieces s) = nat (ms_piece_count s + 10) \<and>
     length (ms_reserved_pieces s) = nat (ms_piece_count s + 10) \<and>
     \<not> ms_is_reading s \<and> (ms_is_handled s \<longrightarrow> ms_has_handle s)"

definition wf_storage :: "memory_storage \<Rightarrow> bool" where
  "wf_storage s \<longleftrightarrow> shape_ok s \<and> (\<forall>i<length (ms_pieces s). piece_ok s i) \<and>
     (\<forall>j<length (ms_buffers s). buffer_ok s j)"

definition valid_piece :: "memory_storage \<Rightarrow> int \<Rightarrow> bool" where
  "valid_piece s pc \<longleftrightarrow> 0 \<le> pc \<and> pc < ms_piece_count s"

text \<open>What the storage holds of a piece: the bytes of its buffer, if it has one.\<close>

definition content :: "memory_storage \<Rightarrow> int \<Rightarrow> byte list option" where
  "content s pc =
     (if valid_piece s pc \<and> is_buffered (ms_pieces s ! nat pc)
      then Some (b_buffer (ms_buffers s ! nat (p_bi (ms_pieces s ! nat pc)))) else None)"

text \<open>A file layout as libtorrent gives it: no piece is longer than the piece length.\<close>

definition layout_ok :: "file_layout \<Rightarrow> bool" where
  "layout_ok fl \<longleftrightarrow> 0 \<le> fl_num_pieces fl \<and> fl_num_pieces fl < 2 ^ 31 \<and>
     0 < fl_piece_length fl \<and> fl_piece_length fl < 2 ^ 31 \<and>
     (\<forall>i. 0 \<le> i \<and> i < fl_num_pieces fl \<longrightarrow>
        0 \<le> fl_piece_size fl i \<and> fl_piece_size fl i \<le> fl_piece_length fl)"

named_theorems wf_intro "operations that keep the storage well-formed"

section \<open>Access to the invariant\<close>

lemma wf_shape: "wf_storage s \<Longrightarrow> shape_ok s"
  by (simp add: wf_storage_def)

lemma wf_lengths:
  assumes "wf_storage s"
  shows "length (ms_pieces s) = nat (ms_piece_count s)"
    and "ms_is_initialized s \<Longrightarrow> length (ms_buffers s) = nat (ms_buffer_size s)"
    and "\<not> ms_is_reading s" and "0 < ms_piece_length s" and "ms_piece_length s < 2 ^ 31"
  using assms by (auto simp: wf_storage_def shape_ok_def)

lemma valid_nat: "wf_storage s \<Longrightarrow> valid_piece s pc \<Longrightarrow> nat pc < length (ms_pieces s)"
  by (auto simp: wf_storage_def shape_ok_def valid_piece_def)

lemma wf_piece: "wf_storage s \<Longrightarrow> valid_piece s pc \<Longrightarrow> piece_ok s (nat pc)"
  using valid_nat by (auto simp: wf_storage_def)

lemma wf_buffer: "wf_storage s \<Longrightarrow> j < length (ms_buffers s) \<Longrightarrow> buffer_ok s j"
  by (simp add: wf_storage_def)

text \<open>The buffer of a buffered piece, and the piece of an assigned buffer.\<close>

lemma wf_owner:
  assumes "wf_storage s" and "valid_piece s pc" and "is_buffered (ms_pieces s ! nat pc)"
  shows "0 \<le> p_bi (ms_pieces s ! nat pc)"
    and "nat (p_bi (ms_pieces s ! nat pc)) < length (ms_buffers s)"
    and "b_pi (ms_buffers s ! nat (p_bi (ms_pieces s ! nat pc))) = pc"
    and "length (b_buffer (ms_buffers s ! nat (p_bi (ms_pieces s ! nat pc)))) = nat (ms_piece_length s)"
proof -
  have p: "piece_ok s (nat pc)" using assms by (simp add: wf_piece)
  then show 1: "0 \<le> p_bi (ms_pieces s ! nat pc)"
    and 2: "nat (p_bi (ms_pieces s ! nat pc)) < length (ms_buffers s)"
    using assms(3) by (auto simp: piece_ok_def is_buffered_def Let_def)
  show "b_pi (ms_buffers s ! nat (p_bi (ms_pieces s ! nat pc))) = pc"
    using p assms(2,3) by (auto simp: piece_ok_def is_buffered_def Let_def valid_piece_def)
  show "length (b_buffer (ms_buffers s ! nat (p_bi (ms_pieces s ! nat pc)))) = nat (ms_piece_length s)"
    using wf_buffer [OF assms(1) 2] by (simp add: buffer_ok_def Let_def)
qed

text \<open>Two pieces never share a buffer.\<close>

lemma wf_distinct:
  assumes "wf_storage s" "valid_piece s p" "valid_piece s q" "p \<noteq> q"
    and "is_buffered (ms_pieces s ! nat p)" "is_buffered (ms_pieces s ! nat q)"
  shows "nat (p_bi (ms_pieces s ! nat p)) \<noteq> nat (p_bi (ms_pieces s ! nat q))"
  using wf_owner(3) [OF assms(1,2,5)] wf_owner(3) [OF assms(1,3,6)] assms(4) by metis

section \<open>Frame: fields that the invariant does not read\<close>

lemma wf_frame [simp]:
  "wf_storage (s\<lparr>ms_ticks := t\<rparr>) = wf_storage s"
  "wf_storage (s\<lparr>ms_buffer_used := u\<rparr>) = wf_storage s"
  "wf_storage (s\<lparr>ms_buffer_limit := u\<rparr>) = wf_storage s"
  "wf_storage (s\<lparr>ms_is_logging := l\<rparr>) = wf_storage s"
  "wf_storage (s\<lparr>ms_buffer_reserved := u\<rparr>) = wf_storage s"
  by (simp_all add: wf_storage_def shape_ok_def piece_ok_def buffer_ok_def)

lemma content_frame [simp]:
  "content (s\<lparr>ms_ticks := t\<rparr>) pc = content s pc"
  "content (s\<lparr>ms_buffer_used := u\<rparr>) pc = content s pc"
  "content (s\<lparr>ms_buffer_limit := u\<rparr>) pc = content s pc"
  by (simp_all add: content_def valid_piece_def)

section \<open>The three changes of ownership and contents\<close>

text \<open>
  Every state change of the read and write paths is one of these: a free buffer is given to a
  piece, a buffer is taken back, or a piece and its own buffer change in place.
\<close>

lemma wf_assign:
  assumes wf: "wf_storage s" and i: "i < length (ms_pieces s)" and j: "j < length (ms_buffers s)"
    and free: "b_pi (ms_buffers s ! j) = -1" and nobuf: "p_bi (ms_pieces s ! i) = -1"
  shows "wf_storage (s\<lparr>ms_buffers := (ms_buffers s)[j := (ms_buffers s ! j)
             \<lparr>b_is_used := True, b_pi := int i, b_accessed := t\<rparr>],
           ms_pieces := (ms_pieces s)[i := (ms_pieces s ! i)\<lparr>p_bi := int j\<rparr>]\<rparr>)" (is "wf_storage ?s")
proof -
  have P: "\<And>k. k < length (ms_pieces s) \<Longrightarrow> piece_ok s k"
    and B: "\<And>k. k < length (ms_buffers s) \<Longrightarrow> buffer_ok s k"
    using wf by (simp_all add: wf_storage_def)
  have "piece_ok ?s k" if "k < length (ms_pieces s)" for k
    using P [OF that] P [OF i] i j free that
    by (auto simp: piece_ok_def Let_def nth_list_update)
  moreover have "buffer_ok ?s k" if "k < length (ms_buffers s)" for k
    using B [OF that] B [OF j] i j nobuf that
    by (auto simp: buffer_ok_def Let_def nth_list_update)
  ultimately show ?thesis using wf by (simp add: wf_storage_def shape_ok_def)
qed

lemma wf_release:
  assumes wf: "wf_storage s" and i: "i < length (ms_pieces s)" and j: "j < length (ms_buffers s)"
    and own: "b_pi (ms_buffers s ! j) = int i"
  shows "wf_storage (s\<lparr>ms_buffers := (ms_buffers s)[j := buffer_reset t (ms_buffers s ! j)],
           ms_pieces := (ms_pieces s)[i := piece_reset (ms_pieces s ! i)]\<rparr>)" (is "wf_storage ?s")
proof -
  have P: "\<And>k. k < length (ms_pieces s) \<Longrightarrow> piece_ok s k"
    and B: "\<And>k. k < length (ms_buffers s) \<Longrightarrow> buffer_ok s k"
    using wf by (simp_all add: wf_storage_def)
  have own': "p_bi (ms_pieces s ! i) = int j"
    using B [OF j] own by (auto simp: buffer_ok_def Let_def)
  have "piece_ok ?s k" if "k < length (ms_pieces s)" for k
    using P [OF that] P [OF i] i j own that
    by (auto simp: piece_ok_def Let_def nth_list_update piece_reset_def buffer_reset_def)
  moreover have "buffer_ok ?s k" if "k < length (ms_buffers s)" for k
    using B [OF that] B [OF j] i j own' that
    by (auto simp: buffer_ok_def Let_def nth_list_update piece_reset_def buffer_reset_def)
  ultimately show ?thesis using wf by (simp add: wf_storage_def shape_ok_def)
qed

lemma wf_in_place:
  assumes wf: "wf_storage s" and i: "i < length (ms_pieces s)" and j: "j < length (ms_buffers s)"
    and used: "b_is_used (ms_buffers s ! j)" and len: "length mem = nat (ms_piece_length s)"
  shows "wf_storage (s\<lparr>ms_pieces := (ms_pieces s)[i := (ms_pieces s ! i)\<lparr>p_size := n\<rparr>],
           ms_buffers := (ms_buffers s)[j := (ms_buffers s ! j)\<lparr>b_buffer := mem, b_accessed := t\<rparr>]\<rparr>)"
    (is "wf_storage ?s")
proof -
  have P: "\<And>k. k < length (ms_pieces s) \<Longrightarrow> piece_ok s k"
    and B: "\<And>k. k < length (ms_buffers s) \<Longrightarrow> buffer_ok s k"
    using wf by (simp_all add: wf_storage_def)
  have "piece_ok ?s k" if "k < length (ms_pieces s)" for k
    using P [OF that] i j that by (auto simp: piece_ok_def Let_def nth_list_update)
  moreover have "buffer_ok ?s k" if "k < length (ms_buffers s)" for k
    using B [OF that] i j used len that by (auto simp: buffer_ok_def Let_def nth_list_update)
  ultimately show ?thesis using wf by (simp add: wf_storage_def shape_ok_def)
qed

section \<open>Construction, sizing and flags\<close>

lemma buffers_for_bounds:
  assumes "0 \<le> capacity" and "0 < len" and "0 \<le> n" and "capacity \<le> (2 ^ 31 - 1) * len"
  shows "buffers_for capacity len n = min n (ceil_div capacity len)"
    and "0 \<le> buffers_for capacity len n" and "buffers_for capacity len n \<le> n"
proof -
  have "ceil_div capacity len * len < 2 ^ 31 * len"
    using ceil_div_bounds(2) [OF assms(2), of capacity] assms(4) by (simp add: algebra_simps)
  then have "ceil_div capacity len < 2 ^ 31" using assms(2) by simp
  moreover have "0 \<le> ceil_div capacity len" using assms by (simp add: ceil_div_nonneg)
  ultimately show "buffers_for capacity len n = min n (ceil_div capacity len)"
    and "0 \<le> buffers_for capacity len n" and "buffers_for capacity len n \<le> n"
    using assms(3) by (auto simp: buffers_for_def Let_def c_int)
qed

lemma wf_memory_storage [wf_intro]:
  assumes "layout_ok fl" and "0 \<le> n" and "n \<le> (2 ^ 31 - 1) * fl_piece_length fl"
  shows "wf_storage (new_memory_storage False n fl)"
  using assms buffers_for_bounds [of n "fl_piece_length fl" "fl_num_pieces fl"]
  by (auto simp: layout_ok_def new_memory_storage_def Let_def wf_storage_def shape_ok_def piece_ok_def
      new_memory_piece_def)

lemma wf_initialize [wf_intro]:
  assumes "wf_storage s" and "\<not> ms_is_initialized s"
  shows "wf_storage (initialize s)"
proof -
  have nob: "ms_buffers s = []" using assms by (simp add: wf_storage_def shape_ok_def)
  have "p_bi (ms_pieces s ! i) = -1" if "i < length (ms_pieces s)" for i
    using assms that nob by (auto simp: wf_storage_def piece_ok_def Let_def)
  with assms nob show ?thesis
    by (auto simp: wf_storage_def shape_ok_def initialize_def piece_ok_def buffer_ok_def Let_def
        new_memory_buffer_def bitset_resize_def)
qed

lemma nat_gap: "\<not> j < a \<Longrightarrow> j < a + (c - a) \<Longrightarrow> j - a < c - a" for a c j :: nat
  by arith

lemma wf_append_buffers:
  assumes wf: "wf_storage s" and init: "ms_is_initialized s"
    and n: "ms_buffer_size s \<le> n" "n \<le> ms_piece_count s"
  shows "wf_storage (s\<lparr>ms_capacity := c, ms_buffer_size := n, ms_buffer_limit := l,
     ms_buffers := ms_buffers s @ map (\<lambda>i. new_memory_buffer (int i) (ms_piece_length s))
        [nat (ms_buffer_size s)..<nat n]\<rparr>)" (is "wf_storage ?s")
proof -
  have len: "length (ms_buffers s) = nat (ms_buffer_size s)" "0 \<le> ms_buffer_size s"
    using wf init by (auto simp: wf_storage_def shape_ok_def)
  have "piece_ok ?s i" if "i < length (ms_pieces s)" for i
    using wf that by (auto simp: wf_storage_def piece_ok_def Let_def nth_append)
  moreover have "buffer_ok ?s j" if "j < length (ms_buffers ?s)" for j
  proof (cases "j < length (ms_buffers s)")
    case True
    with wf have "buffer_ok s j" by (simp add: wf_buffer)
    with True show ?thesis by (simp add: buffer_ok_def nth_append)
  next
    case False
    moreover have k: "j - nat (ms_buffer_size s) < nat n - nat (ms_buffer_size s)"
      "\<not> j < nat (ms_buffer_size s)"
      using False that len nat_gap by auto
    then have "j - nat (ms_buffer_size s) < length [nat (ms_buffer_size s)..<nat n]"
      and "[nat (ms_buffer_size s)..<nat n] ! (j - nat (ms_buffer_size s)) = j"
      by simp_all
    ultimately have "ms_buffers ?s ! j = new_memory_buffer (int j) (ms_piece_length s)"
      using len by (simp add: nth_append)
    then show ?thesis by (simp add: buffer_ok_def Let_def new_memory_buffer_def)
  qed
  moreover have "shape_ok ?s" using wf init n len by (auto simp: wf_storage_def shape_ok_def)
  ultimately show ?thesis by (simp add: wf_storage_def)
qed

lemma ceil_div_mono: "a \<le> b \<Longrightarrow> 0 < c \<Longrightarrow> ceil_div a c \<le> ceil_div b c"
  by (simp add: ceil_div_def zdiv_mono1)

text \<open>
  The pool was sized by this formula before, so it never shrinks: \<open>sized\<close> records that.
\<close>

definition sized :: "memory_storage \<Rightarrow> bool" where
  "sized s \<longleftrightarrow> 0 \<le> ms_capacity s \<and> ms_capacity s \<le> (2 ^ 31 - 1) * ms_piece_length s \<and>
     ms_buffer_size s = buffers_for (ms_capacity s) (ms_piece_length s) (ms_piece_count s)"

lemma wf_set_memory_size [wf_intro]:
  assumes wf: "wf_storage s" and init: "ms_is_initialized s" and sz: "sized s"
    and n: "n \<le> (2 ^ 31 - 1) * ms_piece_length s"
  shows "wf_storage (set_memory_size n s)" and "sized (set_memory_size n s)"
proof -
  let ?new = "buffers_for n (ms_piece_length s) (ms_piece_count s)"
  have pl: "0 < ms_piece_length s" "0 \<le> ms_piece_count s"
    using wf by (auto simp: wf_storage_def shape_ok_def)
  show "sized (set_memory_size n s)"
    using sz n by (auto simp: sized_def set_memory_size_def Let_def)
  show "wf_storage (set_memory_size n s)"
  proof (cases "n \<le> ms_capacity s")
    case False
    then have cap: "0 \<le> n" using sz by (simp add: sized_def)
    have old: "ms_buffer_size s = min (ms_piece_count s) (ceil_div (ms_capacity s) (ms_piece_length s))"
      using sz pl buffers_for_bounds(1) by (simp add: sized_def)
    have new: "?new = min (ms_piece_count s) (ceil_div n (ms_piece_length s))"
      using cap n pl by (intro buffers_for_bounds(1)) simp_all
    have le: "ms_buffer_size s \<le> ?new" "?new \<le> ms_piece_count s"
      using ceil_div_mono [of "ms_capacity s" n "ms_piece_length s"] False pl
      by (auto simp: old new)
    show ?thesis
    proof (cases "ms_buffer_size s = ?new")
      case True
      with wf False show ?thesis
        using wf_append_buffers [OF wf init le, where c = n and l = "?new"]
        by (simp add: set_memory_size_def Let_def)
    next
      case neq: False
      with False wf_append_buffers [OF wf init le, where c = n and l = "?new"]
      show ?thesis by (simp add: set_memory_size_def Let_def)
    qed
  qed (use wf in \<open>simp add: set_memory_size_def\<close>)
qed

lemma wf_set_torrent_handle [wf_intro]: "wf_storage s \<Longrightarrow> wf_storage (set_torrent_handle s)"
  by (auto simp: set_torrent_handle_def wf_storage_def shape_ok_def piece_ok_def buffer_ok_def)

lemma wf_bitsets:
  assumes "wf_storage s" and "length bs = length (ms_reader_pieces s)"
    and "length cs = length (ms_reserved_pieces s)"
  shows "wf_storage (s\<lparr>ms_reader_pieces := bs\<rparr>)"
    and "wf_storage (s\<lparr>ms_buffer_reserved := r, ms_reserved_pieces := cs\<rparr>)"
  using assms by (auto simp: wf_storage_def shape_ok_def piece_ok_def buffer_ok_def)

lemma wf_update_reader_pieces [wf_intro]:
  assumes "wf_storage s" and "update_reader_pieces ps s = Inr s'"
  shows "wf_storage s'"
  using assms wf_bitsets(1) [OF assms(1) _ refl] bitset_set_all_length
  by (auto simp: update_reader_pieces_def bind_result_eq_Inr split: if_splits)

lemma wf_update_reserved_pieces [wf_intro]:
  assumes "wf_storage s" and "update_reserved_pieces ps s = Inr s'"
  shows "wf_storage s'"
  using assms wf_bitsets(2) [OF assms(1) refl] bitset_set_all_length
  by (auto simp: update_reserved_pieces_def bind_result_eq_Inr split: if_splits)

lemma wf_logging [wf_intro]:
  "wf_storage s \<Longrightarrow> wf_storage (enable_logging s)"
  "wf_storage s \<Longrightarrow> wf_storage (disable_logging s)"
  by (simp_all add: enable_logging_def disable_logging_def)

end
