(* ===== verification/Memory_Paths.thy ===== *)
theory Memory_Paths
  imports Memory_Invariant
begin

text \<open>
  The read and write paths of the memory storage: what handing a buffer out, taking one back,
  trimming, reading and writing do to the contents, on a well-formed storage. Each operation
  has one lemma that says it succeeds and describes the new state; the properties are read off
  these lemmas.
\<close>

section \<open>Selecting the least recently used buffer\<close>

definition evictable ::
  "'h lt_api \<Rightarrow> 'h \<Rightarrow> memory_storage \<Rightarrow> int \<Rightarrow> bool \<Rightarrow> memory_buffer \<Rightarrow> bool" where
  "evictable api h s pc check_read b \<longleftrightarrow> b_is_used b \<and> is_assigned b \<and> \<not> is_reserved s (b_pi b) \<and>
     b_pi b \<noteq> pc \<and> (\<not> check_read \<or> \<not> is_readered api h s (b_pi b))"

text \<open>\<open>oldest E bs t b\<close>: \<open>b\<close> is accessed before \<open>t\<close> and no buffer in \<open>E\<close> is older.\<close>

definition oldest :: "(memory_buffer \<Rightarrow> bool) \<Rightarrow> memory_buffer list \<Rightarrow> int \<Rightarrow> memory_buffer \<Rightarrow> bool" where
  "oldest E bs t b \<longleftrightarrow> b \<in> set bs \<and> E b \<and> b_accessed b < t \<and>
     (\<forall>b' \<in> set bs. E b' \<longrightarrow> b_accessed b \<le> b_accessed b')"

lemma last_buffer_step_eq:
  "last_buffer_step api h s pc cr (bi, t) b =
     (if evictable api h s pc cr b \<and> b_accessed b < t then (b_index b, b_accessed b) else (bi, t))"
  by (auto simp: last_buffer_step_def evictable_def)

lemma last_buffer_fold:
  "foldl (last_buffer_step api h s pc cr) (bi, t) bs = (bi', t') \<Longrightarrow>
     (bi' = bi \<and> t' = t \<and> (\<forall>b \<in> set bs. evictable api h s pc cr b \<longrightarrow> t \<le> b_accessed b)) \<or>
     (\<exists>b. oldest (evictable api h s pc cr) bs t b \<and> bi' = b_index b \<and> t' = b_accessed b)"
proof (induction bs arbitrary: bi t)
  case (Cons b bs)
  let ?E = "evictable api h s pc cr"
  show ?case
  proof (cases "?E b \<and> b_accessed b < t")
    case True
    with Cons.prems have "foldl (last_buffer_step api h s pc cr) (b_index b, b_accessed b) bs = (bi', t')"
      by (simp add: last_buffer_step_eq)
    from Cons.IH [OF this] show ?thesis
    proof (elim disjE exE conjE)
      fix b' assume "oldest ?E bs (b_accessed b) b'" "bi' = b_index b'" "t' = b_accessed b'"
      with True show ?thesis by (intro disjI2 exI [of _ b']) (auto simp: oldest_def)
    qed (use True in \<open>auto simp: oldest_def intro!: exI [of _ b]\<close>)
  next
    case False
    with Cons.prems have "foldl (last_buffer_step api h s pc cr) (bi, t) bs = (bi', t')"
      by (simp add: last_buffer_step_eq)
    from Cons.IH [OF this] False show ?thesis by (fastforce simp: oldest_def)
  qed
qed simp

text \<open>
  The result of \<open>find_last_buffer\<close>: the index of an oldest evictable buffer, or -1 when
  every evictable buffer is younger than the clock reading.
\<close>

lemma find_last_buffer_cases:
  assumes wf: "wf_storage s" and r: "find_last_buffer api now pc cr h s = (bi, s')"
  shows "s' = s\<lparr>ms_ticks := Suc (ms_ticks s)\<rparr> \<and>
     ((bi = -1 \<and> (\<forall>b \<in> set (ms_buffers s). evictable api h s pc cr b \<longrightarrow> now (ms_ticks s) \<le> b_accessed b)) \<or>
      (0 \<le> bi \<and> nat bi < length (ms_buffers s) \<and>
       oldest (evictable api h s pc cr) (ms_buffers s) (now (ms_ticks s)) (ms_buffers s ! nat bi)))"
proof -
  obtain t' where f: "foldl (last_buffer_step api h s pc cr) (-1, now (ms_ticks s)) (ms_buffers s) = (bi, t')"
    using r by (cases "foldl (last_buffer_step api h s pc cr) (-1, now (ms_ticks s)) (ms_buffers s)")
      (simp add: find_last_buffer_def)
  have s': "s' = s\<lparr>ms_ticks := Suc (ms_ticks s)\<rparr>" using r by (auto simp: find_last_buffer_def)
  have idx: "0 \<le> b_index b \<and> nat (b_index b) < length (ms_buffers s) \<and> ms_buffers s ! nat (b_index b) = b"
    if b: "b \<in> set (ms_buffers s)" for b
  proof -
    obtain j where j: "j < length (ms_buffers s)" "ms_buffers s ! j = b"
      using b by (auto simp: in_set_conv_nth)
    then have "b_index b = int j" using wf_buffer [OF wf j(1)] by (simp add: buffer_ok_def Let_def)
    with j show ?thesis by simp
  qed
  from last_buffer_fold [OF f] show ?thesis
  proof (elim disjE)
    assume "\<exists>b. oldest (evictable api h s pc cr) (ms_buffers s) (now (ms_ticks s)) b \<and>
      bi = b_index b \<and> t' = b_accessed b"
    then obtain b where b: "oldest (evictable api h s pc cr) (ms_buffers s) (now (ms_ticks s)) b"
      "bi = b_index b" by blast
    from b(1) have "b \<in> set (ms_buffers s)" by (simp add: oldest_def)
    with idx [of b] b s' show ?thesis by simp
  qed (use s' in simp)
qed

section \<open>Taking a buffer back\<close>

lemma restore_piece_ok:
  "wf_storage s \<Longrightarrow> \<exists>h'. restore_piece api pc h s = Inr h'"
  by (auto simp: restore_piece_def wf_storage_def shape_ok_def)

text \<open>Everything but the buffers, the pieces and the two counters stays as it is.\<close>

definition piece_lengths :: "memory_storage \<Rightarrow> int list" where
  "piece_lengths s = map p_length (ms_pieces s)"

definition same_frame :: "memory_storage \<Rightarrow> memory_storage \<Rightarrow> bool" where
  "same_frame s s' \<longleftrightarrow>
     ms_reader_pieces s' = ms_reader_pieces s \<and> ms_reserved_pieces s' = ms_reserved_pieces s \<and>
     ms_capacity s' = ms_capacity s \<and> ms_piece_count s' = ms_piece_count s \<and>
     ms_piece_length s' = ms_piece_length s \<and> ms_buffer_size s' = ms_buffer_size s \<and>
     ms_is_initialized s' = ms_is_initialized s \<and> ms_is_reading s' = ms_is_reading s \<and>
     ms_has_handle s' = ms_has_handle s \<and> ms_is_handled s' = ms_is_handled s \<and>
     length (ms_buffers s') = length (ms_buffers s) \<and>
     piece_lengths s' = piece_lengths s"

lemma same_frame_refl [simp]: "same_frame s s"
  by (simp add: same_frame_def)

lemma same_frame_trans [trans]: "same_frame s t \<Longrightarrow> same_frame t u \<Longrightarrow> same_frame s u"
  by (simp add: same_frame_def)

lemma same_frame_ticks [simp]: "same_frame s (s\<lparr>ms_ticks := t\<rparr>)"
  by (simp add: same_frame_def piece_lengths_def)

lemma same_frame_D:
  assumes "same_frame s s'"
  shows "valid_piece s' q = valid_piece s q" and "is_reserved s' q = is_reserved s q"
    and "length (ms_pieces s') = length (ms_pieces s)"
proof -
  show "length (ms_pieces s') = length (ms_pieces s)"
    using assms map_eq_imp_length_eq unfolding same_frame_def piece_lengths_def by blast
qed (use assms in \<open>simp_all add: same_frame_def valid_piece_def is_reserved_def\<close>)

lemma map_p_length_update:
  "i < length ps \<Longrightarrow> p_length p = p_length (ps ! i) \<Longrightarrow> map p_length (ps[i := p]) = map p_length ps"
  by (simp add: map_update list_update_same_conv)

lemma remove_piece_spec:
  assumes wf: "wf_storage s" and bi: "0 \<le> bi" "nat bi < length (ms_buffers s)"
    and asg: "is_assigned (ms_buffers s ! nat bi)"
  obtains h' s' where "remove_piece api now bi h s = Inr (h', s')" and "wf_storage s'"
    and "same_frame s s'" and "ms_buffer_used s' = ms_buffer_used s - 1"
    and "ms_buffer_limit s' = ms_buffer_limit s" and "ms_ticks s' = Suc (ms_ticks s)"
    and "ms_buffers s' = (ms_buffers s)[nat bi := buffer_reset (now (ms_ticks s)) (ms_buffers s ! nat bi)]"
    and "content s' = (content s)(b_pi (ms_buffers s ! nat bi) := None)"
proof -
  let ?b = "ms_buffers s ! nat bi"
  let ?pc = "b_pi ?b"
  have B: "buffer_ok s (nat bi)" using wf bi by (simp add: wf_buffer)
  have pc: "0 \<le> ?pc" "nat ?pc < length (ms_pieces s)" "p_bi (ms_pieces s ! nat ?pc) = bi"
    using B asg bi by (auto simp: buffer_ok_def is_assigned_def Let_def)
  have v: "valid_piece s ?pc" "?pc < ms_piece_count s"
    using pc wf_lengths(1) [OF wf] by (auto simp: valid_piece_def)
  let ?s2 = "s\<lparr>ms_buffers := (ms_buffers s)[nat bi := buffer_reset (now (ms_ticks s)) ?b],
      ms_buffer_used := ms_buffer_used s - 1, ms_ticks := Suc (ms_ticks s),
      ms_pieces := (ms_pieces s)[nat ?pc := piece_reset (ms_pieces s ! nat ?pc)]\<rparr>"
  have eq: "?s2 = (s\<lparr>ms_buffers := (ms_buffers s)[nat bi := buffer_reset (now (ms_ticks s)) ?b],
      ms_pieces := (ms_pieces s)[nat ?pc := piece_reset (ms_pieces s ! nat ?pc)]\<rparr>)
      \<lparr>ms_buffer_used := ms_buffer_used s - 1, ms_ticks := Suc (ms_ticks s)\<rparr>" by simp
  have wf2: "wf_storage ?s2"
    unfolding eq using wf_release [OF wf pc(2) bi(2), where t = "now (ms_ticks s)"] pc(1) by simp
  from restore_piece_ok [OF wf2, of api ?pc h]
  obtain h' where h': "restore_piece api ?pc h ?s2 = Inr h'" ..
  have frame: "same_frame s ?s2"
    using pc by (simp add: same_frame_def piece_lengths_def map_p_length_update piece_reset_def)
  have cont: "content ?s2 q = (if q = ?pc then None else content s q)" for q
  proof (cases "valid_piece s q")
    case True
    show ?thesis
    proof (cases "q = ?pc")
      case False
      have ne: "nat q \<noteq> nat ?pc" using True False pc(1) by (simp add: valid_piece_def eq_nat_nat_iff)
      have "nat (p_bi (ms_pieces s ! nat q)) \<noteq> nat bi" if buf: "is_buffered (ms_pieces s ! nat q)"
        using wf_owner(1,3) [OF wf True buf] False bi(1) by auto
      with True ne False show ?thesis by (auto simp: content_def valid_piece_def)
    qed (use pc in \<open>simp add: content_def piece_reset_def is_buffered_def\<close>)
  qed (auto simp: content_def valid_piece_def)
  show thesis
  proof (rule that)
    show "remove_piece api now bi h s = Inr (h', ?s2)"
      using bi v pc asg h' by (simp add: remove_piece_def Let_def is_assigned_def)
    show "content ?s2 = (content s)(?pc := None)" using cont by auto
  qed (use wf2 frame in simp_all)
qed

section \<open>Trimming\<close>

text \<open>
  One pass removes an evictable buffer, or changes nothing but the clock readings when there is
  none that is older than the clock. Either way the contents of the remaining pieces and of the
  protected piece \<open>pc\<close> stay.
\<close>

definition trim_keeps :: "int \<Rightarrow> memory_storage \<Rightarrow> memory_storage \<Rightarrow> bool" where
  "trim_keeps pc s s' \<longleftrightarrow> wf_storage s' \<and> same_frame s s' \<and>
     content s' pc = content s pc \<and>
     (\<forall>q. content s' q = content s q \<or> content s' q = None) \<and>
     (\<forall>q. is_reserved s q \<longrightarrow> content s' q = content s q) \<and>
     ms_buffer_limit s' = ms_buffer_limit s"

lemma trim_keeps_refl: "wf_storage s \<Longrightarrow> trim_keeps pc s s"
  by (simp add: trim_keeps_def)

lemma trim_keeps_trans:
  assumes "trim_keeps pc s t" and "trim_keeps pc t u"
  shows "trim_keeps pc s u"
proof -
  have r: "is_reserved t q = is_reserved s q" for q
    using assms(1) same_frame_D(2) by (simp add: trim_keeps_def)
  have c: "content u q = content s q \<or> content u q = None" for q
    using assms unfolding trim_keeps_def by metis
  have "same_frame s u" using assms same_frame_trans by (auto simp: trim_keeps_def)
  with assms c show ?thesis by (simp add: trim_keeps_def r)
qed

definition clock_ahead :: "clock \<Rightarrow> memory_storage \<Rightarrow> bool" where
  "clock_ahead now s \<longleftrightarrow> strict_mono now \<and> (\<forall>b \<in> set (ms_buffers s). b_accessed b < now (ms_ticks s))"

lemma evict_step:
  assumes wf: "wf_storage s" and E: "oldest (evictable api h s pc cr) (ms_buffers s) t (ms_buffers s ! nat bi)"
    and bi: "0 \<le> bi" "nat bi < length (ms_buffers s)"
  obtains h' s' where "remove_piece api now bi h s = Inr (h', s')" and "trim_keeps pc s s'"
    and "ms_buffer_used s' = ms_buffer_used s - 1" and "ms_ticks s' = Suc (ms_ticks s)"
    and "ms_buffers s' = (ms_buffers s)[nat bi := buffer_reset (now (ms_ticks s)) (ms_buffers s ! nat bi)]"
proof -
  have ev: "is_assigned (ms_buffers s ! nat bi)" "\<not> is_reserved s (b_pi (ms_buffers s ! nat bi))"
    "b_pi (ms_buffers s ! nat bi) \<noteq> pc"
    using E by (auto simp: oldest_def evictable_def)
  obtain h' s' where r: "remove_piece api now bi h s = Inr (h', s')" "wf_storage s'" "same_frame s s'"
    "ms_buffer_used s' = ms_buffer_used s - 1" "ms_buffer_limit s' = ms_buffer_limit s"
    "ms_ticks s' = Suc (ms_ticks s)"
    "ms_buffers s' = (ms_buffers s)[nat bi := buffer_reset (now (ms_ticks s)) (ms_buffers s ! nat bi)]"
    "content s' = (content s)(b_pi (ms_buffers s ! nat bi) := None)"
    using remove_piece_spec [OF wf bi ev(1)] by metis
  show thesis
    by (rule that [OF r(1)]) (use r ev in \<open>auto simp: trim_keeps_def\<close>)
qed

lemma evictable_ticks [simp]:
  "evictable api h (s\<lparr>ms_ticks := k\<rparr>) pc cr = evictable api h s pc cr"
  by (simp add: fun_eq_iff evictable_def is_reserved_def is_readered_def)

lemma evictable_weaken: "evictable api h s pc cr b \<Longrightarrow> evictable api h s pc False b"
  by (simp add: evictable_def)

lemma trim_keeps_ticks: "wf_storage s \<Longrightarrow> trim_keeps pc s (s\<lparr>ms_ticks := k\<rparr>)"
  by (simp add: trim_keeps_def)

text \<open>\<open>trim_removed\<close>: the pass took the buffer \<open>j\<close> back, at clock reading \<open>k\<close>.\<close>

definition trim_removed ::
  "'h lt_api \<Rightarrow> clock \<Rightarrow> int \<Rightarrow> 'h \<Rightarrow> memory_storage \<Rightarrow> nat \<Rightarrow> nat \<Rightarrow> memory_storage \<Rightarrow> bool" where
  "trim_removed api now pc h s j k s' \<longleftrightarrow> j < length (ms_buffers s) \<and>
     evictable api h s pc False (ms_buffers s ! j) \<and> trim_keeps pc s s' \<and>
     ms_buffer_used s' = ms_buffer_used s - 1 \<and> ms_ticks s \<le> k \<and> ms_ticks s' = Suc k \<and>
     ms_buffers s' = (ms_buffers s)[j := buffer_reset (now k) (ms_buffers s ! j)]"

lemma trim_evict:
  assumes wf: "wf_storage s" and sk: "s1 = s\<lparr>ms_ticks := k\<rparr>" "ms_ticks s \<le> k"
    and o: "oldest (evictable api h s pc cr) (ms_buffers s) t (ms_buffers s ! nat bi)"
    and bi: "0 \<le> bi" "nat bi < length (ms_buffers s)"
  shows "\<exists>h' s'. remove_piece api now bi h s1 = Inr (h', s') \<and> trim_removed api now pc h s (nat bi) k s'"
proof -
  have wf1: "wf_storage s1" and o1: "oldest (evictable api h s1 pc cr) (ms_buffers s1) t (ms_buffers s1 ! nat bi)"
    and bi1: "nat bi < length (ms_buffers s1)" using wf o bi sk by simp_all
  obtain h' s' where r: "remove_piece api now bi h s1 = Inr (h', s')" "trim_keeps pc s1 s'"
    "ms_buffer_used s' = ms_buffer_used s1 - 1" "ms_ticks s' = Suc (ms_ticks s1)"
    "ms_buffers s' = (ms_buffers s1)[nat bi := buffer_reset (now (ms_ticks s1)) (ms_buffers s1 ! nat bi)]"
    by (rule evict_step [OF wf1 o1 bi(1) bi1])
  have "trim_keeps pc s s'"
    using trim_keeps_trans [OF trim_keeps_ticks [OF wf, of pc k]] r(2) sk by simp
  moreover have "evictable api h s pc False (ms_buffers s ! nat bi)"
    using o evictable_weaken by (auto simp: oldest_def)
  ultimately show ?thesis using r sk bi by (auto simp: trim_removed_def)
qed

lemma trim_pass_cases:
  assumes wf: "wf_storage s"
  obtains (removed) h' s' j k where "trim_pass api now pc h s = Inr (h', s')"
      and "trim_removed api now pc h s j k s'"
    | (stuck) k where "ms_ticks s \<le> k" and "trim_pass api now pc h s = Inr (h, s\<lparr>ms_ticks := Suc k\<rparr>)"
      and "\<forall>b \<in> set (ms_buffers s). evictable api h s pc False b \<longrightarrow> now k \<le> b_accessed b"
proof -
  define first where "first = (if ms_reader_pieces s \<noteq> [] then find_last_buffer api now pc True h s else (-1, s))"
  obtain bi s1 where f: "first = (bi, s1)" by fastforce
  have F: "(\<exists>k. s1 = s\<lparr>ms_ticks := k\<rparr> \<and> ms_ticks s \<le> k) \<and>
      (bi = -1 \<or> (0 \<le> bi \<and> nat bi < length (ms_buffers s) \<and>
        oldest (evictable api h s pc True) (ms_buffers s) (now (ms_ticks s)) (ms_buffers s ! nat bi)))"
  proof (cases "ms_reader_pieces s = []")
    case True
    with f first_def have "bi = -1" "s1 = s\<lparr>ms_ticks := ms_ticks s\<rparr>" by simp_all
    then show ?thesis by blast
  next
    case False
    with f first_def have "find_last_buffer api now pc True h s = (bi, s1)" by simp
    from find_last_buffer_cases [OF wf this] show ?thesis by auto
  qed
  then obtain k where k: "s1 = s\<lparr>ms_ticks := k\<rparr>" "ms_ticks s \<le> k" by blast
  show thesis
  proof (cases "bi = -1")
    case False
    with F obtain h' s' where r: "remove_piece api now bi h s1 = Inr (h', s')"
      "trim_removed api now pc h s (nat bi) k s'" using trim_evict [OF wf k] by metis
    with False f show thesis by (intro removed) (auto simp: trim_pass_def first_def)
  next
    case True
    obtain bj s2 where g: "find_last_buffer api now pc False h s1 = (bj, s2)" by fastforce
    have wf1: "wf_storage s1" using wf k by simp
    from find_last_buffer_cases [OF wf1 g] k
    have s2: "s2 = s\<lparr>ms_ticks := Suc k\<rparr>" and
      G: "bj = -1 \<and> (\<forall>b \<in> set (ms_buffers s). evictable api h s pc False b \<longrightarrow> now k \<le> b_accessed b) \<or>
        0 \<le> bj \<and> nat bj < length (ms_buffers s) \<and>
        oldest (evictable api h s pc False) (ms_buffers s) (now k) (ms_buffers s ! nat bj)"
      by auto
    have pass: "trim_pass api now pc h s = (if bj \<noteq> -1 then remove_piece api now bj h s2 else Inr (h, s2))"
      using f g True by (auto simp: trim_pass_def first_def [symmetric])
    show thesis
    proof (cases "bj = -1")
      case True
      with G have "\<forall>b \<in> set (ms_buffers s). evictable api h s pc False b \<longrightarrow> now k \<le> b_accessed b" by auto
      with True k pass s2 show thesis by (intro stuck [of k]) auto
    next
      case False
      with G obtain h' s' where "remove_piece api now bj h s2 = Inr (h', s')"
        "trim_removed api now pc h s (nat bj) (Suc k) s'"
        using trim_evict [OF wf s2] k by (metis le_SucI)
      with False pass show thesis by (intro removed) auto
    qed
  qed
qed

lemma trim_pass_keeps:
  assumes "wf_storage s" and "trim_pass api now pc h s = r"
  shows "\<exists>h' s'. r = Inr (h', s') \<and> trim_keeps pc s s'"
  by (rule trim_pass_cases [OF assms(1), of api now pc h])
    (use assms trim_keeps_ticks in \<open>auto simp: trim_removed_def\<close>)

lemma trim_loop_keeps:
  assumes wf: "wf_storage s" and r: "trim_loop api now pc (h, s) = Some r"
  shows "\<exists>h' s'. r = Inr (h', s') \<and> trim_keeps pc s s' \<and> ms_buffer_used s' < ms_buffer_limit s'"
proof -
  let ?P = "\<lambda>r :: ('a \<times> memory_storage) result. \<exists>h' s'. r = Inr (h', s') \<and> trim_keeps pc s s'"
  have "?P r"
  proof (rule while_option_rule [OF _ r [unfolded trim_loop_def]])
    fix q assume q: "?P q"
    then obtain h1 s1 where 1: "q = Inr (h1, s1)" "trim_keeps pc s s1" by blast
    then have "wf_storage s1" by (simp add: trim_keeps_def)
    with 1 trim_pass_keeps [OF _ refl, of s1 api now pc h1] trim_keeps_trans
    show "?P (bind_result q (\<lambda>(h, s). trim_pass api now pc h s))" by fastforce
  qed (use wf trim_keeps_refl in auto)
  moreover have "\<not> (case r of Inl e \<Rightarrow> False | Inr (h, s) \<Rightarrow> over_limit s)"
    using while_option_stop [OF r [unfolded trim_loop_def]] .
  ultimately show ?thesis by (auto simp: over_limit_def)
qed

lemma trim_keeps_result:
  assumes "wf_storage s" and "trim api now pc h s = Some r"
  shows "\<exists>h' s'. r = Inr (h', s') \<and> trim_keeps pc s s'"
  using assms trim_loop_keeps trim_keeps_refl by (fastforce simp: trim_def split: if_splits)

text \<open>Without an evictable buffer the loop never ends.\<close>

lemma trim_loop_stuck:
  assumes wf: "wf_storage s" and over: "over_limit s"
    and none: "\<forall>b \<in> set (ms_buffers s). \<not> evictable api h s pc False b"
  shows "trim_loop api now pc (h, s) = None"
proof (rule ccontr)
  assume "trim_loop api now pc (h, s) \<noteq> None"
  then obtain r where r: "trim_loop api now pc (h, s) = Some r" by blast
  let ?P = "\<lambda>r :: ('a \<times> memory_storage) result. \<exists>k. r = Inr (h, s\<lparr>ms_ticks := k\<rparr>)"
  have "?P r"
  proof (rule while_option_rule [OF _ r [unfolded trim_loop_def]])
    fix q assume "?P q"
    then obtain k where q: "q = Inr (h, s\<lparr>ms_ticks := k\<rparr>)" by blast
    have wfk: "wf_storage (s\<lparr>ms_ticks := k\<rparr>)" using wf by simp
    show "?P (bind_result q (\<lambda>(h, s). trim_pass api now pc h s))"
    proof (rule trim_pass_cases [OF wfk, of api now pc h], goal_cases)
      case (1 h' s' j l)
      then have "evictable api h s pc False (ms_buffers s ! j)" "j < length (ms_buffers s)"
        by (simp_all add: trim_removed_def)
      with none nth_mem have False by blast
      then show ?thesis ..
    next
      case (2 l)
      then show ?thesis using q by (intro exI [of _ "Suc l"]) simp
    qed
  qed (auto intro: exI [of _ "ms_ticks s"])
  with over have "case r of Inl e \<Rightarrow> False | Inr (h, s) \<Rightarrow> over_limit s"
    by (auto simp: over_limit_def)
  with while_option_stop [OF r [unfolded trim_loop_def]] show False by simp
qed

end
