(* ===== verification/Memory_Access.thy ===== *)
theory Memory_Access
  imports Memory_Paths
begin

text \<open>
  Handing out buffers, reading and writing: the loops over the caller's buffers are related to
  single copies (\<open>overlay\<close> for a write, \<open>fill\<close> for a read), and \<open>get_buffer\<close>,
  \<open>writev\<close> and \<open>readv\<close> to their effect on the contents of the storage.
\<close>

section \<open>The copy loops\<close>

text \<open>\<open>fill data bufs\<close>: the caller's buffers after \<open>data\<close> is spread over them in order.\<close>

fun fill :: "'a list \<Rightarrow> 'a list list \<Rightarrow> 'a list list" where
  "fill data [] = []"
| "fill data (b # bs) = (take (length b) data @ drop (length data) b) # fill (drop (length b) data) bs"

lemma fill_Nil [simp]: "fill [] bs = bs"
  by (induction bs) auto

lemma concat_fill: "take (min (length data) (length (concat bs))) (concat (fill data bs)) =
    take (length (concat bs)) data"
proof (induction bs arbitrary: data)
  case (Cons b bs)
  show ?case
  proof (cases "length b \<le> length data")
    case True
    have "take (length (concat bs)) (drop (length b) data) =
        take (min (length data - length b) (length (concat bs))) (concat (fill (drop (length b) data) bs))"
      using Cons.IH [of "drop (length b) data"] by simp
    with True show ?thesis by (auto simp: take_add min_def split: if_splits)
  next
    case False
    then show ?thesis by (simp add: min_def)
  qed
qed simp

lemma copy_length:
  assumes "0 \<le> a" and "a < 2 ^ 31"
  shows "to_int32 (min (to_size_t a) (int (length b))) = min a (int (length b))"
  using assms by (auto simp: c_int min_def)

lemma readv_loop_fill:
  "0 \<le> off \<Longrightarrow> off \<le> int (length mem) \<Longrightarrow> int (length mem) < 2 ^ 31 \<Longrightarrow>
   readv_loop mem off bufs =
     Inr (min (int (length mem) - off) (int (length (concat bufs))), fill (drop (nat off) mem) bufs)"
proof (induction bufs arbitrary: off)
  case (Cons b bs)
  let ?c = "min (int (length mem) - off) (int (length b))"
  have c: "to_int32 (min (to_size_t (int (length mem) - off)) (int (length b))) = ?c"
    using Cons.prems by (intro copy_length) auto
  have IH: "readv_loop mem (off + ?c) bs = Inr (min (int (length mem) - (off + ?c)) (int (length (concat bs))),
      fill (drop (nat (off + ?c)) mem) bs)"
    using Cons.prems by (intro Cons.IH) auto
  have n: "nat (off + ?c) = nat off + nat ?c" using Cons.prems by (simp add: nat_add_distrib)
  have "overlay b 0 (slice mem (nat off) (nat ?c)) = take (length b) (drop (nat off) mem) @
      drop (length (drop (nat off) mem)) b"
    using Cons.prems by (auto simp: overlay_def slice_def min_def nat_diff_distrib')
  moreover have "fill (drop (nat (off + ?c)) mem) bs = fill (drop (length b) (drop (nat off) mem)) bs"
    using Cons.prems by (auto simp: n min_def add.commute nat_diff_distrib' nat_add_distrib)
  ultimately show ?case using Cons.prems IH c by (auto simp: Let_def min_def)
qed simp

lemma writev_loop_overlay:
  "0 \<le> off \<Longrightarrow> off \<le> len \<Longrightarrow> len \<le> int (length mem) \<Longrightarrow> len < 2 ^ 31 \<Longrightarrow>
   writev_loop len mem off bufs =
     Inr (min (len - off) (int (length (concat bufs))),
          overlay mem (nat off) (take (nat (len - off)) (concat bufs)))"
proof (induction bufs arbitrary: off mem)
  case (Cons b bs)
  let ?c = "min (len - off) (int (length b))"
  let ?mem = "overlay mem (nat off) (take (nat ?c) b)"
  have c: "to_int32 (min (to_size_t (len - off)) (int (length b))) = ?c"
    using Cons.prems by (intro copy_length) auto
  have len: "length ?mem = length mem" using Cons.prems by (intro length_overlay) auto
  have IH: "writev_loop len ?mem (off + ?c) bs = Inr (min (len - (off + ?c)) (int (length (concat bs))),
      overlay ?mem (nat (off + ?c)) (take (nat (len - (off + ?c))) (concat bs)))"
    using Cons.prems len by (intro Cons.IH) auto
  have n: "nat (off + ?c) = nat off + length (take (nat ?c) b)"
    using Cons.prems by (auto simp: min_def nat_add_distrib nat_diff_distrib')
  have "nat off + nat ?c + nat (len - (off + ?c)) \<le> length mem" using Cons.prems by linarith
  then have "overlay ?mem (nat (off + ?c)) (take (nat (len - (off + ?c))) (concat bs)) =
      overlay mem (nat off) (take (nat ?c) b @ take (nat (len - (off + ?c))) (concat bs))"
    unfolding n by (intro overlay_append) (simp only: length_take, linarith)
  also have "take (nat ?c) b @ take (nat (len - (off + ?c))) (concat bs) =
      take (nat (len - off)) (concat (b # bs))"
    using Cons.prems by (auto simp: min_def nat_diff_distrib' nat_add_distrib)
  finally have sp: "overlay ?mem (nat (off + ?c)) (take (nat (len - (off + ?c))) (concat bs)) =
      overlay mem (nat off) (take (nat (len - off)) (concat (b # bs)))" .
  have ok: "0 \<le> ?c" "off + ?c \<le> int (length mem)" "?c \<le> int (length b)" using Cons.prems by auto
  have m: "?c + min (len - (off + ?c)) (int (length (concat bs))) = min (len - off) (int (length (concat (b # bs))))"
    by (simp add: min_def)
  show ?case using Cons.prems(1) ok by (simp add: c Let_def IH sp m del: concat.simps)
qed simp

section \<open>Handing a buffer out\<close>

lemma first_unused_Some:
  "first_unused bs = Some i \<Longrightarrow> i < length bs \<and> \<not> b_is_used (bs ! i)"
  by (induction bs arbitrary: i) (auto split: if_splits)

lemma first_unused_None: "first_unused bs = None \<longleftrightarrow> (\<forall>b \<in> set bs. b_is_used b)"
  by (induction bs) auto

text \<open>
  \<open>gives pc s ok s'\<close>: the effect of a request for a write buffer for \<open>pc\<close>. A piece that has
  a buffer keeps it; otherwise it gets a buffer of zeros, if one is free.
\<close>

definition gives :: "int \<Rightarrow> memory_storage \<Rightarrow> bool \<Rightarrow> memory_storage \<Rightarrow> bool" where
  "gives pc s ok s' \<longleftrightarrow> wf_storage s' \<and> same_frame s s' \<and>
     (\<forall>q. q \<noteq> pc \<longrightarrow> content s' q = content s q) \<and> ok = (content s' pc \<noteq> None) \<and>
     (if content s pc \<noteq> None \<or> (\<forall>b \<in> set (ms_buffers s). b_is_used b) then s' = s
      else content s' pc = Some (replicate (nat (ms_piece_length s)) 0))"

lemma content_None_iff:
  "valid_piece s pc \<Longrightarrow> content s pc = None \<longleftrightarrow> \<not> is_buffered (ms_pieces s ! nat pc)"
  by (simp add: content_def)

lemma get_buffer_assign:
  assumes wf: "wf_storage s" and v: "valid_piece s pc"
    and i: "i < length (ms_buffers s)" "\<not> b_is_used (ms_buffers s ! i)"
    and nb: "\<not> is_buffered (ms_pieces s ! nat pc)"
    and s': "s' = s\<lparr>ms_buffers := (ms_buffers s)[i := (ms_buffers s ! i)
               \<lparr>b_is_used := True, b_pi := pc, b_accessed := t\<rparr>],
             ms_pieces := (ms_pieces s)[nat pc := (ms_pieces s ! nat pc)\<lparr>p_bi := int i\<rparr>],
             ms_ticks := k, ms_buffer_limit := l, ms_buffer_used := u\<rparr>"
  shows "gives pc s True s'"
proof -
  have pc: "0 \<le> pc" "nat pc < length (ms_pieces s)" using v valid_nat [OF wf v] by (auto simp: valid_piece_def)
  have B: "buffer_ok s i" using wf i by (simp add: wf_buffer)
  have free: "b_pi (ms_buffers s ! i) = -1" using B i by (auto simp: buffer_ok_def Let_def)
  have zero: "b_buffer (ms_buffers s ! i) = replicate (nat (ms_piece_length s)) 0"
    using B i by (auto simp: buffer_ok_def Let_def)
  have nob: "p_bi (ms_pieces s ! nat pc) = -1" using nb by (simp add: is_buffered_def)
  have wf': "wf_storage s'"
    using wf_assign [OF wf pc(2) i(1) free nob, of t] pc(1) unfolding s' by simp
  have frame: "same_frame s s'"
    using pc unfolding s' by (simp add: same_frame_def piece_lengths_def map_p_length_update)
  have here: "content s' pc = Some (replicate (nat (ms_piece_length s)) 0)"
    using v pc i zero unfolding s' by (simp add: content_def valid_piece_def is_buffered_def)
  have there: "content s' q = content s q" if "q \<noteq> pc" for q
  proof (cases "valid_piece s q")
    case True
    have ne: "nat q \<noteq> nat pc" using True that pc(1) by (simp add: valid_piece_def eq_nat_nat_iff)
    have "nat (p_bi (ms_pieces s ! nat q)) \<noteq> i" if buf: "is_buffered (ms_pieces s ! nat q)"
      using wf_owner(3) [OF wf True buf] free True by (auto simp: valid_piece_def)
    with True ne show ?thesis unfolding s' by (auto simp: content_def valid_piece_def)
  qed (auto simp: content_def valid_piece_def s')
  have "content s pc = None" using v nb by (simp add: content_None_iff)
  moreover have "\<not> (\<forall>b \<in> set (ms_buffers s). b_is_used b)" using i nth_mem by blast
  ultimately show ?thesis using wf' frame here there by (auto simp: gives_def)
qed

lemma get_buffer_write:
  assumes wf: "wf_storage s" and init: "ms_is_initialized s" and v: "valid_piece s pc"
  shows "\<exists>ok s'. get_buffer api now pc True h s = Inr (ok, h, s') \<and> gives pc s ok s'"
proof (cases "is_buffered (ms_pieces s ! nat pc)")
  case True
  then show ?thesis using assms valid_nat [OF wf v]
    by (auto simp: get_buffer_def Let_def gives_def content_def valid_piece_def)
next
  case False
  have pc: "0 \<le> pc" "nat pc < length (ms_pieces s)" using v valid_nat [OF wf v] by (auto simp: valid_piece_def)
  have idx: "p_index (ms_pieces s ! nat pc) = pc"
    using wf_piece [OF wf v] pc(1) by (simp add: piece_ok_def Let_def)
  have nr: "\<not> ms_is_reading s" and len: "length (ms_buffers s) = nat (ms_buffer_size s)"
    using wf_lengths [OF wf] init by simp_all
  show ?thesis
  proof (cases "first_unused (ms_buffers s)")
    case None
    then have "\<forall>b \<in> set (ms_buffers s). b_is_used b" by (simp add: first_unused_None)
    moreover have "get_buffer api now pc True h s = Inr (False, h, s)"
      using False pc nr len None by (simp add: get_buffer_def Let_def)
    ultimately show ?thesis using wf v False by (auto simp: gives_def content_None_iff)
  next
    case (Some i)
    then have i: "i < length (ms_buffers s)" "\<not> b_is_used (ms_buffers s ! i)"
      using first_unused_Some by blast+
    have bidx: "b_index (ms_buffers s ! i) = int i"
      using wf_buffer [OF wf i(1)] by (simp add: buffer_ok_def Let_def)
    let ?s' = "\<lambda>l u. s\<lparr>ms_buffers := (ms_buffers s)[i := (ms_buffers s ! i)
               \<lparr>b_is_used := True, b_pi := pc, b_accessed := now (ms_ticks s)\<rparr>],
             ms_pieces := (ms_pieces s)[nat pc := (ms_pieces s ! nat pc)\<lparr>p_bi := int i\<rparr>],
             ms_ticks := Suc (ms_ticks s), ms_buffer_limit := l, ms_buffer_used := u\<rparr>"
    have "get_buffer api now pc True h s =
        Inr (True, h, if bit_test (ms_reserved_pieces s) pc
          then ?s' (ms_buffer_limit s - 1) (ms_buffer_used s)
          else ?s' (ms_buffer_limit s) (ms_buffer_used s + 1))"
      using False pc nr len Some idx bidx by (simp add: get_buffer_def Let_def is_buffered_def)
    moreover have "gives pc s True (if bit_test (ms_reserved_pieces s) pc
          then ?s' (ms_buffer_limit s - 1) (ms_buffer_used s)
          else ?s' (ms_buffer_limit s) (ms_buffer_used s + 1))"
      by (simp only: get_buffer_assign [OF wf v i False refl] if_cancel split: if_split) simp
    ultimately show ?thesis by blast
  qed
qed

lemma get_buffer_read:
  assumes "wf_storage s" and "valid_piece s pc"
  shows "get_buffer api now pc False h s = Inr (content s pc \<noteq> None, h, s)"
  using assms valid_nat [OF assms] by (auto simp: get_buffer_def Let_def content_def valid_piece_def)

end
