(* ===== verification/Memory_Properties.thy ===== *)
theory Memory_Properties
  imports Memory_Access
begin

text \<open>
  What the memory storage promises to its callers: reads return what was written, a write
  disturbs no other piece except by taking its buffer back, the victim is the least recently
  used buffer, trimming ends with one buffer to spare and keeps the counters in step with the
  pool, and the cases in which the code does not do this.
\<close>

section \<open>Effects of one write and one read\<close>

abbreviation piece_len :: "memory_storage \<Rightarrow> int \<Rightarrow> int" where
  "piece_len s pc \<equiv> p_length (ms_pieces s ! nat pc)"

text \<open>The piece after \<open>bufs\<close> is written at \<open>off\<close>: what does not fit is dropped.\<close>

definition written :: "memory_storage \<Rightarrow> int \<Rightarrow> byte list \<Rightarrow> int \<Rightarrow> byte list list \<Rightarrow> byte list" where
  "written s pc m off bufs = overlay m (nat off) (take (nat (piece_len s pc - off)) (concat bufs))"

lemma same_frame_piece_len:
  assumes "same_frame s s'" and "nat pc < length (ms_pieces s)"
  shows "piece_len s' pc = piece_len s pc"
proof -
  have "piece_lengths s' ! nat pc = piece_lengths s ! nat pc" using assms by (simp add: same_frame_def)
  with assms same_frame_D(3) [OF assms(1)] show ?thesis by (simp add: piece_lengths_def)
qed

lemma writev_copy_spec:
  assumes wf: "wf_storage s" and v: "valid_piece s pc" and c: "content s pc = Some m"
    and off: "0 \<le> off" "off \<le> piece_len s pc"
  obtains s' where "writev_copy now bufs pc off s =
      Inr (min (piece_len s pc - off) (int (length (concat bufs))), s')"
    and "wf_storage s'" and "same_frame s s'" and "content s' = (content s)(pc \<mapsto> written s pc m off bufs)"
    and "ms_buffer_used s' = ms_buffer_used s" and "ms_buffer_limit s' = ms_buffer_limit s"
    and "map b_is_used (ms_buffers s') = map b_is_used (ms_buffers s)"
    and "map b_pi (ms_buffers s') = map b_pi (ms_buffers s)" and "ms_ticks s' = Suc (ms_ticks s)"
    and "\<forall>b' \<in> set (ms_buffers s'). b' \<in> set (ms_buffers s) \<or> b_accessed b' = now (ms_ticks s)"
proof -
  let ?p = "ms_pieces s ! nat pc"
  let ?j = "nat (p_bi ?p)"
  let ?b = "ms_buffers s ! ?j"
  have buf: "is_buffered ?p" and m: "m = b_buffer ?b" using c v by (auto simp: content_def split: if_splits)
  have j: "0 \<le> p_bi ?p" "?j < length (ms_buffers s)" "b_pi ?b = pc" "length m = nat (ms_piece_length s)"
    using wf_owner [OF wf v buf] m by simp_all
  have used: "b_is_used ?b" using wf_buffer [OF wf j(2)] j(3) v by (auto simp: buffer_ok_def Let_def valid_piece_def)
  have P: "piece_ok s (nat pc)" and pc: "0 \<le> pc" "nat pc < length (ms_pieces s)"
    using wf_piece [OF wf v] valid_nat [OF wf v] v by (auto simp: valid_piece_def)
  have len: "piece_len s pc \<le> int (length m)" "piece_len s pc < 2 ^ 31"
    using P j(4) wf_lengths(4,5) [OF wf] by (auto simp: piece_ok_def Let_def)
  let ?n = "min (piece_len s pc - off) (int (length (concat bufs)))"
  let ?w = "written s pc m off bufs"
  let ?s' = "s\<lparr>ms_pieces := (ms_pieces s)[nat pc := ?p\<lparr>p_size := p_size ?p + ?n\<rparr>],
      ms_buffers := (ms_buffers s)[?j := ?b\<lparr>b_buffer := ?w, b_accessed := now (ms_ticks s)\<rparr>],
      ms_ticks := Suc (ms_ticks s)\<rparr>"
  have loop: "writev_loop (piece_len s pc) m off bufs = Inr (?n, ?w)"
    unfolding written_def using off len by (intro writev_loop_overlay) simp_all
  have wlen: "length ?w = nat (ms_piece_length s)"
    unfolding written_def using off len j(4)
    by (subst length_overlay) (auto simp only: length_take, linarith)
  have cont: "content ?s' q = ((content s)(pc \<mapsto> ?w)) q" for q
  proof (cases "valid_piece s q \<and> q \<noteq> pc")
    case True
    have ne: "nat q \<noteq> nat pc" using True pc(1) by (simp add: valid_piece_def eq_nat_nat_iff)
    have "?j \<noteq> nat (p_bi (ms_pieces s ! nat q))" if "is_buffered (ms_pieces s ! nat q)"
      using wf_distinct [OF wf v, of q] True that buf by metis
    with True ne show ?thesis by (auto simp: content_def valid_piece_def)
  next
    case False
    then consider "q = pc" | "\<not> valid_piece s q" "q \<noteq> pc" using v by blast
    then show ?thesis
    proof cases
      case 1
      with v pc buf j(2) show ?thesis by (simp add: content_def valid_piece_def is_buffered_def)
    next
      case 2
      then have "\<not> valid_piece ?s' q" by (simp add: valid_piece_def)
      with 2 show ?thesis unfolding content_def by simp
    qed
  qed
  show thesis
  proof (rule that)
    show "writev_copy now bufs pc off s = Inr (?n, ?s')"
      using j(1,2) loop by (simp add: writev_copy_def Let_def m)
    show "wf_storage ?s'" using wf_in_place [OF wf pc(2) j(2) used wlen] by simp
    show "same_frame s ?s'" using pc by (simp add: same_frame_def piece_lengths_def map_p_length_update)
    show "content ?s' = (content s)(pc \<mapsto> ?w)" using cont by blast
    show "\<forall>b' \<in> set (ms_buffers ?s'). b' \<in> set (ms_buffers s) \<or> b_accessed b' = now (ms_ticks s)"
      using set_update_subset_insert [of "ms_buffers s" ?j] by fastforce
  qed (simp_all add: map_update j list_update_same_conv)
qed

text \<open>
  \<open>write_effect\<close>: all that a returning \<open>writev\<close> can do. Either the piece got no buffer
  because all are in use and nothing changed, or the bytes are stored and other pieces are
  untouched or gone, the reserved ones untouched.
\<close>

definition write_effect ::
  "memory_storage \<Rightarrow> int \<Rightarrow> int \<Rightarrow> byte list list \<Rightarrow> int \<Rightarrow> memory_storage \<Rightarrow> bool" where
  "write_effect s pc off bufs n s' \<longleftrightarrow> wf_storage s' \<and> same_frame s s' \<and>
     ((n = 0 \<and> s' = s \<and> content s pc = None \<and> (\<forall>b \<in> set (ms_buffers s). b_is_used b)) \<or>
      (n = min (piece_len s pc - off) (int (length (concat bufs))) \<and>
       content s' pc = Some (written s pc (case content s pc of Some m \<Rightarrow> m
          | None \<Rightarrow> replicate (nat (ms_piece_length s)) 0) off bufs) \<and>
       (\<forall>q. q \<noteq> pc \<longrightarrow> content s' q = content s q \<or> content s' q = None) \<and>
       (\<forall>q. q \<noteq> pc \<and> is_reserved s q \<longrightarrow> content s' q = content s q)))"

lemma writev_effect:
  assumes wf: "wf_storage s" and init: "ms_is_initialized s" and v: "valid_piece s pc"
    and off: "0 \<le> off" "off \<le> piece_len s pc"
    and r: "writev api now bufs pc off h s = Some r"
  shows "\<exists>n h' s'. r = Inr (n, h', s') \<and> write_effect s pc off bufs n s'"
proof -
  obtain ok s1 where g: "get_write_buffer api now pc h s = Inr (ok, h, s1)" "gives pc s ok s1"
    using get_buffer_write [OF wf init v] unfolding get_write_buffer_def by metis
  show ?thesis
  proof (cases ok)
    case False
    with g have "s1 = s" "content s pc = None" "\<forall>b \<in> set (ms_buffers s). b_is_used b"
      by (auto simp: gives_def split: if_splits)
    with False r g init wf show ?thesis by (auto simp: writev_def write_effect_def)
  next
    case True
    have wf1: "wf_storage s1" and fr1: "same_frame s s1" using g by (simp_all add: gives_def)
    have v1: "valid_piece s1 pc" and pl: "piece_len s1 pc = piece_len s pc"
      using same_frame_D [OF fr1] same_frame_piece_len [OF fr1 valid_nat [OF wf v]] v by simp_all
    let ?m = "case content s pc of Some m \<Rightarrow> m | None \<Rightarrow> replicate (nat (ms_piece_length s)) 0"
    have m: "content s1 pc = Some ?m"
      using g True by (auto simp: gives_def split: if_splits option.splits)
    obtain n s2 where w: "writev_copy now bufs pc off s1 = Inr (n, s2)"
      "n = min (piece_len s1 pc - off) (int (length (concat bufs)))" "wf_storage s2" "same_frame s1 s2"
      "content s2 = (content s1)(pc \<mapsto> written s1 pc ?m off bufs)"
      by (rule writev_copy_spec [OF wf1 v1 m, of off now bufs]) (use off pl in auto)
    have base: "content s2 pc = Some (written s pc ?m off bufs)" "\<And>q. q \<noteq> pc \<Longrightarrow> content s2 q = content s q"
      using w(5) g pl by (auto simp: gives_def written_def)
    have fr2: "same_frame s s2" using fr1 w(4) by (rule same_frame_trans)
    have E: "write_effect s pc off bufs n s'" if k: "trim_keeps pc s2 s'" for s'
    proof -
      have "is_reserved s2 q = is_reserved s q" for q using same_frame_D(2) [OF fr2] .
      with k base w(2) pl fr2 show ?thesis
        unfolding write_effect_def trim_keeps_def by (metis same_frame_trans)
    qed
    show ?thesis
    proof (cases "ms_buffer_used s2 \<ge> ms_buffer_limit s2")
      case over: True
      then obtain r' where t: "trim api now pc h s2 = Some r'"
        "r = bind_result r' (\<lambda>(h3, s3). Inr (n, h3, s3))"
        using r init g w True by (auto simp: writev_def)
      with trim_keeps_result [OF w(3) t(1)] E show ?thesis by fastforce
    next
      case False
      then have "r = Inr (n, h, s2)" using r init g w True by (auto simp: writev_def)
      with E trim_keeps_refl [OF w(3)] show ?thesis by blast
    qed
  qed
qed

lemma readv_spec:
  assumes wf: "wf_storage s" and init: "ms_is_initialized s" and v: "valid_piece s pc"
    and c: "content s pc = Some m" and off: "0 \<le> off" "off \<le> int (length m)"
  shows "\<exists>s'. readv api now bufs pc off h s =
      Inr (min (int (length m) - off) (int (length (concat bufs))), fill (drop (nat off) m) bufs, h, s') \<and>
    wf_storage s' \<and> same_frame s s' \<and> content s' = content s"
proof -
  let ?p = "ms_pieces s ! nat pc"
  let ?j = "nat (p_bi ?p)"
  let ?b = "ms_buffers s ! ?j"
  have buf: "is_buffered ?p" and m: "m = b_buffer ?b" using c v by (auto simp: content_def split: if_splits)
  have j: "0 \<le> p_bi ?p" "?j < length (ms_buffers s)" "b_pi ?b = pc" "length m = nat (ms_piece_length s)"
    using wf_owner [OF wf v buf] m by simp_all
  have used: "b_is_used ?b" using wf_buffer [OF wf j(2)] j(3) v by (auto simp: buffer_ok_def Let_def valid_piece_def)
  have pc: "nat pc < length (ms_pieces s)" "\<not> p_is_completed ?p"
    using wf_piece [OF wf v] valid_nat [OF wf v] by (auto simp: piece_ok_def Let_def)
  let ?s' = "s\<lparr>ms_pieces := (ms_pieces s)[nat pc := ?p],
      ms_buffers := (ms_buffers s)[?j := ?b\<lparr>b_accessed := now (ms_ticks s)\<rparr>],
      ms_ticks := Suc (ms_ticks s)\<rparr>"
  have same: "?p\<lparr>p_size := p_size ?p\<rparr> = ?p" "?b\<lparr>b_buffer := m\<rparr> = ?b" using m by simp_all
  have wf': "wf_storage ?s'"
    using wf_in_place [OF wf pc(1) j(2) used j(4), where n = "p_size ?p" and t = "now (ms_ticks s)"] same
    by simp
  have loop: "readv_loop m off bufs = Inr (min (int (length m) - off) (int (length (concat bufs))),
      fill (drop (nat off) m) bufs)"
    using off j(4) wf_lengths(4,5) [OF wf] by (intro readv_loop_fill) simp_all
  have "content ?s' q = content s q" for q
  proof (cases "valid_piece s q \<and> is_buffered (ms_pieces s ! nat q)")
    case True
    then have "nat (p_bi (ms_pieces s ! nat q)) < length (ms_buffers s)" using wf_owner(2) [OF wf] by blast
    with True j(2) show ?thesis by (simp add: content_def valid_piece_def nth_list_update)
  qed (auto simp: content_def valid_piece_def)
  then have cont: "content ?s' = content s" by blast
  have "same_frame s ?s'" by (simp add: same_frame_def piece_lengths_def)
  moreover have "readv api now bufs pc off h s =
      Inr (min (int (length m) - off) (int (length (concat bufs))), fill (drop (nat off) m) bufs, h, ?s')"
    using init j(1,2) loop pc c get_buffer_read [OF wf v, of api now h]
    by (simp add: readv_def get_read_buffer_def Let_def m)
  ultimately show ?thesis using wf' cont by blast
qed

lemma fill_exact: "length data \<le> length m \<Longrightarrow> length b = length data \<Longrightarrow> fill m [b] = [take (length data) m]"
  by simp

lemma drop_overlay: "off + length ys \<le> length xs \<Longrightarrow> take (length ys) (drop off (overlay xs off ys)) = ys"
  using slice_overlay_same [of off ys xs] by (simp add: slice_def)

section \<open>The counters of the pool\<close>

definition unreserved :: "memory_storage \<Rightarrow> memory_buffer \<Rightarrow> bool" where
  "unreserved s b \<longleftrightarrow> b_is_used b \<and> \<not> is_reserved s (b_pi b)"

definition reserved_used :: "memory_storage \<Rightarrow> memory_buffer \<Rightarrow> bool" where
  "reserved_used s b \<longleftrightarrow> b_is_used b \<and> is_reserved s (b_pi b)"

text \<open>
  \<open>buffer_used\<close> counts the buffers of pieces that are not reserved, and
  \<open>buffer_limit\<close> is what the reserved pieces leave of the pool.
\<close>

definition accounted :: "memory_storage \<Rightarrow> bool" where
  "accounted s \<longleftrightarrow>
     ms_buffer_used s = int (length (filter (unreserved s) (ms_buffers s))) \<and>
     ms_buffer_limit s = ms_buffer_size s - int (length (filter (reserved_used s) (ms_buffers s)))"

lemma unreserved_frame:
  "same_frame s s' \<Longrightarrow> unreserved s' = unreserved s \<and> reserved_used s' = reserved_used s"
  using same_frame_D(2) by (auto simp: fun_eq_iff unreserved_def reserved_used_def)

lemma trim_removed_accounted:
  assumes "trim_removed api now pc h s j k s'" and "accounted s"
  shows "accounted s'"
proof -
  have fr: "same_frame s s'" and j: "j < length (ms_buffers s)" and u: "unreserved s (ms_buffers s ! j)"
    and nr: "\<not> reserved_used s (ms_buffers s ! j)"
    and b: "ms_buffers s' = (ms_buffers s)[j := buffer_reset (now k) (ms_buffers s ! j)]"
    and n: "ms_buffer_used s' = ms_buffer_used s - 1" "ms_buffer_limit s' = ms_buffer_limit s"
    using assms(1) by (auto simp: trim_removed_def trim_keeps_def evictable_def unreserved_def reserved_used_def)
  have "\<not> unreserved s (buffer_reset (now k) (ms_buffers s ! j))"
    "\<not> reserved_used s (buffer_reset (now k) (ms_buffers s ! j))"
    by (simp_all add: unreserved_def reserved_used_def buffer_reset_def)
  with assms(2) u nr n unreserved_frame [OF fr] fr show ?thesis
    by (simp add: accounted_def b length_filter_update [OF j] same_frame_def)
qed

lemma trim_removed_clock:
  assumes "trim_removed api now pc h s j k s'" and "clock_ahead now s"
  shows "clock_ahead now s'"
proof -
  have b: "ms_buffers s' = (ms_buffers s)[j := buffer_reset (now k) (ms_buffers s ! j)]"
    and k: "ms_ticks s \<le> k" "ms_ticks s' = Suc k" and j: "j < length (ms_buffers s)"
    using assms(1) by (auto simp: trim_removed_def)
  have mono: "now i < now (Suc k)" if "i \<le> k" for i
    using assms(2) that by (simp add: clock_ahead_def strict_mono_less)
  have "b_accessed b' < now (Suc k)" if b': "b' \<in> set (ms_buffers s')" for b'
  proof -
    have "b' = buffer_reset (now k) (ms_buffers s ! j) \<or> b' \<in> set (ms_buffers s)"
      using b' set_update_subset_insert unfolding b by fastforce
    then show ?thesis
      using assms(2) mono [of k] mono [OF k(1)] by (auto simp: clock_ahead_def buffer_reset_def)
  qed
  then show ?thesis using assms(2) k(2) by (simp add: clock_ahead_def)
qed

text \<open>Two unreserved buffers in use belong to two pieces, so one of them is evictable.\<close>

lemma evictable_exists:
  assumes wf: "wf_storage s" and two: "2 \<le> length (filter (unreserved s) (ms_buffers s))"
  shows "\<exists>b \<in> set (ms_buffers s). evictable api h s pc False b"
proof (rule ccontr)
  assume none: "\<not> ?thesis"
  let ?J = "{j. j < length (ms_buffers s) \<and> unreserved s (ms_buffers s ! j)}"
  have "?J \<subseteq> {nat (p_bi (ms_pieces s ! nat pc))}"
  proof
    fix j assume "j \<in> ?J"
    then have j: "j < length (ms_buffers s)" and u: "unreserved s (ms_buffers s ! j)" by auto
    have B: "buffer_ok s j" using wf j by (simp add: wf_buffer)
    then have asg: "b_pi (ms_buffers s ! j) \<noteq> -1"
      using u by (auto simp: buffer_ok_def unreserved_def Let_def)
    have "\<not> evictable api h s pc False (ms_buffers s ! j)" using none j by auto
    then have "b_pi (ms_buffers s ! j) = pc"
      using u asg by (auto simp: evictable_def unreserved_def is_assigned_def)
    then show "j \<in> {nat (p_bi (ms_pieces s ! nat pc))}"
      using B asg by (auto simp: buffer_ok_def Let_def)
  qed
  then have "card ?J \<le> 1" using card_mono [of "{nat (p_bi (ms_pieces s ! nat pc))}" ?J] by simp
  with two show False by (simp add: length_filter_conv_card)
qed

lemma trim_loop_terminates:
  assumes wf: "wf_storage s" and acc: "accounted s" and clk: "clock_ahead now s"
    and lim: "2 \<le> ms_buffer_limit s" and over: "over_limit s"
  shows "\<exists>h' s'. trim_loop api now pc (h, s) = Some (Inr (h', s')) \<and> trim_keeps pc s s' \<and>
    accounted s' \<and> ms_buffer_used s' = ms_buffer_limit s - 1"
proof -
  let ?P = "\<lambda>r :: ('a \<times> memory_storage) result. case r of Inl e \<Rightarrow> False | Inr (h', s') \<Rightarrow>
      trim_keeps pc s s' \<and> accounted s' \<and> clock_ahead now s' \<and> ms_buffer_limit s - 1 \<le> ms_buffer_used s'"
  let ?f = "\<lambda>r :: ('a \<times> memory_storage) result. case r of Inl e \<Rightarrow> 0 | Inr (h', s') \<Rightarrow> nat (ms_buffer_used s')"
  let ?b = "\<lambda>r :: ('a \<times> memory_storage) result. case r of Inl e \<Rightarrow> False | Inr (h', s') \<Rightarrow> over_limit s'"
  let ?c = "\<lambda>r. bind_result r (\<lambda>(h, s). trim_pass api now pc h s)"
  have step: "?P (?c r) \<and> ?f (?c r) < ?f r" if P: "?P r" and b: "?b r" for r
  proof -
    obtain h1 s1 where r: "r = Inr (h1, s1)" using P by (cases r) auto
    have k1: "trim_keeps pc s s1" and a1: "accounted s1" and c1: "clock_ahead now s1"
      and o1: "ms_buffer_limit s \<le> ms_buffer_used s1"
      using P b r by (auto simp: trim_keeps_def over_limit_def)
    have wf1: "wf_storage s1" using k1 by (simp add: trim_keeps_def)
    have two: "2 \<le> length (filter (unreserved s1) (ms_buffers s1))" using a1 o1 lim by (simp add: accounted_def)
    obtain bf where bf: "bf \<in> set (ms_buffers s1)" "evictable api h1 s1 pc False bf"
      using evictable_exists [OF wf1 two, of api h1 pc] by (elim bexE) rule
    show ?thesis
    proof (rule trim_pass_cases [OF wf1, of api now pc h1], goal_cases)
      case (1 h' s' j k)
      then have "trim_keeps pc s s'" "ms_buffer_used s' = ms_buffer_used s1 - 1"
        using trim_keeps_trans [OF k1] by (auto simp: trim_removed_def)
      moreover have "accounted s'" "clock_ahead now s'"
        by (rule trim_removed_accounted [OF 1(2) a1], rule trim_removed_clock [OF 1(2) c1])
      moreover have "?c r = Inr (h', s')" using 1(1) r by simp
      ultimately show ?case using o1 lim r by simp
    next
      case (2 k)
      then have "now k \<le> b_accessed bf" using bf by blast
      moreover have "b_accessed bf < now k"
        using c1 bf(1) 2(1) by (auto simp: clock_ahead_def strict_mono_less_eq intro: less_le_trans)
      ultimately show ?case by simp
    qed
  qed
  have P0: "?P (Inr (h, s))" using assms trim_keeps_refl by (auto simp: over_limit_def)
  have "\<exists>t. while_option ?b ?c (Inr (h, s)) = Some t"
    by (rule measure_while_option_Some [where P = ?P and f = ?f]) (use step P0 in blast)+
  then obtain t where t: "while_option ?b ?c (Inr (h, s)) = Some t" ..
  have "?P t" by (rule while_option_rule [where P = ?P, OF _ t P0]) (use step in blast)
  moreover note while_option_stop [OF t]
  ultimately obtain h' s' where "t = Inr (h', s')" "trim_keeps pc s s'" "accounted s'"
    "ms_buffer_used s' = ms_buffer_limit s - 1"
    by (cases t) (auto simp: trim_keeps_def over_limit_def)
  with t show ?thesis by (auto simp: trim_loop_def trim_keeps_def over_limit_def)
qed

end
