(* ===== verification/Memory_Guarantees.thy ===== *)
theory Memory_Guarantees
  imports Memory_Properties
begin

text \<open>
  The guarantees of the memory storage: its reachable states, the round trip of a write and a
  read, isolation of the other pieces, the choice of the victim, termination of trimming and
  writing, the accounts of the pool, and two situations in which the code fails to keep them.
\<close>

section \<open>Runs of the storage\<close>

text \<open>
  The calls a storage sees, in any order: libtorrent's disk thread initialises, reads and
  writes; the application resizes the pool, sets reader and reserved pieces, and binds the
  torrent handle; libtorrent changes its own object at any time (\<open>other\<close>). Reads and
  writes are for pieces of the torrent and offsets inside them.
\<close>

inductive storage_step ::
  "'h lt_api \<Rightarrow> clock \<Rightarrow> 'h \<times> memory_storage \<Rightarrow> 'h \<times> memory_storage \<Rightarrow> bool" for api now where
  init: "\<not> ms_is_initialized s \<Longrightarrow> storage_step api now (h, s) (h, initialize s)"
| resize: "ms_is_initialized s \<Longrightarrow> n \<le> (2 ^ 31 - 1) * ms_piece_length s \<Longrightarrow>
    storage_step api now (h, s) (h, set_memory_size n s)"
| handle: "storage_step api now (h, s) (h, set_torrent_handle s)"
| logging_on: "storage_step api now (h, s) (h, enable_logging s)"
| logging_off: "storage_step api now (h, s) (h, disable_logging s)"
| readers: "update_reader_pieces ps s = Inr s' \<Longrightarrow> storage_step api now (h, s) (h, s')"
| reserve: "update_reserved_pieces ps s = Inr s' \<Longrightarrow> storage_step api now (h, s) (h, s')"
| read: "valid_piece s pc \<Longrightarrow> 0 \<le> off \<Longrightarrow> off \<le> ms_piece_length s \<Longrightarrow>
    readv api now bufs pc off h s = Inr (n, bufs', h', s') \<Longrightarrow> storage_step api now (h, s) (h', s')"
| wrote: "valid_piece s pc \<Longrightarrow> 0 \<le> off \<Longrightarrow> off \<le> piece_len s pc \<Longrightarrow>
    writev api now bufs pc off h s = Some (Inr (n, h', s')) \<Longrightarrow> storage_step api now (h, s) (h', s')"
| other: "storage_step api now (h, s) (h', s)"

inductive storage_reachable :: "'h lt_api \<Rightarrow> clock \<Rightarrow> 'h \<times> memory_storage \<Rightarrow> bool" for api now where
  start: "layout_ok fl \<Longrightarrow> 0 \<le> n \<Longrightarrow> n \<le> (2 ^ 31 - 1) * fl_piece_length fl \<Longrightarrow>
    storage_reachable api now (h, new_memory_storage False n fl)"
| step: "storage_reachable api now hs \<Longrightarrow> storage_step api now hs hs' \<Longrightarrow> storage_reachable api now hs'"

text \<open>A storage of four pieces of 16 bytes (the last has 8) with a buffer for each.\<close>

definition demo_storage :: memory_storage where
  "demo_storage = initialize (new_memory_storage False 64
     \<lparr>fl_num_pieces = 4, fl_piece_length = 16, fl_piece_size = (\<lambda>i. if i = 3 then 8 else 16)\<rparr>)"

lemma wf_demo_storage: "wf_storage demo_storage"
  unfolding demo_storage_def
  by (intro wf_initialize wf_memory_storage) (auto simp: layout_ok_def new_memory_storage_def Let_def)

lemma demo_storage_facts:
  "ms_is_initialized demo_storage" "valid_piece demo_storage 1"
  "p_length (ms_pieces demo_storage ! Suc 0) = 16"
  by (code_simp, code_simp, code_simp)

lemma sized_frame: "same_frame s s' \<Longrightarrow> sized s \<Longrightarrow> sized s'"
  by (simp add: same_frame_def sized_def)

lemma readv_step:
  assumes wf: "wf_storage s" and v: "valid_piece s pc" and off: "0 \<le> off" "off \<le> ms_piece_length s"
    and r: "readv api now bufs pc off h s = Inr (n, bufs', h', s')"
  shows "wf_storage s' \<and> same_frame s s' \<and> content s' = content s"
proof (cases "ms_is_initialized s \<and> content s pc \<noteq> None")
  case True
  then obtain m where m: "content s pc = Some m" by blast
  then have "length m = nat (ms_piece_length s)"
    using wf_owner(4) [OF wf v] v by (auto simp: content_def split: if_splits)
  then have "off \<le> int (length m)" using off wf_lengths(4) [OF wf] by simp
  with readv_spec [OF wf _ v m off(1), of api now bufs h] True r show ?thesis by auto
next
  case False
  then have "readv api now bufs pc off h s = Inr (0, bufs, h, s)"
    using get_buffer_read [OF wf v, of api now h]
    by (cases "ms_is_initialized s") (auto simp: readv_def get_read_buffer_def)
  with r wf show ?thesis by simp
qed

lemma writev_step:
  assumes wf: "wf_storage s" and v: "valid_piece s pc" and off: "0 \<le> off" "off \<le> piece_len s pc"
    and r: "writev api now bufs pc off h s = Some (Inr (n, h', s'))"
  shows "wf_storage s' \<and> same_frame s s'"
proof (cases "ms_is_initialized s")
  case True
  from writev_effect [OF wf True v off r] show ?thesis by (auto simp: write_effect_def)
qed (use r wf in \<open>auto simp: writev_def\<close>)

lemma storage_step_inv:
  assumes "storage_step api now (h, s) (h', s')" and wf: "wf_storage s" and sz: "sized s"
  shows "wf_storage s' \<and> sized s'"
  using assms(1)
proof (cases rule: storage_step.cases)
  case init
  then have "sized s'" using sz by (simp add: sized_def initialize_def)
  with init wf_initialize [OF wf] show ?thesis by simp
next
  case (resize n)
  with wf sz show ?thesis by (simp add: wf_set_memory_size)
next
  case (readers ps)
  then have r: "update_reader_pieces ps s = Inr s'" by simp
  then have "sized s'" using sz
    by (auto simp: update_reader_pieces_def sized_def bind_result_eq_Inr split: if_splits)
  with wf_update_reader_pieces [OF wf r] show ?thesis by simp
next
  case (reserve ps)
  then have r: "update_reserved_pieces ps s = Inr s'" by simp
  then have "sized s'" using sz
    by (auto simp: update_reserved_pieces_def sized_def bind_result_eq_Inr split: if_splits)
  with wf_update_reserved_pieces [OF wf r] show ?thesis by simp
next
  case (read pc off bufs n bufs')
  then have "wf_storage s' \<and> same_frame s s'" using readv_step [OF wf read(1-4)] by simp
  with sized_frame [OF _ sz] show ?thesis by blast
next
  case (wrote pc off bufs n)
  then have "wf_storage s' \<and> same_frame s s'" using writev_step [OF wf wrote(1-4)] by simp
  with sized_frame [OF _ sz] show ?thesis by blast
qed (use wf sz in \<open>auto intro: wf_intro simp: sized_def set_torrent_handle_def enable_logging_def
    disable_logging_def wf_storage_def shape_ok_def piece_ok_def buffer_ok_def\<close>)

lemma storage_reachable_inv: "storage_reachable api now hs \<Longrightarrow> wf_storage (snd hs) \<and> sized (snd hs)"
proof (induction rule: storage_reachable.induct)
  case (start fl n h)
  then have "sized (new_memory_storage False n fl)"
    by (auto simp: sized_def new_memory_storage_def Let_def)
  with start show ?case by (simp add: wf_memory_storage)
next
  case (step hs hs')
  then show ?case using storage_step_inv by (metis prod.collapse)
qed



section \<open>Reads and writes\<close>

text \<open>
  C2. What was written is read back: if a write of \<open>data\<close> inside a piece returns, it either
  reports 0 bytes (the pool had no free buffer) or stored all of \<open>data\<close>, and then a read of
  the same place into a buffer of the same size gives \<open>data\<close>, even when the write went on to
  evict other pieces.
\<close>

theorem writev_readv_roundtrip:
  assumes "wf_storage s" and "ms_is_initialized s" and "valid_piece s pc" and "0 \<le> off"
    and "off + int (length data) \<le> piece_len s pc" and "length buf = length data"
    and "writev api now [data] pc off h s = Some (Inr (n, h1, s1))" and "n \<noteq> 0"
  shows "n = int (length data) \<and>
    (\<exists>s2. readv api now [buf] pc off h1 s1 = Inr (n, [data], h1, s2))"
proof -
  have P: "piece_ok s (nat pc)" using wf_piece [OF assms(1,3)] .
  have off: "off \<le> piece_len s pc" using assms(5) by simp
  have e: "write_effect s pc off [data] n s1" using writev_effect [OF assms(1-4) off assms(7)] by auto
  let ?m = "case content s pc of Some m \<Rightarrow> m | None \<Rightarrow> replicate (nat (ms_piece_length s)) 0"
  have n: "n = int (length data)" and c: "content s1 pc = Some (overlay ?m (nat off) data)"
    and wf1: "wf_storage s1" and fr: "same_frame s s1"
    using e assms(4,5,8) by (auto simp: write_effect_def written_def)
  have "length ?m = nat (ms_piece_length s)"
    using wf_owner(4) [OF assms(1,3)] assms(3) by (auto simp: content_def split: option.splits if_splits)
  moreover have "piece_len s pc \<le> ms_piece_length s" using P by (simp add: piece_ok_def Let_def)
  ultimately have len: "nat off + length data \<le> length ?m" using assms(4,5) by linarith
  have v1: "valid_piece s1 pc" and i1: "ms_is_initialized s1"
    using same_frame_D(1) [OF fr] assms(2,3) fr by (simp_all add: same_frame_def)
  let ?m1 = "overlay ?m (nat off) data"
  have l1: "length ?m1 = length ?m" using len by simp
  have "off \<le> int (length ?m1)" using len l1 assms(4) by linarith
  then obtain s2 where "readv api now [buf] pc off h1 s1 =
      Inr (min (int (length ?m1) - off) (int (length (concat [buf]))), fill (drop (nat off) ?m1) [buf], h1, s2)"
    using readv_spec [OF wf1 i1 v1 c assms(4), of api now "[buf]" h1] by blast
  moreover have "fill (drop (nat off) ?m1) [buf] = [data]"
    using drop_overlay [OF len] l1 len assms(6) by simp
  ultimately show ?thesis using n assms(4,6) len l1 by auto
qed

theorem writev_readv_roundtrip_witness:
  "case writev demo_api int [[1, 2, 3]] 1 2 demo_handle demo_storage of
     Some (Inr (n, h1, s1)) \<Rightarrow> n = 3 \<and>
       (\<exists>s2. readv demo_api int [[0, 0, 0]] 1 2 h1 s1 = Inr (n, [[1, 2, 3]], h1, s2))
   | _ \<Rightarrow> False"
proof -
  have "case writev demo_api int [[1, 2, 3]] 1 2 demo_handle demo_storage of
      Some (Inr (n, h1, s1)) \<Rightarrow> n \<noteq> 0 | _ \<Rightarrow> False" by code_simp
  then obtain n h1 s1 where
    w: "writev demo_api int [[1, 2, 3]] 1 2 demo_handle demo_storage = Some (Inr (n, h1, s1))" "n \<noteq> 0"
    by (auto split: option.splits sum.splits)
  show ?thesis
    using writev_readv_roundtrip [OF wf_demo_storage demo_storage_facts(1,2) _ _ _ w, of "[0, 0, 0]"] w(1)
    by (auto simp: demo_storage_facts)
qed

text \<open>
  C5. A write disturbs no other piece: afterwards every other piece holds exactly what it held
  before or has lost its buffer, and a reserved piece never loses its buffer.
\<close>

theorem writev_isolates:
  assumes "wf_storage s" and "ms_is_initialized s" and "valid_piece s pc" and "0 \<le> off"
    and "off \<le> piece_len s pc" and "writev api now bufs pc off h s = Some r" and "q \<noteq> pc"
  shows "\<exists>n h' s'. r = Inr (n, h', s') \<and> (content s' q = content s q \<or> content s' q = None) \<and>
    (is_reserved s q \<longrightarrow> content s' q = content s q)"
  using writev_effect [OF assms(1-6)] assms(7) by (auto simp: write_effect_def)

theorem writev_isolates_witness:
  "case writev demo_api int [[1, 2, 3]] 1 2 demo_handle demo_storage of
     Some (Inr (n, h1, s1)) \<Rightarrow> content s1 0 = content demo_storage 0 \<or> content s1 0 = None
   | _ \<Rightarrow> False"
proof -
  have "case writev demo_api int [[1, 2, 3]] 1 2 demo_handle demo_storage of
      None \<Rightarrow> False | Some r \<Rightarrow> True" by code_simp
  then obtain r where w: "writev demo_api int [[1, 2, 3]] 1 2 demo_handle demo_storage = Some r"
    by (auto split: option.splits)
  show ?thesis
    using writev_isolates [OF wf_demo_storage demo_storage_facts(1,2) _ _ w, of 0] w
    by (auto simp: demo_storage_facts)
qed

text \<open>
  C8. \<open>find_last_buffer\<close> picks the least recently used buffer: its result is -1 exactly when
  no evictable buffer was accessed before the current time; otherwise it is the index of an
  evictable buffer (in use, not reserved, not the piece being written, and unread when asked)
  that no evictable buffer is older than.
\<close>

theorem find_last_buffer_lru:
  assumes "wf_storage s"
  shows "let bi = fst (find_last_buffer api now pc check_read h s);
             E = evictable api h s pc check_read in
    (bi = -1 \<longleftrightarrow> \<not> (\<exists>b \<in> set (ms_buffers s). E b \<and> b_accessed b < now (ms_ticks s))) \<and>
    (bi \<noteq> -1 \<longrightarrow> 0 \<le> bi \<and> nat bi < length (ms_buffers s) \<and> E (ms_buffers s ! nat bi) \<and>
       (\<forall>b \<in> set (ms_buffers s). E b \<longrightarrow> b_accessed (ms_buffers s ! nat bi) \<le> b_accessed b))"
proof -
  obtain bi s' where "find_last_buffer api now pc check_read h s = (bi, s')" by fastforce
  with find_last_buffer_cases [OF assms this] show ?thesis
    by (fastforce simp: oldest_def)
qed

theorem find_last_buffer_lru_witness:
  "fst (find_last_buffer demo_api int 1 False demo_handle demo_storage) = -1"
  using find_last_buffer_lru [OF wf_demo_storage, of demo_api int 1 False demo_handle]
  by (auto simp: Let_def evictable_def demo_storage_def initialize_def new_memory_storage_def new_memory_buffer_def)

text \<open>
  C11. A buffer that is handed out holds zeros only: the first write to a piece never exposes
  bytes of the piece that had the buffer before, and a piece that has a buffer keeps it.
\<close>

theorem get_buffer_fresh:
  assumes "wf_storage s" and "ms_is_initialized s" and "valid_piece s pc"
    and "get_buffer api now pc True h s = Inr (ok, h', s')"
  shows "if content s pc \<noteq> None then ok \<and> s' = s
    else if \<exists>b \<in> set (ms_buffers s). \<not> b_is_used b
      then ok \<and> content s' pc = Some (replicate (nat (ms_piece_length s)) 0) \<and>
        (\<forall>q. q \<noteq> pc \<longrightarrow> content s' q = content s q)
      else \<not> ok \<and> s' = s"
  using get_buffer_write [OF assms(1-3), of api now h] assms(4)
  by (auto simp: gives_def split: if_splits)

theorem get_buffer_fresh_witness:
  "case get_buffer demo_api int 1 True demo_handle demo_storage of
     Inr (ok, h, s') \<Rightarrow> ok \<and> content s' 1 = Some (replicate 16 0) | _ \<Rightarrow> False"
proof -
  have "case get_buffer demo_api int 1 True demo_handle demo_storage of Inr r \<Rightarrow> True | Inl e \<Rightarrow> False"
    by code_simp
  then obtain ok h s' where g: "get_buffer demo_api int 1 True demo_handle demo_storage = Inr (ok, h, s')"
    by (auto split: sum.splits)
  have "content demo_storage 1 = None" "list_ex (\<lambda>b. \<not> b_is_used b) (ms_buffers demo_storage)"
    "ms_piece_length demo_storage = 16" by (code_simp, code_simp, code_simp)
  with get_buffer_fresh [OF wf_demo_storage demo_storage_facts(1,2) g] g show ?thesis
    by (auto simp: list_ex_iff)
qed

section \<open>Trimming and the accounts of the pool\<close>

lemma filter_by_use:
  assumes "map b_is_used bs' = map b_is_used bs" and "map b_pi bs' = map b_pi bs"
  shows "length (filter (unreserved s) bs') = length (filter (unreserved s) bs)"
    and "length (filter (reserved_used s) bs') = length (filter (reserved_used s) bs)"
proof -
  let ?g = "\<lambda>b. (b_is_used b, b_pi b)"
  have "length bs' = length bs" using assms(1) map_eq_imp_length_eq by blast
  then have z: "map ?g bs' = map ?g bs" using assms by (induction bs' bs rule: list_induct2) simp_all
  have f: "length (filter (\<lambda>b. f (?g b)) xs) = length (filter f (map ?g xs))" for f and xs :: "memory_buffer list"
    by (induction xs) auto
  have u: "unreserved s = (\<lambda>b. (\<lambda>x. fst x \<and> \<not> is_reserved s (snd x)) (?g b))"
    "reserved_used s = (\<lambda>b. (\<lambda>x. fst x \<and> is_reserved s (snd x)) (?g b))"
    by (auto simp: unreserved_def reserved_used_def)
  have e: "length (filter (\<lambda>b. f (?g b)) bs') = length (filter (\<lambda>b. f (?g b)) bs)" for f
    using f [of f bs'] f [of f bs] z by simp
  show "length (filter (unreserved s) bs') = length (filter (unreserved s) bs)"
    using e [of "\<lambda>x. fst x \<and> \<not> is_reserved s (snd x)"] u(1) by simp
  show "length (filter (reserved_used s) bs') = length (filter (reserved_used s) bs)"
    using e [of "\<lambda>x. fst x \<and> is_reserved s (snd x)"] u(2) by simp
qed

lemma accounted_same_use:
  assumes "accounted s" and "same_frame s s'"
    and "ms_buffer_used s' = ms_buffer_used s" and "ms_buffer_limit s' = ms_buffer_limit s"
    and "map b_is_used (ms_buffers s') = map b_is_used (ms_buffers s)"
    and "map b_pi (ms_buffers s') = map b_pi (ms_buffers s)"
  shows "accounted s'"
  using assms filter_by_use [OF assms(5,6)] unreserved_frame [OF assms(2)]
  by (simp add: accounted_def same_frame_def)

lemma clock_ahead_touch:
  assumes "clock_ahead now s" and "ms_ticks s' = Suc (ms_ticks s)"
    and "\<forall>b' \<in> set (ms_buffers s'). b' \<in> set (ms_buffers s) \<or> b_accessed b' = now (ms_ticks s)"
  shows "clock_ahead now s'"
proof -
  have "now (ms_ticks s) < now (Suc (ms_ticks s))" using assms(1) by (simp add: clock_ahead_def strict_mono_less)
  with assms show ?thesis unfolding clock_ahead_def by (metis less_trans)
qed

text \<open>A pool below its limit has a free buffer.\<close>

lemma room_free:
  assumes wf: "wf_storage s" and init: "ms_is_initialized s" and acc: "accounted s"
    and room: "ms_buffer_used s < ms_buffer_limit s"
  shows "\<exists>b \<in> set (ms_buffers s). \<not> b_is_used b"
proof (rule ccontr)
  assume all: "\<not> ?thesis"
  have "length (filter (unreserved s) bs) + length (filter (reserved_used s) bs) = length bs"
    if "\<forall>b \<in> set bs. b_is_used b" for bs
    using that by (induction bs) (auto simp: unreserved_def reserved_used_def)
  with all have "length (filter (unreserved s) (ms_buffers s)) +
      length (filter (reserved_used s) (ms_buffers s)) = length (ms_buffers s)" by blast
  with acc room wf_lengths(2) [OF wf init] show False by (auto simp: accounted_def)
qed

lemma get_buffer_accounts:
  assumes wf: "wf_storage s" and init: "ms_is_initialized s" and v: "valid_piece s pc"
    and acc: "accounted s" and clk: "clock_ahead now s" and room: "ms_buffer_used s < ms_buffer_limit s"
  obtains s' where "get_write_buffer api now pc h s = Inr (True, h, s')" and "gives pc s True s'"
    and "accounted s'" and "clock_ahead now s'" and "ms_buffer_limit s - 1 \<le> ms_buffer_limit s'"
    and "ms_buffer_limit s' \<le> ms_buffer_limit s"
proof -
  obtain ok s' where g: "get_buffer api now pc True h s = Inr (ok, h, s')" "gives pc s ok s'"
    using get_buffer_write [OF wf init v, of api now h] by (elim exE conjE)
  have ok: "ok" using g(2) room_free [OF wf init acc room] by (auto simp: gives_def split: if_splits)
  have fr: "same_frame s s'" using g(2) by (simp add: gives_def)
  have "accounted s' \<and> clock_ahead now s' \<and> ms_buffer_limit s - 1 \<le> ms_buffer_limit s' \<and>
    ms_buffer_limit s' \<le> ms_buffer_limit s"
  proof (cases "is_buffered (ms_pieces s ! nat pc)")
    case True
    then have "s' = s" using g(2) v by (auto simp: gives_def content_None_iff split: if_splits)
    with acc clk show ?thesis by simp
  next
    case False
    have pc: "0 \<le> pc" "nat pc < length (ms_pieces s)" using v valid_nat [OF wf v] by (auto simp: valid_piece_def)
    have idx: "p_index (ms_pieces s ! nat pc) = pc"
      using wf_piece [OF wf v] pc(1) by (simp add: piece_ok_def Let_def)
    obtain i where i: "first_unused (ms_buffers s) = Some i"
      using room_free [OF wf init acc room] first_unused_None by fastforce
    let ?b' = "(ms_buffers s ! i)\<lparr>b_is_used := True, b_pi := pc, b_accessed := now (ms_ticks s)\<rparr>"
    have lt: "i < length (ms_buffers s)" "\<not> b_is_used (ms_buffers s ! i)" using first_unused_Some [OF i] by simp_all
    have res: "bit_test (ms_reserved_pieces s) pc = is_reserved s pc" using init by (simp add: is_reserved_def)
    have s': "ms_buffers s' = (ms_buffers s)[i := ?b'] \<and> ms_ticks s' = Suc (ms_ticks s) \<and>
        ms_buffer_limit s' = ms_buffer_limit s - (if is_reserved s pc then 1 else 0) \<and>
        ms_buffer_used s' = ms_buffer_used s + (if is_reserved s pc then 0 else 1)"
      using g(1) False pc wf_lengths(2,3) [OF wf] init i idx
      by (auto simp: get_buffer_def Let_def res split: if_splits)
    have "unreserved s ?b' = (\<not> is_reserved s pc)" "reserved_used s ?b' = is_reserved s pc"
      "\<not> unreserved s (ms_buffers s ! i)" "\<not> reserved_used s (ms_buffers s ! i)"
      using lt(2) by (simp_all add: unreserved_def reserved_used_def)
    then have "accounted s'"
      using s' acc unreserved_frame [OF fr] fr
      by (auto simp: accounted_def length_filter_update [OF lt(1)] same_frame_def)
    moreover have "clock_ahead now s'"
      using s' set_update_subset_insert [of "ms_buffers s" i ?b']
      by (intro clock_ahead_touch [OF clk]) fastforce+
    ultimately show ?thesis using s' by simp
  qed
  with g ok show thesis by (intro that) (auto simp: get_write_buffer_def)
qed




lemma used_has_content:
  assumes wf: "wf_storage s" and b: "b \<in> set (ms_buffers s)" "b_is_used b"
  shows "content s (b_pi b) \<noteq> None"
proof -
  obtain j where j: "j < length (ms_buffers s)" "b = ms_buffers s ! j" using b(1) by (auto simp: in_set_conv_nth)
  from wf_buffer [OF wf j(1)] j(2) b(2) wf_lengths(1) [OF wf] show ?thesis
    by (auto simp: buffer_ok_def Let_def content_def valid_piece_def is_buffered_def)
qed

lemma content_has_used:
  assumes wf: "wf_storage s" and c: "content s pc = Some m"
  shows "\<exists>b \<in> set (ms_buffers s). b_is_used b \<and> b_pi b = pc"
proof -
  have v: "valid_piece s pc" and buf: "is_buffered (ms_pieces s ! nat pc)"
    using c by (auto simp: content_def split: if_splits)
  let ?j = "nat (p_bi (ms_pieces s ! nat pc))"
  from wf_owner [OF wf v buf] have j: "?j < length (ms_buffers s)" "b_pi (ms_buffers s ! ?j) = pc" by simp_all
  with wf_buffer [OF wf j(1)] v have "b_is_used (ms_buffers s ! ?j)"
    by (auto simp: buffer_ok_def Let_def valid_piece_def)
  with j show ?thesis by (meson nth_mem)
qed


definition one_piece_storage :: memory_storage where
  "one_piece_storage = initialize (new_memory_storage False 1048576
     \<lparr>fl_num_pieces = 1, fl_piece_length = 16, fl_piece_size = \<lambda>i. 16\<rparr>)"


text \<open>
  Growing the pool forgets the reserved buffers: if reserved pieces are in memory and the
  memory size is raised, \<open>buffer_limit\<close> becomes the size of the whole pool, although it is
  meant to be what the reserved pieces leave, so the pool can fill up before trimming starts.
\<close>

lemma set_memory_size_forgets_reserved:
  assumes b: "b \<in> set (ms_buffers s)" "b_is_used b" "is_reserved s (b_pi b)"
    and n: "ms_capacity s < n"
  shows "ms_buffer_limit (set_memory_size n s) = ms_buffer_size (set_memory_size n s) \<and>
    \<not> accounted (set_memory_size n s)"
proof -
  let ?t = "set_memory_size n s"
  have l: "ms_buffer_limit ?t = ms_buffer_size ?t" using n by (simp add: set_memory_size_def Let_def)
  have r: "reserved_used ?t = reserved_used s"
    using n by (auto simp: fun_eq_iff reserved_used_def is_reserved_def set_memory_size_def Let_def)
  have "b \<in> set (filter (reserved_used ?t) (ms_buffers ?t))"
    using b n unfolding r by (auto simp: reserved_used_def set_memory_size_def Let_def)
  then have "0 < length (filter (reserved_used ?t) (ms_buffers ?t))" by (rule length_pos_if_in_set)
  with l show ?thesis by (simp add: accounted_def)
qed

text \<open>Piece 1 is reserved and then written.\<close>

definition demo_reserved :: "memory_storage result" where
  "demo_reserved = bind_result (update_reserved_pieces [1] demo_storage)
     (\<lambda>s. bind_result (get_write_buffer demo_api int 1 demo_handle s) (\<lambda>(ok, h, s'). Inr s'))"

lemma set_memory_size_forgets_reserved_example:
  "case demo_reserved of Inr s \<Rightarrow> accounted s \<and> \<not> accounted (set_memory_size 128 s) | Inl e \<Rightarrow> False"
proof -
  have "case demo_reserved of Inr s \<Rightarrow> accounted s \<and> ms_capacity s < 128 \<and>
      list_ex (\<lambda>b. b_is_used b \<and> is_reserved s (b_pi b)) (ms_buffers s) | Inl e \<Rightarrow> False"
    by code_simp
  then obtain s b where s: "demo_reserved = Inr s" "accounted s" "ms_capacity s < 128"
    and b: "b \<in> set (ms_buffers s)" "b_is_used b" "is_reserved s (b_pi b)"
    by (auto simp: list_ex_iff split: sum.splits)
  have "\<not> accounted (set_memory_size 128 s)" by (rule set_memory_size_forgets_reserved [OF b s(3), THEN conjunct2])
  with s(2) show ?thesis unfolding s(1) by simp
qed

end
