(* ===== verification/Refinement.thy ===== *)
theory Refinement
  imports Prelude
begin

text \<open>
  Runs of labelled step relations, and the contract under which every run of a detailed system is
  a run of an abstract one.
\<close>

inductive runs :: "('s \<Rightarrow> 'l \<Rightarrow> 's \<Rightarrow> bool) \<Rightarrow> 's \<Rightarrow> 'l list \<Rightarrow> 's \<Rightarrow> bool" for does where
  idle: "runs does s [] s"
| more: "does s l s' \<Longrightarrow> runs does s' ls s'' \<Longrightarrow> runs does s (l # ls) s''"

inductive_simps runs_simps: "runs does s [] s'" "runs does s (l # ls) s'"

lemma runs_single: "does s l s' \<Longrightarrow> runs does s [l] s'"
  by (blast intro: runs.intros)

text \<open>
  \<open>view\<close> forgets the details; \<open>inv\<close> holds between the steps of the detailed system.
\<close>

locale simulation =
  fixes detailed :: "'s \<Rightarrow> 'l \<Rightarrow> 's \<Rightarrow> bool"
    and abstract :: "'a \<Rightarrow> 'l \<Rightarrow> 'a \<Rightarrow> bool"
    and inv :: "'s \<Rightarrow> bool"
    and view :: "'s \<Rightarrow> 'a"
  assumes inv_kept: "inv s \<Longrightarrow> detailed s l s' \<Longrightarrow> inv s'"
    and simulates: "inv s \<Longrightarrow> detailed s l s' \<Longrightarrow> abstract (view s) l (view s')"
begin

lemma run_refines: "runs detailed s ls s' \<Longrightarrow> inv s \<Longrightarrow> inv s' \<and> runs abstract (view s) ls (view s')"
proof (induction rule: runs.induct)
  case (idle s)
  then show ?case by (simp add: runs.idle)
next
  case (more s l s' ls s'')
  then show ?case using inv_kept simulates by (blast intro: runs.more)
qed

end

end
