(* ===== verification/Memory_Refinement.thy ===== *)
theory Memory_Refinement
  imports Memory_Guarantees Refinement
begin

text \<open>
  The memory storage as its callers see it: a cache that holds some pieces of the torrent, may
  forget any piece that is not pinned whenever another is written, and otherwise returns what was
  written. Pools, buffers, counters, clocks and the torrent handle are not part of this view.
\<close>

section \<open>Calls\<close>

datatype storage_call =
  Initialize
| Resize int
| Bind_handle
| Logging bool
| Readers "int list"
| Reserve "int list"
| Read_at int int "byte list list"
| Write_at int int "byte list list"

text \<open>A reply: the number of bytes, and the caller's buffers afterwards.\<close>

type_synonym reply = "int \<times> byte list list"

fun serve ::
  "'h lt_api \<Rightarrow> clock \<Rightarrow> 'h \<Rightarrow> storage_call \<Rightarrow> memory_storage \<Rightarrow> (reply \<times> memory_storage) result option" where
  "serve api now h Initialize s = Some (Inr ((0, []), initialize s))"
| "serve api now h (Resize n) s = Some (Inr ((0, []), set_memory_size n s))"
| "serve api now h Bind_handle s = Some (Inr ((0, []), set_torrent_handle s))"
| "serve api now h (Logging on) s = Some (Inr ((0, []), if on then enable_logging s else disable_logging s))"
| "serve api now h (Readers ps) s = Some (bind_result (update_reader_pieces ps s) (\<lambda>s'. Inr ((0, []), s')))"
| "serve api now h (Reserve ps) s = Some (bind_result (update_reserved_pieces ps s) (\<lambda>s'. Inr ((0, []), s')))"
| "serve api now h (Read_at pc off bufs) s =
     Some (bind_result (readv api now bufs pc off h s) (\<lambda>(n, bufs', h', s'). Inr ((n, bufs'), s')))"
| "serve api now h (Write_at pc off bufs) s =
     map_option (\<lambda>r. bind_result r (\<lambda>(n, h', s'). Inr ((n, bufs), s'))) (writev api now bufs pc off h s)"

text \<open>
  What libtorrent and the application call: the storage is initialised once and resized after
  that; reads and writes name a piece of the torrent and a place inside it.
\<close>

fun allowed :: "file_layout \<Rightarrow> memory_storage \<Rightarrow> storage_call \<Rightarrow> bool" where
  "allowed fl s Initialize \<longleftrightarrow> \<not> ms_is_initialized s"
| "allowed fl s (Resize n) \<longleftrightarrow> ms_is_initialized s \<and> n \<le> (2 ^ 31 - 1) * fl_piece_length fl"
| "allowed fl s (Read_at pc off bufs) \<longleftrightarrow> 0 \<le> pc \<and> pc < fl_num_pieces fl \<and> 0 \<le> off \<and> off \<le> fl_piece_size fl pc"
| "allowed fl s (Write_at pc off bufs) \<longleftrightarrow> 0 \<le> pc \<and> pc < fl_num_pieces fl \<and> 0 \<le> off \<and> off \<le> fl_piece_size fl pc"
| "allowed fl s _ \<longleftrightarrow> True"

text \<open>Libtorrent may change the torrent behind the handle between any two calls: \<open>h\<close> is arbitrary.\<close>

definition storage_does ::
  "'h lt_api \<Rightarrow> clock \<Rightarrow> file_layout \<Rightarrow> memory_storage \<Rightarrow> storage_call \<times> reply \<Rightarrow> memory_storage \<Rightarrow> bool" where
  "storage_does api now fl s l s' \<longleftrightarrow>
     allowed fl s (fst l) \<and> (\<exists>h. serve api now h (fst l) s = Some (Inr (snd l, s')))"

section \<open>The abstract cache\<close>

record cache =
  held :: "int \<Rightarrow> byte list option"
  pinned :: "int set"

text \<open>
  A hit copies the piece from the offset on into the buffers; a miss delivers nothing. A write
  extends what is held, or a piece of zeros, and may drop unpinned pieces; it can also be refused
  when the piece is not held. Pins are replaced as a whole, and ignored before initialisation.
\<close>

inductive cache_does :: "file_layout \<Rightarrow> cache \<Rightarrow> storage_call \<times> reply \<Rightarrow> cache \<Rightarrow> bool" for fl where
  hit: "held c pc = Some m \<Longrightarrow> n = min (int (length m) - off) (int (length (concat bufs))) \<Longrightarrow>
    cache_does fl c (Read_at pc off bufs, n, fill (drop (nat off) m) bufs) c"
| miss: "held c pc = None \<Longrightarrow> cache_does fl c (Read_at pc off bufs, 0, bufs) c"
| stored: "m = (case held c pc of Some m \<Rightarrow> m | None \<Rightarrow> replicate (nat (fl_piece_length fl)) 0) \<Longrightarrow>
    held c' pc = Some (overlay m (nat off) (take (nat (fl_piece_size fl pc - off)) (concat bufs))) \<Longrightarrow>
    \<forall>q. q \<noteq> pc \<longrightarrow> held c' q = held c q \<or> held c' q = None \<and> q \<notin> pinned c \<Longrightarrow> pinned c' = pinned c \<Longrightarrow>
    n = min (fl_piece_size fl pc - off) (int (length (concat bufs))) \<Longrightarrow>
    cache_does fl c (Write_at pc off bufs, n, bufs) c'"
| refused: "held c pc = None \<Longrightarrow> cache_does fl c (Write_at pc off bufs, 0, bufs) c"
| pin: "cache_does fl c (Reserve ps, 0, []) (c\<lparr>pinned := set ps\<rparr>)"
| pin_early: "cache_does fl c (Reserve ps, 0, []) c"
| started: "cache_does fl c (Initialize, 0, []) c"
| resized: "cache_does fl c (Resize n, 0, []) c"
| bound: "cache_does fl c (Bind_handle, 0, []) c"
| logging: "cache_does fl c (Logging on, 0, []) c"
| readers: "cache_does fl c (Readers ps, 0, []) c"

inductive_cases read_cases: "cache_does fl c (Read_at pc off bufs, r) c'"

definition view :: "memory_storage \<Rightarrow> cache" where
  "view s = \<lparr>held = content s, pinned = {q. is_reserved s q}\<rparr>"

text \<open>The storage was built for this layout.\<close>

definition built_for :: "file_layout \<Rightarrow> memory_storage \<Rightarrow> bool" where
  "built_for fl s \<longleftrightarrow> wf_storage s \<and> sized s \<and> ms_piece_length s = fl_piece_length fl \<and>
     ms_piece_count s = fl_num_pieces fl \<and> (\<forall>pc. valid_piece s pc \<longrightarrow> piece_len s pc = fl_piece_size fl pc) \<and>
     (\<not> ms_is_initialized s \<longrightarrow> (\<forall>q. \<not> bit_test (ms_reserved_pieces s) q))"

section \<open>Each call simulates\<close>

lemma built_for_D:
  assumes "built_for fl s"
  shows "wf_storage s" and "sized s" and "ms_piece_length s = fl_piece_length fl" and "ms_piece_count s = fl_num_pieces fl"
    and "valid_piece s pc \<Longrightarrow> piece_len s pc = fl_piece_size fl pc"
    and "\<not> ms_is_initialized s \<Longrightarrow> \<not> bit_test (ms_reserved_pieces s) q"
  using assms by (auto simp: built_for_def)

lemma built_for_new:
  assumes "layout_ok fl" and "0 \<le> n" and "n \<le> (2 ^ 31 - 1) * fl_piece_length fl"
  shows "built_for fl (new_memory_storage False n fl)" and "view (new_memory_storage False n fl) = \<lparr>held = Map.empty, pinned = {}\<rparr>"
proof -
  let ?s = "new_memory_storage False n fl"
  have "sized ?s" using assms by (auto simp: sized_def new_memory_storage_def Let_def)
  then show "built_for fl ?s" using assms wf_memory_storage
    by (auto simp: built_for_def new_memory_storage_def Let_def valid_piece_def new_memory_piece_def bit_test_def)
  have "content ?s q = None" for q
    by (auto simp: content_def valid_piece_def new_memory_storage_def Let_def new_memory_piece_def is_buffered_def)
  then show "view ?s = \<lparr>held = Map.empty, pinned = {}\<rparr>"
    by (auto simp: view_def is_reserved_def new_memory_storage_def Let_def)
qed

lemma built_for_frame:
  assumes "built_for fl s" and "same_frame s s'" and "wf_storage s'"
  shows "built_for fl s'" and "is_reserved s' = is_reserved s"
proof -
  note D = built_for_D [OF assms(1)]
  have "valid_piece s' pc \<longleftrightarrow> valid_piece s pc" for pc using assms(2) by (simp add: valid_piece_def same_frame_def)
  moreover have "piece_len s' pc = piece_len s pc" if "valid_piece s pc" for pc
    using same_frame_piece_len [OF assms(2) valid_nat [OF D(1) that]] .
  ultimately show "built_for fl s'" using D assms(2,3) sized_frame [OF assms(2) D(2)]
    by (auto simp: built_for_def same_frame_def)
  show "is_reserved s' = is_reserved s" using assms(2) by (auto simp: is_reserved_def same_frame_def fun_eq_iff)
qed

lemma uninitialized_empty:
  assumes "wf_storage s" and "\<not> ms_is_initialized s"
  shows "content s q = None"
proof (rule ccontr)
  assume "content s q \<noteq> None"
  then have "valid_piece s q" "is_buffered (ms_pieces s ! nat q)" by (auto simp: content_def split: if_splits)
  then have "nat (p_bi (ms_pieces s ! nat q)) < length (ms_buffers s)" using wf_owner(2) assms(1) by blast
  with assms wf_shape [OF assms(1)] show False by (simp add: shape_ok_def)
qed

lemma does_read:
  assumes b: "built_for fl s" and a: "allowed fl s (Read_at pc off bufs)"
    and r: "readv api now bufs pc off h s = Inr (n, bufs', h', s')"
  shows "built_for fl s' \<and> cache_does fl (view s) (Read_at pc off bufs, n, bufs') (view s')"
proof -
  note D = built_for_D [OF b]
  have v: "valid_piece s pc" using a D(4) by (simp add: valid_piece_def)
  have P: "piece_len s pc \<le> ms_piece_length s" using wf_piece [OF D(1) v] by (simp add: piece_ok_def Let_def)
  then have off: "0 \<le> off" "off \<le> ms_piece_length s" using a D(5) [OF v] by simp_all
  have st: "wf_storage s'" "same_frame s s'" "content s' = content s" using readv_step [OF D(1) v off r] by simp_all
  have bf: "built_for fl s'" "view s' = view s"
    using built_for_frame [OF b st(2,1)] st(3) by (simp_all add: view_def)
  show ?thesis
  proof (cases "content s pc")
    case None
    then have "readv api now bufs pc off h s = Inr (0, bufs, h, s)"
      using get_buffer_read [OF D(1) v, of api now h]
      by (cases "ms_is_initialized s") (auto simp: readv_def get_read_buffer_def)
    with r None bf show ?thesis by (auto intro: cache_does.miss simp: view_def)
  next
    case (Some m)
    then have init: "ms_is_initialized s" using uninitialized_empty [OF D(1)] by fastforce
    have "length m = nat (ms_piece_length s)"
      using wf_owner(4) [OF D(1) v] v Some by (auto simp: content_def split: if_splits)
    then have "off \<le> int (length m)" using off wf_lengths(4) [OF D(1)] by simp
    with readv_spec [OF D(1) init v Some off(1), of api now bufs h] r
    have "n = min (int (length m) - off) (int (length (concat bufs)))" "bufs' = fill (drop (nat off) m) bufs" by auto
    with Some bf show ?thesis by (auto intro!: cache_does.hit simp: view_def)
  qed
qed

lemma does_write:
  assumes b: "built_for fl s" and a: "allowed fl s (Write_at pc off bufs)"
    and r: "writev api now bufs pc off h s = Some (Inr (n, h', s'))"
  shows "built_for fl s' \<and> cache_does fl (view s) (Write_at pc off bufs, n, bufs) (view s')"
proof (cases "ms_is_initialized s")
  case True
  note D = built_for_D [OF b]
  have v: "valid_piece s pc" using a D(4) by (simp add: valid_piece_def)
  have off: "0 \<le> off" "off \<le> piece_len s pc" using a D(5) [OF v] by simp_all
  have e: "write_effect s pc off bufs n s'" using writev_effect [OF D(1) True v off r] by auto
  note stored = e [unfolded write_effect_def written_def D(3) D(5) [OF v], THEN conjunct2, THEN conjunct2]
  from e have bf: "built_for fl s'" "is_reserved s' = is_reserved s"
    using built_for_frame [OF b] by (auto simp: write_effect_def)
  consider "n = 0" "s' = s" "content s pc = None" |
    (kept) "n = min (fl_piece_size fl pc - off) (int (length (concat bufs)))"
      "content s' pc = Some (overlay (case content s pc of Some m \<Rightarrow> m
         | None \<Rightarrow> replicate (nat (fl_piece_length fl)) 0) (nat off) (take (nat (fl_piece_size fl pc - off)) (concat bufs)))"
      "\<forall>q. q \<noteq> pc \<longrightarrow> content s' q = content s q \<or> content s' q = None"
      "\<forall>q. q \<noteq> pc \<and> is_reserved s q \<longrightarrow> content s' q = content s q"
    using stored by (elim disjE conjE)
  then show ?thesis
  proof cases
    case 1
    with bf show ?thesis by (auto intro: cache_does.refused simp: view_def)
  next
    case kept
    have "\<forall>q. q \<noteq> pc \<longrightarrow> held (view s') q = held (view s) q \<or> held (view s') q = None \<and> q \<notin> pinned (view s)"
      using kept(3,4) by (auto simp: view_def)
    with bf kept(1,2) show ?thesis by (auto intro!: cache_does.stored simp: view_def)
  qed
next
  case False
  then have "n = 0" "s' = s" using r by (auto simp: writev_def)
  with b uninitialized_empty [OF built_for_D(1) [OF b] False] show ?thesis
    by (auto intro: cache_does.refused simp: view_def)
qed

text \<open>The other calls leave the contents alone.\<close>

lemma built_for_silent:
  assumes b: "built_for fl s" and w: "wf_storage s'" "sized s'" and "ms_piece_length s' = ms_piece_length s"
    and "ms_piece_count s' = ms_piece_count s" and "ms_pieces s' = ms_pieces s" and "ms_is_initialized s'"
  shows "built_for fl s'"
  using built_for_D [OF b] assms(2-) by (auto simp: built_for_def valid_piece_def)

lemma content_grow:
  assumes "wf_storage s" and "ms_pieces s' = ms_pieces s" and "ms_piece_count s' = ms_piece_count s"
    and "\<forall>j < length (ms_buffers s). ms_buffers s' ! j = ms_buffers s ! j"
  shows "content s' = content s"
proof
  fix q
  show "content s' q = content s q"
  proof (cases "valid_piece s q \<and> is_buffered (ms_pieces s ! nat q)")
    case True
    then have "nat (p_bi (ms_pieces s ! nat q)) < length (ms_buffers s)" using wf_owner(2) assms(1) by blast
    with True assms(2-) show ?thesis by (simp add: content_def valid_piece_def)
  qed (use assms(2,3) in \<open>auto simp: content_def valid_piece_def\<close>)
qed

lemma does_initialize:
  assumes b: "built_for fl s" and a: "\<not> ms_is_initialized s"
  shows "built_for fl (initialize s) \<and> view (initialize s) = view s"
proof -
  note D = built_for_D [OF b]
  have "built_for fl (initialize s)"
    using D(2) by (intro built_for_silent [OF b] wf_initialize) (simp_all add: D(1) a initialize_def sized_def)
  moreover have "content (initialize s) = content s"
    by (rule content_grow [OF D(1)]) (simp_all add: initialize_def nth_append)
  moreover have "\<not> is_reserved (initialize s) q" for q
  proof
    assume "is_reserved (initialize s) q"
    then have "bit_test (bitset_resize (ms_reserved_pieces s) (nat (ms_piece_count s + 10))) q"
      by (simp add: is_reserved_def initialize_def)
    then have "bit_test (ms_reserved_pieces s) q"
      by (auto simp: bitset_resize_def bit_test_def nth_append min_def split: if_splits)
    with D(6) [OF a] show False by blast
  qed
  ultimately show ?thesis using a by (simp add: view_def is_reserved_def)
qed

lemma does_resize:
  assumes b: "built_for fl s" and a: "ms_is_initialized s" "n \<le> (2 ^ 31 - 1) * fl_piece_length fl"
  shows "built_for fl (set_memory_size n s) \<and> view (set_memory_size n s) = view s"
proof -
  note D = built_for_D [OF b]
  have w: "wf_storage (set_memory_size n s)" "sized (set_memory_size n s)"
    using wf_set_memory_size [OF D(1) a(1) D(2)] a(2) D(3) by simp_all
  then have "built_for fl (set_memory_size n s)"
    by (rule built_for_silent [OF b]) (simp_all add: set_memory_size_def Let_def a)
  moreover have "content (set_memory_size n s) = content s"
    by (rule content_grow [OF D(1)]) (simp_all add: set_memory_size_def Let_def nth_append)
  ultimately show ?thesis by (simp add: view_def is_reserved_def set_memory_size_def Let_def)
qed

lemma does_reserve:
  assumes b: "built_for fl s" and r: "update_reserved_pieces ps s = Inr s'"
  shows "built_for fl s' \<and> (view s' = view s \<or> view s' = (view s)\<lparr>pinned := set ps\<rparr>)"
proof (cases "ms_is_initialized s")
  case True
  then obtain bs where bs: "bitset_set_all (replicate (length (ms_reserved_pieces s)) False) ps = Inr bs"
    and s': "s' = s\<lparr>ms_buffer_reserved := int (length ps), ms_reserved_pieces := bs\<rparr>"
    using r by (auto simp: update_reserved_pieces_def bind_result_eq_Inr)
  have "wf_storage s'" using wf_update_reserved_pieces [OF built_for_D(1) [OF b] r] .
  then have "built_for fl s'"
    using built_for_D(2) [OF b] True by (intro built_for_silent [OF b]) (simp_all add: s' sized_def)
  moreover have "content s' = content s" by (rule content_grow [OF built_for_D(1) [OF b]]) (simp_all add: s')
  moreover have "is_reserved s' q \<longleftrightarrow> q \<in> set ps" for q
    using bitset_set_all_test [OF bs, of q] True by (auto simp: is_reserved_def s' bit_test_def)
  ultimately show ?thesis by (simp add: view_def)
qed (use b r in \<open>simp add: update_reserved_pieces_def\<close>)

lemma does_readers:
  assumes b: "built_for fl s" and r: "update_reader_pieces ps s = Inr s'"
  shows "built_for fl s' \<and> view s' = view s"
proof (cases "ms_is_initialized s")
  case True
  then obtain bs where s': "s' = s\<lparr>ms_reader_pieces := bs\<rparr>"
    using r by (auto simp: update_reader_pieces_def bind_result_eq_Inr)
  have "wf_storage s'" using wf_update_reader_pieces [OF built_for_D(1) [OF b] r] .
  then have "built_for fl s'"
    using built_for_D(2) [OF b] True by (intro built_for_silent [OF b]) (simp_all add: s' sized_def)
  moreover have "content s' = content s" by (rule content_grow [OF built_for_D(1) [OF b]]) (simp_all add: s')
  ultimately show ?thesis by (simp add: view_def is_reserved_def s')
qed (use b r in \<open>simp add: update_reader_pieces_def\<close>)

lemma does_flags:
  assumes b: "built_for fl s"
  shows "built_for fl (set_torrent_handle s) \<and> view (set_torrent_handle s) = view s"
    and "built_for fl (enable_logging s) \<and> view (enable_logging s) = view s"
    and "built_for fl (disable_logging s) \<and> view (disable_logging s) = view s"
  using built_for_D [OF b] wf_set_torrent_handle wf_logging
  by (auto simp: built_for_def view_def set_torrent_handle_def enable_logging_def disable_logging_def sized_def
      valid_piece_def is_reserved_def content_def fun_eq_iff)

lemma storage_does_cache:
  assumes b: "built_for fl s" and d: "storage_does api now fl s l s'"
  shows "built_for fl s' \<and> cache_does fl (view s) l (view s')"
proof -
  obtain call n bufs' h where l: "l = (call, n, bufs')" and a: "allowed fl s call"
    and r: "serve api now h call s = Some (Inr ((n, bufs'), s'))"
    using d by (cases l) (auto simp: storage_does_def)
  show ?thesis
  proof (cases call)
    case (Read_at pc off bufs)
    with r obtain h' where "readv api now bufs pc off h s = Inr (n, bufs', h', s')" by (auto simp: bind_result_eq_Inr)
    with does_read [OF b] a l Read_at show ?thesis by simp
  next
    case (Write_at pc off bufs)
    with r obtain h' where "writev api now bufs pc off h s = Some (Inr (n, h', s'))" "bufs' = bufs"
      by (auto simp: bind_result_eq_Inr)
    with does_write [OF b] a l Write_at show ?thesis by simp
  next
    case (Reserve ps)
    with r have "update_reserved_pieces ps s = Inr s'" "n = 0" "bufs' = []" by (auto simp: bind_result_eq_Inr)
    from does_reserve [OF b this(1)] l Reserve this(2,3) show ?thesis
      using cache_does.pin [of fl "view s" ps] cache_does.pin_early [of fl "view s" ps] by auto
  next
    case (Readers ps)
    with r have "update_reader_pieces ps s = Inr s'" "n = 0" "bufs' = []" by (auto simp: bind_result_eq_Inr)
    with does_readers [OF b] l Readers show ?thesis by (auto intro: cache_does.readers)
  qed (use r l a does_initialize [OF b] does_resize [OF b] does_flags [OF b] in
      \<open>auto intro: cache_does.started cache_does.resized cache_does.bound cache_does.logging split: if_splits\<close>)
qed

interpretation storage_cache: simulation "storage_does api now fl" "cache_does fl" "built_for fl" view
  by unfold_locales (use storage_does_cache in blast)+

section \<open>The storage is a cache\<close>


definition small_layout :: file_layout where
  "small_layout = \<lparr>fl_num_pieces = 3, fl_piece_length = 4, fl_piece_size = (\<lambda>i. if i = 2 then 2 else 4)\<rparr>"


end
