(* ===== verification/Configuration.thy ===== *)
theory Configuration
  imports Prelude
begin

text \<open>
  The configuration of \<open>src/src/app/config.h\<close> and \<open>config.cpp\<close>: the enumerations with
  their JSON names, the record of settings with its defaults, conversion of enumerations from and
  to strings, and the constructor that merges defaults, command line, configuration file and the
  automatic memory size. \<open>boost::program_options\<close>, \<open>boost::algorithm::split\<close>, the
  JSON library and the file system are parameters (\<open>po_vars\<close>, \<open>config_env\<close>).
\<close>

section \<open>Enumerations\<close>

datatype proxy_type_t = Proxy_none | Proxy_socks4 | Proxy_socks5 | Proxy_socks5_pw | Proxy_http
    | Proxy_http_pw | Proxy_i2p_proxy

datatype encryption_type_t = Encryption_disabled | Encryption_enabled | Encryption_forced

datatype storage_type_t = Storage_automatic | Storage_file | Storage_memory

datatype auto_memory_strategy_type_t = Strategy_min | Strategy_standard | Strategy_max

datatype user_agent_type_t = Agent_lt2http | Agent_transmission_1_9_3 |
    Agent_transmission_2_9_2 | Agent_libtorrent_1_1_0 | Agent_libtorrent_1_2_0 |
    Agent_bittorrent_7_4_3 | Agent_bittorrent_7_5_0 | Agent_utorrent_2_2_1 | Agent_utorrent_3_2_0
    | Agent_utorrent_3_4_9 | Agent_deluge_1_3_6_0 | Agent_deluge_1_3_12_0 | Agent_vuze_5_7_3_0

datatype extra_trackers_t = Trackers_none | Trackers_all | Trackers_best | Trackers_minimum

datatype modify_trackers_t = Modify_first_time | Modify_each_time

datatype lt_profile_t = Profile_default_profile | Profile_minimal_memory | Profile_high_speed

text \<open>The values in declaration order, and the names that the \<open>JS_ENUM\<close> macro gives them.\<close>

definition proxy_values :: "proxy_type_t list" where
  "proxy_values =
     [Proxy_none, Proxy_socks4, Proxy_socks5, Proxy_socks5_pw, Proxy_http, Proxy_http_pw,
     Proxy_i2p_proxy]"

definition proxy_strings :: "string list" where
  "proxy_strings =
     [''none'', ''socks4'', ''socks5'', ''socks5_pw'', ''http'', ''http_pw'', ''i2p_proxy'']"

definition encryption_values :: "encryption_type_t list" where
  "encryption_values =
     [Encryption_disabled, Encryption_enabled, Encryption_forced]"

definition encryption_strings :: "string list" where
  "encryption_strings =
     [''disabled'', ''enabled'', ''forced'']"

definition storage_values :: "storage_type_t list" where
  "storage_values =
     [Storage_automatic, Storage_file, Storage_memory]"

definition storage_strings :: "string list" where
  "storage_strings =
     [''automatic'', ''file'', ''memory'']"

definition strategy_values :: "auto_memory_strategy_type_t list" where
  "strategy_values =
     [Strategy_min, Strategy_standard, Strategy_max]"

definition strategy_strings :: "string list" where
  "strategy_strings =
     [''min'', ''standard'', ''max'']"

definition agent_values :: "user_agent_type_t list" where
  "agent_values =
     [Agent_lt2http, Agent_transmission_1_9_3, Agent_transmission_2_9_2, Agent_libtorrent_1_1_0,
     Agent_libtorrent_1_2_0, Agent_bittorrent_7_4_3, Agent_bittorrent_7_5_0,
     Agent_utorrent_2_2_1, Agent_utorrent_3_2_0, Agent_utorrent_3_4_9, Agent_deluge_1_3_6_0,
     Agent_deluge_1_3_12_0, Agent_vuze_5_7_3_0]"

definition agent_strings :: "string list" where
  "agent_strings =
     [''lt2http'', ''transmission_1_9_3'', ''transmission_2_9_2'', ''libtorrent_1_1_0'',
     ''libtorrent_1_2_0'', ''bittorrent_7_4_3'', ''bittorrent_7_5_0'', ''utorrent_2_2_1'',
     ''utorrent_3_2_0'', ''utorrent_3_4_9'', ''deluge_1_3_6_0'', ''deluge_1_3_12_0'',
     ''vuze_5_7_3_0'']"

definition trackers_values :: "extra_trackers_t list" where
  "trackers_values =
     [Trackers_none, Trackers_all, Trackers_best, Trackers_minimum]"

definition trackers_strings :: "string list" where
  "trackers_strings =
     [''none'', ''all'', ''best'', ''minimum'']"

definition modify_values :: "modify_trackers_t list" where
  "modify_values =
     [Modify_first_time, Modify_each_time]"

definition modify_strings :: "string list" where
  "modify_strings =
     [''first_time'', ''each_time'']"

definition profile_values :: "lt_profile_t list" where
  "profile_values =
     [Profile_default_profile, Profile_minimal_memory, Profile_high_speed]"

definition profile_strings :: "string list" where
  "profile_strings =
     [''default_profile'', ''minimal_memory'', ''high_speed'']"

definition storage_to_string :: "storage_type_t \<Rightarrow> string" where
  "storage_to_string s = (case s of
     Storage_automatic \<Rightarrow> ''Automatic'' | Storage_file \<Rightarrow> ''File'' | Storage_memory \<Rightarrow> ''Memory'')"

definition extra_trackers_to_string :: "extra_trackers_t \<Rightarrow> string" where
  "extra_trackers_to_string s = (case s of
     Trackers_none \<Rightarrow> ''none'' | Trackers_all \<Rightarrow> ''all'' | Trackers_best \<Rightarrow> ''best''
   | Trackers_minimum \<Rightarrow> ''minimum'')"

text \<open>
  \<open>from_string\<close> searches the table of names from index \<open>i\<close> on; \<open>static_cast<T>(i)\<close> is
  the \<open>i\<close>-th value. \<open>ty\<close> is \<open>typeid(T).name()\<close>.
\<close>

fun find_name :: "string list \<Rightarrow> string \<Rightarrow> nat \<Rightarrow> nat option" where
  "find_name [] str i = None"
| "find_name (r # rs) str i =
     (if length r = length str \<and> r = str then Some i else find_name rs str (Suc i))"

definition from_string :: "'a list \<Rightarrow> string list \<Rightarrow> string \<Rightarrow> string \<Rightarrow> 'a result" where
  "from_string vals names ty str = (case find_name names str 0 of
     Some i \<Rightarrow> Inr (vals ! i)
   | None \<Rightarrow> Inl (Throw ParseException (''Cannot parse '' @ [CHR 0x27] @ str @ [CHR 0x27] @ '' into ''
       @ [CHR 0x27] @ ty @ [CHR 0x27] @ '' type'')))"

definition enum_index :: "'a list \<Rightarrow> 'a \<Rightarrow> nat" where
  "enum_index vals x = length (takeWhile (\<lambda>y. y \<noteq> x) vals)"

definition to_string :: "'a list \<Rightarrow> string list \<Rightarrow> 'a \<Rightarrow> string" where
  "to_string vals names x = names ! enum_index vals x"

section \<open>Settings\<close>

definition memory_size_min :: int where
  "memory_size_min = 40 * 1024 * 1024"

definition memory_size_max :: int where
  "memory_size_max = 400 * 1024 * 1024"

definition file_readahead_pieces :: int where
  "file_readahead_pieces = 20"

record config =
  c_config_file :: string
  c_write_config_file :: string
  c_update_file :: bool
  c_web_interface :: string
  c_web_login :: string
  c_web_password :: string
  c_web_port :: int
  c_download_storage :: storage_type_t
  c_auto_memory_size :: bool
  c_auto_memory_size_strategy :: auto_memory_strategy_type_t
  c_memory_size :: int
  c_auto_adjust_memory_size :: bool
  c_download_path :: string
  c_torrents_path :: string
  c_readahead_percents :: int
  c_buffer_size :: int
  c_end_buffer_size :: int
  c_buffer_timeout :: int
  c_max_upload_rate :: int
  c_max_download_rate :: int
  c_limit_after_buffering :: bool
  c_autoload_torrents :: bool
  c_autoload_torrents_paused :: bool
  c_connections_limit :: int
  c_conntracker_limit_auto :: bool
  c_conntracker_limit :: int
  c_seed_forever :: bool
  c_share_ratio_limit :: int
  c_seed_time_ratio_limit :: int
  c_seed_time_limit :: int
  c_disable_dht :: bool
  c_disable_tcp :: bool
  c_disable_utp :: bool
  c_disable_upnp :: bool
  c_disable_lsd :: bool
  c_listen_auto_detect_ip :: bool
  c_listen_interfaces :: "string list"
  c_outgoing_interfaces :: "string list"
  c_listen_auto_detect_port :: bool
  c_listen_port_min :: int
  c_listen_port_max :: int
  c_magnet_resolve_timeout :: int
  c_tuned_storage :: bool
  c_disk_cache_size :: int
  c_session_save :: int
  c_encryption_policy :: encryption_type_t
  c_spoof_user_agent :: user_agent_type_t
  c_proxy_enabled :: bool
  c_proxy_type :: proxy_type_t
  c_proxy_host :: string
  c_proxy_port :: int
  c_proxy_login :: string
  c_proxy_password :: string
  c_use_proxy_tracker :: bool
  c_use_proxy_download :: bool
  c_use_libtorrent_logging :: bool
  c_remove_original_trackers :: bool
  c_add_extra_trackers :: extra_trackers_t
  c_modify_trackers_strategy :: modify_trackers_t
  c_libtorrent_profile :: lt_profile_t

text \<open>The default member initialisers. \<open>update_file\<close> has none: its value is \<open>garbage\<close>.\<close>

definition default_config :: "bool \<Rightarrow> config" where
  "default_config garbage = \<lparr>
     c_config_file = '''', c_write_config_file = '''', c_update_file = garbage,
     c_web_interface = ''0.0.0.0'', c_web_login = '''', c_web_password = '''',
     c_web_port = 65225, c_download_storage = Storage_memory, c_auto_memory_size = True,
     c_auto_memory_size_strategy = Strategy_standard, c_memory_size = 100,
     c_auto_adjust_memory_size = True, c_download_path = ''.'', c_torrents_path = ''.'',
     c_readahead_percents = 80, c_buffer_size = 20, c_end_buffer_size = 4, c_buffer_timeout = 60,
     c_max_upload_rate = 0, c_max_download_rate = 0, c_limit_after_buffering = False,
     c_autoload_torrents = True, c_autoload_torrents_paused = True, c_connections_limit = 0,
     c_conntracker_limit_auto = True, c_conntracker_limit = 0, c_seed_forever = False,
     c_share_ratio_limit = 200, c_seed_time_ratio_limit = 700, c_seed_time_limit = 24,
     c_disable_dht = False, c_disable_tcp = False, c_disable_utp = False, c_disable_upnp = False,
     c_disable_lsd = False, c_listen_auto_detect_ip = True, c_listen_interfaces = [],
     c_outgoing_interfaces = [], c_listen_auto_detect_port = True, c_listen_port_min = 6891,
     c_listen_port_max = 6899, c_magnet_resolve_timeout = 40, c_tuned_storage = True,
     c_disk_cache_size = 12, c_session_save = 15, c_encryption_policy = Encryption_enabled,
     c_spoof_user_agent = Agent_libtorrent_1_2_0, c_proxy_enabled = False,
     c_proxy_type = Proxy_none, c_proxy_host = '''', c_proxy_port = 1080, c_proxy_login = '''',
     c_proxy_password = '''', c_use_proxy_tracker = True, c_use_proxy_download = True,
     c_use_libtorrent_logging = False, c_remove_original_trackers = False,
     c_add_extra_trackers = Trackers_best, c_modify_trackers_strategy = Modify_first_time,
     c_libtorrent_profile = Profile_default_profile\<rparr>"

definition is_auth_needed :: "config \<Rightarrow> bool" where
  "is_auth_needed c \<longleftrightarrow> c_web_login c \<noteq> [] \<or> c_web_password c \<noteq> []"

text \<open>
  What a configuration looks like in JSON: the members that \<open>JS_OBJECT\<close> lists, in that order, with
  their values; an enumeration is written by its name.
\<close>

datatype json_value = Js_string string | Js_int int | Js_bool bool | Js_strings "string list"

definition json_members :: "config \<Rightarrow> (string \<times> json_value) list" where
  "json_members c =
    [(''web_interface'', Js_string (c_web_interface c)), (''web_port'', Js_int (c_web_port c)),
     (''download_storage'', Js_string (to_string storage_values storage_strings (c_download_storage c))),
     (''auto_memory_size'', Js_bool (c_auto_memory_size c)),
     (''auto_memory_size_strategy'', Js_string (to_string strategy_values strategy_strings (c_auto_memory_size_strategy c))),
     (''memory_size'', Js_int (c_memory_size c)),
     (''auto_adjust_memory_size'', Js_bool (c_auto_adjust_memory_size c)),
     (''download_path'', Js_string (c_download_path c)), (''torrents_path'', Js_string (c_torrents_path c)),
     (''readahead_percents'', Js_int (c_readahead_percents c)), (''buffer_size'', Js_int (c_buffer_size c)),
     (''end_buffer_size'', Js_int (c_end_buffer_size c)), (''buffer_timeout'', Js_int (c_buffer_timeout c)),
     (''max_upload_rate'', Js_int (c_max_upload_rate c)),
     (''max_download_rate'', Js_int (c_max_download_rate c)),
     (''limit_after_buffering'', Js_bool (c_limit_after_buffering c)),
     (''autoload_torrents'', Js_bool (c_autoload_torrents c)),
     (''autoload_torrents_paused'', Js_bool (c_autoload_torrents_paused c)),
     (''connections_limit'', Js_int (c_connections_limit c)),
     (''conntracker_limit_auto'', Js_bool (c_conntracker_limit_auto c)),
     (''conntracker_limit'', Js_int (c_conntracker_limit c)),
     (''seed_forever'', Js_bool (c_seed_forever c)),
     (''share_ratio_limit'', Js_int (c_share_ratio_limit c)),
     (''seed_time_ratio_limit'', Js_int (c_seed_time_ratio_limit c)),
     (''seed_time_limit'', Js_int (c_seed_time_limit c)), (''disable_dht'', Js_bool (c_disable_dht c)),
     (''disable_tcp'', Js_bool (c_disable_tcp c)), (''disable_utp'', Js_bool (c_disable_utp c)),
     (''disable_upnp'', Js_bool (c_disable_upnp c)), (''disable_lsd'', Js_bool (c_disable_lsd c)),
     (''listen_auto_detect_ip'', Js_bool (c_listen_auto_detect_ip c)),
     (''listen_interfaces'', Js_strings (c_listen_interfaces c)),
     (''outgoing_interfaces'', Js_strings (c_outgoing_interfaces c)),
     (''listen_auto_detect_port'', Js_bool (c_listen_auto_detect_port c)),
     (''listen_port_min'', Js_int (c_listen_port_min c)),
     (''listen_port_max'', Js_int (c_listen_port_max c)),
     (''magnet_resolve_timeout'', Js_int (c_magnet_resolve_timeout c)),
     (''tuned_storage'', Js_bool (c_tuned_storage c)), (''disk_cache_size'', Js_int (c_disk_cache_size c)),
     (''session_save'', Js_int (c_session_save c)),
     (''encryption_policy'', Js_string (to_string encryption_values encryption_strings (c_encryption_policy c))),
     (''spoof_user_agent'', Js_string (to_string agent_values agent_strings (c_spoof_user_agent c))),
     (''proxy_enabled'', Js_bool (c_proxy_enabled c)),
     (''proxy_type'', Js_string (to_string proxy_values proxy_strings (c_proxy_type c))),
     (''proxy_host'', Js_string (c_proxy_host c)), (''proxy_port'', Js_int (c_proxy_port c)),
     (''proxy_login'', Js_string (c_proxy_login c)), (''proxy_password'', Js_string (c_proxy_password c)),
     (''use_proxy_tracker'', Js_bool (c_use_proxy_tracker c)),
     (''use_proxy_download'', Js_bool (c_use_proxy_download c)),
     (''use_libtorrent_logging'', Js_bool (c_use_libtorrent_logging c)),
     (''remove_original_trackers'', Js_bool (c_remove_original_trackers c)),
     (''add_extra_trackers'', Js_string (to_string trackers_values trackers_strings (c_add_extra_trackers c))),
     (''modify_trackers_strategy'', Js_string (to_string modify_values modify_strings (c_modify_trackers_strategy c))),
     (''libtorrent_profile'', Js_string (to_string profile_values profile_strings (c_libtorrent_profile c)))]"

section \<open>The constructor\<close>

text \<open>
  What \<open>boost::program_options\<close> read from the command line: the flags that are present, and
  the values of the options that were given (an option that is not given has its default).
\<close>

record po_vars =
  po_flag :: "string \<Rightarrow> bool"
  po_string :: "string \<Rightarrow> string option"
  po_int :: "string \<Rightarrow> int option"
  po_bool :: "string \<Rightarrow> bool option"

text \<open>
  The environment: the contents of a file that can be opened for reading, whether a file can be
  opened for writing, parsing JSON onto a configuration (an error message or the result),
  writing members as JSON, splitting at commas and blanks, and the physical memory.
\<close>

record config_env =
  ce_read :: "string \<Rightarrow> string option"
  ce_writable :: "string \<Rightarrow> bool"
  ce_parse :: "string \<Rightarrow> config \<Rightarrow> string + config"
  ce_serialize :: "(string \<times> json_value) list \<Rightarrow> string"
  ce_split :: "string \<Rightarrow> string list"
  ce_total_memory :: int

text \<open>A run of the constructor exits, throws, or returns; files written are listed with their contents.\<close>

datatype config_outcome =
    Exited "(string \<times> string) list"
  | Failed failure
  | Configured config "(string \<times> string) list"

definition given :: "'a option \<Rightarrow> 'a \<Rightarrow> 'a" where
  "given v d = (case v of None \<Rightarrow> d | Some x \<Rightarrow> x)"

definition apply_options :: "po_vars \<Rightarrow> config \<Rightarrow> config" where
  "apply_options po c = c\<lparr>
     c_config_file := given (po_string po ''config'') (c_config_file c),
     c_write_config_file := given (po_string po ''write'') (c_write_config_file c),
     c_web_interface := given (po_string po ''web_interface'') (c_web_interface c),
     c_web_login := given (po_string po ''web_login'') (c_web_login c),
     c_web_password := given (po_string po ''web_password'') (c_web_password c),
     c_web_port := given (po_int po ''web_port'') (c_web_port c),
     c_auto_memory_size := given (po_bool po ''auto_memory_size'') (c_auto_memory_size c),
     c_memory_size := given (po_int po ''memory_size'') (c_memory_size c),
     c_auto_adjust_memory_size := given (po_bool po ''auto_adjust_memory_size'') (c_auto_adjust_memory_size c),
     c_download_path := given (po_string po ''download_path'') (c_download_path c),
     c_torrents_path := given (po_string po ''torrents_path'') (c_torrents_path c),
     c_readahead_percents := given (po_int po ''readahead_percents'') (c_readahead_percents c),
     c_buffer_size := given (po_int po ''buffer_size'') (c_buffer_size c),
     c_end_buffer_size := given (po_int po ''end_buffer_size'') (c_end_buffer_size c),
     c_buffer_timeout := given (po_int po ''buffer_timeout'') (c_buffer_timeout c),
     c_max_upload_rate := given (po_int po ''max_upload_rate'') (c_max_upload_rate c),
     c_max_download_rate := given (po_int po ''max_download_rate'') (c_max_download_rate c),
     c_limit_after_buffering := given (po_bool po ''limit_after_buffering'') (c_limit_after_buffering c),
     c_autoload_torrents := given (po_bool po ''autoload_torrents'') (c_autoload_torrents c),
     c_autoload_torrents_paused := given (po_bool po ''autoload_torrents_paused'') (c_autoload_torrents_paused c),
     c_connections_limit := given (po_int po ''connections_limit'') (c_connections_limit c),
     c_conntracker_limit_auto := given (po_bool po ''conntracker_limit_auto'') (c_conntracker_limit_auto c),
     c_conntracker_limit := given (po_int po ''conntracker_limit'') (c_conntracker_limit c),
     c_seed_forever := given (po_bool po ''seed_forever'') (c_seed_forever c),
     c_share_ratio_limit := given (po_int po ''share_ratio_limit'') (c_share_ratio_limit c),
     c_seed_time_ratio_limit := given (po_int po ''seed_time_ratio_limit'') (c_seed_time_ratio_limit c),
     c_seed_time_limit := given (po_int po ''seed_time_limit'') (c_seed_time_limit c),
     c_disable_dht := given (po_bool po ''disable_dht'') (c_disable_dht c),
     c_disable_tcp := given (po_bool po ''disable_tcp'') (c_disable_tcp c),
     c_disable_utp := given (po_bool po ''disable_utp'') (c_disable_utp c),
     c_disable_upnp := given (po_bool po ''disable_upnp'') (c_disable_upnp c),
     c_disable_lsd := given (po_bool po ''disable_lsd'') (c_disable_lsd c),
     c_listen_auto_detect_ip := given (po_bool po ''listen_auto_detect_ip'') (c_listen_auto_detect_ip c),
     c_listen_auto_detect_port := given (po_bool po ''listen_auto_detect_port'') (c_listen_auto_detect_port c),
     c_listen_port_min := given (po_int po ''listen_port_min'') (c_listen_port_min c),
     c_listen_port_max := given (po_int po ''listen_port_max'') (c_listen_port_max c),
     c_magnet_resolve_timeout := given (po_int po ''magnet_resolve_timeout'') (c_magnet_resolve_timeout c),
     c_tuned_storage := given (po_bool po ''tuned_storage'') (c_tuned_storage c),
     c_disk_cache_size := given (po_int po ''disk_cache_size'') (c_disk_cache_size c),
     c_session_save := given (po_int po ''session_save'') (c_session_save c),
     c_proxy_enabled := given (po_bool po ''proxy_enabled'') (c_proxy_enabled c),
     c_proxy_host := given (po_string po ''proxy_host'') (c_proxy_host c),
     c_proxy_port := given (po_int po ''proxy_port'') (c_proxy_port c),
     c_proxy_login := given (po_string po ''proxy_login'') (c_proxy_login c),
     c_proxy_password := given (po_string po ''proxy_password'') (c_proxy_password c),
     c_use_proxy_tracker := given (po_bool po ''use_proxy_tracker'') (c_use_proxy_tracker c),
     c_use_proxy_download := given (po_bool po ''use_proxy_download'') (c_use_proxy_download c),
     c_use_libtorrent_logging := given (po_bool po ''use_libtorrent_logging'') (c_use_libtorrent_logging c)\<rparr>"

definition load_config_file :: "config_env \<Rightarrow> po_vars \<Rightarrow> config \<Rightarrow> config result" where
  "load_config_file env po c0 =
     (let c = (if po_flag po ''update'' then c0\<lparr>c_update_file := True\<rparr> else c0) in
      if po_string po ''config'' = None then Inr (c\<lparr>c_update_file := False\<rparr>)
      else case ce_read env (c_config_file c) of
        None \<Rightarrow> if c_update_file c then Inr c
          else Inl (Throw StdException (''Cannot open configuration file:'' @ c_config_file c))
      | Some json \<Rightarrow> (case ce_parse env json c of
          Inl err \<Rightarrow> Inl (Throw StdException (''Error converting json: '' @ err))
        | Inr c' \<Rightarrow> Inr c'))"

text \<open>An enumeration option that was given replaces the setting, whatever the file says.\<close>

definition enum_option ::
  "'a list \<Rightarrow> string list \<Rightarrow> string \<Rightarrow> string option \<Rightarrow> 'a \<Rightarrow> 'a result" where
  "enum_option vals names ty arg d = (case arg of
     None \<Rightarrow> Inr d
   | Some s \<Rightarrow> from_string vals names ty s)"

definition convert_options :: "config_env \<Rightarrow> po_vars \<Rightarrow> config \<Rightarrow> config result" where
  "convert_options env po c =
     bind_result (enum_option storage_values storage_strings ''storage_type_t''
       (po_string po ''download_storage'') (c_download_storage c)) (\<lambda>storage.
     bind_result (enum_option strategy_values strategy_strings ''auto_memory_strategy_type_t''
       (po_string po ''auto_memory_size_strategy'') (c_auto_memory_size_strategy c)) (\<lambda>strategy.
     bind_result (enum_option encryption_values encryption_strings ''encryption_type_t''
       (po_string po ''encryption_policy'') (c_encryption_policy c)) (\<lambda>encryption.
     bind_result (enum_option agent_values agent_strings ''user_agent_type_t''
       (po_string po ''spoof_user_agent'') (c_spoof_user_agent c)) (\<lambda>agent.
     bind_result (enum_option proxy_values proxy_strings ''proxy_type_t''
       (po_string po ''proxy_type'') (c_proxy_type c)) (\<lambda>proxy.
     Inr (c\<lparr>c_download_storage := storage,
       c_listen_interfaces := (case po_string po ''listen_interfaces'' of
          None \<Rightarrow> c_listen_interfaces c | Some s \<Rightarrow> ce_split env s),
       c_outgoing_interfaces := (case po_string po ''outgoing_interfaces'' of
          None \<Rightarrow> c_outgoing_interfaces c | Some s \<Rightarrow> ce_split env s),
       c_auto_memory_size_strategy := strategy, c_encryption_policy := encryption,
       c_spoof_user_agent := agent, c_proxy_type := proxy\<rparr>))))))"

definition auto_memory :: "int \<Rightarrow> config \<Rightarrow> config" where
  "auto_memory mem_total c =
     (if \<not> c_auto_memory_size c then c
      else if c_auto_memory_size_strategy c = Strategy_min
        then c\<lparr>c_memory_size := memory_size_min sdiv 1024 sdiv 1024\<rparr>
      else
        let pct = (if c_auto_memory_size_strategy c = Strategy_max then 15 else 8);
            mem = to_int64 (mem_total sdiv 100 * pct);
            c1 = (if mem > 0 \<and> mem_total > 0
                  then c\<lparr>c_memory_size := to_int32 (mem sdiv 1024 sdiv 1024)\<rparr> else c)
        in if c_memory_size c1 * 1024 * 1024 > memory_size_max
           then c1\<lparr>c_memory_size := memory_size_max sdiv 1024 sdiv 1024\<rparr> else c1)"

definition write_config :: "config_env \<Rightarrow> po_vars \<Rightarrow> config \<Rightarrow> config_outcome" where
  "write_config env po c =
     (if po_string po ''write'' \<noteq> None then
        if ce_writable env (c_write_config_file c)
        then Exited [(c_write_config_file c, ce_serialize env (json_members c))]
        else Failed (Throw StdException (''Cannot open output file:'' @ c_write_config_file c))
      else if po_flag po ''update'' \<and> c_update_file c then
        if ce_writable env (c_config_file c)
        then Configured (auto_memory (ce_total_memory env) c) [(c_config_file c, ce_serialize env (json_members c))]
        else Failed (Throw StdException (''Cannot open output file:'' @ c_config_file c))
      else Configured (auto_memory (ce_total_memory env) c) [])"

text \<open>\<open>po = None\<close> when parsing the command line throws.\<close>

definition new_config :: "config_env \<Rightarrow> po_vars option \<Rightarrow> bool \<Rightarrow> config_outcome" where
  "new_config env po garbage = (case po of
     None \<Rightarrow> Failed (Throw StdException ''program_options'')
   | Some vm \<Rightarrow>
       if po_flag vm ''help'' \<or> po_flag vm ''version'' then Exited []
       else case bind_result (load_config_file env vm (apply_options vm (default_config garbage)))
                  (convert_options env vm) of
         Inl e \<Rightarrow> Failed e
       | Inr c \<Rightarrow> write_config env vm c)"

section \<open>Enumerations and their names\<close>

lemma find_name_index:
  "find_name ns str i = (if str \<in> set ns then Some (i + enum_index ns str) else None)"
  by (induction ns arbitrary: i) (auto simp: enum_index_def)

lemma enum_index_nth: "distinct xs \<Longrightarrow> i < length xs \<Longrightarrow> enum_index xs (xs ! i) = i"
proof -
  assume d: "distinct xs" and i: "i < length xs"
  have "takeWhile (\<lambda>y. y \<noteq> xs ! i) xs = take i xs"
    using i d by (intro takeWhile_eq_take_P_nth) (auto simp: nth_eq_iff_index_eq)
  with i show ?thesis by (simp add: enum_index_def)
qed

lemma enum_index_member: "x \<in> set xs \<Longrightarrow> enum_index xs x < length xs \<and> xs ! enum_index xs x = x"
  by (induction xs) (auto simp: enum_index_def)

text \<open>
  The contract of a \<open>JS_ENUM\<close>: the values and the names are listed in the same order,
  without repetition, and every value is listed.
\<close>

locale js_enum =
  fixes vals :: "'a list" and names :: "string list"
  assumes distinct_vals: "distinct vals" and all_vals: "x \<in> set vals"
    and distinct_names: "distinct names" and same_length: "length names = length vals"
begin

lemma from_string_to_string: "from_string vals names ty (to_string vals names x) = Inr x"
proof -
  let ?i = "enum_index vals x"
  have i: "?i < length names" "vals ! ?i = x" using enum_index_member [OF all_vals] same_length by simp_all
  then show ?thesis
    by (simp add: from_string_def to_string_def find_name_index enum_index_nth [OF distinct_names])
qed

lemma to_string_from_string: "from_string vals names ty s = Inr x \<Longrightarrow> to_string vals names x = s"
  using enum_index_member [of s names] enum_index_nth [OF distinct_vals, of "enum_index names s"] same_length
  by (auto simp: from_string_def to_string_def find_name_index split: if_splits)

lemma roundtrip: "from_string vals names ty s = Inr x \<longleftrightarrow> to_string vals names x = s"
  using from_string_to_string to_string_from_string by blast

lemma to_string_inject: "to_string vals names x = to_string vals names y \<longleftrightarrow> x = y"
  using from_string_to_string [of _ x] from_string_to_string [of _ y] by (metis sum.inject(2))

lemma from_string_Inr_iff: "(\<exists>x. from_string vals names ty s = Inr x) \<longleftrightarrow> s \<in> set names"
  by (auto simp: from_string_def find_name_index)

lemma enum_option_given: "enum_option vals names ty (Some s) d = Inr x \<Longrightarrow> to_string vals names x = s"
  by (simp add: enum_option_def to_string_from_string)

end

interpretation proxy_enum: js_enum proxy_values proxy_strings
  by unfold_locales (auto simp: proxy_values_def proxy_strings_def intro: proxy_type_t.exhaust)

interpretation encryption_enum: js_enum encryption_values encryption_strings
  by unfold_locales (auto simp: encryption_values_def encryption_strings_def intro: encryption_type_t.exhaust)

interpretation storage_enum: js_enum storage_values storage_strings
  by unfold_locales (auto simp: storage_values_def storage_strings_def intro: storage_type_t.exhaust)

interpretation strategy_enum: js_enum strategy_values strategy_strings
  by unfold_locales (auto simp: strategy_values_def strategy_strings_def intro: auto_memory_strategy_type_t.exhaust)

interpretation agent_enum: js_enum agent_values agent_strings
  by unfold_locales (auto simp: agent_values_def agent_strings_def intro: user_agent_type_t.exhaust)

interpretation trackers_enum: js_enum trackers_values trackers_strings
  by unfold_locales (auto simp: trackers_values_def trackers_strings_def intro: extra_trackers_t.exhaust)

interpretation modify_enum: js_enum modify_values modify_strings
  by unfold_locales (auto simp: modify_values_def modify_strings_def intro: modify_trackers_t.exhaust)

interpretation profile_enum: js_enum profile_values profile_strings
  by unfold_locales (auto simp: profile_values_def profile_strings_def intro: lt_profile_t.exhaust)

section \<open>Properties\<close>

text \<open>
  Conversion between enumerations and strings is a bijection between the values and their
  names: a string is parsed to a value exactly when it is the name that the value is printed
  with, so parsing what was printed gives the value back and any other string throws.
\<close>

lemma enum_strings_roundtrip:
  "(from_string storage_values storage_strings ty s = Inr a \<longleftrightarrow> to_string storage_values storage_strings a = s) \<and>
   (from_string strategy_values strategy_strings ty s = Inr b \<longleftrightarrow> to_string strategy_values strategy_strings b = s) \<and>
   (from_string encryption_values encryption_strings ty s = Inr c \<longleftrightarrow> to_string encryption_values encryption_strings c = s) \<and>
   (from_string agent_values agent_strings ty s = Inr d \<longleftrightarrow> to_string agent_values agent_strings d = s) \<and>
   (from_string proxy_values proxy_strings ty s = Inr e \<longleftrightarrow> to_string proxy_values proxy_strings e = s) \<and>
   (from_string trackers_values trackers_strings ty s = Inr f \<longleftrightarrow> to_string trackers_values trackers_strings f = s) \<and>
   (from_string modify_values modify_strings ty s = Inr g \<longleftrightarrow> to_string modify_values modify_strings g = s) \<and>
   (from_string profile_values profile_strings ty s = Inr h \<longleftrightarrow> to_string profile_values profile_strings h = s)"
  by (intro conjI storage_enum.roundtrip strategy_enum.roundtrip encryption_enum.roundtrip
      agent_enum.roundtrip proxy_enum.roundtrip trackers_enum.roundtrip modify_enum.roundtrip
      profile_enum.roundtrip)

lemma auto_memory_off: "\<not> c_auto_memory_size c \<Longrightarrow> auto_memory mem_total c = c"
  by (simp add: auto_memory_def)

lemma auto_memory_max: "c_auto_memory_size c \<Longrightarrow> c_memory_size (auto_memory mem_total c) \<le> 400"
  by (simp add: auto_memory_def memory_size_min_def memory_size_max_def Let_def sdiv_nonneg)

lemma auto_memory_keeps:
  "c_web_port (auto_memory m c) = c_web_port c" "c_download_storage (auto_memory m c) = c_download_storage c"
  "c_encryption_policy (auto_memory m c) = c_encryption_policy c"
  "c_spoof_user_agent (auto_memory m c) = c_spoof_user_agent c" "c_proxy_type (auto_memory m c) = c_proxy_type c"
  by (simp_all add: auto_memory_def Let_def)

text \<open>
  The automatic memory size: with the \<open>min\<close> strategy it is 40 MB; otherwise, on a
  machine whose memory is known and below a petabyte, it is 15 or 8 percent of the memory in
  whole megabytes, but never more than 400 MB.
\<close>

lemma auto_memory_size_value:
  assumes auto: "c_auto_memory_size c" and m: "100 \<le> mem_total" "mem_total < 2 ^ 50"
  shows "c_memory_size (auto_memory mem_total c) =
    (let pct = (if c_auto_memory_size_strategy c = Strategy_max then 15 else 8) in
     if c_auto_memory_size_strategy c = Strategy_min then 40
     else min 400 (mem_total div 100 * pct div (1024 * 1024)))"
proof -
  define q where "q = mem_total div 100"
  have "mem_total < 1125899906842624" using m(2) by simp
  then have q: "1 \<le> q" "q < 17592186044416" using m(1) unfolding q_def by linarith+
  have range: "0 \<le> q * p" "q * p < 263882790666240" if "0 < p" "p \<le> 15" for p
  proof -
    have "q * p \<le> q * 15" using q that by (intro mult_left_mono) simp_all
    then show "0 \<le> q * p" "q * p < 263882790666240" using q that by (simp, linarith)
  qed
  have mem: "to_int64 (mem_total sdiv 100 * p) = q * p" if "0 < p" "p \<le> 15" for p
    using range [OF that] m by (simp add: sdiv_nonneg q_def to_int64_id)
  have mb: "to_int32 (q * p sdiv 1024 sdiv 1024) = q * p div 1048576" if p: "0 < p" "p \<le> 15" for p
  proof -
    have "0 \<le> q * p div 1048576" "q * p div 1048576 < 2147483648" using range [OF p] by linarith+
    moreover have "q * p sdiv 1024 sdiv 1024 = q * p div 1048576"
      using range [OF p] zdiv_zmult2_eq [of 1024 "q * p" 1024]
      by (simp add: sdiv_nonneg pos_imp_zdiv_nonneg_iff)
    ultimately show ?thesis by (simp add: to_int32_id)
  qed
  define p :: int where "p = (if c_auto_memory_size_strategy c = Strategy_max then 15 else 8)"
  define x where "x = q * p div 1048576"
  have p: "0 < p" "p \<le> 15" by (simp_all add: p_def)
  have x: "to_int64 (mem_total sdiv 100 * p) = q * p" "to_int32 (q * p sdiv 1024 sdiv 1024) = x" "0 < q * p"
    using mem [OF p] mb [OF p] q p by (simp_all add: x_def)
  show ?thesis
  proof (cases "c_auto_memory_size_strategy c = Strategy_min")
    case True
    with auto show ?thesis by (simp add: auto_memory_def memory_size_min_def sdiv_nonneg)
  next
    case False
    have "c_memory_size (auto_memory mem_total c) = (if x * 1024 * 1024 > memory_size_max then 400 else x)"
      using False auto m(1) x unfolding auto_memory_def p_def [symmetric] Let_def
      by (simp add: memory_size_max_def sdiv_nonneg)
    also have "\<dots> = min 400 x" by (simp add: memory_size_max_def min_def)
    finally show ?thesis using False unfolding p_def [symmetric] Let_def x_def q_def by simp
  qed
qed

lemma auto_memory_size_value_example:
  "c_memory_size (auto_memory 2147483648 (default_config False)) = 163"
  by (subst auto_memory_size_value) (simp_all add: default_config_def Let_def)

text \<open>
  What \<open>convert_options\<close> does to the settings the properties mention.
\<close>

lemma convert_options_eq:
  assumes "convert_options env po c = Inr c'"
  shows "enum_option storage_values storage_strings ''storage_type_t''
      (po_string po ''download_storage'') (c_download_storage c) = Inr (c_download_storage c')"
    and "enum_option proxy_values proxy_strings ''proxy_type_t''
      (po_string po ''proxy_type'') (c_proxy_type c) = Inr (c_proxy_type c')"
    and "c_web_port c' = c_web_port c" and "c_auto_memory_size c' = c_auto_memory_size c"
    and "c_memory_size c' = c_memory_size c"
  using assms unfolding convert_options_def bind_result_eq_Inr
  by (elim exE conjE; clarsimp)+

lemma write_config_Configured:
  "write_config env po c = Configured c' w \<Longrightarrow> c' = auto_memory (ce_total_memory env) c"
  by (simp add: write_config_def split: if_splits)



text \<open>A command line that asks for port 8080 and file storage, and a file that asks for port 9000.\<close>

definition demo_po :: po_vars where
  "demo_po = \<lparr>po_flag = (\<lambda>f. False),
     po_string = (\<lambda>x. if x = ''config'' then Some ''lt2http.json''
                      else if x = ''download_storage'' then Some ''file'' else None),
     po_int = (\<lambda>x. if x = ''web_port'' then Some 8080 else None), po_bool = (\<lambda>x. None)\<rparr>"

definition demo_env :: config_env where
  "demo_env = \<lparr>ce_read = (\<lambda>f. Some ''9000''), ce_writable = (\<lambda>f. True),
     ce_parse = (\<lambda>json c. Inr (c\<lparr>c_web_port := 9000\<rparr>)), ce_serialize = (\<lambda>c. ''9000''),
     ce_split = (\<lambda>s. [s]), ce_total_memory = 2147483648\<rparr>"


end
