(* ===== verification/Containers.thy ===== *)
theory Containers
  imports Prelude
begin

text \<open>
  \<open>std::map\<close>: an association list in ascending order of its keys, the order in which the
  sources iterate over it. The locale \<open>registry\<close> is the contract of a table of entries that are
  added and removed by key; it is interpreted for \<open>std::map\<close> here and for the tables of the
  program in the theories that own them.
\<close>

type_synonym ('k, 'v) std_map = "('k \<times> 'v) list"

fun map_find :: "('k::linorder, 'v) std_map \<Rightarrow> 'k \<Rightarrow> 'v option" where
  "map_find [] k = None"
| "map_find ((k', v) # m) k = (if k = k' then Some v else map_find m k)"

fun map_set :: "'k::linorder \<Rightarrow> 'v \<Rightarrow> ('k, 'v) std_map \<Rightarrow> ('k, 'v) std_map" where
  "map_set k v [] = [(k, v)]"
| "map_set k v ((k', v') # m) =
     (if k < k' then (k, v) # (k', v') # m
      else if k = k' then (k, v) # m
      else (k', v') # map_set k v m)"

definition map_erase :: "'k::linorder \<Rightarrow> ('k, 'v) std_map \<Rightarrow> ('k, 'v) std_map" where
  "map_erase k m = filter (\<lambda>e. fst e \<noteq> k) m"

text \<open>\<open>std::map::insert\<close> keeps an entry that is already there.\<close>

definition map_insert :: "'k::linorder \<Rightarrow> 'v \<Rightarrow> ('k, 'v) std_map \<Rightarrow> ('k, 'v) std_map" where
  "map_insert k v m = (if map_find m k = None then map_set k v m else m)"

definition map_ok :: "('k::linorder, 'v) std_map \<Rightarrow> bool" where
  "map_ok m \<longleftrightarrow> sorted_wrt (<) (map fst m)"

lemma map_find_set [simp]: "map_find (map_set k v m) k' = (if k' = k then Some v else map_find m k')"
  by (induction m) auto

lemma map_find_erase [simp]: "map_find (map_erase k m) k' = (if k' = k then None else map_find m k')"
  by (induction m) (auto simp: map_erase_def)

lemma set_map_set: "fst ` set (map_set k v m) = insert k (fst ` set m)"
proof (induction m)
  case (Cons e m)
  obtain k' v' where "e = (k', v')" by fastforce
  with Cons show ?case by auto
qed simp

lemma map_ok_Cons [simp]: "map_ok ((k, v) # m) \<longleftrightarrow> (\<forall>x \<in> fst ` set m. k < x) \<and> map_ok m"
  by (auto simp: map_ok_def)

lemma map_ok_Nil [simp]: "map_ok []"
  by (simp add: map_ok_def)

lemma map_ok_set [simp]: "map_ok m \<Longrightarrow> map_ok (map_set k v m)"
proof (induction m)
  case (Cons e m)
  obtain k' v' where "e = (k', v')" by fastforce
  with Cons show ?case by (auto simp: set_map_set)
qed simp

lemma map_ok_erase [simp]: "map_ok m \<Longrightarrow> map_ok (map_erase k m)"
  by (induction m) (auto simp: map_erase_def)

lemma map_ok_distinct: "map_ok m \<Longrightarrow> distinct (map fst m)"
  by (simp add: map_ok_def strict_sorted_iff)

lemma map_find_Some_iff: "map_ok m \<Longrightarrow> map_find m k = Some v \<longleftrightarrow> (k, v) \<in> set m"
  by (induction m) (force simp: image_iff)+

lemma map_find_None_iff: "map_find m k = None \<longleftrightarrow> k \<notin> fst ` set m"
  by (induction m k rule: map_find.induct) auto

section \<open>Registries\<close>

locale registry =
  fixes find :: "'m \<Rightarrow> 'k \<Rightarrow> 'v option" and add :: "'k \<Rightarrow> 'v \<Rightarrow> 'm \<Rightarrow> 'm" and remove :: "'k \<Rightarrow> 'm \<Rightarrow> 'm"
    and ok :: "'m \<Rightarrow> bool"
  assumes find_add: "ok m \<Longrightarrow> find (add k v m) k' = (if k' = k then Some v else find m k')"
    and find_remove: "ok m \<Longrightarrow> find (remove k m) k' = (if k' = k then None else find m k')"
    and ok_add: "ok m \<Longrightarrow> ok (add k v m)" and ok_remove: "ok m \<Longrightarrow> ok (remove k m)"
begin

lemma remove_add: "ok m \<Longrightarrow> find (remove k (add k v m)) = (find m)(k := None)"
  by (auto simp: fun_eq_iff find_remove find_add ok_add)

lemma add_overwrites: "ok m \<Longrightarrow> find (add k v (add k w m)) = find (add k v m)"
  by (simp add: fun_eq_iff find_add ok_add)

lemma add_commutes: "ok m \<Longrightarrow> k \<noteq> l \<Longrightarrow> find (add k v (add l w m)) = find (add l w (add k v m))"
  by (simp add: fun_eq_iff find_add ok_add)

text \<open>A sequence of additions and removals leaves what the last operation on a key left.\<close>

definition run :: "('k \<times> 'v option) list \<Rightarrow> 'm \<Rightarrow> 'm" where
  "run ops m = foldl (\<lambda>m (k, v). case v of Some x \<Rightarrow> add k x m | None \<Rightarrow> remove k m) m ops"

lemma ok_run: "ok m \<Longrightarrow> ok (run ops m)"
  by (induction ops arbitrary: m) (auto simp: run_def ok_add ok_remove split: option.splits)

lemma find_run: "ok m \<Longrightarrow> find (run ops m) = foldl (\<lambda>f (k, v). f(k := v)) (find m) ops"
proof (induction ops arbitrary: m)
  case (Cons op ops)
  obtain k v where op: "op = (k, v)" by fastforce
  let ?m = "case v of Some x \<Rightarrow> add k x m | None \<Rightarrow> remove k m"
  have "ok ?m" "find ?m = (find m)(k := v)"
    using Cons.prems by (auto simp: fun_eq_iff find_add find_remove ok_add ok_remove split: option.splits)
  with Cons.IH [of ?m] op show ?case by (simp add: run_def)
qed (simp add: run_def)

end

interpretation std: registry map_find map_set map_erase map_ok
  by unfold_locales simp_all

end
