(* ===== verification/Utils.thy ===== *)
theory Utils
  imports Prelude
begin

text \<open>
  The small helpers of \<open>src/src/utils\<close>: \<open>numbers.h\<close>, \<open>pieces.h\<close>, \<open>strings.h\<close>,
  \<open>requests.h\<close>. Random numbers are arguments: \<open>r\<close> is the value of \<open>rand()\<close>, and
  \<open>draw i\<close> the \<open>i\<close>-th draw of the uniform distribution.
\<close>

section \<open>Decimal numbers\<close>

definition digit :: "nat \<Rightarrow> char" where
  "digit n = ''0123456789'' ! n"

definition digit_value :: "char \<Rightarrow> nat" where
  "digit_value c = (of_char c :: nat) - of_char (CHR ''0'')"

text \<open>\<open>std::to_string\<close> of an integer.\<close>

fun show_nat :: "nat \<Rightarrow> string" where
  "show_nat n = (if n < 10 then [digit n] else show_nat (n div 10) @ [digit (n mod 10)])"

declare show_nat.simps [simp del]

definition show_int :: "int \<Rightarrow> string" where
  "show_int i = (if i < 0 then CHR ''-'' # show_nat (nat (- i)) else show_nat (nat i))"

text \<open>\<open>std::stoi\<close> of a non-empty string of digits.\<close>

definition read_digits :: "string \<Rightarrow> nat" where
  "read_digits s = foldl (\<lambda>n c. n * 10 + digit_value c) 0 s"

definition is_digit :: "char \<Rightarrow> bool" where
  "is_digit c \<longleftrightarrow> c \<in> set ''0123456789''"

section \<open>numbers.h\<close>

definition random :: "int \<Rightarrow> int \<Rightarrow> int \<Rightarrow> int result" where
  "random r mn mx =
     (if (mx + 1) - mn = 0 then Inl Undefined else Inr (mn + r smod ((mx + 1) - mn)))"

text \<open>
  \<open>roundOff\<close> and \<open>convertToString\<close> on the value \<open>sz + rem / 1024\<close> with
  \<open>sz < 2 ^ 13\<close> and \<open>rem < 1024\<close>: the doubles involved have at most 30 significant bits
  and are exact, so rounding to hundredths is the integer \<open>i\<close> below, and the six significant
  digits that the stream prints are those of \<open>i / 100\<close> without trailing zeros.
\<close>

definition round_hundredths :: "nat \<Rightarrow> nat \<Rightarrow> nat" where
  "round_hundredths sz rem = ((sz * 1024 + rem) * 100 * 2 + 1024) div 2048"

definition show_hundredths :: "nat \<Rightarrow> string" where
  "show_hundredths i =
     show_nat (i div 100) @
     (if i mod 100 = 0 then ''''
      else if i mod 10 = 0 then ''.'' @ [digit (i mod 100 div 10)]
      else ''.'' @ [digit (i mod 100 div 10), digit (i mod 10)])"

definition size_units :: "string list" where
  "size_units = [''B'', ''KB'', ''MB'', ''GB'', ''TB'', ''PB'']"

text \<open>The loop of \<open>humanize_bytes\<close>, with the state \<open>(sz, rem, div)\<close>.\<close>

fun humanize_loop :: "nat \<Rightarrow> nat \<Rightarrow> nat \<Rightarrow> nat \<times> nat \<times> nat" where
  "humanize_loop sz rem dv =
     (if sz \<ge> 1024 \<and> dv < 6 then
        (let rem' = sz mod 1024; dv' = dv + 1; sz' = sz div 1024 in
         if dv' \<ge> 5 then (sz', rem', dv') else humanize_loop sz' rem' dv')
      else (sz, rem, dv))"

declare humanize_loop.simps [simp del]

text \<open>
  \<open>convertToString\<close> of an integer (exact as a \<open>double\<close> below \<open>2 ^ 53\<close>): the stream
  prints six significant digits, rounded to nearest with ties to even, in scientific notation from
  a million on, without trailing zeros.
\<close>

definition round_six :: "nat \<Rightarrow> nat \<times> nat" where
  "round_six m =
     (let e = length (show_nat m) - 1; u = 10 ^ (e - 5); q = m div u; r = m mod u;
          q' = (if 2 * r > u \<or> (2 * r = u \<and> odd q) then q + 1 else q)
      in if q' = 10 ^ 6 then (10 ^ 5, e + 1) else (q', e))"

definition show_scientific :: "nat \<Rightarrow> string" where
  "show_scientific m =
     (let (q, e) = round_six m; ds = show_nat q;
          frac = rev (dropWhile (\<lambda>c. c = CHR ''0'') (rev (tl ds)))
      in [hd ds] @ (if frac = [] then [] else ''.'' @ frac) @ ''e+'' @
         (if e < 10 then ''0'' else []) @ show_nat e)"

definition convertToString :: "int \<Rightarrow> string" where
  "convertToString n =
     (if \<bar>n\<bar> < 10 ^ 6 then show_int n
      else (if n < 0 then ''-'' else []) @ show_scientific (nat \<bar>n\<bar>))"

definition humanize_bytes :: "int \<Rightarrow> string result" where
  "humanize_bytes sz =
     (if sz < 0 then Inr (convertToString sz)
      else
        let (s, rem, dv) = humanize_loop (nat sz) 0 0 in
        if dv < length size_units
        then Inr (show_hundredths (round_hundredths s rem) @ '' '' @ size_units ! dv)
        else Inl Undefined)"

text \<open>
  \<open>progression_result\<close> with the ratio \<open>num / den\<close>. The only caller passes \<open>a = 2\<close>,
  the ratio \<open>1.7\<close> and \<open>N\<close> between 1 and 5, where the double product stays far from an
  integer and truncates to the quotient below.
\<close>

definition progression_result :: "int \<Rightarrow> int \<times> int \<Rightarrow> nat \<Rightarrow> int" where
  "progression_result a r N = (a * fst r ^ (N - 1)) div (snd r ^ (N - 1))"

section \<open>pieces.h\<close>

definition region_pieces :: "int \<Rightarrow> int \<Rightarrow> int \<Rightarrow> int \<Rightarrow> int \<times> int" where
  "region_pieces offset sz piece_length pieces_count =
     (if piece_length \<le> 0 then (0, 0)
      else (max 0 (to_int32 (offset sdiv piece_length)),
            min (pieces_count - 1) (to_int32 ((offset + sz - 1) sdiv piece_length))))"

section \<open>strings.h\<close>

fun join :: "string list \<Rightarrow> string \<Rightarrow> string" where
  "join [] delim = ''''"
| "join (x # xs) delim = x @ concat (map (\<lambda>y. delim @ y) xs)"

definition get_random_numeric :: "(nat \<Rightarrow> nat) \<Rightarrow> nat \<Rightarrow> string" where
  "get_random_numeric draw sz = map (\<lambda>i. ''0123456789'' ! draw i) [0..<sz]"

text \<open>src/src/utils/system.h: pages and page size come from the operating system; the product may overflow.\<close>

definition get_total_system_memory :: "int \<Rightarrow> int \<Rightarrow> int result" where
  "get_total_system_memory pages page_size =
     (if -(2 ^ 63) \<le> pages * page_size \<and> pages * page_size < 2 ^ 63 then Inr (pages * page_size) else Inl Undefined)"

definition peer_num_to_string :: "int \<Rightarrow> string" where
  "peer_num_to_string num = (if num \<le> 0 then ''-'' else show_int num)"

definition get_file_ext :: "string \<Rightarrow> string" where
  "get_file_ext s =
     (if CHR ''.'' \<in> set s then rev (takeWhile (\<lambda>c. c \<noteq> CHR ''.'') (rev s)) else '''')"

section \<open>requests.h\<close>

definition guess_mime_type :: "string \<Rightarrow> string" where
  "guess_mime_type file =
     (let ext = get_file_ext file in
      if ext = ''mp4'' then ''video/mp4''
      else if ext = ''m4v'' then ''video/x-m4v''
      else if ext = ''mkv'' then ''video/x-matroska''
      else if ext = ''webm'' then ''video/webm''
      else if ext = ''mov'' then ''video/quicktime''
      else if ext = ''avi'' then ''video/x-msvideo''
      else if ext = ''wmv'' then ''video/x-ms-wmv''
      else if ext = ''mpg'' then ''video/mpeg''
      else if ext = ''flv'' then ''video/x-flv''
      else if ext = ''3gp'' then ''video/3gpp''
      else '''')"

section \<open>Lemmas\<close>

lemma digit_value_digit [simp]: "n < 10 \<Longrightarrow> digit_value (digit n) = n"
proof -
  assume "n < 10"
  then have "n \<in> set [0..<10]" by simp
  moreover have "\<forall>n \<in> set [0..<10]. digit_value (digit n) = n" by code_simp
  ultimately show ?thesis by blast
qed

lemma is_digit_digit [simp]: "n < 10 \<Longrightarrow> is_digit (digit n)"
  using nth_mem [of n "''0123456789''"] by (simp add: is_digit_def digit_def del: nth_mem)

lemma is_digit_value: "is_digit c \<Longrightarrow> digit_value c < 10"
proof -
  have "\<forall>c \<in> set ''0123456789''. digit_value c < 10" by code_simp
  then show "is_digit c \<Longrightarrow> digit_value c < 10" unfolding is_digit_def by blast
qed

lemma read_digits_snoc: "read_digits (s @ [c]) = read_digits s * 10 + digit_value c"
  by (simp add: read_digits_def)

lemma show_nat_digits: "\<forall>c \<in> set (show_nat n). is_digit c"
proof (induction n rule: show_nat.induct)
  case (1 n)
  then show ?case by (subst show_nat.simps) auto
qed

lemma show_nat_not_Nil [simp]: "show_nat n \<noteq> []"
  by (subst show_nat.simps) simp

lemma read_show_nat [simp]: "read_digits (show_nat n) = n"
proof (induction n rule: show_nat.induct)
  case (1 n)
  show ?case
  proof (cases "n < 10")
    case True
    then show ?thesis by (subst show_nat.simps) (simp add: read_digits_def)
  next
    case False
    with 1 have "read_digits (show_nat (n div 10)) = n div 10" by simp
    moreover have "n div 10 * 10 + n mod 10 = n" by (rule div_mult_mod_eq)
    ultimately show ?thesis using False
      by (subst show_nat.simps) (simp add: read_digits_snoc)
  qed
qed

lemma show_nat_inject [simp]: "show_nat m = show_nat n \<longleftrightarrow> m = n"
  by (metis read_show_nat)

lemma read_digits_bound:
  "\<forall>c \<in> set s. is_digit c \<Longrightarrow> read_digits s < 10 ^ length s"
proof (induction s rule: rev_induct)
  case (snoc c s)
  then have "read_digits s < 10 ^ length s" "digit_value c < 10" by (simp_all add: is_digit_value)
  then have "read_digits s * 10 + digit_value c < 10 ^ length s * 10" by linarith
  then show ?case by (simp add: read_digits_snoc)
qed (simp add: read_digits_def)

text \<open>Offsets that \<open>std::int64_t\<close> and \<open>int\<close> hold: the pieces that a byte range touches.\<close>

lemma region_pieces_eq:
  assumes "0 \<le> offset" and "0 < sz" and "0 < len"
    and "(offset + sz - 1) div len < 2 ^ 31"
  shows "region_pieces offset sz len count =
    (offset div len, min (count - 1) ((offset + sz - 1) div len))"
proof -
  have le: "0 \<le> offset div len" "offset div len \<le> (offset + sz - 1) div len"
    using assms by (simp_all add: pos_imp_zdiv_nonneg_iff zdiv_mono1)
  have "offset sdiv len = offset div len" "(offset + sz - 1) sdiv len = (offset + sz - 1) div len"
    using assms by (simp_all add: sdiv_nonneg)
  with le assms(3,4) show ?thesis
    by (simp add: region_pieces_def to_int32_id)
qed

lemma humanize_loop_bounds:
  assumes "rem < 1024" and "dv \<le> 5" and "dv = 5 \<longrightarrow> sz < 1024"
  shows "case humanize_loop sz rem dv of (s, r, d) \<Rightarrow> d \<le> 5 \<and> r < 1024 \<and> (d < 5 \<longrightarrow> s < 1024)"
  using assms
proof (induction sz rem dv rule: humanize_loop.induct)
  case (1 sz rem dv)
  show ?case
  proof (cases "sz \<ge> 1024 \<and> dv < 6 \<and> dv + 1 < 5")
    case True
    with 1 have "case humanize_loop (sz div 1024) (sz mod 1024) (dv + 1) of
        (s, r, d) \<Rightarrow> d \<le> 5 \<and> r < 1024 \<and> (d < 5 \<longrightarrow> s < 1024)" by auto
    with True show ?thesis by (subst humanize_loop.simps) (simp add: Let_def)
  next
    case False
    with 1 show ?thesis by (subst humanize_loop.simps) (auto simp: Let_def)
  qed
qed

text \<open>The pieces that a byte range overlaps.\<close>

lemma region_cover:
  assumes "0 \<le> offset" and "0 < sz" and "0 < len" and "count < 2 ^ 31"
    and "offset + sz \<le> count * len"
  shows "region_pieces offset sz len count = (offset div len, (offset + sz - 1) div len) \<and>
    0 \<le> offset div len \<and> offset div len \<le> (offset + sz - 1) div len \<and> (offset + sz - 1) div len < count \<and>
    (\<forall>p. (offset div len \<le> p \<and> p \<le> (offset + sz - 1) div len) \<longleftrightarrow> (\<exists>x. offset \<le> x \<and> x < offset + sz \<and> p = x div len))"
proof -
  let ?e = "offset + sz - 1"
  have mul: "x div len * len \<le> x" for x
  proof -
    have "x div len * len + x mod len = x" "0 \<le> x mod len" using assms(3) by simp_all
    then show ?thesis by linarith
  qed
  have "?e div len * len < count * len" using mul [of ?e] assms(5) by linarith
  then have e: "?e div len < count" using assms(3) by simp
  have region: "region_pieces offset sz len count = (offset div len, ?e div len)"
    using region_pieces_eq [OF assms(1-3), of count] e assms(4) by simp
  have "(offset div len \<le> p \<and> p \<le> ?e div len) = (\<exists>x. offset \<le> x \<and> x < offset + sz \<and> p = x div len)" for p
  proof
    assume p: "offset div len \<le> p \<and> p \<le> ?e div len"
    have "p * len \<le> ?e div len * len" using p assms(3) by simp
    then have pe: "p * len \<le> ?e" using mul [of ?e] by linarith
    show "\<exists>x. offset \<le> x \<and> x < offset + sz \<and> p = x div len"
    proof (cases "offset \<le> p * len")
      case True
      with pe assms(3) show ?thesis by (intro exI [of _ "p * len"]) simp
    next
      case False
      then have "p * len div len \<le> offset div len" using assms(3) by (intro zdiv_mono1) simp_all
      with p assms(2,3) show ?thesis by (intro exI [of _ offset]) simp
    qed
  qed (use assms(3) in \<open>auto intro!: zdiv_mono1\<close>)
  with region e assms(1-3) show ?thesis
    by (simp add: pos_imp_zdiv_nonneg_iff zdiv_mono1)
qed

text \<open>
  C22. \<open>region_pieces\<close> gives exactly the pieces that a byte range overlaps: for a non-empty
  range inside the torrent, a piece index lies between the two results if and only if one of the
  bytes of the range lies in that piece.
\<close>

theorem region_pieces_overlap:
  assumes "0 \<le> offset" and "0 < sz" and "0 < len" and "count < 2 ^ 31"
    and "offset + sz \<le> count * len"
  shows "case region_pieces offset sz len count of (a, b) \<Rightarrow>
    0 \<le> a \<and> a \<le> b \<and> b < count \<and>
    (\<forall>p. (a \<le> p \<and> p \<le> b) \<longleftrightarrow> (\<exists>x. offset \<le> x \<and> x < offset + sz \<and> p = x div len))"
  using region_cover [OF assms] by simp

theorem region_pieces_overlap_witness:
  "region_pieces 20 30 16 4 = (1, 3) \<and> (\<forall>p. (1 \<le> p \<and> p \<le> 3) \<longleftrightarrow> (\<exists>x. 20 \<le> x \<and> x < 50 \<and> p = x div (16 :: int)))"
proof -
  have r: "region_pieces 20 30 16 4 = (1, 3)" by code_simp
  from region_pieces_overlap [of 20 30 16 4] show ?thesis unfolding r by simp
qed

text \<open>
  \<open>humanize_bytes\<close> never reads past its table of units, for any size up to the largest
  \<open>std::int64_t\<close> and beyond; a size below the last unit is shown as a number below 1024 of its
  unit, and a negative size as a plain number.
\<close>

lemma humanize_bytes_total:
  "if sz < 0 then humanize_bytes sz = Inr (convertToString sz)
   else \<exists>d s r. humanize_bytes sz = Inr (show_hundredths (round_hundredths s r) @ '' '' @ size_units ! d) \<and>
     d < 6 \<and> r < 1024 \<and> (d < 5 \<longrightarrow> s < 1024)"
proof (cases "sz < 0")
  case True
  then show ?thesis by (simp add: humanize_bytes_def)
next
  case False
  obtain s r d where l: "humanize_loop (nat sz) 0 0 = (s, r, d)" by (cases "humanize_loop (nat sz) 0 0")
  from humanize_loop_bounds [of 0 0 "nat sz"] l have "d \<le> 5" "r < 1024" "d < 5 \<longrightarrow> s < 1024" by simp_all
  with l False have "humanize_bytes sz = Inr (show_hundredths (round_hundredths s r) @ '' '' @ size_units ! d) \<and>
     d < 6 \<and> r < 1024 \<and> (d < 5 \<longrightarrow> s < 1024)" by (simp add: humanize_bytes_def size_units_def)
  with False show ?thesis by auto
qed


end
