(* ===== verification/Settings.thy ===== *)
theory Settings
  imports Configuration Containers Utils "HOL-Library.Char_ord" "HOL-Library.List_Lexorder"
begin

text \<open>
  How a session turns the configuration into libtorrent settings: \<open>Session::configure\<close>,
  \<open>get_user_agent\<close> and the services (\<open>src/src/bittorrent/session.cpp\<close>). A
  \<open>lt::settings_pack\<close> is a map from setting names to values; the named constants of libtorrent
  stand for themselves. libtorrent's ready-made profiles, the random numbers, the number of
  processors and the version string are parameters.
\<close>

section \<open>Setting packs\<close>

datatype setting = Flag bool | Number int | Text string | Constant string | Flags "string list"

type_synonym settings_pack = "string \<rightharpoonup> setting"

definition set_pack :: "(string \<times> setting) list \<Rightarrow> settings_pack \<Rightarrow> settings_pack" where
  "set_pack kvs pack = foldl (\<lambda>m kv. m(fst kv \<mapsto> snd kv)) pack kvs"

lemma set_pack_Nil [simp]: "set_pack [] pack = pack"
  by (simp add: set_pack_def)

lemma set_pack_Cons [simp]: "set_pack (kv # kvs) pack = set_pack kvs (pack(fst kv \<mapsto> snd kv))"
  by (simp add: set_pack_def)

lemma set_pack_append: "set_pack (xs @ ys) pack = set_pack ys (set_pack xs pack)"
  by (simp add: set_pack_def)

text \<open>The last assignment to a name counts.\<close>

lemma set_pack_lookup: "set_pack kvs pack k = (case map_of (rev kvs) k of None \<Rightarrow> pack k | Some v \<Rightarrow> Some v)"
  by (induction kvs arbitrary: pack) (auto simp: map_add_def split: option.splits)

lemma set_pack_other: "k \<notin> fst ` set kvs \<Longrightarrow> set_pack kvs pack k = pack k"
  by (induction kvs arbitrary: pack) auto

section \<open>Settings that do not depend on the configuration\<close>

definition get_user_agent :: "string \<Rightarrow> config \<Rightarrow> string" where
  "get_user_agent version c = (case c_spoof_user_agent c of
     Agent_lt2http \<Rightarrow> ''lt2http/'' @ version
   | Agent_transmission_1_9_3 \<Rightarrow> ''Transmission/1.93''
   | Agent_transmission_2_9_2 \<Rightarrow> ''Transmission/2.92''
   | Agent_libtorrent_1_1_0 \<Rightarrow> ''libtorrent (Rasterbar) 1.1.0''
   | Agent_libtorrent_1_2_0 \<Rightarrow> ''libtorrent (Rasterbar) 1.2.0''
   | Agent_bittorrent_7_4_3 \<Rightarrow> ''BitTorrent/7.4.3''
   | Agent_bittorrent_7_5_0 \<Rightarrow> ''BitTorrent/7.5.0''
   | Agent_utorrent_2_2_1 \<Rightarrow> ''uTorrent/2.2.1''
   | Agent_utorrent_3_2_0 \<Rightarrow> ''uTorrent/3.2.0''
   | Agent_utorrent_3_4_9 \<Rightarrow> ''uTorrent/3.4.9''
   | Agent_deluge_1_3_6_0 \<Rightarrow> ''Deluge/1.3.6.0''
   | Agent_deluge_1_3_12_0 \<Rightarrow> ''Deluge/1.3.12.0''
   | Agent_vuze_5_7_3_0 \<Rightarrow> ''Vuze/5.7.3.0'')"

definition get_max_connections :: "int \<Rightarrow> int" where
  "get_max_connections cpu = (if cpu \<le> 1 then 30 else 75)"

definition base_settings :: "int \<Rightarrow> string \<Rightarrow> (string \<times> setting) list" where
  "base_settings cpu user_agent =
     [(''user_agent'', Text user_agent),
      (''announce_to_all_tiers'', Flag True),
      (''announce_to_all_trackers'', Flag True),
      (''apply_ip_filter_to_trackers'', Flag False),
      (''no_atime_storage'', Flag True),
      (''no_connect_privileged_ports'', Flag False),
      (''prioritize_partial_pieces'', Flag False),
      (''rate_limit_ip_overhead'', Flag False),
      (''smooth_connects'', Flag False),
      (''strict_end_game_mode'', Flag True),
      (''upnp_ignore_nonrouters'', Flag True),
      (''use_dht_as_fallback'', Flag False),
      (''use_parole_mode'', Flag True),
      (''enable_upnp'', Flag False),
      (''enable_natpmp'', Flag False),
      (''enable_lsd'', Flag False),
      (''enable_dht'', Flag False),
      (''listen_queue_size'', Number 30),
      (''alert_queue_size'', Number ((2 ^ 31 - 1) sdiv 2)),
      (''aio_threads'', Number (max 1 cpu * 4)),
      (''cache_size'', Number (-1)),
      (''mixed_mode_algorithm'', Constant ''prefer_tcp''),
      (''auto_scrape_interval'', Number 1200),
      (''auto_scrape_min_interval'', Number 900),
      (''min_announce_interval'', Number 30),
      (''dht_announce_interval'', Number 60),
      (''stop_tracker_timeout'', Number 1),
      (''seed_time_limit'', Number 0),
      (''seed_time_ratio_limit'', Number 0),
      (''share_ratio_limit'', Number 0),
      (''choking_algorithm'', Constant ''fixed_slots_choker''),
      (''seed_choking_algorithm'', Constant ''fastest_upload''),
      (''request_queue_time'', Number 2),
      (''max_out_request_queue'', Number 5000),
      (''max_allowed_in_request_queue'', Number 5000),
      (''max_peerlist_size'', Number 50000),
      (''dht_upload_rate_limit'', Number 50000),
      (''max_pex_peers'', Number 200),
      (''max_suggest_pieces'', Number 50),
      (''whole_pieces_threshold'', Number 10),
      (''send_buffer_low_watermark'', Number (10 * 1024)),
      (''send_buffer_watermark'', Number (500 * 1024)),
      (''send_buffer_watermark_factor'', Number 50),
      (''download_rate_limit'', Number 0),
      (''upload_rate_limit'', Number 0)]"

text \<open>A profile replaces the pack. \<open>profiles\<close> are the packs of libtorrent's two profiles.\<close>

definition apply_profile :: "settings_pack \<times> settings_pack \<Rightarrow> config \<Rightarrow> settings_pack \<Rightarrow> settings_pack" where
  "apply_profile profiles c pack =
     (if c_libtorrent_profile c = Profile_minimal_memory then fst profiles
      else if c_libtorrent_profile c = Profile_high_speed then snd profiles
      else pack)"

section \<open>Settings from the configuration\<close>

definition session_memory_storage :: "config \<Rightarrow> bool" where
  "session_memory_storage c \<longleftrightarrow> c_download_storage c = Storage_memory"

definition session_memory_size :: "config \<Rightarrow> int" where
  "session_memory_size c = c_memory_size c * 1024 * 1024"

definition storage_settings :: "config \<Rightarrow> (string \<times> setting) list" where
  "storage_settings c =
     (if c_tuned_storage c \<and> \<not> session_memory_storage c then
        [(''use_read_cache'', Flag True), (''coalesce_reads'', Flag True), (''coalesce_writes'', Flag True),
         (''max_queued_disk_bytes'', Number (c_disk_cache_size c * 1024 * 1024))]
      else [])"

definition connection_settings :: "config \<Rightarrow> (string \<times> setting) list" where
  "connection_settings c =
     (if c_connections_limit c > 0 then [(''connections_limit'', Number (c_connections_limit c))] else []) @
     (if c_conntracker_limit_auto c \<or> c_conntracker_limit c = 0 then [(''connection_speed'', Number 300)]
      else [(''connection_speed'', Number (c_conntracker_limit c))])"

definition rate_settings :: "config \<Rightarrow> (string \<times> setting) list" where
  "rate_settings c =
     (if \<not> c_limit_after_buffering c then
        (if c_max_download_rate c > 0
         then [(''download_rate_limit'', Number (c_max_download_rate c * 1024))] else []) @
        (if c_max_upload_rate c > 0
         then [(''upload_rate_limit'', Number (c_max_upload_rate c * 1024))] else [])
      else [])"

definition seed_settings :: "config \<Rightarrow> (string \<times> setting) list" where
  "seed_settings c =
     (if \<not> c_seed_forever c then
        (if c_share_ratio_limit c > 0 then [(''share_ratio_limit'', Number (c_share_ratio_limit c))] else []) @
        (if c_seed_time_ratio_limit c > 0
         then [(''seed_time_ratio_limit'', Number (c_seed_time_ratio_limit c))] else []) @
        (if c_seed_time_limit c > 0 then [(''seed_time_limit'', Number (c_seed_time_limit c * 3600))] else [])
      else [])"

definition encryption_settings :: "config \<Rightarrow> (string \<times> setting) list" where
  "encryption_settings c =
     [(''allowed_enc_level'', Constant ''pe_rc4''), (''prefer_rc4'', Flag True)] @
     (case c_encryption_policy c of
        Encryption_enabled \<Rightarrow>
          [(''out_enc_policy'', Constant ''pe_enabled''), (''in_enc_policy'', Constant ''pe_enabled'')]
      | Encryption_forced \<Rightarrow>
          [(''out_enc_policy'', Constant ''pe_forced''), (''in_enc_policy'', Constant ''pe_forced'')]
      | Encryption_disabled \<Rightarrow>
          [(''out_enc_policy'', Constant ''pe_disabled''), (''in_enc_policy'', Constant ''pe_disabled'')])"

definition proxy_settings :: "config \<Rightarrow> (string \<times> setting) list" where
  "proxy_settings c =
     [(''proxy_type'', Constant ''none'')] @
     (if c_proxy_enabled c \<and> c_proxy_host c \<noteq> [] then
        (case c_proxy_type c of
           Proxy_none \<Rightarrow> []
         | Proxy_socks4 \<Rightarrow> [(''proxy_type'', Constant ''socks4'')]
         | Proxy_socks5 \<Rightarrow> [(''proxy_type'', Constant ''socks5'')]
         | Proxy_socks5_pw \<Rightarrow> [(''proxy_type'', Constant ''socks5_pw'')]
         | Proxy_http \<Rightarrow> [(''proxy_type'', Constant ''http'')]
         | Proxy_http_pw \<Rightarrow> [(''proxy_type'', Constant ''http_pw'')]
         | Proxy_i2p_proxy \<Rightarrow>
             [(''proxy_type'', Constant ''i2p_proxy''), (''i2p_port'', Number (c_proxy_port c)),
              (''i2p_hostname'', Text (c_proxy_host c)), (''allow_i2p_mixed'', Flag True)]) @
        [(''proxy_port'', Number (c_proxy_port c)), (''proxy_hostname'', Text (c_proxy_host c)),
         (''proxy_username'', Text (c_proxy_login c)), (''proxy_password'', Text (c_proxy_password c)),
         (''proxy_peer_connections'', Flag (c_use_proxy_download c)),
         (''proxy_hostnames'', Flag (c_use_proxy_download c)),
         (''proxy_tracker_connections'', Flag (c_use_proxy_tracker c))]
      else [])"

definition alert_settings :: "config \<Rightarrow> (string \<times> setting) list" where
  "alert_settings c =
     [(''alert_mask'', Flags [''error_notification'', ''file_progress_notification'', ''performance_warning'',
        ''status_notification'', ''tracker_notification'', ''status''])] @
     (if c_use_libtorrent_logging c then [(''alert_mask'', Flags [''all_categories''])] else [])"

text \<open>The products above are computed in \<open>int\<close>; one that does not fit is undefined.\<close>

definition fits_int :: "int \<Rightarrow> bool" where
  "fits_int x \<longleftrightarrow> - (2 ^ 31) \<le> x \<and> x < 2 ^ 31"

definition settings_fit :: "config \<Rightarrow> bool" where
  "settings_fit c \<longleftrightarrow>
     (c_tuned_storage c \<and> \<not> session_memory_storage c \<longrightarrow> fits_int (c_disk_cache_size c * 1024 * 1024)) \<and>
     (\<not> c_limit_after_buffering c \<longrightarrow>
        (c_max_download_rate c > 0 \<longrightarrow> fits_int (c_max_download_rate c * 1024)) \<and>
        (c_max_upload_rate c > 0 \<longrightarrow> fits_int (c_max_upload_rate c * 1024))) \<and>
     (\<not> c_seed_forever c \<and> c_seed_time_limit c > 0 \<longrightarrow> fits_int (c_seed_time_limit c * 3600))"

section \<open>Memory storage\<close>

definition memory_settings :: "(string \<times> setting) list" where
  "memory_settings =
     [(''close_redundant_connections'', Flag False),
      (''share_ratio_limit'', Number 0), (''seed_time_ratio_limit'', Number 0), (''seed_time_limit'', Number 0),
      (''active_downloads'', Number (-1)), (''active_seeds'', Number (-1)), (''active_limit'', Number (-1)),
      (''active_tracker_limit'', Number (-1)), (''active_dht_limit'', Number (-1)),
      (''active_lsd_limit'', Number (-1)),
      (''max_out_request_queue'', Number 100000), (''max_allowed_in_request_queue'', Number 100000),
      (''use_read_cache'', Flag False), (''auto_sequential'', Flag False), (''cache_size'', Number 0),
      (''inactivity_timeout'', Number (60 * 30)), (''peer_timeout'', Number (60 * 10)),
      (''min_reconnect_time'', Number 20)]"

text \<open>The memory grows to hold both buffers and 8 MB more.\<close>

definition needed_memory :: "config \<Rightarrow> int" where
  "needed_memory c = c_buffer_size c * 1024 * 1024 + c_end_buffer_size c * 1024 * 1024 + 8 * 1024 * 1024"

definition raise_memory :: "config \<Rightarrow> config" where
  "raise_memory c =
     (if session_memory_size c < needed_memory c
      then c\<lparr>c_memory_size := to_int32 (needed_memory c sdiv 1024 sdiv 1024)\<rparr> else c)"

section \<open>Listening\<close>

definition listen_ports :: "config \<Rightarrow> config" where
  "listen_ports c =
     (if c_listen_auto_detect_port c then c\<lparr>c_listen_port_min := 6891, c_listen_port_max := 6899\<rparr> else c)"

definition interfaces :: "config \<Rightarrow> string list" where
  "interfaces c =
     (if \<not> c_listen_auto_detect_ip c \<and> c_listen_interfaces c \<noteq> [] then c_listen_interfaces c
      else [''0.0.0.0'', ''[::]''])"

type_synonym port_map = "(int, int list) std_map"

definition add_listen :: "string \<Rightarrow> int \<Rightarrow> port_map \<times> string \<Rightarrow> port_map \<times> string" where
  "add_listen i port st =
     (map_set port [] (fst st), (if snd st \<noteq> [] then snd st @ '','' else snd st) @ i @ '':'' @ show_int port)"

text \<open>The loop over the interfaces; \<open>rand k\<close> is the \<open>k\<close>-th value of \<open>rand()\<close>.\<close>

fun listen_loop :: "(nat \<Rightarrow> int) \<Rightarrow> nat \<Rightarrow> config \<Rightarrow> string list \<Rightarrow> port_map \<times> string \<Rightarrow> (port_map \<times> string) result" where
  "listen_loop rand k c [] st = Inr st"
| "listen_loop rand k c (i # is) st =
     bind_result (random (rand k) (c_listen_port_min c) (c_listen_port_max c)) (\<lambda>port.
     let st1 = add_listen i port st in
     if c_listen_port_max c - c_listen_port_min c > 0 then
       bind_result (random (rand (k + 1)) (c_listen_port_min c) (c_listen_port_max c)) (\<lambda>port2.
         listen_loop rand (k + 2) c is (add_listen i port2 st1))
     else listen_loop rand (k + 1) c is st1)"

section \<open>configure\<close>

text \<open>
  \<open>mkpath\<close> gives an error message when the directory can not be made; the file system it works
  on is not modelled further.
\<close>

definition check_directories :: "(string \<Rightarrow> string option) \<Rightarrow> config \<Rightarrow> unit result" where
  "check_directories mkpath c =
     (if c_torrents_path c = [] then Inl (Throw LhException ''Cannot start without torrents_path setting'')
      else case mkpath (c_torrents_path c) of
        Some e \<Rightarrow> Inl (Throw LhException e)
      | None \<Rightarrow>
          if c_download_path c = [] then Inl (Throw LhException ''Cannot start without download_path setting'')
          else (case mkpath (c_download_path c) of Some e \<Rightarrow> Inl (Throw LhException e) | None \<Rightarrow> Inr ()))"

record settings_env =
  se_mkpath :: "string \<Rightarrow> string option"
  se_cpu :: int
  se_version :: string
  se_profiles :: "settings_pack \<times> settings_pack"
  se_rand :: "nat \<Rightarrow> int"

definition config_settings :: "config \<Rightarrow> (string \<times> setting) list" where
  "config_settings c = storage_settings c @ connection_settings c @ rate_settings c @ seed_settings c @
     encryption_settings c @ proxy_settings c @ alert_settings c"

definition outgoing_settings :: "config \<Rightarrow> (string \<times> setting) list" where
  "outgoing_settings c =
     (if c_outgoing_interfaces c \<noteq> [] then [(''outgoing_interfaces'', Text (join (c_outgoing_interfaces c) '',''))] else [])"

text \<open>The pack up to the memory settings, and the configuration with the memory and ports adjusted.\<close>

definition configured_pack :: "settings_env \<Rightarrow> config \<Rightarrow> settings_pack \<Rightarrow> settings_pack" where
  "configured_pack env c pack =
     (let pack1 = set_pack (base_settings (se_cpu env) (get_user_agent (se_version env) c)) pack;
          pack2 = set_pack (config_settings c) (apply_profile (se_profiles env) c pack1)
      in if session_memory_storage c then set_pack memory_settings pack2 else pack2)"

definition adjusted_config :: "config \<Rightarrow> config" where
  "adjusted_config c = listen_ports (if session_memory_storage c then raise_memory c else c)"

definition configure :: "settings_env \<Rightarrow> config \<Rightarrow> settings_pack \<Rightarrow> (settings_pack \<times> config \<times> port_map) result" where
  "configure env c pack =
     bind_result (check_directories (se_mkpath env) c) (\<lambda>_.
     if \<not> settings_fit c then Inl Undefined
     else
       let c' = adjusted_config c in
       bind_result (listen_loop (se_rand env) 0 c' (interfaces c') ([], [])) (\<lambda>(ports, listen).
         Inr (set_pack ((''listen_interfaces'', Text listen) # outgoing_settings c') (configured_pack env c pack), c', ports)))"

section \<open>Services\<close>

definition start_settings :: "config \<Rightarrow> (string \<times> setting) list" where
  "start_settings c =
     (if \<not> c_disable_lsd c then [(''enable_lsd'', Flag True)] else []) @
     (if \<not> c_disable_dht c then
        [(''dht_bootstrap_nodes'', Text (''dht.libtorrent.org:25401,router.bittorrent.com:6881,router.utorrent.com:6881,dht.transmissionbt.com:6881,''
            @ ''dht.aelitis.com:6881'')),
         (''enable_dht'', Flag True)] else []) @
     (if \<not> c_disable_upnp c then [(''enable_upnp'', Flag True), (''enable_natpmp'', Flag True)] else [])"

definition stop_settings :: "config \<Rightarrow> (string \<times> setting) list" where
  "stop_settings c =
     (if \<not> c_disable_lsd c then [(''enable_lsd'', Flag False)] else []) @
     (if \<not> c_disable_dht c then [(''enable_dht'', Flag False)] else []) @
     (if \<not> c_disable_upnp c then [(''enable_upnp'', Flag False), (''enable_natpmp'', Flag False)] else [])"

end
