(* ===== verification/Native.thy ===== *)
theory Native
  imports Complex_Main Libtorrent
begin

text \<open>
  The values that libtorrent hands out about a torrent, as far as the sources read them:
  \<open>lt::torrent_status\<close>, \<open>lt::torrent_info\<close> with its files, the download queue, and the
  queries that return them. The queries are a parameter, like the operations of
  \<open>lt_api\<close>. A \<open>float\<close> or \<open>double\<close> is a rational number: rounding is not modelled.
\<close>

datatype lt_state =
    Checking_files | Downloading_metadata | Downloading | Finished | Seeding | Allocating
  | Checking_resume_data

record torrent_status =
  st_state :: lt_state
  st_errc :: bool
  st_name :: string
  st_auto_managed :: bool
  st_paused :: bool
  st_sequential_download :: bool
  st_progress :: rat
  st_total_wanted :: int
  st_total_wanted_done :: int
  st_total_done :: int
  st_total_payload_upload :: int
  st_total_payload_download :: int
  st_all_time_upload :: int
  st_all_time_download :: int
  st_upload_payload_rate :: int
  st_download_payload_rate :: int
  st_active_seconds :: int
  st_finished_seconds :: int
  st_seeding_seconds :: int
  st_num_connections :: int
  st_connections_limit :: int
  st_num_seeds :: int
  st_num_peers :: int
  st_num_complete :: int
  st_num_incomplete :: int
  st_list_seeds :: int
  st_list_peers :: int
  st_need_save_resume :: bool
  st_is_seeding :: bool
  st_is_finished :: bool
  st_has_metadata :: bool
  st_has_incoming :: bool
  st_moving_storage :: bool
  st_announcing_to_trackers :: bool
  st_announcing_to_lsd :: bool
  st_announcing_to_dht :: bool

record native_file =
  nf_path :: string
  nf_name :: string
  nf_size :: int
  nf_offset :: int

record torrent_info =
  ti_is_valid :: bool
  ti_name :: string
  ti_total_size :: int
  ti_piece_length :: int
  ti_num_pieces :: int
  ti_piece_size :: "int \<Rightarrow> int"
  ti_files :: "native_file list"

definition ti_num_files :: "torrent_info \<Rightarrow> int" where
  "ti_num_files ti = int (length (ti_files ti))"

text \<open>
  A torrent's metadata as libtorrent gives it: pieces cover the data, all of the same length
  except a shorter last one; the files follow each other.
\<close>

definition info_ok :: "torrent_info \<Rightarrow> bool" where
  "info_ok ti \<longleftrightarrow> ti_is_valid ti \<and> ti_files ti \<noteq> [] \<and>
     0 < ti_piece_length ti \<and> ti_piece_length ti < 2 ^ 31 \<and> 0 \<le> ti_num_pieces ti \<and> ti_num_pieces ti < 2 ^ 31 \<and>
     (\<forall>i. 0 \<le> i \<longrightarrow> i < ti_num_pieces ti \<longrightarrow> 0 < ti_piece_size ti i \<and> ti_piece_size ti i \<le> ti_piece_length ti) \<and>
     ti_total_size ti \<le> ti_num_pieces ti * ti_piece_length ti \<and>
     (\<forall>f \<in> set (ti_files ti). 0 \<le> nf_size f \<and> 0 \<le> nf_offset f \<and> nf_offset f + nf_size f \<le> ti_total_size ti)"

text \<open>A piece in the download queue with the bytes received of each of its blocks.\<close>

record partial_piece =
  pp_index :: int
  pp_blocks :: "int list"

text \<open>A tracker of a torrent, with one endpoint for each interface that announces to it.\<close>

record announce_endpoint =
  ep_updating :: bool
  ep_is_working :: bool
  ep_scrape_complete :: int
  ep_scrape_incomplete :: int
  ep_message :: string

record announce_entry =
  ae_url :: string
  ae_endpoints :: "announce_endpoint list"

record 'h lt_query =
  q_torrent_file :: "'h \<Rightarrow> torrent_info option"
  q_status :: "'h \<Rightarrow> torrent_status"
  q_file_progress :: "'h \<Rightarrow> int list"
  q_download_queue :: "'h \<Rightarrow> partial_piece list"
  q_file_priorities :: "'h \<Rightarrow> int list"
  q_trackers :: "'h \<Rightarrow> announce_entry list"

section \<open>Concrete values\<close>

text \<open>A torrent with one file of 56 bytes in four pieces of 16 bytes, being downloaded.\<close>

definition demo_info :: torrent_info where
  "demo_info = \<lparr>ti_is_valid = True, ti_name = ''demo'', ti_total_size = 56, ti_piece_length = 16,
     ti_num_pieces = 4, ti_piece_size = (\<lambda>i. if i = 3 then 8 else 16),
     ti_files = [\<lparr>nf_path = ''demo/a.mkv'', nf_name = ''a.mkv'', nf_size = 56, nf_offset = 0\<rparr>]\<rparr>"

definition demo_status :: torrent_status where
  "demo_status = \<lparr>st_state = Downloading, st_errc = False, st_name = ''demo'',
     st_auto_managed = True, st_paused = False, st_sequential_download = False, st_progress = 0,
     st_total_wanted = 56, st_total_wanted_done = 16, st_total_done = 16,
     st_total_payload_upload = 0, st_total_payload_download = 16, st_all_time_upload = 0,
     st_all_time_download = 16, st_upload_payload_rate = 0, st_download_payload_rate = 100,
     st_active_seconds = 1, st_finished_seconds = 0, st_seeding_seconds = 0,
     st_num_connections = 2, st_connections_limit = 200, st_num_seeds = 1, st_num_peers = 2,
     st_num_complete = 5, st_num_incomplete = 3, st_list_seeds = 1, st_list_peers = 4,
     st_need_save_resume = False, st_is_seeding = False, st_is_finished = False, st_has_metadata = True,
     st_has_incoming = False, st_moving_storage = False, st_announcing_to_trackers = True,
     st_announcing_to_lsd = False, st_announcing_to_dht = True\<rparr>"

definition demo_query :: "lt_demo lt_query" where
  "demo_query = \<lparr>q_torrent_file = (\<lambda>d. Some demo_info), q_status = (\<lambda>d. demo_status),
     q_file_progress = (\<lambda>d. [16]), q_download_queue = (\<lambda>d. [\<lparr>pp_index = 1, pp_blocks = [4, 4]\<rparr>]),
     q_file_priorities = (\<lambda>d. [d_file_prio d 0]),
     q_trackers = (\<lambda>d. [\<lparr>ae_url = ''udp://x'', ae_endpoints =
       [\<lparr>ep_updating = False, ep_is_working = True, ep_scrape_complete = 5, ep_scrape_incomplete = -1, ep_message = []\<rparr>]\<rparr>])\<rparr>"

lemma info_ok_demo: "info_ok demo_info"
  by (auto simp: info_ok_def demo_info_def)

end
