(* ===== verification/Paths.thy ===== *)
theory Paths
  imports Prelude "HOL-Library.Multiset"
begin

text \<open>
  The file helpers of \<open>src/src/utils/path.h\<close>. A file system is a partial map from names to
  contents; \<open>can_write\<close> says which names can be opened for writing. \<open>boost::filesystem\<close>
  is not part of the repository: joining and completing paths (\<open>join_path\<close>, \<open>is_absolute\<close>,
  \<open>absolute\<close>) and the entries of a directory are arguments.
\<close>

type_synonym file_system = "string \<rightharpoonup> string"

definition file_exists :: "file_system \<Rightarrow> string \<Rightarrow> bool" where
  "file_exists fs name \<longleftrightarrow> fs name \<noteq> None"

definition save_file :: "(string \<Rightarrow> bool) \<Rightarrow> string \<Rightarrow> string \<Rightarrow> file_system \<Rightarrow> bool \<times> file_system" where
  "save_file can_write filename v fs =
     (if can_write filename then (True, fs(filename \<mapsto> v)) else (False, fs))"

text \<open>The two overloads of \<open>load_file\<close>; the second value is the output parameter.\<close>

definition load_file_string :: "string \<Rightarrow> string \<Rightarrow> file_system \<Rightarrow> bool \<times> string" where
  "load_file_string filename v fs = (case fs filename of
     None \<Rightarrow> (False, v)
   | Some s \<Rightarrow> if length s = 0 then (True, v) else (True, s))"

definition load_file :: "string \<Rightarrow> string \<Rightarrow> nat \<Rightarrow> file_system \<Rightarrow> bool \<times> string" where
  "load_file filename v limit fs = (case fs filename of
     None \<Rightarrow> (False, v)
   | Some s \<Rightarrow> if length s > limit then (False, v) else (True, s))"

definition is_absolute_path :: "(string \<Rightarrow> bool) \<Rightarrow> string \<Rightarrow> bool" where
  "is_absolute_path is_absolute f = (if f = [] then False else is_absolute f)"

definition path_append :: "(string \<Rightarrow> string \<Rightarrow> string) \<Rightarrow> string \<Rightarrow> string \<Rightarrow> string" where
  "path_append join_path lhs rhs =
     (if lhs = [] \<or> lhs = ''.'' then rhs
      else if rhs = [] \<or> rhs = ''.'' then lhs
      else join_path lhs rhs)"

definition make_absolute_path :: "(string \<Rightarrow> bool) \<Rightarrow> (string \<Rightarrow> string) \<Rightarrow> string \<Rightarrow> string" where
  "make_absolute_path is_absolute absolute p =
     (if is_absolute_path is_absolute p then p else absolute p)"

definition resume_file :: "(string \<Rightarrow> string \<Rightarrow> string) \<Rightarrow> string \<Rightarrow> string \<Rightarrow> string" where
  "resume_file join_path save_path info_hash = path_append join_path save_path (info_hash @ ''.resume'')"

definition parts_file :: "(string \<Rightarrow> string \<Rightarrow> string) \<Rightarrow> string \<Rightarrow> string \<Rightarrow> string" where
  "parts_file join_path save_path info_hash = path_append join_path save_path (info_hash @ ''.parts'')"

definition torrent_file :: "(string \<Rightarrow> string \<Rightarrow> string) \<Rightarrow> string \<Rightarrow> string \<Rightarrow> string" where
  "torrent_file join_path save_path info_hash = path_append join_path save_path (info_hash @ ''.torrent'')"

text \<open>
  A directory entry: its file name, its path, whether it is a regular file, its modification time,
  and whether asking for these failed with an error code.
\<close>

record dir_entry =
  de_name :: string
  de_path :: string
  de_is_regular :: bool
  de_mtime :: int
  de_failed :: bool

text \<open>\<open>std::multimap::insert\<close>: after the entries with the same key.\<close>

fun multimap_insert :: "'k::linorder \<Rightarrow> 'v \<Rightarrow> ('k \<times> 'v) list \<Rightarrow> ('k \<times> 'v) list" where
  "multimap_insert k v [] = [(k, v)]"
| "multimap_insert k v (e # m) = (if k < fst e then (k, v) # e # m else e # multimap_insert k v m)"

fun list_dir_loop :: "(string \<Rightarrow> bool) \<Rightarrow> dir_entry list \<Rightarrow> (int \<times> string) list \<Rightarrow> (int \<times> string) list" where
  "list_dir_loop filter_fun [] files = files"
| "list_dir_loop filter_fun (e # es) files =
     (let files' = (if de_is_regular e \<and> filter_fun (de_name e)
                    then multimap_insert (de_mtime e) (de_path e) files else files)
      in if de_failed e then files' else list_dir_loop filter_fun es files')"

text \<open>\<open>dir = None\<close> when the path does not exist or is no directory.\<close>

definition list_dir :: "dir_entry list option \<Rightarrow> (string \<Rightarrow> bool) \<Rightarrow> (int \<times> string) list" where
  "list_dir dir filter_fun = (case dir of None \<Rightarrow> [] | Some es \<Rightarrow> list_dir_loop filter_fun es [])"

definition remove_file :: "string \<Rightarrow> file_system \<Rightarrow> file_system" where
  "remove_file path fs = (if \<not> file_exists fs path then fs else fs(path := None))"

text \<open>\<open>mkpath\<close> calls \<open>create_directories\<close> on paths that do not exist.\<close>

definition mkpath :: "(string \<Rightarrow> bool) \<Rightarrow> string \<Rightarrow> string list" where
  "mkpath exists path = (if path \<noteq> [] \<and> path \<noteq> ''.'' \<and> \<not> exists path then [path] else [])"

section \<open>Lemmas\<close>

lemma mset_multimap_insert: "mset (multimap_insert k v m) = add_mset (k, v) (mset m)"
  by (induction m) auto

lemma set_multimap_insert: "set (multimap_insert k v m) = insert (k, v) (set m)"
  by (induction m) auto

lemma sorted_multimap_insert: "sorted (map fst m) \<Longrightarrow> sorted (map fst (multimap_insert k v m))"
  by (induction m) (auto simp: set_multimap_insert)

lemma remove_file_gone [simp]: "remove_file path fs = fs(path := None)"
  by (auto simp: remove_file_def file_exists_def)

lemma list_dir_loop_sorted:
  "sorted (map fst files) \<Longrightarrow> sorted (map fst (list_dir_loop f es files))"
  by (induction es arbitrary: files) (auto simp: Let_def sorted_multimap_insert)

lemma list_dir_loop_mset:
  "\<forall>e \<in> set es. \<not> de_failed e \<Longrightarrow>
   mset (list_dir_loop f es files) = mset files +
     mset (map (\<lambda>e. (de_mtime e, de_path e)) (filter (\<lambda>e. de_is_regular e \<and> f (de_name e)) es))"
  by (induction es arbitrary: files) (auto simp: Let_def mset_multimap_insert)

text \<open>
  Listing a directory: the result is ordered by modification time, oldest first, and when
  no entry fails it holds exactly the regular files that pass the filter.
\<close>

lemma list_dir_sorted:
  assumes "\<forall>e \<in> set es. \<not> de_failed e"
  shows "sorted (map fst (list_dir (Some es) f)) \<and>
    mset (list_dir (Some es) f) =
      mset (map (\<lambda>e. (de_mtime e, de_path e)) (filter (\<lambda>e. de_is_regular e \<and> f (de_name e)) es))"
  using list_dir_loop_sorted [of "[]" f es] list_dir_loop_mset [OF assms, of f "[]"]
  by (simp add: list_dir_def)

lemma list_dir_sorted_example:
  "sorted (map fst (list_dir (Some
     [\<lparr>de_name = ''a'', de_path = ''d/a'', de_is_regular = True, de_mtime = 7, de_failed = False\<rparr>,
      \<lparr>de_name = ''b'', de_path = ''d/b'', de_is_regular = True, de_mtime = 3, de_failed = False\<rparr>]) (\<lambda>n. True)))"
  by (rule list_dir_sorted [THEN conjunct1]) simp

end
