(* ===== verification/Torrent.thy ===== *)
theory Torrent
  imports Native Memory_Storage Configuration Containers Paths Utils
    "HOL-Library.Char_ord" "HOL-Library.List_Lexorder"
begin

text \<open>
  The classes \<open>File\<close> (\<open>src/src/bittorrent/file.h\<close>, \<open>file.cpp\<close>) and \<open>Torrent\<close>
  (\<open>torrent.h\<close>, \<open>torrent.cpp\<close>), and the data of \<open>Reader\<close> (\<open>reader.h\<close>). A file
  points back to its torrent, so the operations of \<open>File\<close> take and return the pair of both.
  Readers are heap objects that a file and a torrent refer to by pointer: a pointer is an address,
  and the operations that follow it take the heap.
\<close>

section \<open>Data\<close>

datatype torrent_state =
    State_Unknown | State_Queued
  | State_ForcedDownloading | State_Downloading | State_DownloadingMetadata | State_StalledDownloading
  | State_ForcedUploading | State_Uploading | State_StalledUploading
  | State_CheckingResumeData | State_QueuedDownloading | State_QueuedUploading
  | State_CheckingUploading | State_CheckingDownloading
  | State_PausedDownloading | State_PausedUploading
  | State_Moving | State_MissingFiles | State_Error

record tracker_info =
  tr_lastMessage :: string
  tr_numPeers :: int

type_synonym address = nat

record lh_file =
  f_isSelected :: bool
  f_index :: int
  f_path :: string
  f_name :: string
  f_size :: int
  f_offset :: int
  f_piece_start :: int
  f_piece_end :: int
  f_isBuffering :: bool
  f_buffer_pieces :: "int list"
  f_buffer_size :: int
  f_buffer_progress :: rat
  f_start_buffer_size :: int
  f_end_buffer_size :: int
  f_config :: config
  f_readers :: "(int, address) std_map"

text \<open>
  A reader's \<open>m_file\<close> is only asked for fields that do not change after construction, so the
  reader holds the file as it was built. \<open>rd_range\<close> is the requested byte range.
\<close>

record reader =
  rd_file :: lh_file
  rd_range :: "int \<times> int"
  rd_id :: int
  rd_offset :: int
  rd_size :: int
  rd_piece_size :: int
  rd_position :: int
  rd_piece_start :: int
  rd_piece_end :: int
  rd_isClosing :: bool
  rd_isPrioritized :: bool
  rd_isIterated :: bool
  rd_piece_timeout :: int

type_synonym reader_heap = "address \<Rightarrow> reader"

record 'h torrent =
  t_native :: 'h
  t_status :: torrent_status
  t_info :: "torrent_info option"
  t_file_storage :: bool
  t_memory_storage :: "memory_storage option"
  t_storageType :: storage_type_t
  t_state :: torrent_state
  t_files :: "lh_file list"
  t_readers :: "(int, address) std_map"
  t_trackerInfos :: "(string, tracker_info) std_map"
  t_name :: string
  t_hash :: string
  t_torrentFile :: string
  t_resumeFile :: string
  t_partsFile :: string
  t_deadline_pieces :: "bool list"
  t_hasSeedStatus :: bool
  t_isStopped :: bool
  t_addedTime :: int
  t_isClosing :: bool

definition new_torrent ::
  "(string \<Rightarrow> string \<Rightarrow> string) \<Rightarrow> 'h lt_query \<Rightarrow> config \<Rightarrow> 'h \<Rightarrow> torrent_status \<Rightarrow> string \<Rightarrow> storage_type_t \<Rightarrow> int \<Rightarrow> 'h torrent" where
  "new_torrent join_path q config h empty_status hash st added_time = \<lparr>
     t_native = h, t_status = empty_status, t_info = q_torrent_file q h,
     t_file_storage = False, t_memory_storage = None,
     t_storageType = st, t_state = State_Unknown, t_files = [], t_readers = [], t_trackerInfos = [],
     t_name = [], t_hash = hash,
     t_torrentFile = torrent_file join_path (c_torrents_path config) hash,
     t_resumeFile = resume_file join_path (c_torrents_path config) hash,
     t_partsFile = parts_file join_path (c_download_path config) hash,
     t_deadline_pieces = [], t_hasSeedStatus = False, t_isStopped = False,
     t_addedTime = added_time, t_isClosing = False\<rparr>"

section \<open>Queries of Torrent\<close>

definition is_valid :: "'h torrent \<Rightarrow> bool" where
  "is_valid t = (case t_info t of None \<Rightarrow> False | Some ti \<Rightarrow> ti_is_valid ti \<and> ti_num_files ti > 0)"

definition has_metadata :: "'h torrent \<Rightarrow> bool" where
  "has_metadata t = (case t_info t of None \<Rightarrow> False | Some ti \<Rightarrow> ti_is_valid ti \<and> ti_num_files ti > 0)"

definition info_field :: "(torrent_info \<Rightarrow> int) \<Rightarrow> 'h torrent \<Rightarrow> int" where
  "info_field fld t = (if \<not> is_valid t then -1 else fld (the (t_info t)))"

definition torrent_size :: "'h torrent \<Rightarrow> int" where
  "torrent_size t = info_field ti_total_size t"

definition files_count :: "'h torrent \<Rightarrow> int" where
  "files_count t = info_field ti_num_files t"

definition piece_length :: "'h torrent \<Rightarrow> int" where
  "piece_length t = info_field ti_piece_length t"

definition piece_length_at :: "'h torrent \<Rightarrow> int \<Rightarrow> int" where
  "piece_length_at t index = info_field (\<lambda>ti. ti_piece_size ti index) t"

definition pieces_count :: "'h torrent \<Rightarrow> int" where
  "pieces_count t = info_field ti_num_pieces t"

definition have_piece :: "'h lt_api \<Rightarrow> 'h torrent \<Rightarrow> int \<Rightarrow> bool" where
  "have_piece api t piece = lt_have_piece api (t_native t) piece"

definition is_memory_storage :: "'h torrent \<Rightarrow> bool" where
  "is_memory_storage t \<longleftrightarrow> t_storageType t = Storage_memory"

definition torrent_name :: "'h torrent \<Rightarrow> string" where
  "torrent_name t =
     (if t_name t \<noteq> [] then t_name t
      else if has_metadata t then ti_name (the (t_info t))
      else if st_name (t_status t) \<noteq> [] then st_name (t_status t)
      else [])"

definition find_file :: "int \<Rightarrow> 'h torrent \<Rightarrow> lh_file option" where
  "find_file index t = find (\<lambda>f. f_index f = index) (t_files t)"

definition get_file :: "'h torrent \<Rightarrow> int \<Rightarrow> lh_file result" where
  "get_file t index = (case find_file index t of
     None \<Rightarrow> Inl (Throw FileException (''File with index '' @ [CHR 0x27] @ show_int index @ [CHR 0x27] @
       '' not found in torrent with hash '' @ [CHR 0x27] @ t_hash t @ [CHR 0x27]))
   | Some f \<Rightarrow> Inr f)"

section \<open>State\<close>

definition has_error :: "'h torrent \<Rightarrow> bool" where
  "has_error t = st_errc (t_status t)"

definition is_buffering_file :: "lh_file \<Rightarrow> bool" where
  "is_buffering_file f \<longleftrightarrow> f_isBuffering f \<and> f_buffer_progress f < 100"

definition is_buffering :: "'h torrent \<Rightarrow> bool" where
  "is_buffering t = list_ex is_buffering_file (t_files t)"

definition is_paused :: "'h torrent \<Rightarrow> bool" where
  "is_paused t = t_isStopped t"

definition is_queued :: "'h torrent \<Rightarrow> bool" where
  "is_queued t \<longleftrightarrow> \<not> is_paused t \<and> st_auto_managed (t_status t) \<and> st_paused (t_status t)"

definition is_checking :: "'h torrent \<Rightarrow> bool" where
  "is_checking t \<longleftrightarrow> st_state (t_status t) = Checking_files \<or> st_state (t_status t) = Checking_resume_data"

definition is_seed :: "'h torrent \<Rightarrow> bool" where
  "is_seed t \<longleftrightarrow> st_state (t_status t) = Finished \<or> st_state (t_status t) = Seeding"

definition is_forced :: "'h torrent \<Rightarrow> bool" where
  "is_forced t \<longleftrightarrow> \<not> is_paused t"

definition is_sequential_download :: "'h torrent \<Rightarrow> bool" where
  "is_sequential_download t = st_sequential_download (t_status t)"

definition computed_state :: "'h torrent \<Rightarrow> torrent_state" where
  "computed_state t =
     (let s = t_status t in
      if st_state s = Checking_resume_data then State_CheckingResumeData
      else if has_error t then State_Error
      else if \<not> has_metadata t then
        (if is_paused t then State_PausedDownloading
         else if is_queued t then State_QueuedDownloading
         else State_DownloadingMetadata)
      else if st_state s = Checking_files \<and> (\<not> is_paused t \<or> st_auto_managed s \<or> \<not> st_paused s) then
        (if t_hasSeedStatus t then State_CheckingUploading else State_CheckingDownloading)
      else if st_total_wanted s = 0 then State_Queued
      else if is_seed t then
        (if is_paused t then State_PausedUploading
         else if is_forced t then State_ForcedUploading
         else if st_upload_payload_rate s > 0 then State_Uploading
         else State_StalledUploading)
      else
        (if is_paused t then State_PausedDownloading
         else if is_forced t then State_ForcedDownloading
         else if st_download_payload_rate s > 0 then State_Downloading
         else State_StalledDownloading))"

definition update_state :: "'h torrent \<Rightarrow> 'h torrent" where
  "update_state t = t\<lparr>t_state := computed_state t\<rparr>"

definition update_status :: "torrent_status \<Rightarrow> 'h torrent \<Rightarrow> 'h torrent" where
  "update_status s t = update_state (t\<lparr>t_status := s\<rparr>)"

definition refresh_status :: "'h lt_query \<Rightarrow> 'h torrent \<Rightarrow> 'h torrent" where
  "refresh_status q t = update_status (q_status q (t_native t)) t"

definition state_string :: "'h torrent \<Rightarrow> string" where
  "state_string t = (case t_state t of
     State_Unknown \<Rightarrow> ''Unknown'' | State_Queued \<Rightarrow> ''Queued''
   | State_ForcedDownloading \<Rightarrow> ''Forced downloading'' | State_Downloading \<Rightarrow> ''Downloading''
   | State_DownloadingMetadata \<Rightarrow> ''Downloading metadata''
   | State_StalledDownloading \<Rightarrow> ''Stalled downloading''
   | State_ForcedUploading \<Rightarrow> ''Forced uploading'' | State_Uploading \<Rightarrow> ''Uploading''
   | State_StalledUploading \<Rightarrow> ''Stalled uploading''
   | State_CheckingResumeData \<Rightarrow> ''Checking resume data''
   | State_QueuedDownloading \<Rightarrow> ''Queued downloading'' | State_QueuedUploading \<Rightarrow> ''Queued uploading''
   | State_CheckingUploading \<Rightarrow> ''Checking uploading'' | State_CheckingDownloading \<Rightarrow> ''Checking downloading''
   | State_PausedDownloading \<Rightarrow> ''Paused downloading'' | State_PausedUploading \<Rightarrow> ''Paused uploading''
   | State_Moving \<Rightarrow> ''Moving'' | State_MissingFiles \<Rightarrow> ''Missing files'' | State_Error \<Rightarrow> ''Error'')"

definition is_downloading :: "'h torrent \<Rightarrow> bool" where
  "is_downloading t \<longleftrightarrow> t_state t \<in> {State_Downloading, State_DownloadingMetadata,
     State_StalledDownloading, State_CheckingDownloading, State_PausedDownloading,
     State_QueuedDownloading, State_ForcedDownloading}"

definition is_uploading :: "'h torrent \<Rightarrow> bool" where
  "is_uploading t \<longleftrightarrow> t_state t \<in> {State_Uploading, State_StalledUploading,
     State_CheckingUploading, State_QueuedUploading, State_ForcedUploading}"

definition is_completed :: "'h torrent \<Rightarrow> bool" where
  "is_completed t \<longleftrightarrow> t_state t \<in> {State_Uploading, State_StalledUploading,
     State_CheckingUploading, State_PausedUploading, State_QueuedUploading, State_ForcedUploading}"

definition is_active :: "'h torrent \<Rightarrow> bool" where
  "is_active t \<longleftrightarrow> (if t_state t = State_StalledDownloading then st_upload_payload_rate (t_status t) > 0
     else t_state t \<in> {State_DownloadingMetadata, State_Downloading, State_ForcedDownloading,
       State_Uploading, State_ForcedUploading, State_Moving})"

definition is_inactive :: "'h torrent \<Rightarrow> bool" where
  "is_inactive t \<longleftrightarrow> \<not> is_active t"

definition is_errored :: "'h torrent \<Rightarrow> bool" where
  "is_errored t \<longleftrightarrow> t_state t = State_MissingFiles \<or> t_state t = State_Error"

section \<open>Counters and progress\<close>

definition leechers_count :: "'h torrent \<Rightarrow> int" where
  "leechers_count t = st_num_peers (t_status t) - st_num_seeds (t_status t)"

definition total_seeds_count :: "'h torrent \<Rightarrow> int" where
  "total_seeds_count t =
     (if st_num_complete (t_status t) > 0 then st_num_complete (t_status t) else st_list_seeds (t_status t))"

definition total_peers_count :: "'h torrent \<Rightarrow> int" where
  "total_peers_count t =
     (let peers = st_num_complete (t_status t) + st_num_incomplete (t_status t) in
      if peers > 0 then peers else st_list_peers (t_status t))"

definition total_leechers_count :: "'h torrent \<Rightarrow> int" where
  "total_leechers_count t =
     (if st_num_incomplete (t_status t) > 0 then st_num_incomplete (t_status t)
      else st_list_peers (t_status t) - st_list_seeds (t_status t))"

definition progress :: "'h torrent \<Rightarrow> rat" where
  "progress t =
     (let s = t_status t in
      if is_checking t then st_progress s
      else if st_total_wanted s = 0 then 0
      else if st_total_wanted_done s = st_total_wanted s then 1
      else of_int (st_total_wanted_done s) / of_int (st_total_wanted s))"

definition progress_total :: "'h torrent \<Rightarrow> rat" where
  "progress_total t =
     (if torrent_size t \<le> 0 then 0
      else 100 * (of_int (st_total_done (t_status t)) / of_int (torrent_size t)))"

definition progress_wanted :: "'h torrent \<Rightarrow> rat" where
  "progress_wanted t =
     (if st_total_wanted (t_status t) \<le> 0 then 0
      else 100 * (of_int (st_total_wanted_done (t_status t)) / of_int (st_total_wanted (t_status t))))"

text \<open>The \<open>i\<close>-th file's progress; a queue longer than \<open>m_files\<close> is read out of range.\<close>

definition files_progress :: "'h lt_query \<Rightarrow> 'h torrent \<Rightarrow> rat list result" where
  "files_progress q t =
     (if \<not> has_metadata t then Inr []
      else
        let fp = q_file_progress q (t_native t) in
        if length (t_files t) < length fp then Inl Undefined
        else Inr (map (\<lambda>(f, done). if f_size f \<le> 0 \<or> done = f_size f then 1
                                   else of_int done / of_int (f_size f)) (zip (t_files t) fp)))"

definition files_completed_bytes :: "'h lt_query \<Rightarrow> 'h torrent \<Rightarrow> int list" where
  "files_completed_bytes q t = (if \<not> has_metadata t then [] else q_file_progress q (t_native t))"

section \<open>Priorities and deadlines\<close>

definition get_file_priority :: "'h lt_api \<Rightarrow> 'h torrent \<Rightarrow> int \<Rightarrow> int" where
  "get_file_priority api t index = lt_file_priority api (t_native t) index"

definition save_resume_data :: "'h lt_api \<Rightarrow> 'h torrent \<Rightarrow> 'h torrent" where
  "save_resume_data api t =
     (if is_memory_storage t then t else t\<lparr>t_native := lt_save_resume_data api (t_native t)\<rparr>)"

definition set_file_priority :: "'h lt_api \<Rightarrow> int \<Rightarrow> int \<Rightarrow> 'h torrent \<Rightarrow> 'h torrent" where
  "set_file_priority api index priority t =
     (if is_memory_storage t then t
      else save_resume_data api (t\<lparr>t_native := lt_set_file_priority api (t_native t) index priority\<rparr>))"

definition get_piece_priority :: "'h lt_api \<Rightarrow> 'h torrent \<Rightarrow> int \<Rightarrow> int" where
  "get_piece_priority api t index = lt_piece_priority api (t_native t) index"

text \<open>\<open>lt::dont_download\<close> is 0 and \<open>lt::top_priority\<close> is 7.\<close>

definition piece_priority :: "'h lt_api \<Rightarrow> int \<Rightarrow> int \<Rightarrow> 'h torrent \<Rightarrow> 'h torrent" where
  "piece_priority api index priority t =
     (let p = (if priority < 0 then 0 else if priority > 7 then 7 else priority) in
      t\<lparr>t_native := lt_set_piece_priority api (t_native t) index p\<rparr>)"

definition set_piece_deadline :: "'h lt_api \<Rightarrow> int \<Rightarrow> int \<Rightarrow> 'h torrent \<Rightarrow> 'h torrent result" where
  "set_piece_deadline api index deadline t =
     (if \<not> (0 \<le> index \<and> nat index < length (t_deadline_pieces t)) then Inl Undefined
      else if t_deadline_pieces t ! nat index then Inr t
      else Inr (t\<lparr>t_deadline_pieces := (t_deadline_pieces t)[nat index := True],
                  t_native := lt_set_piece_deadline api (t_native t) index deadline\<rparr>))"

definition clear_piece_deadline :: "int \<Rightarrow> 'h torrent \<Rightarrow> 'h torrent result" where
  "clear_piece_deadline index t =
     (if \<not> (0 \<le> index \<and> nat index < length (t_deadline_pieces t)) then Inl Undefined
      else Inr (t\<lparr>t_deadline_pieces := (t_deadline_pieces t)[nat index := False]\<rparr>))"

definition set_piece_priority :: "'h lt_api \<Rightarrow> int \<Rightarrow> int \<Rightarrow> int \<Rightarrow> 'h torrent \<Rightarrow> 'h torrent result" where
  "set_piece_priority api piece deadline priority t =
     (if get_piece_priority api t piece < priority
      then set_piece_deadline api piece deadline (piece_priority api piece priority t)
      else Inr t)"

fun prioritize_pieces_loop :: "'h lt_api \<Rightarrow> int \<Rightarrow> int list \<Rightarrow> 'h torrent \<Rightarrow> 'h torrent result" where
  "prioritize_pieces_loop api start [] t = Inr t"
| "prioritize_pieces_loop api start (i # is) t =
     (if have_piece api t i then prioritize_pieces_loop api start is t
      else bind_result
        (if i = start then set_piece_priority api i 0 7 t
         else set_piece_priority api i ((i - start) * 50) 6 t)
        (prioritize_pieces_loop api start is))"

definition prioritize_pieces :: "'h lt_api \<Rightarrow> int \<Rightarrow> int \<Rightarrow> 'h torrent \<Rightarrow> 'h torrent result" where
  "prioritize_pieces api start stop t = prioritize_pieces_loop api start [start..stop] t"

section \<open>Memory size\<close>

definition memory_size :: "'h torrent \<Rightarrow> int \<Rightarrow> int result" where
  "memory_size t session_memory_size =
     (if is_memory_storage t then
        (case t_memory_storage t of None \<Rightarrow> Inl Undefined | Some s \<Rightarrow> Inr (get_memory_size s))
      else Inr session_memory_size)"

definition adjust_memory_size :: "int \<Rightarrow> 'h torrent \<Rightarrow> config \<Rightarrow> ('h torrent \<times> config) result" where
  "adjust_memory_size sz t config =
     (if is_memory_storage t then
        (case t_memory_storage t of None \<Rightarrow> Inl Undefined
         | Some s \<Rightarrow> Inr (t\<lparr>t_memory_storage := Some (set_memory_size sz s)\<rparr>, config))
      else Inr (t, config\<lparr>c_memory_size := to_int32 (sz sdiv 1024 sdiv 1024)\<rparr>))"

definition readahead_pieces :: "config \<Rightarrow> 'h torrent \<Rightarrow> int result" where
  "readahead_pieces config t =
     (if is_memory_storage t then
        (case t_memory_storage t of None \<Rightarrow> Inl Undefined
         | Some s \<Rightarrow> Inr (get_buffers_count s * c_readahead_percents config sdiv 100))
      else Inr file_readahead_pieces)"

end
