(* ===== verification/Files.thy ===== *)
theory Files
  imports Torrent
begin

text \<open>
  The operations of the class \<open>File\<close> (\<open>src/src/bittorrent/file.cpp\<close>). Those that call the
  torrent take and return the pair of file and torrent.
\<close>

section \<open>Construction\<close>

text \<open>
  The sizes are products of \<open>int\<close> values: megabytes from 2048 on overflow, which has no defined
  behaviour.
\<close>

definition megabytes :: "int \<Rightarrow> int result" where
  "megabytes mb =
     (if - (2 ^ 31) \<le> mb * 1024 * 1024 \<and> mb * 1024 * 1024 < 2 ^ 31 then Inr (mb * 1024 * 1024)
      else Inl Undefined)"

definition new_file ::
  "config \<Rightarrow> 'h torrent \<Rightarrow> int \<Rightarrow> string \<Rightarrow> string \<Rightarrow> int \<Rightarrow> int \<Rightarrow> int \<Rightarrow> lh_file result" where
  "new_file config t index path name sz offset priority =
     bind_result (megabytes (c_buffer_size config)) (\<lambda>start.
     bind_result (megabytes (c_end_buffer_size config)) (\<lambda>stop.
     let region = region_pieces offset sz (piece_length t) (pieces_count t) in
     Inr \<lparr>f_isSelected = priority > 0, f_index = index, f_path = path, f_name = name,
       f_size = sz, f_offset = offset, f_piece_start = fst region, f_piece_end = snd region,
       f_isBuffering = False, f_buffer_pieces = [], f_buffer_size = 0, f_buffer_progress = 0,
       f_start_buffer_size = start, f_end_buffer_size = stop, f_config = config, f_readers = []\<rparr>))"

section \<open>Queries and priority\<close>

definition stream_uri :: "(string \<Rightarrow> string) \<Rightarrow> 'h torrent \<Rightarrow> lh_file \<Rightarrow> string" where
  "stream_uri uri_escape t f =
     ''/torrents/'' @ t_hash t @ ''/files/'' @ show_int (f_index f) @ ''/stream/'' @ uri_escape (f_name f)"

definition priority :: "'h lt_api \<Rightarrow> lh_file \<times> 'h torrent \<Rightarrow> int" where
  "priority api ft = get_file_priority api (snd ft) (f_index (fst ft))"

definition set_priority :: "'h lt_api \<Rightarrow> int \<Rightarrow> lh_file \<times> 'h torrent \<Rightarrow> lh_file \<times> 'h torrent" where
  "set_priority api prio ft =
     (let f = (fst ft)\<lparr>f_isSelected := prio > 0\<rparr>; t = snd ft in
      if \<not> is_memory_storage t then (f, set_file_priority api (f_index f) prio t) else (f, t))"

section \<open>Buffering\<close>

definition add_buffer_piece :: "'h lt_api \<Rightarrow> int \<Rightarrow> lh_file \<times> 'h torrent \<Rightarrow> (lh_file \<times> 'h torrent) result" where
  "add_buffer_piece api piece ft =
     (let (f, t) = ft in
      if piece \<in> set (f_buffer_pieces f) then Inr (f, t)
      else bind_result (set_piece_deadline api piece 0 (piece_priority api piece 7 t)) (\<lambda>t'.
        Inr (f\<lparr>f_buffer_size := f_buffer_size f + piece_length_at t' piece,
               f_buffer_pieces := f_buffer_pieces f @ [piece]\<rparr>, t')))"

fun add_buffer_pieces :: "'h lt_api \<Rightarrow> int list \<Rightarrow> lh_file \<times> 'h torrent \<Rightarrow> (lh_file \<times> 'h torrent) result" where
  "add_buffer_pieces api [] ft = Inr ft"
| "add_buffer_pieces api (i # is) ft = bind_result (add_buffer_piece api i ft) (add_buffer_pieces api is)"

text \<open>The pieces that \<open>start_buffer\<close> asks for, in the order of its loops.\<close>

definition buffer_region :: "'h torrent \<Rightarrow> lh_file \<Rightarrow> int list" where
  "buffer_region t f =
     (let len = piece_length t; n = pieces_count t in
      if f_size f \<ge> f_start_buffer_size f + f_end_buffer_size f then
        (let range_start = region_pieces (f_offset f) (f_start_buffer_size f) len n;
             range_end = region_pieces (f_offset f + f_size f - f_end_buffer_size f) (f_end_buffer_size f) len n
         in [fst range_start..snd range_start] @ [fst range_end..snd range_end])
      else
        (let range = region_pieces (f_offset f) (f_size f) len n in [fst range..snd range]))"

text \<open>
  The end of \<open>start_buffer\<close> for memory storage: the memory grows to hold the buffer, and the
  first and the last buffered piece are reserved. \<open>front()\<close> of an empty vector is undefined.
\<close>

definition reserve_buffer :: "lh_file \<times> 'h torrent \<Rightarrow> (lh_file \<times> 'h torrent) result" where
  "reserve_buffer ft =
     (let (f, t) = ft in
      if \<not> is_memory_storage t then Inr (f, t)
      else case t_memory_storage t of
        None \<Rightarrow> Inl Undefined
      | Some s \<Rightarrow>
          let s1 = (if f_buffer_size f > get_memory_size s then set_memory_size (f_buffer_size f) s else s)
          in if f_buffer_pieces f = [] then Inl Undefined
             else bind_result
               (update_reserved_pieces [hd (f_buffer_pieces f), last (f_buffer_pieces f)] s1)
               (\<lambda>s2. Inr (f, t\<lparr>t_memory_storage := Some s2\<rparr>)))"

definition start_buffer :: "'h lt_api \<Rightarrow> lh_file \<times> 'h torrent \<Rightarrow> (lh_file \<times> 'h torrent) result" where
  "start_buffer api ft =
     (let (f, t) = ft;
          f1 = f\<lparr>f_isBuffering := True, f_buffer_progress := 0, f_buffer_pieces := [], f_buffer_size := 0\<rparr>
      in bind_result (add_buffer_pieces api (buffer_region t f1) (f1, t)) reserve_buffer)"

definition stop_buffer :: "lh_file \<Rightarrow> lh_file" where
  "stop_buffer f = f\<lparr>f_isBuffering := False\<rparr>"

definition set_buffer_progress :: "rat \<Rightarrow> lh_file \<Rightarrow> lh_file" where
  "set_buffer_progress p f =
     (if p \<ge> 100 then f\<lparr>f_buffer_progress := 100, f_isBuffering := False\<rparr>
      else f\<lparr>f_buffer_progress := p\<rparr>)"

section \<open>Readers\<close>

definition has_readers :: "lh_file \<Rightarrow> bool" where
  "has_readers f \<longleftrightarrow> f_readers f \<noteq> []"

definition register_reader :: "int \<Rightarrow> address \<Rightarrow> lh_file \<Rightarrow> lh_file" where
  "register_reader i a f = f\<lparr>f_readers := map_set i a (f_readers f)\<rparr>"

definition unregister_reader :: "int \<Rightarrow> lh_file \<Rightarrow> lh_file" where
  "unregister_reader i f =
     (if map_find (f_readers f) i \<noteq> None then f\<lparr>f_readers := map_erase i (f_readers f)\<rparr> else f)"

text \<open>The table of readers of a file is a registry.\<close>

definition find_reader :: "lh_file \<Rightarrow> int \<Rightarrow> address option" where
  "find_reader f = map_find (f_readers f)"

lemma map_erase_absent: "map_find m k = None \<Longrightarrow> map_erase k m = m"
  by (force simp: map_erase_def map_find_None_iff filter_id_conv)

interpretation file_readers: registry find_reader register_reader unregister_reader "\<lambda>f. map_ok (f_readers f)"
  by unfold_locales (auto simp: find_reader_def register_reader_def unregister_reader_def)

section \<open>What buffering does\<close>

text \<open>Torrents that differ only in libtorrent's object and in the deadline bits.\<close>

definition same_torrent :: "'h torrent \<Rightarrow> 'h torrent \<Rightarrow> bool" where
  "same_torrent t t' \<longleftrightarrow> (\<exists>h d. t' = t\<lparr>t_native := h, t_deadline_pieces := d\<rparr> \<and>
     length d = length (t_deadline_pieces t))"

text \<open>What holds of a file and its torrent while pieces are being added to the buffer.\<close>

definition buffer_inv :: "'h lt_api \<Rightarrow> 'h torrent \<Rightarrow> lh_file \<times> 'h torrent \<Rightarrow> bool" where
  "buffer_inv api t0 ft \<longleftrightarrow>
     (let (f, t) = ft in
      same_torrent t0 t \<and> distinct (f_buffer_pieces f) \<and>
      f_buffer_size f = sum_list (map (piece_length_at t0) (f_buffer_pieces f)) \<and>
      (\<forall>p \<in> set (f_buffer_pieces f). bit_test (t_deadline_pieces t) p \<and> get_piece_priority api t p = 7))"

lemma same_torrentI:
  "t' = t\<lparr>t_native := h, t_deadline_pieces := d\<rparr> \<Longrightarrow> length d = length (t_deadline_pieces t) \<Longrightarrow> same_torrent t t'"
  unfolding same_torrent_def by (intro exI conjI)

lemma same_torrent_refl [simp]: "same_torrent t t"
  by (rule same_torrentI [where h = "t_native t" and d = "t_deadline_pieces t"]) simp_all

lemma same_torrent_trans: "same_torrent t u \<Longrightarrow> same_torrent u v \<Longrightarrow> same_torrent t v"
proof -
  assume "same_torrent t u" "same_torrent u v"
  then obtain h d h' d' where "u = t\<lparr>t_native := h, t_deadline_pieces := d\<rparr>" "length d = length (t_deadline_pieces t)"
    "v = u\<lparr>t_native := h', t_deadline_pieces := d'\<rparr>" "length d' = length (t_deadline_pieces u)"
    by (auto simp: same_torrent_def)
  then show "same_torrent t v" by (intro same_torrentI [where h = h' and d = d']) simp_all
qed

lemma same_torrent_fields:
  assumes "same_torrent t t'"
  shows "t_info t' = t_info t" "t_memory_storage t' = t_memory_storage t" "is_memory_storage t' = is_memory_storage t"
    "piece_length_at t' = piece_length_at t" "length (t_deadline_pieces t') = length (t_deadline_pieces t)"
  using assms by (auto simp: same_torrent_def is_memory_storage_def fun_eq_iff piece_length_at_def info_field_def is_valid_def)

lemma piece_priority_same [simp]: "same_torrent t (piece_priority api p v t)"
  by (rule same_torrentI [where h = "t_native (piece_priority api p v t)" and d = "t_deadline_pieces t"])
    (simp_all add: piece_priority_def Let_def)

text \<open>Giving a piece of the torrent a deadline and a priority.\<close>

lemma set_piece_deadline_ok:
  assumes api: "piece_api_ok api n" and n: "length (t_deadline_pieces t) = n" and p: "0 \<le> p" "p < int n"
  shows "\<exists>t'. set_piece_deadline api p d t = Inr t' \<and> same_torrent t t' \<and>
    (\<forall>i. bit_test (t_deadline_pieces t') i = (i = p \<or> bit_test (t_deadline_pieces t) i)) \<and>
    get_piece_priority api t' = get_piece_priority api t \<and> have_piece api t' = have_piece api t"
proof (cases "t_deadline_pieces t ! nat p")
  case True
  with p n show ?thesis by (auto simp: set_piece_deadline_def bit_test_def)
next
  case False
  let ?t = "t\<lparr>t_deadline_pieces := (t_deadline_pieces t)[nat p := True],
    t_native := lt_set_piece_deadline api (t_native t) p d\<rparr>"
  have "same_torrent t ?t"
    by (rule same_torrentI [where h = "t_native ?t" and d = "t_deadline_pieces ?t"]) simp_all
  moreover have "bit_test (t_deadline_pieces ?t) i = (i = p \<or> bit_test (t_deadline_pieces t) i)" for i
    using bitset_set_test [of "t_deadline_pieces t" p _ i] p n by (auto simp: bitset_set_def)
  moreover have "get_piece_priority api ?t = get_piece_priority api t" "have_piece api ?t = have_piece api t"
    using api by (auto simp: fun_eq_iff get_piece_priority_def have_piece_def piece_api_ok_def)
  moreover have "set_piece_deadline api p d t = Inr ?t" using False p n by (simp add: set_piece_deadline_def)
  ultimately show ?thesis by blast
qed

lemma piece_priority_effect:
  assumes api: "piece_api_ok api n" and p: "0 \<le> p" "p < int n" and v: "0 \<le> v" "v \<le> 7"
  shows "get_piece_priority api (piece_priority api p v t) i = (if i = p then v else get_piece_priority api t i)"
    and "have_piece api (piece_priority api p v t) = have_piece api t"
  using api p v by (auto simp: fun_eq_iff get_piece_priority_def have_piece_def piece_priority_def piece_api_ok_def)

lemma add_buffer_piece_inv:
  assumes api: "piece_api_ok api (length (t_deadline_pieces t0))" and inv: "buffer_inv api t0 (f, t)"
    and p: "0 \<le> p" "p < int (length (t_deadline_pieces t0))"
  shows "\<exists>n t'. add_buffer_piece api p (f, t) =
      Inr (f\<lparr>f_buffer_size := n, f_buffer_pieces := f_buffer_pieces f @ filter (\<lambda>i. i \<notin> set (f_buffer_pieces f)) [p]\<rparr>, t') \<and>
    buffer_inv api t0 (f\<lparr>f_buffer_size := n, f_buffer_pieces := f_buffer_pieces f @ filter (\<lambda>i. i \<notin> set (f_buffer_pieces f)) [p]\<rparr>, t')"
proof (cases "p \<in> set (f_buffer_pieces f)")
  case True
  with inv show ?thesis by (intro exI [of _ "f_buffer_size f"] exI [of _ t]) (simp add: add_buffer_piece_def)
next
  case False
  have st: "same_torrent t0 t" using inv by (simp add: buffer_inv_def)
  let ?t1 = "piece_priority api p 7 t"
  have st1: "same_torrent t0 ?t1" by (rule same_torrent_trans [OF st]) simp
  obtain t2 where t2: "set_piece_deadline api p 0 ?t1 = Inr t2" "same_torrent ?t1 t2"
    "\<forall>i. bit_test (t_deadline_pieces t2) i = (i = p \<or> bit_test (t_deadline_pieces ?t1) i)"
    "get_piece_priority api t2 = get_piece_priority api ?t1"
    using set_piece_deadline_ok [OF api same_torrent_fields(5) [OF st1] p, of 0] by blast
  have d: "t_deadline_pieces ?t1 = t_deadline_pieces t" by (simp add: piece_priority_def Let_def)
  have st2: "same_torrent t0 t2" by (rule same_torrent_trans [OF st1 t2(2)])
  have pr: "get_piece_priority api t2 i = (if i = p then 7 else get_piece_priority api t i)" for i
    using piece_priority_effect(1) [OF api p] t2(4) by simp
  let ?n = "f_buffer_size f + piece_length_at t2 p"
  have "add_buffer_piece api p (f, t) = Inr (f\<lparr>f_buffer_size := ?n, f_buffer_pieces := f_buffer_pieces f @ [p]\<rparr>, t2)"
    using False t2(1) by (simp add: add_buffer_piece_def)
  moreover have "buffer_inv api t0 (f\<lparr>f_buffer_size := ?n, f_buffer_pieces := f_buffer_pieces f @ [p]\<rparr>, t2)"
    using inv False st2 t2(3) d pr same_torrent_fields(4) [OF st2] by (auto simp: buffer_inv_def)
  ultimately show ?thesis using False by (intro exI [of _ ?n] exI [of _ t2]) simp
qed

lemma add_buffer_pieces_inv:
  assumes api: "piece_api_ok api (length (t_deadline_pieces t0))"
  shows "buffer_inv api t0 (f, t) \<Longrightarrow> \<forall>p \<in> set ps. 0 \<le> p \<and> p < int (length (t_deadline_pieces t0)) \<Longrightarrow> distinct ps \<Longrightarrow>
    \<exists>n t'. add_buffer_pieces api ps (f, t) =
      Inr (f\<lparr>f_buffer_size := n, f_buffer_pieces := f_buffer_pieces f @ filter (\<lambda>i. i \<notin> set (f_buffer_pieces f)) ps\<rparr>, t') \<and>
    buffer_inv api t0 (f\<lparr>f_buffer_size := n, f_buffer_pieces := f_buffer_pieces f @ filter (\<lambda>i. i \<notin> set (f_buffer_pieces f)) ps\<rparr>, t')"
proof (induction ps arbitrary: f t)
  case Nil
  then show ?case by (intro exI [of _ "f_buffer_size f"] exI [of _ t]) simp
next
  case (Cons p ps)
  obtain n1 t1 where 1: "add_buffer_piece api p (f, t) =
      Inr (f\<lparr>f_buffer_size := n1, f_buffer_pieces := f_buffer_pieces f @ filter (\<lambda>i. i \<notin> set (f_buffer_pieces f)) [p]\<rparr>, t1)"
    "buffer_inv api t0 (f\<lparr>f_buffer_size := n1, f_buffer_pieces := f_buffer_pieces f @ filter (\<lambda>i. i \<notin> set (f_buffer_pieces f)) [p]\<rparr>, t1)"
    using add_buffer_piece_inv [OF api Cons.prems(1), of p] Cons.prems(2) by auto
  let ?f1 = "f\<lparr>f_buffer_size := n1, f_buffer_pieces := f_buffer_pieces f @ filter (\<lambda>i. i \<notin> set (f_buffer_pieces f)) [p]\<rparr>"
  have "filter (\<lambda>i. i \<notin> set (f_buffer_pieces ?f1)) ps = filter (\<lambda>i. i \<notin> set (f_buffer_pieces f)) ps"
    using Cons.prems(3) by (intro filter_cong) auto
  then have e: "f_buffer_pieces ?f1 @ filter (\<lambda>i. i \<notin> set (f_buffer_pieces ?f1)) ps =
      f_buffer_pieces f @ filter (\<lambda>i. i \<notin> set (f_buffer_pieces f)) (p # ps)" by simp
  from Cons.IH [OF 1(2)] Cons.prems(2,3) obtain n t' where
    2: "add_buffer_pieces api ps (?f1, t1) = Inr (?f1\<lparr>f_buffer_size := n,
          f_buffer_pieces := f_buffer_pieces f @ filter (\<lambda>i. i \<notin> set (f_buffer_pieces f)) (p # ps)\<rparr>, t')"
    "buffer_inv api t0 (?f1\<lparr>f_buffer_size := n,
          f_buffer_pieces := f_buffer_pieces f @ filter (\<lambda>i. i \<notin> set (f_buffer_pieces f)) (p # ps)\<rparr>, t')"
    unfolding e by auto
  with 1(1) show ?case by (intro exI [of _ n] exI [of _ t']) simp
qed

end
