(* ===== verification/Torrent_Ops.thy ===== *)
theory Torrent_Ops
  imports Files
begin

text \<open>
  The remaining operations of \<open>Torrent\<close> (\<open>src/src/bittorrent/torrent.cpp\<close>): metadata,
  removal, alerts and trackers, pausing, readers, the distribution of read-ahead priorities
  (\<open>prioritize\<close>) and the progress of buffers.
\<close>

section \<open>Metadata and files\<close>

text \<open>\<open>bencode\<close> is libtorrent's encoding of the metadata; \<open>can_write\<close> the files that can be opened.\<close>

definition save_torrent_file ::
  "(torrent_info \<Rightarrow> string) \<Rightarrow> (string \<Rightarrow> bool) \<Rightarrow> 'h torrent \<Rightarrow> file_system \<Rightarrow> file_system" where
  "save_torrent_file bencode can_write t fs =
     (if \<not> has_metadata t \<or> is_memory_storage t \<or> file_exists fs (t_torrentFile t) then fs
      else if can_write (t_torrentFile t) then fs(t_torrentFile t \<mapsto> bencode (the (t_info t)))
      else fs)"

definition generate :: "(torrent_info \<Rightarrow> string) \<Rightarrow> 'h torrent \<Rightarrow> string result" where
  "generate bencode t =
     (if \<not> has_metadata t then Inl (Throw TorrentException ''Torrent does not have metadata'')
      else Inr (bencode (the (t_info t))))"

fun build_files :: "'h lt_api \<Rightarrow> config \<Rightarrow> 'h torrent \<Rightarrow> int \<Rightarrow> native_file list \<Rightarrow> lh_file list result" where
  "build_files api config t i [] = Inr []"
| "build_files api config t i (nf # nfs) =
     bind_result (new_file config t i (nf_path nf) (nf_name nf) (nf_size nf) (nf_offset nf)
       (get_file_priority api t i)) (\<lambda>f.
     bind_result (build_files api config t (i + 1) nfs) (\<lambda>fs. Inr (f # fs)))"

text \<open>
  \<open>impl\<close> is what \<open>get_storage_impl()\<close> gives: the memory storage, if the storage is one.
\<close>

definition on_metadata_received ::
  "'h lt_api \<Rightarrow> (torrent_info \<Rightarrow> string) \<Rightarrow> (string \<Rightarrow> bool) \<Rightarrow> config \<Rightarrow> memory_storage option \<Rightarrow>
   'h torrent \<Rightarrow> file_system \<Rightarrow> ('h torrent \<times> file_system) result" where
  "on_metadata_received api bencode can_write config impl t fs =
     (let fs' = save_torrent_file bencode can_write t fs;
          t1 = save_resume_data api t
      in bind_result
        (if is_memory_storage t1 then
           (case impl of None \<Rightarrow> Inl Undefined
            | Some s \<Rightarrow> Inr (t1\<lparr>t_memory_storage := Some (set_torrent_handle s)\<rparr>))
         else Inr (t1\<lparr>t_file_storage := True\<rparr>)) (\<lambda>t2.
        case t_info t2 of
          None \<Rightarrow> Inl Undefined
        | Some ti \<Rightarrow>
            let t3 = t2\<lparr>t_deadline_pieces := bitset_resize (t_deadline_pieces t2) (nat (ti_num_pieces ti))\<rparr>
            in bind_result (build_files api config t3 0 (ti_files ti))
                 (\<lambda>files. Inr (t3\<lparr>t_files := files\<rparr>, fs'))))"

definition update_metadata ::
  "'h lt_api \<Rightarrow> 'h lt_query \<Rightarrow> (torrent_info \<Rightarrow> string) \<Rightarrow> (string \<Rightarrow> bool) \<Rightarrow> config \<Rightarrow> memory_storage option \<Rightarrow>
   'h torrent \<Rightarrow> file_system \<Rightarrow> ('h torrent \<times> file_system) result" where
  "update_metadata api q bencode can_write config impl t fs =
     on_metadata_received api bencode can_write config impl
       (t\<lparr>t_info := q_torrent_file q (t_native t)\<rparr>) fs"

section \<open>Removal\<close>

datatype remove_flags = Delete_files | Delete_partfile

definition remove_if_exists :: "string \<Rightarrow> file_system \<Rightarrow> file_system" where
  "remove_if_exists path fs = (if file_exists fs path then remove_file path fs else fs)"

text \<open>The flags go to \<open>lt::session::remove_torrent\<close>.\<close>

definition remove :: "bool \<Rightarrow> bool \<Rightarrow> 'h torrent \<Rightarrow> file_system \<Rightarrow> 'h torrent \<times> remove_flags \<times> file_system" where
  "remove is_delete_files is_delete_data t fs =
     (let t' = t\<lparr>t_isClosing := True\<rparr>;
          flags = (if is_delete_data \<and> \<not> is_memory_storage t then Delete_files else Delete_partfile);
          fs1 = (if is_delete_files then remove_if_exists (t_torrentFile t) fs else fs);
          fs2 = (if is_delete_files \<or> is_memory_storage t
                 then remove_if_exists (t_partsFile t) (remove_if_exists (t_resumeFile t) fs1) else fs1)
      in (t', flags, fs2))"

section \<open>Alerts and trackers\<close>

datatype torrent_alert =
    Save_resume_data_alert string
  | Dht_reply_alert int
  | Tracker_reply_alert string string int
  | Tracker_warning_alert string string
  | Tracker_error_alert string string
  | Other_alert

definition update_tracker :: "string \<Rightarrow> string \<Rightarrow> int \<Rightarrow> 'h torrent \<Rightarrow> 'h torrent" where
  "update_tracker name message number t =
     (let infos = t_trackerInfos t;
          old = (case map_find infos name of None \<Rightarrow> 0 | Some i \<Rightarrow> tr_numPeers i)
      in t\<lparr>t_trackerInfos := map_set name \<lparr>tr_lastMessage = message, tr_numPeers = max number old\<rparr> infos\<rparr>)"

text \<open>The file of a save-resume-data alert holds the encoded resume data.\<close>

definition dispatch_alert ::
  "(string \<Rightarrow> bool) \<Rightarrow> torrent_alert \<Rightarrow> 'h torrent \<Rightarrow> file_system \<Rightarrow> 'h torrent \<times> file_system" where
  "dispatch_alert can_write a t fs = (case a of
     Save_resume_data_alert buf \<Rightarrow>
       (t, if can_write (t_resumeFile t) then fs(t_resumeFile t \<mapsto> buf) else fs)
   | Dht_reply_alert n \<Rightarrow> (update_tracker ''DHT'' '''' n t, fs)
   | Tracker_reply_alert url msg n \<Rightarrow> (update_tracker url msg n t, fs)
   | Tracker_warning_alert url msg \<Rightarrow> (update_tracker url msg 0 t, fs)
   | Tracker_error_alert url msg \<Rightarrow> (update_tracker url msg 0 t, fs)
   | Other_alert \<Rightarrow> (t, fs))"

section \<open>Pausing\<close>

definition set_auto_managed :: "'h lt_api \<Rightarrow> bool \<Rightarrow> 'h torrent \<Rightarrow> 'h torrent" where
  "set_auto_managed api enable t = t\<lparr>t_native := lt_set_auto_managed api (t_native t) enable\<rparr>"

definition pause :: "'h lt_api \<Rightarrow> 'h torrent \<Rightarrow> 'h torrent" where
  "pause api t =
     (let t1 = (if \<not> t_isStopped t then t\<lparr>t_isStopped := True\<rparr> else t);
          t2 = set_auto_managed api False t1
      in t2\<lparr>t_native := lt_pause api (t_native t2)\<rparr>)"

definition resume :: "'h lt_api \<Rightarrow> 'h torrent \<Rightarrow> 'h torrent" where
  "resume api t =
     (let t1 = (if has_error t then t\<lparr>t_native := lt_clear_error api (t_native t)\<rparr> else t);
          t2 = (if t_isStopped t1
                then t1\<lparr>t_native := lt_unset_stop_when_ready api (t_native t1), t_isStopped := False\<rparr>
                else t1);
          t3 = set_auto_managed api True t2
      in t3\<lparr>t_native := lt_resume api (t_native t3)\<rparr>)"

section \<open>Readers\<close>

definition torrent_has_readers :: "'h torrent \<Rightarrow> bool" where
  "torrent_has_readers t \<longleftrightarrow> t_readers t \<noteq> []"

definition torrent_register_reader :: "int \<Rightarrow> address \<Rightarrow> 'h torrent \<Rightarrow> 'h torrent" where
  "torrent_register_reader i a t = t\<lparr>t_readers := map_set i a (t_readers t)\<rparr>"

definition torrent_unregister_reader :: "int \<Rightarrow> 'h torrent \<Rightarrow> 'h torrent" where
  "torrent_unregister_reader i t =
     (if map_find (t_readers t) i \<noteq> None then t\<lparr>t_readers := map_erase i (t_readers t)\<rparr> else t)"

definition torrent_find_reader :: "'h torrent \<Rightarrow> int \<Rightarrow> address option" where
  "torrent_find_reader t = map_find (t_readers t)"

definition piece_end_limit :: "reader \<Rightarrow> int" where
  "piece_end_limit r = f_piece_end (rd_file r)"

definition set_iterated :: "bool \<Rightarrow> reader \<Rightarrow> reader" where
  "set_iterated v r = r\<lparr>rd_isIterated := v\<rparr>"

section \<open>Read-ahead priorities\<close>

text \<open>The variables of the first loop of \<open>prioritize\<close>.\<close>

record readahead =
  ra_iter_count :: int
  ra_finished :: nat
  ra_limit :: int
  ra_pieces :: "int list"
  ra_heap :: reader_heap

definition reset_iterated :: "(int, address) std_map \<Rightarrow> reader_heap \<Rightarrow> reader_heap" where
  "reset_iterated rs hp = foldl (\<lambda>hp (i, a). hp(a := set_iterated False (hp a))) hp rs"

text \<open>One pass over the readers; it stops when the limit is used up.\<close>

fun readahead_pass :: "(int, address) std_map \<Rightarrow> readahead \<Rightarrow> readahead" where
  "readahead_pass [] st = st"
| "readahead_pass ((i, a) # rs) st =
     (let r = ra_heap st a; index = rd_piece_start r + ra_iter_count st in
      if rd_isIterated r then readahead_pass rs st
      else if rd_isClosing r \<or> index > piece_end_limit r then
        readahead_pass rs (st\<lparr>ra_heap := (ra_heap st)(a := set_iterated True r),
                              ra_finished := ra_finished st + 1\<rparr>)
      else if index \<in> set (ra_pieces st) then readahead_pass rs st
      else
        let st' = st\<lparr>ra_pieces := ra_pieces st @ [index], ra_limit := ra_limit st - 1\<rparr>
        in if ra_limit st' \<le> 0 then st' else readahead_pass rs st')"

definition readahead_more :: "(int, address) std_map \<Rightarrow> readahead \<Rightarrow> bool" where
  "readahead_more rs st \<longleftrightarrow> ra_finished st < length rs \<and> ra_limit st > 0"

definition readahead_step :: "(int, address) std_map \<Rightarrow> readahead \<Rightarrow> readahead" where
  "readahead_step rs st = readahead_pass rs (st\<lparr>ra_iter_count := ra_iter_count st + 1\<rparr>)"

definition readahead_loop :: "(int, address) std_map \<Rightarrow> readahead \<Rightarrow> readahead option" where
  "readahead_loop rs = while_option (readahead_more rs) (readahead_step rs)"

definition readahead_start :: "(int, address) std_map \<Rightarrow> int \<Rightarrow> reader_heap \<Rightarrow> readahead" where
  "readahead_start rs limit hp = \<lparr>ra_iter_count = -1, ra_finished = 0, ra_limit = limit,
     ra_pieces = [], ra_heap = reset_iterated rs hp\<rparr>"

text \<open>The second loop: pieces in memory that no reader needs lose their priority.\<close>

definition release_requests :: "int list \<Rightarrow> int list \<Rightarrow> (int \<times> int) list" where
  "release_requests priorities reader_pieces =
     map (\<lambda>i. (i, 0)) (filter (\<lambda>i. priorities ! nat i > 0 \<and> i \<notin> set reader_pieces)
       (map int [0..<length priorities]))"

text \<open>
  The third loop, with the variables \<open>progression_left\<close>, \<open>progression_priority\<close> and
  \<open>progression_group\<close>.
\<close>

fun group_requests :: "'h lt_api \<Rightarrow> 'h torrent \<Rightarrow> int \<Rightarrow> int \<Rightarrow> nat \<Rightarrow> int list \<Rightarrow> (int \<times> int) list" where
  "group_requests api t left prio grp [] = []"
| "group_requests api t left prio grp (piece # ps) =
     (let (left1, prio1, grp1) =
        (if left \<le> 0 \<and> prio > 1
         then (progression_result 2 (17, 10) (grp + 1), prio - 1, grp + 1)
         else (left, prio, grp));
          p = max 2 prio1;
          rest = group_requests api t (left1 - 1) prio1 grp1 ps
      in if \<not> have_piece api t piece \<and>
            (get_piece_priority api t piece \<le> 0 \<or> get_piece_priority api t piece < p)
         then (piece, p) # rest else rest)"

definition prioritize ::
  "'h lt_api \<Rightarrow> config \<Rightarrow> 'h torrent \<Rightarrow> reader_heap \<Rightarrow> ('h torrent \<times> reader_heap) result option" where
  "prioritize api config t hp = (case readahead_pieces config t of
     Inl e \<Rightarrow> Some (Inl e)
   | Inr limit \<Rightarrow>
       map_option (\<lambda>st.
         let reader_pieces = ra_pieces st;
             requests =
               (if is_memory_storage t
                then release_requests (lt_get_piece_priorities api (t_native t)) reader_pieces else []) @
               group_requests api t (progression_result 2 (17, 10) 1) 5 1 reader_pieces;
             t1 = (if requests \<noteq> []
                   then t\<lparr>t_native := lt_prioritize_pieces api (t_native t) requests\<rparr> else t)
         in if is_memory_storage t1 then
              (case t_memory_storage t1 of
                 None \<Rightarrow> Inl Undefined
               | Some s \<Rightarrow> bind_result (update_reader_pieces reader_pieces s)
                   (\<lambda>s'. Inr (t1\<lparr>t_memory_storage := Some s'\<rparr>, ra_heap st)))
            else Inr (t1, ra_heap st))
         (readahead_loop (t_readers t) (readahead_start (t_readers t) limit hp)))"

section \<open>Progress of buffers\<close>

definition missing_bytes :: "'h lt_api \<Rightarrow> 'h torrent \<Rightarrow> int list \<Rightarrow> int" where
  "missing_bytes api t ps = sum_list (map (\<lambda>p. if have_piece api t p then 0 else piece_length_at t p) ps)"

definition queued_bytes :: "partial_piece list \<Rightarrow> int list \<Rightarrow> int" where
  "queued_bytes queue ps =
     sum_list (map (\<lambda>e. if pp_index e \<in> set ps then sum_list (pp_blocks e) else 0) queue)"

definition update_file_progress :: "'h lt_api \<Rightarrow> 'h torrent \<Rightarrow> partial_piece list \<Rightarrow> lh_file \<Rightarrow> lh_file" where
  "update_file_progress api t queue f =
     (if \<not> f_isBuffering f \<or> f_buffer_progress f \<ge> 100 \<or> f_buffer_size f \<le> 0 then f
      else
        let m = missing_bytes api t (f_buffer_pieces f);
            missing = (if m > 0 then m - queued_bytes queue (f_buffer_pieces f) else m)
        in set_buffer_progress (of_int (f_buffer_size f - missing) / of_int (f_buffer_size f) * 100) f)"

definition update_buffer_progress :: "'h lt_api \<Rightarrow> 'h lt_query \<Rightarrow> 'h torrent \<Rightarrow> 'h torrent" where
  "update_buffer_progress api q t =
     (if \<not> is_buffering t then t
      else t\<lparr>t_files := map (update_file_progress api t (q_download_queue q (t_native t))) (t_files t)\<rparr>)"

end
