(* ===== verification/Http_Url.thy ===== *)
theory Http_Url
  imports Utils
begin

text \<open>
  The URL parser and the HTTP client of src/src/utils/http_url.h and http_client.h. The client
  library is a parameter: a function from the address of a server and the path of a request to the
  status and body of the response, or nothing. \<open>tolower\<close> is that of the C locale.
\<close>

record http_url =
  u_protocol :: string
  u_domain :: string
  u_port :: int
  u_path :: string
  u_query :: string

section \<open>Helpers of the parser\<close>

text \<open>A text of blanks only is not trimmed: \<open>find_last_not_of\<close> then finds nothing.\<close>

definition is_url_blank :: "char \<Rightarrow> bool" where
  "is_url_blank c \<longleftrightarrow> c \<in> {CHR 0x20, CHR 0x09, CHR 0x0A, CHR 0x0D}"

definition trim_url :: "string \<Rightarrow> string" where
  "trim_url s = (if list_all is_url_blank s then s else dropWhile is_url_blank (rev (dropWhile is_url_blank (rev s))))"

definition to_lower_char :: "char \<Rightarrow> char" where
  "to_lower_char c =
     (let n = (of_char c :: nat) in if 65 \<le> n \<and> n \<le> 90 then char_of (n + 32) else c)"

definition tolowerstr :: "string \<Rightarrow> string" where
  "tolowerstr s = map to_lower_char s"

text \<open>
  \<open>stream >> r\<close> of an uninitialised \<open>int\<close>: blanks are skipped and an optional sign and
  digits read; a text without a number sets \<open>r\<close> to zero and one out of range to the nearest
  bound, but on a text of blanks only nothing is stored and \<open>r\<close> is returned uninitialised.
\<close>

definition is_stream_blank :: "char \<Rightarrow> bool" where
  "is_stream_blank c \<longleftrightarrow> c \<in> {CHR 0x20, CHR 0x09, CHR 0x0A, CHR 0x0B, CHR 0x0C, CHR 0x0D}"

definition url_atoi :: "string \<Rightarrow> int result" where
  "url_atoi s =
     (let s1 = dropWhile is_stream_blank s in
      if s1 = [] then Inl Undefined
      else
        let neg = (hd s1 = CHR ''-'');
            ds = takeWhile is_digit (if hd s1 = CHR ''-'' \<or> hd s1 = CHR ''+'' then tl s1 else s1);
            n = (if neg then - int (read_digits ds) else int (read_digits ds))
        in Inr (max (- (2 ^ 31)) (min (2 ^ 31 - 1) n)))"

section \<open>The parser\<close>

definition protocols :: "string list" where
  "protocols = [''https://'', ''http://'', ''ftp://'']"

text \<open>The first prefix that matches, with its length; no prefix leaves the protocol empty.\<close>

definition find_protocol :: "string \<Rightarrow> string \<times> nat" where
  "find_protocol u = (case find (\<lambda>c. take (length c) u = c) protocols of
     None \<Rightarrow> ([], 0) | Some c \<Rightarrow> (take (length c - 3) c, length c))"

text \<open>What stands before and after the first \<open>c\<close>, if there is one.\<close>

definition cut_at :: "char \<Rightarrow> string \<Rightarrow> string \<times> string option" where
  "cut_at c s =
     (case dropWhile (\<lambda>d. d \<noteq> c) s of [] \<Rightarrow> (s, None) | d # rest \<Rightarrow> (takeWhile (\<lambda>d. d \<noteq> c) s, Some rest))"

text \<open>
  The host is what precedes the first slash; its first character is not looked at
  (\<open>find_first_of('/', offset + 1)\<close>).
\<close>

definition split_host :: "string \<Rightarrow> string \<times> string" where
  "split_host s = (case s of
     [] \<Rightarrow> ([], ''/'')
   | c # cs \<Rightarrow>
       (case cut_at (CHR ''/'') cs of (host, None) \<Rightarrow> (c # host, ''/'') | (host, Some p) \<Rightarrow> (c # host, CHR ''/'' # p)))"

definition url_port :: "string \<Rightarrow> string option \<Rightarrow> int result" where
  "url_port protocol port = (case port of
     None \<Rightarrow> Inr (if protocol = ''https'' then 443 else 80)
   | Some p \<Rightarrow>
       if p = [] then Inr (if protocol = ''https'' then 443 else 80)
       else bind_result (url_atoi p) (\<lambda>n. Inr (n mod 2 ^ 16)))"

definition new_http_url :: "string \<Rightarrow> http_url result" where
  "new_http_url url =
     (let u = trim_url url;
          (protocol, offset) = find_protocol u;
          (host, path0) = split_host (drop offset u);
          path1 = fst (cut_at (CHR ''#'') path0);
          (domain, port) = cut_at (CHR '':'') host;
          (path, query) = cut_at (CHR ''?'') path1
      in bind_result (url_port protocol port) (\<lambda>n.
         Inr \<lparr>u_protocol = protocol, u_domain = tolowerstr domain, u_port = n, u_path = path,
              u_query = (case query of None \<Rightarrow> [] | Some q \<Rightarrow> q)\<rparr>))"

section \<open>Requests\<close>

type_synonym http_client = "string \<Rightarrow> string \<Rightarrow> (int \<times> string) option"

definition server_address :: "http_url \<Rightarrow> string" where
  "server_address u = c_str (u_protocol u) @ ''://'' @ c_str (u_domain u) @ '':'' @ show_int (u_port u)"

definition do_request :: "http_client \<Rightarrow> string \<Rightarrow> (int \<times> string) option result" where
  "do_request client uri =
     bind_result (new_http_url uri) (\<lambda>u. Inr (client (server_address u) (c_str (u_path u @ ''?'' @ u_query u))))"

section \<open>Facts about the parser\<close>

lemma cut_at_absent: "c \<notin> set s \<Longrightarrow> cut_at c s = (s, None)"
proof -
  assume "c \<notin> set s"
  then have "dropWhile (\<lambda>d. d \<noteq> c) s = []" by (auto simp: dropWhile_eq_Nil_conv)
  then show ?thesis by (simp only: cut_at_def list.case)
qed

lemma cut_at_append: "c \<notin> set s \<Longrightarrow> cut_at c (s @ c # rest) = (s, Some rest)"
  by (induction s) (auto simp: cut_at_def split: list.splits)

lemma trim_url_id:
  assumes "s \<noteq> []" and "\<not> is_url_blank (hd s)" and "\<not> is_url_blank (last s)"
  shows "trim_url s = s"
proof -
  have "dropWhile is_url_blank (rev s) = rev s"
    using assms(1,3) by (cases "rev s") (auto simp: hd_rev [symmetric])
  moreover have "dropWhile is_url_blank s = s" using assms(1,2) by (cases s) auto
  ultimately show ?thesis by (simp add: trim_url_def)
qed

lemma url_atoi_show_nat:
  assumes "n < 2 ^ 16"
  shows "url_atoi (show_nat n) = Inr (int n)"
proof -
  obtain c cs where s: "show_nat n = c # cs" by (cases "show_nat n") auto
  have ds: "\<forall>d \<in> set (show_nat n). is_digit d" by (rule show_nat_digits)
  then have c: "is_digit c" using s by simp
  then have "\<not> is_stream_blank c" "c \<noteq> CHR ''-''" "c \<noteq> CHR ''+''" by (auto simp: is_digit_def is_stream_blank_def)
  moreover have "takeWhile is_digit (show_nat n) = show_nat n" using ds by (simp add: takeWhile_eq_all_conv)
  ultimately show ?thesis using s assms read_show_nat [of n] by (simp add: url_atoi_def Let_def)
qed

section \<open>Printing and parsing\<close>

text \<open>A URL as it is usually written, with its port.\<close>

definition url_text :: "http_url \<Rightarrow> string" where
  "url_text u = u_protocol u @ ''://'' @ u_domain u @ '':'' @ show_nat (nat (u_port u)) @ u_path u @
     (if u_query u = [] then [] else ''?'' @ u_query u)"

definition url_ok :: "http_url \<Rightarrow> bool" where
  "url_ok u \<longleftrightarrow> u_protocol u \<in> {''http'', ''https'', ''ftp''} \<and>
     u_domain u \<noteq> [] \<and> CHR ''/'' \<notin> set (u_domain u) \<and> CHR '':'' \<notin> set (u_domain u) \<and> tolowerstr (u_domain u) = u_domain u \<and>
     0 \<le> u_port u \<and> u_port u < 2 ^ 16 \<and>
     u_path u \<noteq> [] \<and> hd (u_path u) = CHR ''/'' \<and> CHR ''?'' \<notin> set (u_path u) \<and>
     CHR ''#'' \<notin> set (u_path u @ u_query u) \<and> list_all (\<lambda>c. \<not> is_url_blank c) (u_path u @ u_query u)"

lemma url_ok_D:
  assumes "url_ok u"
  shows "u_protocol u \<in> {''http'', ''https'', ''ftp''}" and "u_domain u \<noteq> []" and "CHR ''/'' \<notin> set (u_domain u)"
    and "CHR '':'' \<notin> set (u_domain u)" and "tolowerstr (u_domain u) = u_domain u" and "0 \<le> u_port u" and "u_port u < 2 ^ 16"
    and "u_path u \<noteq> []" and "hd (u_path u) = CHR ''/''" and "CHR ''?'' \<notin> set (u_path u)"
    and "CHR ''#'' \<notin> set (u_path u @ u_query u)" and "list_all (\<lambda>c. \<not> is_url_blank c) (u_path u @ u_query u)"
  using assms unfolding url_ok_def by blast+

lemma find_protocol_text:
  assumes "p \<in> {''http'', ''https'', ''ftp''}"
  shows "find_protocol (p @ ''://'' @ s) = (p, length p + 3)"
  using assms by (auto simp: find_protocol_def protocols_def)

lemma trim_url_text:
  assumes "url_ok u"
  shows "trim_url (url_text u) = url_text u"
proof (rule trim_url_id)
  note D = url_ok_D [OF assms]
  have "u_protocol u \<noteq> []" "\<not> is_url_blank (hd (u_protocol u))" using D(1) by (auto simp: is_url_blank_def)
  then show "url_text u \<noteq> []" "\<not> is_url_blank (hd (url_text u))" by (simp_all add: url_text_def)
  have "last (url_text u) \<in> set (u_path u @ u_query u)"
    using D(8) by (simp add: url_text_def)
  with D(12) show "\<not> is_url_blank (last (url_text u))" by (auto simp: list_all_iff)
qed

lemma split_host_text:
  assumes "d \<noteq> []" and "CHR ''/'' \<notin> set d" and "hd path = CHR ''/''" and "path \<noteq> []"
  shows "split_host (d @ path) = (d, path)"
proof -
  obtain c cs where d: "d = c # cs" using assms(1) by (cases d) auto
  obtain p where p: "path = CHR ''/'' # p" using assms(3,4) by (cases path) auto
  have "cut_at (CHR ''/'') (cs @ path) = (cs, Some p)" using assms(2) d p by (simp add: cut_at_append)
  with d p show ?thesis by (simp add: split_host_def)
qed

text \<open>
  C31. Parsing gives back what a URL was printed from: protocol, domain in lower case, port, path and
  query, for every URL without blanks and fragments whose domain has no slash and no colon.
\<close>

theorem url_roundtrip:
  assumes "url_ok u"
  shows "new_http_url (url_text u) = Inr u"
proof -
  note D = url_ok_D [OF assms]
  let ?host = "u_domain u @ CHR '':'' # show_nat (nat (u_port u))"
  let ?path = "u_path u @ (if u_query u = [] then [] else CHR ''?'' # u_query u)"
  have u: "url_text u = u_protocol u @ ''://'' @ ?host @ ?path" by (simp add: url_text_def)
  have "c \<noteq> CHR ''/''" if "c \<in> set (show_nat n)" for c n
    using show_nat_digits [of n] that by (auto simp: is_digit_def)
  then have host: "CHR ''/'' \<notin> set ?host" using D(3) by auto
  have parts: "find_protocol (url_text u) = (u_protocol u, length (u_protocol u) + 3)"
    "drop (length (u_protocol u) + 3) (url_text u) = ?host @ ?path"
    unfolding u using find_protocol_text [OF D(1)] by simp_all
  have split: "split_host (?host @ ?path) = (?host, ?path)" by (rule split_host_text) (use host D(8,9) in auto)
  have frag: "cut_at (CHR ''#'') ?path = (?path, None)" by (rule cut_at_absent) (use D(11) in auto)
  have dom: "cut_at (CHR '':'') ?host = (u_domain u, Some (show_nat (nat (u_port u))))" using D(4) by (rule cut_at_append)
  have query: "cut_at (CHR ''?'') ?path = (u_path u, if u_query u = [] then None else Some (u_query u))"
    using D(10) by (simp add: cut_at_append cut_at_absent)
  have "nat (u_port u) < 2 ^ 16" using D(7) by (simp add: nat_less_iff)
  from url_atoi_show_nat [OF this] have port: "url_atoi (show_nat (nat (u_port u))) = Inr (u_port u)" using D(6) by simp
  then have "url_port (u_protocol u) (Some (show_nat (nat (u_port u)))) = Inr (u_port u)" using D(6,7) by (simp add: url_port_def)
  then show ?thesis
    unfolding new_http_url_def trim_url_text [OF assms] parts(1) Let_def case_prod_conv parts(2) split frag dom query fst_conv
    using D(5) by simp
qed

theorem url_roundtrip_witness:
  "new_http_url ''http://example.org:8080/a/b?x=1'' =
     Inr \<lparr>u_protocol = ''http'', u_domain = ''example.org'', u_port = 8080, u_path = ''/a/b'', u_query = ''x=1''\<rparr>"
proof -
  let ?u = "\<lparr>u_protocol = ''http'', u_domain = ''example.org'', u_port = 8080, u_path = ''/a/b'', u_query = ''x=1''\<rparr>"
  have "url_ok ?u" by code_simp
  moreover have "url_text ?u = ''http://example.org:8080/a/b?x=1''"
    by (simp add: url_text_def show_nat.simps digit_def)
  ultimately show ?thesis using url_roundtrip [of ?u] by (simp only:)
qed

text \<open>The port is cut to 16 bits, whatever the text says.\<close>

lemma url_port_bounds: "url_port protocol port = Inr n \<Longrightarrow> 0 \<le> n \<and> n < 2 ^ 16"
  by (auto simp: url_port_def bind_result_eq_Inr split: option.splits if_splits)

lemma new_http_url_port:
  assumes "new_http_url s = Inr u"
  shows "0 \<le> u_port u \<and> u_port u < 2 ^ 16"
proof -
  obtain protocol port n where n: "url_port protocol port = Inr n" "u_port u = n"
    using assms unfolding new_http_url_def Let_def case_prod_unfold bind_result_eq_Inr by auto
  show ?thesis unfolding n(2) by (rule url_port_bounds [OF n(1)])
qed

end
