(* ===== verification/Session.thy ===== *)
theory Session
  imports Settings Torrent_Ops Http_Url
begin

text \<open>
  The class \<open>Session\<close> (\<open>src/src/bittorrent/session.h\<close>, \<open>session.cpp\<close>): it owns
  libtorrent's session and the torrents, adds and removes torrents, takes libtorrent's alerts to
  them and starts and stops the services.

  libtorrent's session is a parameter: an object of type \<open>'n\<close> with the operations of
  \<open>lt_session_api\<close>. The variables \<open>extraTrackers\<close> and \<open>lh::memory_size\<close>, which
  are global in the sources, are fields of the session. Operations that can throw after they have
  changed something return the outcome together with the state. The torrents of a session are
  shared objects; the list holds their current state.
\<close>

section \<open>libtorrent's session\<close>

text \<open>The metadata of a torrent as \<open>add_torrent_params::ti\<close> points to it.\<close>

record info_ref =
  ir_hash :: string
  ir_priv :: bool
  ir_info :: torrent_info

record add_params =
  ap_ti :: "info_ref option"
  ap_info_hash :: string
  ap_trackers :: "string list"
  ap_file_priorities :: "int list"
  ap_max_connections :: int
  ap_save_path :: string
  ap_sequential :: bool
  ap_memory_storage :: bool

record ('n, 'h) lt_session_api =
  ls_apply_settings :: "'n \<Rightarrow> settings_pack \<Rightarrow> 'n"
  ls_add_port_mapping :: "'n \<Rightarrow> int \<Rightarrow> int list \<times> 'n"
  ls_delete_port_mapping :: "'n \<Rightarrow> int \<Rightarrow> 'n"
  ls_post_torrent_updates :: "'n \<Rightarrow> 'n"
  ls_post_session_stats :: "'n \<Rightarrow> 'n"
  ls_add_torrent :: "'n \<Rightarrow> add_params \<Rightarrow> (string + 'h) \<times> 'n"
  ls_remove_torrent :: "'n \<Rightarrow> 'h \<Rightarrow> remove_flags \<Rightarrow> 'n"
  ls_is_paused :: "'n \<Rightarrow> bool"
  ls_pause :: "'n \<Rightarrow> 'n"
  ls_resume :: "'n \<Rightarrow> 'n"
  ls_info_hash :: "'h \<Rightarrow> string"
  ls_storage_impl :: "'h \<Rightarrow> memory_storage option"
  ls_parse_magnet :: "string \<Rightarrow> string + add_params"
  ls_load_info :: "file_system \<Rightarrow> string \<Rightarrow> string + info_ref"
  ls_read_resume :: "string \<Rightarrow> string + add_params"
  ls_empty_params :: add_params
  ls_stats_metrics :: "(string \<times> nat) list"

text \<open>
  Everything a session calls that is not part of the sources: libtorrent, the file system
  functions, \<open>boost::trim\<close> and HTTP requests (status and body).
\<close>

record ('n, 'h) session_env =
  e_lt :: "'h lt_api"
  e_query :: "'h lt_query"
  e_ls :: "('n, 'h) lt_session_api"
  e_settings :: settings_env
  e_join_path :: "string \<Rightarrow> string \<Rightarrow> string"
  e_bencode :: "torrent_info \<Rightarrow> string"
  e_can_write :: "string \<Rightarrow> bool"
  e_empty_status :: torrent_status
  e_trim :: "string \<Rightarrow> string"
  e_request :: http_client
  e_modtime :: "string \<Rightarrow> int option"
  e_list_dir :: "string \<Rightarrow> dir_entry list option"

record ('n, 'h) session =
  s_native :: 'n
  s_pack :: settings_pack
  s_session_stats :: "(string, int) std_map"
  s_mapped_ports :: port_map
  s_config :: config
  s_torrents :: "'h torrent list"
  s_refresh_requested :: bool
  s_isClosing :: bool
  s_extra_trackers :: "string list"
  s_memory_size :: int

section \<open>Services\<close>

fun map_ports :: "('n, 'h) lt_session_api \<Rightarrow> port_map \<Rightarrow> 'n \<Rightarrow> port_map \<times> 'n" where
  "map_ports ls [] n = ([], n)"
| "map_ports ls ((port, old) # ps) n =
     (let (ids, n1) = ls_add_port_mapping ls n port; (ps', n2) = map_ports ls ps n1
      in ((port, ids) # ps', n2))"

definition start_services :: "('n, 'h) lt_session_api \<Rightarrow> ('n, 'h) session \<Rightarrow> ('n, 'h) session" where
  "start_services ls s =
     (let pack = set_pack (start_settings (s_config s)) (s_pack s);
          (ports, n) = map_ports ls (s_mapped_ports s) (ls_apply_settings ls (s_native s) pack)
      in s\<lparr>s_pack := pack, s_mapped_ports := ports, s_native := n\<rparr>)"

definition stop_services :: "('n, 'h) lt_session_api \<Rightarrow> ('n, 'h) session \<Rightarrow> ('n, 'h) session" where
  "stop_services ls s =
     (let pack = set_pack (stop_settings (s_config s)) (s_pack s);
          n = foldl (ls_delete_port_mapping ls) (s_native s) (concat (map snd (s_mapped_ports s)))
      in s\<lparr>s_pack := pack, s_mapped_ports := [], s_native := ls_apply_settings ls n pack\<rparr>)"

text \<open>\<open>start_lt pack\<close> is \<open>lt::session(params, add_default_plugins)\<close>.\<close>

definition new_session ::
  "('n, 'h) session_env \<Rightarrow> (settings_pack \<Rightarrow> 'n) \<Rightarrow> string list \<Rightarrow> int \<Rightarrow> config \<Rightarrow> ('n, 'h) session result" where
  "new_session env start_lt trackers memory config =
     bind_result (configure (e_settings env) config Map.empty) (\<lambda>(pack, c, ports).
       Inr (start_services (e_ls env) \<lparr>s_native = start_lt pack, s_pack = pack, s_session_stats = [],
         s_mapped_ports = ports, s_config = c, s_torrents = [], s_refresh_requested = False,
         s_isClosing = False, s_extra_trackers = trackers, s_memory_size = memory\<rparr>))"

text \<open>
  An exception of \<open>configure\<close> comes from \<open>check_directories\<close>, before anything but
  the configuration has changed.
\<close>

definition reconfigure :: "('n, 'h) session_env \<Rightarrow> config \<Rightarrow> ('n, 'h) session \<Rightarrow> unit result \<times> ('n, 'h) session" where
  "reconfigure env global s =
     (case configure (e_settings env) global (s_pack s) of
        Inl e \<Rightarrow> (Inl e, s\<lparr>s_config := global\<rparr>)
      | Inr (pack, c, ports) \<Rightarrow>
          (Inr (), s\<lparr>s_pack := pack, s_config := c, s_mapped_ports := ports,
             s_native := ls_apply_settings (e_ls env) (s_native s) pack\<rparr>))"

text \<open>\<open>files()\<close> returns a copy of the vector, so clearing it changes no torrent.\<close>

definition close :: "('n, 'h) lt_session_api \<Rightarrow> ('n, 'h) session \<Rightarrow> ('n, 'h) session" where
  "close ls s = stop_services ls (s\<lparr>s_isClosing := True\<rparr>)"

definition request_update :: "('n, 'h) lt_session_api \<Rightarrow> ('n, 'h) session \<Rightarrow> ('n, 'h) session" where
  "request_update ls s =
     s\<lparr>s_native := ls_post_session_stats ls (ls_post_torrent_updates ls (s_native s)), s_refresh_requested := True\<rparr>"

definition session_is_paused :: "('n, 'h) lt_session_api \<Rightarrow> ('n, 'h) session \<Rightarrow> bool" where
  "session_is_paused ls s = ls_is_paused ls (s_native s)"

definition session_pause :: "('n, 'h) lt_session_api \<Rightarrow> ('n, 'h) session \<Rightarrow> ('n, 'h) session" where
  "session_pause ls s = s\<lparr>s_native := ls_pause ls (s_native s)\<rparr>"

definition session_resume :: "('n, 'h) lt_session_api \<Rightarrow> ('n, 'h) session \<Rightarrow> ('n, 'h) session" where
  "session_resume ls s = s\<lparr>s_native := ls_resume ls (s_native s)\<rparr>"

section \<open>Trackers\<close>

definition default_trackers :: "string list" where
  "default_trackers =
     [''http://bt.t-ru.org/ann'',
      ''http://bt2.t-ru.org/ann'',
      ''http://bt3.t-ru.org/ann'',
      ''http://bt4.t-ru.org/ann'',
      ''http://92.42.108.54:2710/announce'',
      ''http://tracker.grepler.com:6969/announce'',
      ''http://bt1.archive.org:6969/announce'',
      ''http://bt2.archive.org:6969/announce'',
      ''http://sugoi.pomf.se/announce'',
      ''http://tracker.pomf.se/announce'',
      ''udp://tracker.opentrackr.org:1337/announce'',
      ''udp://tracker.openbittorrent.com:80/announce'',
      ''udp://explodie.org:6969'',
      ''udp://opentor.org:2710'',
      ''udp://valakas.rollo.dnsabr.com:2710'',
      ''udp://retracker.lanta-net.ru:2710'',
      ''udp://9.rarbg.me:2740'',
      ''udp://9.rarbg.to:2790'',
      ''udp://tracker.uw0.xyz:6969'',
      ''udp://open.stealth.si:80'',
      ''udp://exodus.desync.com:6969'',
      ''udp://tracker.theoks.net:6969'',
      ''udp://tracker.moeking.me:6969'',
      ''udp://tracker.torrent.eu.org:451'',
      ''udp://tracker.ololosh.space:6969'',
      ''udp://t1.leech.ie:1337'',
      ''udp://inferno.demonoid.is:3391'',
      ''udp://mts.tvbit.co:6969'',
      ''udp://retracker.netbynet.ru:2710'',
      ''udp://edu.uifr.ru:6969'',
      ''udp://engplus.ru:6969'',
      ''udp://torrent.by:2710'',
      ''udp://tracker.cortexlabs.ai:5008'']"

text \<open>The lines that \<open>std::getline\<close> reads; an empty line at the end makes no difference here.\<close>

fun split_lines :: "string \<Rightarrow> string list" where
  "split_lines [] = [[]]"
| "split_lines (c # cs) =
     (if c = CHR 0x0A then [] # split_lines cs
      else (case split_lines cs of [] \<Rightarrow> [[c]] | l # ls \<Rightarrow> (c # l) # ls))"

definition tracker_url :: "config \<Rightarrow> string" where
  "tracker_url c = ''https://ngosang.github.io/trackerslist/trackers_'' @
     extra_trackers_to_string (c_add_extra_trackers c) @ ''.txt''"

definition load_trackers :: "('n, 'h) session_env \<Rightarrow> ('n, 'h) session \<Rightarrow> ('n, 'h) session result" where
  "load_trackers env s =
     (if c_add_extra_trackers (s_config s) = Trackers_none then Inr s
      else if c_add_extra_trackers (s_config s) = Trackers_minimum then Inr (s\<lparr>s_extra_trackers := default_trackers\<rparr>)
      else bind_result (do_request (e_request env) (tracker_url (s_config s))) (\<lambda>res. case res of
        None \<Rightarrow> Inr (s\<lparr>s_extra_trackers := default_trackers\<rparr>)
      | Some (status, body) \<Rightarrow>
          if status \<noteq> 200 then Inr (s\<lparr>s_extra_trackers := default_trackers\<rparr>)
          else Inr (s\<lparr>s_extra_trackers := default_trackers @
            filter (\<lambda>l. l \<noteq> []) (map (e_trim env) (split_lines body))\<rparr>)))"

text \<open>The loop that adds the extra trackers a torrent does not have yet.\<close>

fun add_trackers :: "string list \<Rightarrow> string list \<Rightarrow> string list" where
  "add_trackers [] trs = trs"
| "add_trackers (tr # extra) trs = add_trackers extra (if tr \<in> set trs then trs else trs @ [tr])"

definition modify_trackers :: "config \<Rightarrow> string list \<Rightarrow> bool \<Rightarrow> add_params \<Rightarrow> add_params" where
  "modify_trackers c extra is_first_time p =
     (let is_private = (case ap_ti p of None \<Rightarrow> False | Some ti \<Rightarrow> ir_priv ti) in
      if \<not> is_private \<and>
         (c_modify_trackers_strategy c = Modify_first_time \<and> is_first_time \<or> c_modify_trackers_strategy c = Modify_each_time)
      then p\<lparr>ap_trackers := add_trackers extra (if c_remove_original_trackers c then [] else ap_trackers p)\<rparr>
      else p)"

section \<open>The list of torrents\<close>

definition find_torrent :: "string \<Rightarrow> 'h torrent list \<Rightarrow> 'h torrent option" where
  "find_torrent hash ts = find (\<lambda>t. t_hash t = hash) ts"

definition get_torrent :: "('n, 'h) session \<Rightarrow> string \<Rightarrow> 'h torrent result" where
  "get_torrent s hash = (case find_torrent hash (s_torrents s) of
     None \<Rightarrow> Inl (Throw TorrentException
       (''Torrent with hash '' @ [CHR 0x27] @ hash @ [CHR 0x27] @ '' not found''))
   | Some t \<Rightarrow> Inr t)"

definition has_torrent :: "('n, 'h) session \<Rightarrow> string \<Rightarrow> bool" where
  "has_torrent s hash \<longleftrightarrow> find_torrent hash (s_torrents s) \<noteq> None"

text \<open>The object that \<open>get_torrent\<close> returns is changed in place.\<close>

fun update_torrent :: "string \<Rightarrow> ('h torrent \<Rightarrow> 'h torrent) \<Rightarrow> 'h torrent list \<Rightarrow> 'h torrent list" where
  "update_torrent hash f [] = []"
| "update_torrent hash f (t # ts) = (if t_hash t = hash then f t # ts else t # update_torrent hash f ts)"

fun erase_torrent :: "string \<Rightarrow> 'h torrent list \<Rightarrow> 'h torrent list result" where
  "erase_torrent hash [] = Inl Undefined"
| "erase_torrent hash (t # ts) =
     (if t_hash t = hash then Inr ts else bind_result (erase_torrent hash ts) (\<lambda>ts'. Inr (t # ts')))"

text \<open>
  \<open>remove_torrent\<close> is two steps: it takes the lock of the list in each of them, and other
  threads can run in between. The first finds the torrent and removes it from libtorrent and its
  files from disk, the second erases it from the list; \<open>erase\<close> of the end iterator is undefined.
\<close>

definition remove_torrent_begin ::
  "('n, 'h) session_env \<Rightarrow> string \<Rightarrow> bool \<Rightarrow> bool \<Rightarrow> ('n, 'h) session \<Rightarrow> file_system \<Rightarrow>
    (('n, 'h) session \<times> file_system) result" where
  "remove_torrent_begin env hash is_delete_files is_delete_data s fs =
     bind_result (get_torrent s hash) (\<lambda>t.
       let (t', flags, fs') = remove is_delete_files is_delete_data t fs
       in Inr (s\<lparr>s_torrents := update_torrent hash (\<lambda>_. t') (s_torrents s),
                 s_native := ls_remove_torrent (e_ls env) (s_native s) (t_native t) flags\<rparr>, fs'))"

definition remove_torrent_erase :: "string \<Rightarrow> ('n, 'h) session \<Rightarrow> ('n, 'h) session result" where
  "remove_torrent_erase hash s =
     bind_result (erase_torrent hash (s_torrents s)) (\<lambda>ts. Inr (s\<lparr>s_torrents := ts\<rparr>))"

definition remove_torrent ::
  "('n, 'h) session_env \<Rightarrow> string \<Rightarrow> bool \<Rightarrow> bool \<Rightarrow> ('n, 'h) session \<Rightarrow> file_system \<Rightarrow>
    (bool \<times> ('n, 'h) session \<times> file_system) result" where
  "remove_torrent env hash is_delete_files is_delete_data s fs =
     bind_result (remove_torrent_begin env hash is_delete_files is_delete_data s fs) (\<lambda>(s1, fs1).
     bind_result (remove_torrent_erase hash s1) (\<lambda>s2. Inr (True, s2, fs1)))"

section \<open>Adding a torrent\<close>

definition is_magnet :: "string \<Rightarrow> bool" where
  "is_magnet uri \<longleftrightarrow> take 6 uri = ''magnet''"

fun contains :: "string \<Rightarrow> string \<Rightarrow> bool" where
  "contains p [] = (p = [])"
| "contains p (c # cs) = (take (length p) (c # cs) = p \<or> contains p cs)"

definition remove_temporary_file :: "string \<Rightarrow> file_system \<Rightarrow> file_system" where
  "remove_temporary_file path fs =
     (if \<not> file_exists fs path then fs
      else if \<not> contains ''tmp_'' path then fs
      else fs(path := None))"

text \<open>A file that holds a magnet link stands for the link.\<close>

definition resolve_uri :: "string \<Rightarrow> file_system \<Rightarrow> string \<times> file_system" where
  "resolve_uri uri fs =
     (if is_magnet uri then (uri, fs)
      else
        let (loaded, body) = load_file_string uri [] fs
        in if loaded \<and> is_magnet body then (body, remove_temporary_file uri fs) else (uri, fs))"

definition read_params ::
  "('n, 'h) lt_session_api \<Rightarrow> string \<Rightarrow> file_system \<Rightarrow> (add_params \<times> string) result \<times> file_system" where
  "read_params ls uri fs =
     (if is_magnet uri then
        (case ls_parse_magnet ls uri of
           Inl e \<Rightarrow> (Inl (Throw LhException e), fs)
         | Inr p \<Rightarrow> (Inr (p, ap_info_hash p), fs))
      else
        (case ls_load_info ls fs uri of
           Inl e \<Rightarrow> (Inl (Throw LhException e), remove_temporary_file uri fs)
         | Inr ti \<Rightarrow> (Inr ((ls_empty_params ls)\<lparr>ap_ti := Some ti\<rparr>, ir_hash ti), remove_temporary_file uri fs)))"

text \<open>
  Resume data replaces the parameters; data that can not be read makes \<open>add_torrent\<close> throw.
  The last value says whether the file priorities come from it.
\<close>

definition read_resume ::
  "('n, 'h) session_env \<Rightarrow> config \<Rightarrow> string \<Rightarrow> add_params \<Rightarrow> file_system \<Rightarrow> (add_params \<times> string \<times> bool) result" where
  "read_resume env c hash p fs =
     (let (loaded, body) = load_file (resume_file (e_join_path env) (c_torrents_path c) hash) [] 8000000 fs in
      if \<not> loaded then Inr (p, hash, False)
      else case ls_read_resume (e_ls env) body of
        Inl e \<Rightarrow> Inl (Throw LhException e)
      | Inr p' \<Rightarrow> Inr (p', case ap_ti p' of None \<Rightarrow> hash | Some ti \<Rightarrow> ir_hash ti, True))"

definition prepare_params ::
  "('n, 'h) session_env \<Rightarrow> config \<Rightarrow> string list \<Rightarrow> bool \<Rightarrow> bool \<Rightarrow> bool \<Rightarrow> add_params \<Rightarrow> add_params" where
  "prepare_params env c extra is_first_time is_memory is_skip p =
     (let p1 = p\<lparr>ap_max_connections := get_max_connections (se_cpu (e_settings env)),
                 ap_save_path := c_download_path c\<rparr>;
          p2 = (if is_skip then p1 else p1\<lparr>ap_file_priorities := ap_file_priorities p1 @ replicate 1001 0\<rparr>)
      in (modify_trackers c extra is_first_time p2)\<lparr>ap_sequential := \<not> is_memory\<rparr>)"

text \<open>
  The end of \<open>add_torrent\<close>: libtorrent takes the torrent, it is resumed, listed and, when its
  metadata is known, set up. The outcome is the hash of the new torrent.
\<close>

definition register_torrent ::
  "('n, 'h) session_env \<Rightarrow> config \<Rightarrow> bool \<Rightarrow> storage_type_t \<Rightarrow> int \<Rightarrow> add_params \<Rightarrow> ('n, 'h) session \<Rightarrow> file_system \<Rightarrow>
    string result \<times> ('n, 'h) session \<times> file_system" where
  "register_torrent env global paused st added_time p s fs =
     (case ls_add_torrent (e_ls env) (s_native s) p of
        (Inl e, n) \<Rightarrow> (Inl (Throw LhException e), s\<lparr>s_native := n\<rparr>, fs)
      | (Inr h, n) \<Rightarrow>
          let h1 = (if paused then h else lt_resume (e_lt env) h);
              t = new_torrent (e_join_path env) (e_query env) global h1 (e_empty_status env)
                    (ls_info_hash (e_ls env) h1) st added_time;
              s1 = s\<lparr>s_native := n, s_torrents := s_torrents s @ [t]\<rparr>
          in if has_metadata t then
               (case on_metadata_received (e_lt env) (e_bencode env) (e_can_write env) global
                       (ls_storage_impl (e_ls env) h1) t fs of
                  Inl e \<Rightarrow> (Inl e, s1, fs)
                | Inr (t', fs') \<Rightarrow> (Inr (t_hash t'), s1\<lparr>s_torrents := s_torrents s @ [t']\<rparr>, fs'))
             else (Inr (t_hash t), s1, fs))"

text \<open>From the parameters on: memory size or resume data, the check for duplicates, and the registration.\<close>

definition add_with_params ::
  "('n, 'h) session_env \<Rightarrow> config \<Rightarrow> bool \<Rightarrow> storage_type_t \<Rightarrow> bool \<Rightarrow> int \<Rightarrow> add_params \<Rightarrow> string \<Rightarrow>
    ('n, 'h) session \<Rightarrow> file_system \<Rightarrow> string result \<times> ('n, 'h) session \<times> file_system" where
  "add_with_params env global paused st is_first_time added_time p0 hash0 s fs =
     (let c = s_config s; is_memory = (st = Storage_memory);
          s1 = (if is_memory then s\<lparr>s_memory_size := session_memory_size c\<rparr> else s)
      in case (if is_memory then Inr (p0\<lparr>ap_memory_storage := True\<rparr>, hash0, False)
               else read_resume env c hash0 p0 fs) of
           Inl e \<Rightarrow> (Inl e, s1, fs)
         | Inr (p, hash, is_skip) \<Rightarrow>
             if has_torrent s1 hash
             then (Inl (Throw LhException (''Torrent with hash '' @ [CHR 0x27] @ hash @ [CHR 0x27] @ '' already exists'')), s1, fs)
             else register_torrent env global paused st added_time
                    (prepare_params env c (s_extra_trackers s1) is_first_time is_memory is_skip p) s1 fs)"

definition storage_for :: "config \<Rightarrow> storage_type_t \<Rightarrow> storage_type_t" where
  "storage_for c st = (if st = Storage_automatic then c_download_storage c else st)"

definition add_torrent ::
  "('n, 'h) session_env \<Rightarrow> config \<Rightarrow> string \<Rightarrow> bool \<Rightarrow> storage_type_t \<Rightarrow> bool \<Rightarrow> int \<Rightarrow> ('n, 'h) session \<Rightarrow> file_system \<Rightarrow>
    string result \<times> ('n, 'h) session \<times> file_system" where
  "add_torrent env global uri0 paused st0 is_first_time added_time s fs =
     (let uri1 = e_trim env uri0; st = storage_for (s_config s) st0 in
      if uri1 = [] then (Inl (Throw LhException ''Empty uri parameter''), s, fs)
      else if st \<noteq> Storage_memory \<and> c_download_path (s_config s) = []
      then (Inl (Throw LhException ''Missing download path for using file storage''), s, fs)
      else
        let (uri, fs1) = resolve_uri uri1 fs
        in case read_params (e_ls env) uri fs1 of
             (Inl e, fs2) \<Rightarrow> (Inl e, s, fs2)
           | (Inr (p0, hash0), fs2) \<Rightarrow>
               add_with_params env global paused st is_first_time added_time p0
                 (if hash0 = [] then ap_info_hash p0 else hash0) s fs2)"

section \<open>Previous torrents\<close>

definition is_torrent_file :: "string \<Rightarrow> bool" where
  "is_torrent_file p \<longleftrightarrow> length p > 8 \<and> drop (length p - 8) p = ''.torrent''"

text \<open>Exceptions are logged and the loop goes on.\<close>

fun load_torrents ::
  "('n, 'h) session_env \<Rightarrow> config \<Rightarrow> (int \<times> string) list \<Rightarrow> ('n, 'h) session \<Rightarrow> file_system \<Rightarrow>
    (('n, 'h) session \<times> file_system) result" where
  "load_torrents env global [] s fs = Inr (s, fs)"
| "load_torrents env global ((time, path) # es) s fs =
     (case e_modtime env path of
        None \<Rightarrow> load_torrents env global es s fs
      | Some m \<Rightarrow>
          (case add_torrent env global path (c_autoload_torrents_paused (s_config s)) Storage_file False m s fs of
             (Inl Undefined, s', fs') \<Rightarrow> Inl Undefined
           | (_, s', fs') \<Rightarrow> load_torrents env global es s' fs'))"

text \<open>
  A directory that can not be listed without error is not loaded at all.
\<close>

definition list_failed :: "dir_entry list option \<Rightarrow> bool" where
  "list_failed dir = (case dir of None \<Rightarrow> False | Some es \<Rightarrow> list_ex de_failed es)"

definition load_previous_torrents ::
  "('n, 'h) session_env \<Rightarrow> config \<Rightarrow> ('n, 'h) session \<Rightarrow> file_system \<Rightarrow> (('n, 'h) session \<times> file_system) result" where
  "load_previous_torrents env global s fs =
     (if \<not> c_autoload_torrents (s_config s) \<or> c_torrents_path (s_config s) = [] then Inr (s, fs)
      else
        let dir = e_list_dir env (c_torrents_path (s_config s)); s1 = s\<lparr>s_torrents := []\<rparr>
        in if list_failed dir then Inr (s1, fs)
           else load_torrents env global (list_dir dir is_torrent_file) s1 fs)"

definition run_session ::
  "('n, 'h) session_env \<Rightarrow> config \<Rightarrow> ('n, 'h) session \<Rightarrow> file_system \<Rightarrow> (('n, 'h) session \<times> file_system) result" where
  "run_session env global s fs = bind_result (load_trackers env s) (\<lambda>s1. load_previous_torrents env global s1 fs)"

section \<open>Alerts\<close>

datatype session_alert =
    Ignored_alert
  | Torrent_alert string torrent_alert
  | State_update_alert "(string \<times> torrent_status) list"
  | Session_stats_alert "int list"
  | Metadata_received_alert string
  | Unknown_alert

definition session_dispatch_alert ::
  "('n, 'h) session_env \<Rightarrow> string \<Rightarrow> torrent_alert \<Rightarrow> ('n, 'h) session \<Rightarrow> file_system \<Rightarrow> ('n, 'h) session \<times> file_system" where
  "session_dispatch_alert env hash a s fs = (case find_torrent hash (s_torrents s) of
     None \<Rightarrow> (s, fs)
   | Some t \<Rightarrow>
       let (t', fs') = dispatch_alert (e_can_write env) a t fs
       in (s\<lparr>s_torrents := update_torrent hash (\<lambda>_. t') (s_torrents s)\<rparr>, fs'))"

fun handle_state_update_alert :: "(string \<times> torrent_status) list \<Rightarrow> ('n, 'h) session \<Rightarrow> ('n, 'h) session" where
  "handle_state_update_alert [] s = s"
| "handle_state_update_alert ((hash, status) # us) s =
     handle_state_update_alert us
       (if has_torrent s hash
        then s\<lparr>s_torrents := update_torrent hash (update_status status) (s_torrents s)\<rparr> else s)"

definition handle_metadata_received_alert ::
  "('n, 'h) session_env \<Rightarrow> config \<Rightarrow> string \<Rightarrow> ('n, 'h) session \<Rightarrow> file_system \<Rightarrow> (('n, 'h) session \<times> file_system) result" where
  "handle_metadata_received_alert env global hash s fs = (case find_torrent hash (s_torrents s) of
     None \<Rightarrow> Inr (s, fs)
   | Some t \<Rightarrow> bind_result (update_metadata (e_lt env) (e_query env) (e_bencode env) (e_can_write env) global
         (ls_storage_impl (e_ls env) (t_native t)) t fs) (\<lambda>(t', fs').
       Inr (s\<lparr>s_torrents := update_torrent hash (\<lambda>_. t') (s_torrents s)\<rparr>, fs')))"

text \<open>A metric whose index is outside the counters is read out of range.\<close>

definition handle_session_stats_alert ::
  "('n, 'h) lt_session_api \<Rightarrow> int list \<Rightarrow> ('n, 'h) session \<Rightarrow> ('n, 'h) session result" where
  "handle_session_stats_alert ls counters s =
     (if list_all (\<lambda>m. snd m < length counters) (ls_stats_metrics ls)
      then Inr (s\<lparr>s_session_stats :=
             foldl (\<lambda>st m. map_set (fst m) (counters ! snd m) st) [] (ls_stats_metrics ls)\<rparr>)
      else Inl Undefined)"

definition handle_alert ::
  "('n, 'h) session_env \<Rightarrow> config \<Rightarrow> session_alert \<Rightarrow> ('n, 'h) session \<Rightarrow> file_system \<Rightarrow> (('n, 'h) session \<times> file_system) result" where
  "handle_alert env global a s fs = (case a of
     Ignored_alert \<Rightarrow> Inr (s, fs)
   | Torrent_alert hash ta \<Rightarrow> Inr (session_dispatch_alert env hash ta s fs)
   | State_update_alert us \<Rightarrow> Inr (handle_state_update_alert us s, fs)
   | Session_stats_alert cs \<Rightarrow> bind_result (handle_session_stats_alert (e_ls env) cs s) (\<lambda>s'. Inr (s', fs))
   | Metadata_received_alert hash \<Rightarrow> handle_metadata_received_alert env global hash s fs
   | Unknown_alert \<Rightarrow> Inr (s, fs))"

definition trigger_resume_data :: "'h lt_api \<Rightarrow> ('n, 'h) session \<Rightarrow> ('n, 'h) session" where
  "trigger_resume_data api s = s\<lparr>s_torrents := map (save_resume_data api) (s_torrents s)\<rparr>"

section \<open>The threads of a session\<close>

text \<open>
  What one pass of \<open>consume_alerts\<close> sees: the alerts, each with whether the application is
  closing when its turn comes, whether it is closing after the sleep, and the time in
  milliseconds.
\<close>

record alert_round =
  ar_alerts :: "(bool \<times> session_alert) list"
  ar_closing :: bool
  ar_now :: int

text \<open>The first value says whether the thread returns.\<close>

fun handle_alerts ::
  "('n, 'h) session_env \<Rightarrow> config \<Rightarrow> (bool \<times> session_alert) list \<Rightarrow> ('n, 'h) session \<Rightarrow> file_system \<Rightarrow>
    (bool \<times> ('n, 'h) session \<times> file_system) result" where
  "handle_alerts env global [] s fs = Inr (False, s, fs)"
| "handle_alerts env global ((closing, a) # as) s fs =
     (if closing then Inr (True, s, fs)
      else bind_result (handle_alert env global a s fs) (\<lambda>(s', fs'). handle_alerts env global as s' fs'))"

record ('n, 'h) alert_loop =
  al_round :: nat
  al_returned :: bool
  al_last_save :: int
  al_session :: "('n, 'h) session"
  al_files :: file_system

definition consume_round ::
  "('n, 'h) session_env \<Rightarrow> config \<Rightarrow> (nat \<Rightarrow> alert_round) \<Rightarrow> ('n, 'h) alert_loop \<Rightarrow> ('n, 'h) alert_loop result" where
  "consume_round env global rounds st =
     (let r = rounds (al_round st) in
      bind_result (handle_alerts env global (ar_alerts r) (al_session st) (al_files st)) (\<lambda>(stop, s, fs).
        let st1 = st\<lparr>al_round := Suc (al_round st), al_session := s, al_files := fs\<rparr> in
        if stop \<or> ar_closing r then Inr (st1\<lparr>al_returned := True\<rparr>)
        else
          let save = ar_now r - al_last_save st > 30000;
              s1 = (if save then trigger_resume_data (e_lt env) s else s);
              s2 = (if s_refresh_requested s1 then s1\<lparr>s_refresh_requested := False\<rparr> else request_update (e_ls env) s1)
          in Inr (st1\<lparr>al_last_save := (if save then ar_now r else al_last_save st), al_session := s2\<rparr>)))"

text \<open>The thread returns only when the application closes: \<open>None\<close> when it never does.\<close>

definition consume_alerts ::
  "('n, 'h) session_env \<Rightarrow> config \<Rightarrow> (nat \<Rightarrow> alert_round) \<Rightarrow> int \<Rightarrow> ('n, 'h) session \<Rightarrow> file_system \<Rightarrow>
    ('n, 'h) alert_loop result option" where
  "consume_alerts env global rounds start s fs =
     while_option (\<lambda>r. case r of Inl e \<Rightarrow> False | Inr st \<Rightarrow> \<not> al_returned st)
       (\<lambda>r. bind_result r (consume_round env global rounds))
       (Inr \<lparr>al_round = 0, al_returned = False, al_last_save = start, al_session = s, al_files = fs\<rparr>)"

text \<open>One pass of the thread \<open>prioritize\<close> over the torrents.\<close>

fun prioritize_round ::
  "'h lt_api \<Rightarrow> 'h lt_query \<Rightarrow> config \<Rightarrow> 'h torrent list \<Rightarrow> reader_heap \<Rightarrow> ('h torrent list \<times> reader_heap) result option" where
  "prioritize_round api q global [] hp = Some (Inr ([], hp))"
| "prioritize_round api q global (t # ts) hp =
     (case (if is_buffering t then Some (Inr (update_buffer_progress api q t, hp))
            else if \<not> torrent_has_readers t then Some (Inr (t, hp))
            else prioritize api global t hp) of
        None \<Rightarrow> None
      | Some (Inl e) \<Rightarrow> Some (Inl e)
      | Some (Inr (t', hp')) \<Rightarrow>
          map_option (\<lambda>r. bind_result r (\<lambda>(ts', hp''). Inr (t' # ts', hp'')))
            (prioritize_round api q global ts hp'))"

end
