(* ===== verification/Readahead.thy ===== *)
theory Readahead
  imports Torrent_Ops
begin

text \<open>
  The first loop of \<open>Torrent::prioritize\<close>: it terminates, and it deals out the read-ahead
  limit to the readers piece by piece.
\<close>

section \<open>Readers up to their mark\<close>

definition same_reader :: "reader \<Rightarrow> reader \<Rightarrow> bool" where
  "same_reader r r' \<longleftrightarrow> set_iterated False r = set_iterated False r'"

text \<open>The reader has no piece to ask for in the pass \<open>k\<close>.\<close>

definition exhausted :: "int \<Rightarrow> reader \<Rightarrow> bool" where
  "exhausted k r \<longleftrightarrow> rd_isClosing r \<or> rd_piece_start r + k > piece_end_limit r"

definition wants :: "reader \<Rightarrow> int \<Rightarrow> bool" where
  "wants r p \<longleftrightarrow> \<not> rd_isClosing r \<and> rd_piece_start r \<le> p \<and> p \<le> piece_end_limit r"

definition marked :: "(int, address) std_map \<Rightarrow> reader_heap \<Rightarrow> nat" where
  "marked rs hp = length (filter (\<lambda>e. rd_isIterated (hp (snd e))) rs)"

lemma same_reader_refl [simp]: "same_reader r r"
  by (simp add: same_reader_def)

lemma same_reader_set [simp]:
  "same_reader (set_iterated v r) r' = same_reader r r'" "same_reader r (set_iterated v r') = same_reader r r'"
  by (simp_all add: same_reader_def set_iterated_def)

lemma iterated_set [simp]: "rd_isIterated (set_iterated v r) = v"
  by (simp add: set_iterated_def)

lemma same_reader_fields:
  assumes "same_reader r r'"
  shows "rd_piece_start r' = rd_piece_start r" "rd_isClosing r' = rd_isClosing r" "piece_end_limit r' = piece_end_limit r"
proof -
  have "rd_piece_start (set_iterated False r) = rd_piece_start (set_iterated False r')"
    "rd_isClosing (set_iterated False r) = rd_isClosing (set_iterated False r')"
    "rd_file (set_iterated False r) = rd_file (set_iterated False r')"
    using assms by (simp_all add: same_reader_def)
  then show "rd_piece_start r' = rd_piece_start r" "rd_isClosing r' = rd_isClosing r" "piece_end_limit r' = piece_end_limit r"
    by (simp_all add: set_iterated_def piece_end_limit_def)
qed

lemma same_reader_trans: "same_reader a b \<Longrightarrow> same_reader b c \<Longrightarrow> same_reader a c"
  by (simp add: same_reader_def)

lemma same_reader_exhausted: "same_reader r r' \<Longrightarrow> exhausted k r' = exhausted k r"
  by (simp add: exhausted_def same_reader_fields)

section \<open>One pass\<close>

text \<open>What one pass over the readers \<open>rs\<close> makes of a state.\<close>

definition pass_result :: "(int, address) std_map \<Rightarrow> readahead \<Rightarrow> readahead \<Rightarrow> bool" where
  "pass_result rs st st' \<longleftrightarrow>
     ra_iter_count st' = ra_iter_count st \<and>
     (\<forall>a. same_reader (ra_heap st a) (ra_heap st' a)) \<and>
     (\<forall>a. a \<notin> snd ` set rs \<longrightarrow> ra_heap st' a = ra_heap st a) \<and>
     (\<forall>a. rd_isIterated (ra_heap st a) \<longrightarrow> rd_isIterated (ra_heap st' a)) \<and>
     0 \<le> ra_limit st' \<and> int (length (ra_pieces st')) + ra_limit st' = int (length (ra_pieces st)) + ra_limit st \<and>
     (distinct (ra_pieces st) \<longrightarrow> distinct (ra_pieces st')) \<and>
     set (ra_pieces st) \<subseteq> set (ra_pieces st') \<and>
     (\<forall>p \<in> set (ra_pieces st'). p \<in> set (ra_pieces st) \<or>
        (\<exists>a \<in> snd ` set rs. p = rd_piece_start (ra_heap st a) + ra_iter_count st \<and> \<not> exhausted (ra_iter_count st) (ra_heap st a))) \<and>
     ra_finished st' + marked rs (ra_heap st) = ra_finished st + marked rs (ra_heap st') \<and>
     (0 < ra_limit st' \<longrightarrow> (\<forall>a \<in> snd ` set rs. \<not> rd_isIterated (ra_heap st a) \<longrightarrow>
        (if exhausted (ra_iter_count st) (ra_heap st a) then rd_isIterated (ra_heap st' a)
         else rd_piece_start (ra_heap st a) + ra_iter_count st \<in> set (ra_pieces st'))) \<and>
        (\<forall>a. rd_isIterated (ra_heap st' a) \<longrightarrow> rd_isIterated (ra_heap st a) \<or> exhausted (ra_iter_count st) (ra_heap st a)))"

lemma marked_other: "a \<notin> snd ` set rs \<Longrightarrow> marked rs (hp(a := r)) = marked rs hp"
  unfolding marked_def by (intro arg_cong [where f = length] filter_cong) auto

lemma marked_same: "\<forall>a \<in> snd ` set rs. hp' a = hp a \<Longrightarrow> marked rs hp' = marked rs hp"
  unfolding marked_def by (intro arg_cong [where f = length] filter_cong) auto

lemma pass_result_all:
  "pass_result rs st st' \<Longrightarrow> 0 < ra_limit st' \<Longrightarrow> a \<in> snd ` set rs \<Longrightarrow> \<not> rd_isIterated (ra_heap st a) \<Longrightarrow>
   (if exhausted (ra_iter_count st) (ra_heap st a) then rd_isIterated (ra_heap st' a)
    else rd_piece_start (ra_heap st a) + ra_iter_count st \<in> set (ra_pieces st'))"
  unfolding pass_result_def by blast

lemma pass_result_marked:
  "pass_result rs st st' \<Longrightarrow> 0 < ra_limit st' \<Longrightarrow> rd_isIterated (ra_heap st' a) \<Longrightarrow>
   rd_isIterated (ra_heap st a) \<or> exhausted (ra_iter_count st) (ra_heap st a)"
  unfolding pass_result_def by blast

lemma pass_result_new:
  "pass_result rs st st' \<Longrightarrow> p \<in> set (ra_pieces st') \<Longrightarrow> p \<in> set (ra_pieces st) \<or>
   (\<exists>a \<in> snd ` set rs. p = rd_piece_start (ra_heap st a) + ra_iter_count st \<and> \<not> exhausted (ra_iter_count st) (ra_heap st a))"
  unfolding pass_result_def by blast

lemma marked_Nil [simp]: "marked [] hp = 0"
  by (simp add: marked_def)

lemma marked_Cons: "marked (e # rs) hp = (if rd_isIterated (hp (snd e)) then 1 else 0) + marked rs hp"
  by (simp add: marked_def)

text \<open>A pass visits the first reader and then the others, unless the limit is used up.\<close>

lemma pass_result_stop:
  assumes "pass_result [e] st st'" and "ra_limit st' = 0" and "snd e \<notin> snd ` set rs"
  shows "pass_result (e # rs) st st'"
proof -
  have eq: "ra_heap st' a = ra_heap st a" if "a \<noteq> snd e" for a using assms(1) that by (simp add: pass_result_def)
  have same: "\<forall>a \<in> snd ` set rs. ra_heap st' a = ra_heap st a" using assms(3) by (intro ballI eq) blast
  have "marked rs (ra_heap st') = marked rs (ra_heap st)" by (rule marked_same [OF same])
  with assms show ?thesis by (auto simp: pass_result_def marked_Cons)
qed

lemma pass_result_Cons:
  assumes 1: "pass_result [e] st st1" and 2: "pass_result rs st1 st'" and e: "snd e \<notin> snd ` set rs"
    and lim: "0 < ra_limit st1"
  shows "pass_result (e # rs) st st'"
proof -
  have same: "ra_heap st1 a = ra_heap st a" if "a \<noteq> snd e" for a using 1 that by (simp add: pass_result_def)
  have last: "ra_heap st' (snd e) = ra_heap st1 (snd e)" using 2 e by (simp add: pass_result_def)
  have k: "ra_iter_count st1 = ra_iter_count st" "ra_iter_count st' = ra_iter_count st"
    using 1 2 by (simp_all add: pass_result_def)
  have rd: "ra_heap st1 a = ra_heap st a" if "a \<in> snd ` set rs" for a using e that by (intro same) blast
  have m: "marked rs (ra_heap st1) = marked rs (ra_heap st)" by (rule marked_same) (use rd in blast)
  have sr: "same_reader (ra_heap st a) (ra_heap st' a)" for a
    by (rule same_reader_trans [of _ "ra_heap st1 a"]) (use 1 2 in \<open>simp_all add: pass_result_def\<close>)
  have new: "p \<in> set (ra_pieces st) \<or> (\<exists>a \<in> snd ` set (e # rs). p = rd_piece_start (ra_heap st a) + ra_iter_count st \<and>
      \<not> exhausted (ra_iter_count st) (ra_heap st a))" if "p \<in> set (ra_pieces st')" for p
  proof -
    from 2 that consider "p \<in> set (ra_pieces st1)" | a where "a \<in> snd ` set rs"
      "p = rd_piece_start (ra_heap st1 a) + ra_iter_count st1" "\<not> exhausted (ra_iter_count st1) (ra_heap st1 a)"
      unfolding pass_result_def by blast
    then show ?thesis
    proof cases
      case 1
      with assms(1) show ?thesis unfolding pass_result_def by auto
    next
      case 2
      then show ?thesis unfolding rd [OF 2(1)] k(1) by auto
    qed
  qed
  have fin: "ra_finished st' + marked (e # rs) (ra_heap st) = ra_finished st + marked (e # rs) (ra_heap st')"
    using 1 2 m last by (simp add: pass_result_def marked_Cons marked_def [of "[]"])
  have all: "if exhausted (ra_iter_count st) (ra_heap st a) then rd_isIterated (ra_heap st' a)
      else rd_piece_start (ra_heap st a) + ra_iter_count st \<in> set (ra_pieces st')"
    if "0 < ra_limit st'" "a \<in> snd ` set (e # rs)" "\<not> rd_isIterated (ra_heap st a)" for a
  proof (cases "a = snd e")
    case True
    with that 1 lim have "if exhausted (ra_iter_count st) (ra_heap st a) then rd_isIterated (ra_heap st1 a)
        else rd_piece_start (ra_heap st a) + ra_iter_count st \<in> set (ra_pieces st1)" by (simp add: pass_result_def)
    with 2 last True show ?thesis unfolding pass_result_def by (auto split: if_splits)
  next
    case False
    then have m: "a \<in> snd ` set rs" using that by auto
    have "\<not> rd_isIterated (ra_heap st1 a)" unfolding rd [OF m] by (rule that(3))
    with pass_result_all [OF 2 that(1) m] rd [OF m] k(1) show ?thesis by (simp split: if_splits)
  qed
  have conv: "rd_isIterated (ra_heap st a) \<or> exhausted (ra_iter_count st) (ra_heap st a)"
    if "0 < ra_limit st'" "rd_isIterated (ra_heap st' a)" for a
  proof (cases "a = snd e")
    case True
    with that 1 lim last show ?thesis by (simp add: pass_result_def)
  next
    case False
    with pass_result_marked [OF 2 that] same [OF False] k(1) show ?thesis by simp
  qed
  show ?thesis
    unfolding pass_result_def [of "e # rs"]
    using 1 2 k sr new fin all conv
    by (intro conjI impI allI ballI) (auto simp: pass_result_def)
qed

lemma readahead_pass_result:
  "0 < ra_limit st \<Longrightarrow> distinct (map snd rs) \<Longrightarrow> pass_result rs st (readahead_pass rs st)"
proof (induction rs arbitrary: st)
  case Nil
  then show ?case by (simp add: pass_result_def marked_def)
next
  case (Cons e rs)
  obtain i a where e: "e = (i, a)" by fastforce
  let ?r = "ra_heap st a" and ?k = "ra_iter_count st"
  let ?index = "rd_piece_start ?r + ?k"
  have a: "snd e \<notin> snd ` set rs" "distinct (map snd rs)" using Cons.prems(2) e by auto
  let ?mark = "st\<lparr>ra_heap := (ra_heap st)(a := set_iterated True ?r), ra_finished := ra_finished st + 1\<rparr>"
  let ?add = "st\<lparr>ra_pieces := ra_pieces st @ [?index], ra_limit := ra_limit st - 1\<rparr>"
  consider (skip) "rd_isIterated ?r \<or> (\<not> exhausted ?k ?r \<and> ?index \<in> set (ra_pieces st))"
    | (mark) "\<not> rd_isIterated ?r" "exhausted ?k ?r"
    | (add) "\<not> rd_isIterated ?r" "\<not> exhausted ?k ?r" "?index \<notin> set (ra_pieces st)" by blast
  then show ?case
  proof cases
    case skip
    then have "readahead_pass (e # rs) st = readahead_pass rs st" by (auto simp: e Let_def exhausted_def)
    moreover have "pass_result [e] st st" using skip Cons.prems(1) by (auto simp: e pass_result_def)
    ultimately show ?thesis using pass_result_Cons [OF _ Cons.IH a(1)] Cons.prems(1) a(2) by simp
  next
    case mark
    then have "readahead_pass (e # rs) st = readahead_pass rs ?mark" by (simp add: e Let_def exhausted_def)
    moreover have "pass_result [e] st ?mark"
      using mark Cons.prems(1) by (auto simp: e pass_result_def marked_def split: if_splits)
    ultimately show ?thesis using pass_result_Cons [OF _ Cons.IH [of ?mark] a(1)] Cons.prems(1) a(2) by simp
  next
    case add
    then have p: "readahead_pass (e # rs) st = (if ra_limit st - 1 \<le> 0 then ?add else readahead_pass rs ?add)"
      by (auto simp: e Let_def exhausted_def)
    have "pass_result [e] st ?add"
      using add Cons.prems(1) by (auto simp: e pass_result_def)
    then show ?thesis
      using pass_result_Cons [OF _ Cons.IH [of ?add] a(1)] pass_result_stop [OF _ _ a(1)] Cons.prems(1) a(2) p
      by (cases "ra_limit st - 1 \<le> 0") simp_all
  qed
qed

section \<open>The loop\<close>

text \<open>
  What holds of the loop over the readers \<open>rs\<close> of the heap \<open>hp\<close> after each pass: the
  pieces chosen are wanted by a reader, none is chosen twice, each uses up one of \<open>limit\<close>;
  and while some of the limit is left, every reader has got all it wants up to its current
  position.
\<close>

definition loop_inv :: "(int, address) std_map \<Rightarrow> reader_heap \<Rightarrow> int \<Rightarrow> readahead \<Rightarrow> bool" where
  "loop_inv rs hp limit st \<longleftrightarrow>
     (\<forall>a. same_reader (hp a) (ra_heap st a)) \<and> ra_finished st = marked rs (ra_heap st) \<and>
     -1 \<le> ra_iter_count st \<and> distinct (ra_pieces st) \<and>
     int (length (ra_pieces st)) + ra_limit st = limit \<and> (0 \<le> limit \<longrightarrow> 0 \<le> ra_limit st) \<and>
     (\<forall>p \<in> set (ra_pieces st). \<exists>a \<in> snd ` set rs. wants (hp a) p) \<and>
     (0 < ra_limit st \<longrightarrow> (\<forall>a \<in> snd ` set rs.
        (if rd_isIterated (ra_heap st a) then exhausted (ra_iter_count st) (hp a)
         else ra_iter_count st = -1 \<or> \<not> exhausted (ra_iter_count st) (hp a)) \<and>
        (\<forall>p. wants (hp a) p \<and> p \<le> rd_piece_start (hp a) + ra_iter_count st \<longrightarrow> p \<in> set (ra_pieces st))))"

lemma loop_inv_covered:
  "loop_inv rs hp limit st \<Longrightarrow> 0 < ra_limit st \<Longrightarrow> a \<in> snd ` set rs \<Longrightarrow> wants (hp a) p \<Longrightarrow>
   p \<le> rd_piece_start (hp a) + ra_iter_count st \<Longrightarrow> p \<in> set (ra_pieces st)"
  unfolding loop_inv_def by blast

lemma reset_iterated_heap:
  "same_reader (hp a) (reset_iterated rs hp a) \<and> (a \<in> snd ` set rs \<longrightarrow> \<not> rd_isIterated (reset_iterated rs hp a)) \<and>
   (a \<notin> snd ` set rs \<longrightarrow> reset_iterated rs hp a = hp a)"
proof (induction rs arbitrary: hp a)
  case (Cons e rs)
  obtain i b where e: "e = (i, b)" by fastforce
  define hp' where "hp' = hp(b := set_iterated False (hp b))"
  have r: "reset_iterated (e # rs) hp = reset_iterated rs hp'" by (simp add: reset_iterated_def e hp'_def)
  have h: "same_reader (hp a) (hp' a)" "\<not> rd_isIterated (hp' b)" "a \<noteq> b \<Longrightarrow> hp' a = hp a" by (simp_all add: hp'_def)
  have "same_reader (hp a) (reset_iterated rs hp' a)" using same_reader_trans [OF h(1)] Cons [of hp' a] by blast
  moreover have "\<not> rd_isIterated (reset_iterated rs hp' b)"
    using Cons.IH [of hp' b] h(2) by (cases "b \<in> snd ` set rs") simp_all
  ultimately show ?case unfolding r using Cons.IH [of hp' a] h(3) by (cases "a = b") (auto simp: e)
qed (simp add: reset_iterated_def)

lemma loop_inv_start: "loop_inv rs hp limit (readahead_start rs limit hp)"
proof -
  have "filter (\<lambda>e. rd_isIterated (reset_iterated rs hp (snd e))) rs = []"
    using reset_iterated_heap [of hp _ rs] by (auto simp: filter_empty_conv)
  then have "marked rs (reset_iterated rs hp) = 0" by (simp add: marked_def)
  then show ?thesis using reset_iterated_heap [of hp _ rs]
    by (auto simp: loop_inv_def readahead_start_def wants_def)
qed

lemma exhausted_mono: "exhausted k r \<Longrightarrow> k \<le> l \<Longrightarrow> exhausted l r"
  by (auto simp: exhausted_def)

lemma loop_inv_step:
  assumes d: "distinct (map snd rs)" and inv: "loop_inv rs hp limit st" and more: "readahead_more rs st"
  shows "loop_inv rs hp limit (readahead_step rs st)"
proof -
  let ?k = "ra_iter_count st + 1"
  let ?st = "st\<lparr>ra_iter_count := ?k\<rparr>"
  define st' where "st' = readahead_pass rs ?st"
  have lim: "0 < ra_limit ?st" using more by (simp add: readahead_more_def)
  have pr: "pass_result rs ?st st'" unfolding st'_def by (rule readahead_pass_result [OF lim d])
  have same: "same_reader (hp a) (ra_heap st a)" for a using inv by (simp add: loop_inv_def)
  have ex: "exhausted k (ra_heap st a) = exhausted k (hp a)" "rd_piece_start (ra_heap st a) = rd_piece_start (hp a)" for a k
    using same_reader_exhausted [OF same] same_reader_fields(1) [OF same] by blast+
  have k: "ra_iter_count st' = ?k" "0 \<le> ?k" using pr inv by (simp_all add: pass_result_def loop_inv_def)
  have 1: "same_reader (hp a) (ra_heap st' a)" for a
    by (rule same_reader_trans [OF same]) (use pr in \<open>simp add: pass_result_def\<close>)
  have 2: "ra_finished st' = marked rs (ra_heap st')" using pr inv by (simp add: pass_result_def loop_inv_def)
  have 3: "distinct (ra_pieces st')" "int (length (ra_pieces st')) + ra_limit st' = limit" "0 \<le> ra_limit st'"
    using pr inv by (simp_all add: pass_result_def loop_inv_def)
  have 4: "\<exists>a \<in> snd ` set rs. wants (hp a) p" if "p \<in> set (ra_pieces st')" for p
  proof -
    from pass_result_new [OF pr that] consider "p \<in> set (ra_pieces st)" | a where "a \<in> snd ` set rs"
      "p = rd_piece_start (ra_heap st a) + ?k" "\<not> exhausted ?k (ra_heap st a)"
      by auto
    then show ?thesis
    proof cases
      case 1
      with inv show ?thesis by (simp add: loop_inv_def)
    next
      case (2 a)
      have "\<not> exhausted ?k (hp a)" "p = rd_piece_start (hp a) + ?k" using 2(2,3) ex [where a = a] by simp_all
      then have "wants (hp a) p" using k(2) by (auto simp: wants_def exhausted_def)
      with 2(1) show ?thesis by blast
    qed
  qed
  have it: "rd_isIterated (ra_heap st a) \<Longrightarrow> exhausted (ra_iter_count st) (hp a)" if "a \<in> snd ` set rs" for a
    using inv lim that by (auto simp: loop_inv_def split: if_splits)
  have 5: "if rd_isIterated (ra_heap st' a) then exhausted ?k (hp a) else \<not> exhausted ?k (hp a)"
    if l: "0 < ra_limit st'" and a: "a \<in> snd ` set rs" for a
  proof (cases "rd_isIterated (ra_heap st' a)")
    case True
    from pass_result_marked [OF pr l True] it [OF a] exhausted_mono [of "ra_iter_count st" "hp a" ?k] True
    show ?thesis by (auto simp: ex)
  next
    case False
    then have "\<not> rd_isIterated (ra_heap ?st a)" using pr by (auto simp: pass_result_def)
    from pass_result_all [OF pr l a this] False show ?thesis by (auto simp: ex split: if_splits)
  qed
  have 6: "p \<in> set (ra_pieces st')"
    if l: "0 < ra_limit st'" and a: "a \<in> snd ` set rs" and p: "wants (hp a) p" "p \<le> rd_piece_start (hp a) + ?k" for a p
  proof (cases "p \<le> rd_piece_start (hp a) + ra_iter_count st")
    case True
    then have "p \<in> set (ra_pieces st)" using lim by (intro loop_inv_covered [OF inv _ a p(1)]) simp_all
    with pr show ?thesis by (auto simp: pass_result_def)
  next
    case False
    then have pk: "p = rd_piece_start (hp a) + ?k" using p(2) by simp
    with p(1) have ne: "\<not> exhausted ?k (hp a)" by (auto simp: wants_def exhausted_def)
    then have "\<not> rd_isIterated (ra_heap ?st a)" using it [OF a] exhausted_mono [of "ra_iter_count st" "hp a" ?k] by auto
    from pass_result_all [OF pr l a this] ne pk show ?thesis by (auto simp: ex)
  qed
  have "loop_inv rs hp limit st'"
    unfolding loop_inv_def k(1) using 1 2 3 4 5 6 k(2) by auto
  then show ?thesis by (simp add: readahead_step_def st'_def)
qed

lemma unmarked_reader:
  assumes "marked rs hp < length rs"
  obtains a where "a \<in> snd ` set rs" and "\<not> rd_isIterated (hp a)"
proof -
  have "filter (\<lambda>e. rd_isIterated (hp (snd e))) rs \<noteq> rs" using assms by (auto simp: marked_def)
  then show thesis using that by (auto simp: filter_id_conv)
qed

lemma readahead_loop_spec:
  assumes d: "distinct (map snd rs)"
  shows "\<exists>st. readahead_loop rs (readahead_start rs limit hp) = Some st \<and> loop_inv rs hp limit st \<and> \<not> readahead_more rs st"
proof -
  define M where "M = Max (insert 0 ((\<lambda>a. piece_end_limit (hp a) - rd_piece_start (hp a)) ` snd ` set rs))"
  have M: "0 \<le> M" "piece_end_limit (hp a) - rd_piece_start (hp a) \<le> M" if "a \<in> snd ` set rs" for a
    unfolding M_def using that by (auto intro!: Max_ge)
  have dec: "nat (M + 1 - ra_iter_count (readahead_step rs st)) < nat (M + 1 - ra_iter_count st)"
    if inv: "loop_inv rs hp limit st" and more: "readahead_more rs st" for st
  proof -
    obtain a where a: "a \<in> snd ` set rs" "\<not> rd_isIterated (ra_heap st a)"
      using unmarked_reader [of rs "ra_heap st"] inv more by (auto simp: loop_inv_def readahead_more_def)
    then have "ra_iter_count st = -1 \<or> \<not> exhausted (ra_iter_count st) (hp a)"
      using inv more by (auto simp: loop_inv_def readahead_more_def split: if_splits)
    then have "ra_iter_count st \<le> M" using M [OF a(1)] by (auto simp: exhausted_def)
    moreover have "ra_iter_count (readahead_step rs st) = ra_iter_count st + 1"
    proof -
      have "0 < ra_limit (st\<lparr>ra_iter_count := ra_iter_count st + 1\<rparr>)" using more by (simp add: readahead_more_def)
      from readahead_pass_result [OF this d] show ?thesis by (simp add: pass_result_def readahead_step_def)
    qed
    ultimately show ?thesis by simp
  qed
  have "\<exists>st. readahead_loop rs (readahead_start rs limit hp) = Some st"
    unfolding readahead_loop_def
    by (rule measure_while_option_Some [where P = "loop_inv rs hp limit" and f = "\<lambda>st. nat (M + 1 - ra_iter_count st)"])
      (rule conjI [OF loop_inv_step [OF d] dec], assumption+, rule loop_inv_start)
  then obtain st where st: "readahead_loop rs (readahead_start rs limit hp) = Some st" by blast
  have "loop_inv rs hp limit st"
    by (rule while_option_rule [OF _ st [unfolded readahead_loop_def]]) (simp_all add: loop_inv_step [OF d] loop_inv_start)
  moreover have "\<not> readahead_more rs st" by (rule while_option_stop [OF st [unfolded readahead_loop_def]])
  ultimately show ?thesis using st by blast
qed

lemma readahead_complete:
  assumes inv: "loop_inv rs hp limit st" and stop: "\<not> readahead_more rs st" and lim: "0 < ra_limit st"
    and a: "a \<in> snd ` set rs" and w: "wants (hp a) p"
  shows "p \<in> set (ra_pieces st)"
proof -
  have "length rs \<le> marked rs (ra_heap st)" using stop lim inv by (simp add: readahead_more_def loop_inv_def)
  then have "filter (\<lambda>e. rd_isIterated (ra_heap st (snd e))) rs = rs"
    unfolding marked_def by (metis filter_True length_filter_less linorder_not_less)
  then have "rd_isIterated (ra_heap st a)" using a by (auto simp: filter_id_conv)
  then have "exhausted (ra_iter_count st) (hp a)" using inv lim a by (auto simp: loop_inv_def split: if_splits)
  then have "p \<le> rd_piece_start (hp a) + ra_iter_count st" using w by (auto simp: exhausted_def wants_def)
  then show ?thesis by (rule loop_inv_covered [OF inv lim a w])
qed

end
