(* ===== verification/File_Properties.thy ===== *)
theory File_Properties
  imports Files Memory_Guarantees
begin

text \<open>
  Buffering a file: which pieces \<open>start_buffer\<close> asks for, how the torrent and the memory
  storage are prepared for them, and how the progress of the buffer ends it.
\<close>

section \<open>The pieces of a buffer\<close>

definition file_in :: "torrent_info \<Rightarrow> lh_file \<Rightarrow> bool" where
  "file_in ti f \<longleftrightarrow> 0 \<le> f_offset f \<and> 0 < f_size f \<and> f_offset f + f_size f \<le> ti_total_size ti"

text \<open>The piece that holds a byte of the torrent's data.\<close>

definition piece_of :: "torrent_info \<Rightarrow> int \<Rightarrow> int" where
  "piece_of ti x = x div ti_piece_length ti"

text \<open>The pieces that hold the first and the last bytes of a file, or all of them.\<close>

definition wanted_pieces :: "torrent_info \<Rightarrow> lh_file \<Rightarrow> int set" where
  "wanted_pieces ti f =
     (if f_size f \<ge> f_start_buffer_size f + f_end_buffer_size f
      then {p. \<exists>x. f_offset f \<le> x \<and> x < f_offset f + f_start_buffer_size f \<and> p = piece_of ti x} \<union>
           {p. \<exists>x. f_offset f + f_size f - f_end_buffer_size f \<le> x \<and> x < f_offset f + f_size f \<and> p = piece_of ti x}
      else {p. \<exists>x. f_offset f \<le> x \<and> x < f_offset f + f_size f \<and> p = piece_of ti x})"

lemma info_fields:
  assumes "t_info t = Some ti" and "info_ok ti"
  shows "piece_length t = ti_piece_length ti" "pieces_count t = ti_num_pieces ti"
    "piece_length_at t i = ti_piece_size ti i"
proof -
  have "is_valid t" using assms by (simp add: is_valid_def info_ok_def ti_num_files_def)
  with assms(1) show "piece_length t = ti_piece_length ti" "pieces_count t = ti_num_pieces ti"
    "piece_length_at t i = ti_piece_size ti i"
    by (simp_all add: piece_length_def pieces_count_def piece_length_at_def info_field_def)
qed

lemma region_interval:
  assumes "info_ok ti" and "0 \<le> off" and "0 < n" and "off + n \<le> ti_total_size ti"
  shows "region_pieces off n (ti_piece_length ti) (ti_num_pieces ti) = (piece_of ti off, piece_of ti (off + n - 1))"
    and "0 \<le> piece_of ti off" and "piece_of ti off \<le> piece_of ti (off + n - 1)"
    and "piece_of ti (off + n - 1) < ti_num_pieces ti"
    and "{piece_of ti off..piece_of ti (off + n - 1)} = {p. \<exists>x. off \<le> x \<and> x < off + n \<and> p = piece_of ti x}"
proof -
  have "off + n \<le> ti_num_pieces ti * ti_piece_length ti" "0 < ti_piece_length ti" "ti_num_pieces ti < 2 ^ 31"
    using assms by (auto simp: info_ok_def)
  note c = region_cover [OF assms(2,3) this(2,3,1)]
  then show "region_pieces off n (ti_piece_length ti) (ti_num_pieces ti) = (piece_of ti off, piece_of ti (off + n - 1))"
    "0 \<le> piece_of ti off" "piece_of ti off \<le> piece_of ti (off + n - 1)" "piece_of ti (off + n - 1) < ti_num_pieces ti"
    "{piece_of ti off..piece_of ti (off + n - 1)} = {p. \<exists>x. off \<le> x \<and> x < off + n \<and> p = piece_of ti x}"
    by (auto simp: piece_of_def)
qed

lemma add_buffer_pieces_append:
  "add_buffer_pieces api (xs @ ys) ft = bind_result (add_buffer_pieces api xs ft) (add_buffer_pieces api ys)"
proof (induction xs arbitrary: ft)
  case (Cons x xs)
  then show ?case by (cases "add_buffer_piece api x ft") simp_all
qed simp

text \<open>Adding two ascending ranges of pieces, the second not starting before the first.\<close>

lemma add_ranges:
  assumes api: "piece_api_ok api (length (t_deadline_pieces t))" and f: "f_buffer_pieces f = []" "f_buffer_size f = 0"
    and r: "0 \<le> a" "a \<le> c" "b < int (length (t_deadline_pieces t))" "d < int (length (t_deadline_pieces t))"
  shows "\<exists>n t'. add_buffer_pieces api ([a..b] @ [c..d]) (f, t) =
      Inr (f\<lparr>f_buffer_size := n, f_buffer_pieces := [a..b] @ filter (\<lambda>i. i \<notin> {a..b}) [c..d]\<rparr>, t') \<and>
    buffer_inv api t (f\<lparr>f_buffer_size := n, f_buffer_pieces := [a..b] @ filter (\<lambda>i. i \<notin> {a..b}) [c..d]\<rparr>, t') \<and>
    sorted_wrt (<) ([a..b] @ filter (\<lambda>i. i \<notin> {a..b}) [c..d])"
proof -
  have "buffer_inv api t (f, t)" using f by (simp add: buffer_inv_def)
  from add_buffer_pieces_inv [OF api this, of "[a..b]"] f r
  obtain n1 t1 where 1: "add_buffer_pieces api [a..b] (f, t) = Inr (f\<lparr>f_buffer_size := n1, f_buffer_pieces := [a..b]\<rparr>, t1)"
    "buffer_inv api t (f\<lparr>f_buffer_size := n1, f_buffer_pieces := [a..b]\<rparr>, t1)" by auto
  from add_buffer_pieces_inv [OF api 1(2), of "[c..d]"] r
  obtain n2 t2 where 2: "add_buffer_pieces api [c..d] (f\<lparr>f_buffer_size := n1, f_buffer_pieces := [a..b]\<rparr>, t1) =
      Inr (f\<lparr>f_buffer_size := n2, f_buffer_pieces := [a..b] @ filter (\<lambda>i. i \<notin> {a..b}) [c..d]\<rparr>, t2)"
    "buffer_inv api t (f\<lparr>f_buffer_size := n2, f_buffer_pieces := [a..b] @ filter (\<lambda>i. i \<notin> {a..b}) [c..d]\<rparr>, t2)"
    by auto
  have "sorted_wrt (<) ([a..b] @ filter (\<lambda>i. i \<notin> {a..b}) [c..d])"
    using r(2) by (auto simp: sorted_wrt_append sorted_wrt_filter)
  with 1 2 show ?thesis unfolding add_buffer_pieces_append by auto
qed

lemma buffer_region_cases:
  assumes ti: "t_info t = Some ti" "info_ok ti" and f: "file_in ti f"
    and cfg: "0 < f_start_buffer_size f" "0 < f_end_buffer_size f"
  obtains a b c d where "buffer_region t f = [a..b] @ [c..d]" and "a \<le> b" and "0 \<le> a" and "a \<le> c"
    and "b < ti_num_pieces ti" and "d < ti_num_pieces ti" and "{a..b} \<union> {c..d} = wanted_pieces ti f"
proof (cases "f_size f \<ge> f_start_buffer_size f + f_end_buffer_size f")
  case True
  note fld = info_fields [OF ti]
  let ?o = "f_offset f" and ?s = "f_start_buffer_size f" and ?e = "f_offset f + f_size f - f_end_buffer_size f"
  note s = region_interval [OF ti(2), of ?o ?s] and e = region_interval [OF ti(2), of ?e "f_end_buffer_size f"]
  have le: "piece_of ti ?o \<le> piece_of ti ?e" unfolding piece_of_def
    using True cfg ti(2) f by (intro zdiv_mono1) (auto simp: file_in_def info_ok_def)
  show thesis
    by (rule that [of "piece_of ti ?o" "piece_of ti (?o + ?s - 1)" "piece_of ti ?e" "piece_of ti (f_offset f + f_size f - 1)"])
      (use True f cfg fld s e le in \<open>auto simp: file_in_def buffer_region_def wanted_pieces_def Let_def\<close>)
next
  case False
  note fld = info_fields [OF ti]
  note s = region_interval [OF ti(2), of "f_offset f" "f_size f"]
  show thesis
    by (rule that [of "piece_of ti (f_offset f)" "piece_of ti (f_offset f + f_size f - 1)"
          "piece_of ti (f_offset f)" "piece_of ti (f_offset f) - 1"])
      (use False f cfg fld s in \<open>auto simp: file_in_def buffer_region_def wanted_pieces_def Let_def\<close>)
qed

section \<open>Starting to buffer\<close>

lemma hd_last_member: "xs \<noteq> [] \<Longrightarrow> hd xs \<in> set xs \<and> last xs \<in> set xs"
  by simp

lemma start_buffer_added:
  assumes api: "piece_api_ok api (length (t_deadline_pieces t))"
    and ti: "t_info t = Some ti" "info_ok ti" and n: "int (length (t_deadline_pieces t)) = ti_num_pieces ti"
    and f: "file_in ti f" and cfg: "0 < f_start_buffer_size f" "0 < f_end_buffer_size f"
  obtains f' t' where "start_buffer api (f, t) = reserve_buffer (f', t')" and "buffer_inv api t (f', t')"
    and "sorted_wrt (<) (f_buffer_pieces f')" and "set (f_buffer_pieces f') = wanted_pieces ti f"
    and "f_buffer_pieces f' \<noteq> []" and "f_isBuffering f'" and "f_buffer_progress f' = 0"
    and "\<forall>p \<in> set (f_buffer_pieces f'). 0 \<le> p \<and> p < ti_num_pieces ti"
proof -
  let ?f1 = "f\<lparr>f_isBuffering := True, f_buffer_progress := 0, f_buffer_pieces := [], f_buffer_size := 0\<rparr>"
  have f1: "file_in ti ?f1" "0 < f_start_buffer_size ?f1" "0 < f_end_buffer_size ?f1" "wanted_pieces ti ?f1 = wanted_pieces ti f"
    using f cfg by (simp_all add: file_in_def wanted_pieces_def)
  obtain a b c d where r: "buffer_region t ?f1 = [a..b] @ [c..d]" "a \<le> b" "0 \<le> a" "a \<le> c"
    "b < ti_num_pieces ti" "d < ti_num_pieces ti" "{a..b} \<union> {c..d} = wanted_pieces ti f"
    by (rule buffer_region_cases [OF ti f1(1-3), unfolded f1(4)])
  obtain k t' where k: "add_buffer_pieces api ([a..b] @ [c..d]) (?f1, t) =
      Inr (?f1\<lparr>f_buffer_size := k, f_buffer_pieces := [a..b] @ filter (\<lambda>i. i \<notin> {a..b}) [c..d]\<rparr>, t')"
    "buffer_inv api t (?f1\<lparr>f_buffer_size := k, f_buffer_pieces := [a..b] @ filter (\<lambda>i. i \<notin> {a..b}) [c..d]\<rparr>, t')"
    "sorted_wrt (<) ([a..b] @ filter (\<lambda>i. i \<notin> {a..b}) [c..d])"
    using add_ranges [OF api, of ?f1 a c b d] r(3-6) n by (simp, elim exE conjE)
  let ?f' = "?f1\<lparr>f_buffer_size := k, f_buffer_pieces := [a..b] @ filter (\<lambda>i. i \<notin> {a..b}) [c..d]\<rparr>"
  have "start_buffer api (f, t) = reserve_buffer (?f', t')"
    using k(1) r(1) by (simp add: start_buffer_def)
  moreover have "set (f_buffer_pieces ?f') = {a..b} \<union> {c..d}" by auto
  moreover have "f_buffer_pieces ?f' \<noteq> []" using r(2) by simp
  moreover have "\<forall>p \<in> set (f_buffer_pieces ?f'). 0 \<le> p \<and> p < ti_num_pieces ti"
    using r(3-6) by auto
  ultimately show thesis using k(2,3) r(7) by (intro that [of ?f' t']) simp_all
qed

lemma update_reserved_ok:
  assumes wf: "wf_storage s" and ps: "\<forall>p \<in> set ps. 0 \<le> p \<and> p < ms_piece_count s" and init: "ms_is_initialized s"
  shows "\<exists>s'. update_reserved_pieces ps s = Inr s' \<and> wf_storage s' \<and> ms_capacity s' = ms_capacity s \<and>
    (\<forall>p. is_reserved s' p \<longleftrightarrow> p \<in> set ps)"
proof -
  let ?z = "replicate (length (ms_reserved_pieces s)) False"
  have len: "int (length (ms_reserved_pieces s)) = ms_piece_count s + 10"
    using wf by (auto simp: wf_storage_def shape_ok_def)
  have "\<forall>i \<in> set ps. 0 \<le> i \<and> i < int (length ?z)" using ps len by fastforce
  then obtain bs where bs: "bitset_set_all ?z ps = Inr bs" using bitset_set_all_ok by blast
  let ?s' = "s\<lparr>ms_buffer_reserved := int (length ps), ms_reserved_pieces := bs\<rparr>"
  have u: "update_reserved_pieces ps s = Inr ?s'" using init bs by (simp add: update_reserved_pieces_def)
  show ?thesis
    by (intro exI [of _ ?s'] conjI u wf_update_reserved_pieces [OF wf u])
      (use init bitset_set_all_test [OF bs] in \<open>simp_all add: is_reserved_def\<close>)
qed


text \<open>The torrent of \<open>demo_info\<close> in memory, and its file, to be buffered at both ends.\<close>

definition demo_torrent :: "lt_demo torrent" where
  "demo_torrent = (new_torrent (\<lambda>a b. a @ ''/'' @ b) demo_query (default_config False) demo_handle demo_status
     ''d0'' Storage_memory 0)\<lparr>t_deadline_pieces := replicate 4 False, t_memory_storage := Some demo_storage\<rparr>"

definition demo_file :: lh_file where
  "demo_file = \<lparr>f_isSelected = True, f_index = 0, f_path = ''demo/a.mkv'', f_name = ''a.mkv'', f_size = 56,
     f_offset = 0, f_piece_start = 0, f_piece_end = 3, f_isBuffering = False, f_buffer_pieces = [],
     f_buffer_size = 0, f_buffer_progress = 0, f_start_buffer_size = 20, f_end_buffer_size = 10,
     f_config = default_config False, f_readers = []\<rparr>"

lemma sized_demo_storage: "sized demo_storage"
  by (simp add: demo_storage_def sized_def initialize_def new_memory_storage_def Let_def)

lemma wanted_demo: "wanted_pieces demo_info demo_file = {0, 1, 2, 3}"
proof -
  have "{p. \<exists>x. 0 \<le> x \<and> x < 20 \<and> p = x div (16 :: int)} = {0, 1}"
    "{p. \<exists>x. 46 \<le> x \<and> x < 56 \<and> p = x div (16 :: int)} = {2, 3}"
    using region_cover [of 0 20 16 4] region_cover [of 46 10 16 4] by (auto simp: set_eq_iff)
  then show ?thesis by (auto simp: wanted_pieces_def demo_file_def piece_of_def demo_info_def)
qed


end
