(* ===== verification/Torrent_Properties.thy ===== *)
theory Torrent_Properties
  imports Readahead File_Properties
begin

text \<open>
  Properties of \<open>Torrent\<close>: the priorities that \<open>prioritize\<close> leaves, the states that
  \<open>update_state\<close> can reach, the progress of buffers, trackers, readers and removal.
\<close>

section \<open>Priorities by rank\<close>

text \<open>The groups of \<open>prioritize\<close>: 2 pieces of priority 5, 3 of priority 4, 5 of priority 3, the rest 2.\<close>

definition rank_priority :: "nat \<Rightarrow> int" where
  "rank_priority k = (if k < 2 then 5 else if k < 5 then 4 else if k < 10 then 3 else 2)"

text \<open>The variables of the loop before the piece number \<open>k\<close>.\<close>

definition group_state :: "nat \<Rightarrow> int \<Rightarrow> int \<Rightarrow> nat \<Rightarrow> bool" where
  "group_state k left prio grp \<longleftrightarrow>
     (prio = 5 \<and> grp = 1 \<and> left = 2 - int k \<and> k \<le> 2) \<or>
     (prio = 4 \<and> grp = 2 \<and> left = 5 - int k \<and> 2 < k \<and> k \<le> 5) \<or>
     (prio = 3 \<and> grp = 3 \<and> left = 10 - int k \<and> 5 < k \<and> k \<le> 10) \<or>
     (prio = 2 \<and> grp = 4 \<and> left = 19 - int k \<and> 10 < k \<and> k \<le> 19) \<or>
     (prio = 1 \<and> 19 < k)"

lemma progression_values:
  "progression_result 2 (17, 10) 1 = 2" "progression_result 2 (17, 10) 2 = 3" "progression_result 2 (17, 10) 3 = 5"
  "progression_result 2 (17, 10) 4 = 9"
  by (simp_all add: progression_result_def)

definition requested :: "'h lt_api \<Rightarrow> 'h torrent \<Rightarrow> int \<times> int \<Rightarrow> bool" where
  "requested api t r \<longleftrightarrow> \<not> have_piece api t (fst r) \<and>
     (get_piece_priority api t (fst r) \<le> 0 \<or> get_piece_priority api t (fst r) < snd r)"

lemma group_requests_rank:
  "group_state k left prio grp \<Longrightarrow> group_requests api t left prio grp ps =
     filter (requested api t) (zip ps (map rank_priority [k..<k + length ps]))"
proof (induction ps arbitrary: k left prio grp)
  case (Cons p ps)
  let ?s = "if left \<le> 0 \<and> prio > 1 then (progression_result 2 (17, 10) (grp + 1), prio - 1, grp + 1) else (left, prio, grp)"
  obtain l1 p1 g1 where s: "?s = (l1, p1, g1)" by (cases ?s)
  have "group_state (Suc k) (l1 - 1) p1 g1 \<and> max 2 p1 = rank_priority k"
    using Cons.prems s progression_values
    by (auto simp: group_state_def rank_priority_def numeral_eq_Suc split: if_splits)
  moreover have "[k..<k + length (p # ps)] = k # [Suc k..<Suc k + length ps]" by (simp add: upt_rec)
  ultimately show ?case using Cons.IH [of "Suc k" "l1 - 1" p1 g1] s
    by (simp add: requested_def)
qed simp

section \<open>What the requests do\<close>

lemma set_priorities:
  assumes api: "piece_api_ok api n"
  shows "\<forall>r \<in> set rs. 0 \<le> fst r \<and> fst r < int n \<Longrightarrow> distinct (map fst rs) \<Longrightarrow>
    lt_piece_priority api (foldl (\<lambda>h r. lt_set_piece_priority api h (fst r) (snd r)) h rs) p =
      (case map_of rs p of None \<Rightarrow> lt_piece_priority api h p | Some v \<Rightarrow> v)"
proof (induction rs arbitrary: h)
  case (Cons r rs)
  have "lt_piece_priority api (lt_set_piece_priority api h (fst r) (snd r)) p =
      (if p = fst r then snd r else lt_piece_priority api h p)"
    using api Cons.prems(1) by (simp add: piece_api_ok_def)
  moreover have "map_of rs (fst r) = None" using Cons.prems(2) by (simp add: map_of_eq_None_iff)
  ultimately show ?case using Cons by (cases "p = fst r") (auto simp: map_of_Cons_code split: option.splits)
qed simp

lemma prioritize_pieces_priority:
  assumes api: "piece_api_ok api n" and rs: "\<forall>r \<in> set rs. 0 \<le> fst r \<and> fst r < int n" "distinct (map fst rs)"
  shows "lt_piece_priority api (lt_prioritize_pieces api h rs) p =
      (case map_of rs p of None \<Rightarrow> lt_piece_priority api h p | Some v \<Rightarrow> v)"
  using set_priorities [OF api rs, of h p] api by (simp add: piece_api_ok_def)

text \<open>The requests of \<open>prioritize\<close> on memory storage for the pieces \<open>ps\<close> of the readers.\<close>

definition memory_requests :: "'h lt_api \<Rightarrow> 'h torrent \<Rightarrow> int list \<Rightarrow> (int \<times> int) list" where
  "memory_requests api t ps = release_requests (lt_get_piece_priorities api (t_native t)) ps @
     group_requests api t (progression_result 2 (17, 10) 1) 5 1 ps"

lemma group_requests_start:
  "group_requests api t (progression_result 2 (17, 10) 1) 5 1 ps =
     filter (requested api t) (zip ps (map rank_priority [0..<length ps]))"
  using group_requests_rank [of 0 2 5 1 api t ps] unfolding progression_values(1) by (simp add: group_state_def)

lemma distinct_fst_filter_zip: "distinct xs \<Longrightarrow> distinct (map fst (filter P (zip xs ys)))"
  by (induction xs ys rule: list_induct2') (auto dest: set_zip_leftD)

lemma map_of_release:
  assumes api: "piece_api_ok api n" and p: "0 \<le> p" "p < int n"
  shows "map_of (release_requests (lt_get_piece_priorities api h) ps) p =
    (if lt_piece_priority api h p > 0 \<and> p \<notin> set ps then Some 0 else None)"
proof -
  let ?pr = "lt_get_piece_priorities api h"
  let ?xs = "filter (\<lambda>i. ?pr ! nat i > 0 \<and> i \<notin> set ps) (map int [0..<length ?pr])"
  have l: "length ?pr = n" "?pr ! nat p = lt_piece_priority api h p"
    using api p by (simp_all add: piece_api_ok_def zless_nat_conj nat_less_iff)
  have mo: "map_of (map (\<lambda>i. (i, 0 :: int)) xs) q = (if q \<in> set xs then Some 0 else None)" for xs and q :: int
    by (induction xs) auto
  have "p \<in> int ` {0..<n}" using p by (intro image_eqI [of _ _ "nat p"]) auto
  then have "p \<in> set ?xs \<longleftrightarrow> lt_piece_priority api h p > 0 \<and> p \<notin> set ps" using l by auto
  then show ?thesis unfolding release_requests_def mo by simp
qed

lemma map_of_ranked:
  assumes d: "distinct ps" and k: "k < length ps"
  shows "map_of (filter P (zip ps (map rank_priority [0..<length ps]))) (ps ! k) =
    (if P (ps ! k, rank_priority k) then Some (rank_priority k) else None)"
proof -
  let ?z = "zip ps (map rank_priority [0..<length ps])"
  have dz: "distinct (map fst (filter P ?z))" by (rule distinct_fst_filter_zip [OF d])
  have mem: "(ps ! k, v) \<in> set ?z \<longleftrightarrow> v = rank_priority k" for v
    using k d by (auto simp: set_zip nth_eq_iff_index_eq)
  show ?thesis
  proof (cases "P (ps ! k, rank_priority k)")
    case True
    then have "(ps ! k, rank_priority k) \<in> set (filter P ?z)" using mem by simp
    with dz True show ?thesis by (simp add: map_of_eq_Some_iff)
  next
    case False
    then have "ps ! k \<notin> fst ` set (filter P ?z)" using mem by auto
    then have "map_of (filter P ?z) (ps ! k) = None" by (simp only: map_of_eq_None_iff not_False_eq_True)
    with False show ?thesis by simp
  qed
qed

lemma memory_requests_effect:
  assumes api: "piece_api_ok api n" and d: "distinct ps" and ps: "\<forall>p \<in> set ps. 0 \<le> p \<and> p < int n"
  shows "p \<notin> set ps \<Longrightarrow> 0 \<le> p \<Longrightarrow> p < int n \<Longrightarrow>
      lt_piece_priority api (lt_prioritize_pieces api (t_native t) (memory_requests api t ps)) p =
        min 0 (get_piece_priority api t p)"
    and "k < length ps \<Longrightarrow>
      lt_piece_priority api (lt_prioritize_pieces api (t_native t) (memory_requests api t ps)) (ps ! k) =
        (if have_piece api t (ps ! k) then get_piece_priority api t (ps ! k)
         else max (get_piece_priority api t (ps ! k)) (rank_priority k))"
proof -
  let ?h = "t_native t"
  let ?rel = "release_requests (lt_get_piece_priorities api ?h) ps"
  let ?grp = "filter (requested api t) (zip ps (map rank_priority [0..<length ps]))"
  have req: "memory_requests api t ps = ?rel @ ?grp" by (simp only: memory_requests_def group_requests_start)
  have len: "length (lt_get_piece_priorities api ?h) = n" using api by (simp add: piece_api_ok_def)
  have fg: "fst ` set ?grp \<subseteq> set ps" by (auto dest: set_zip_leftD)
  have fr: "fst ` set ?rel \<subseteq> {0..<int n} - set ps" using len by (auto simp: release_requests_def)
  have "map fst ?rel = filter (\<lambda>i. lt_get_piece_priorities api ?h ! nat i > 0 \<and> i \<notin> set ps) (map int [0..<length (lt_get_piece_priorities api ?h)])"
    by (simp add: release_requests_def comp_def)
  then have "distinct (map fst ?rel)" by (simp add: distinct_map inj_on_def)
  then have dist: "distinct (map fst (memory_requests api t ps))"
    using distinct_fst_filter_zip [OF d] fg fr unfolding req map_append distinct_append set_map by blast
  have rng: "\<forall>r \<in> set (memory_requests api t ps). 0 \<le> fst r \<and> fst r < int n"
    using fg fr ps unfolding req by fastforce
  note pri = prioritize_pieces_priority [OF api rng dist, of ?h]
  {
    assume p: "p \<notin> set ps" "0 \<le> p" "p < int n"
    have "map_of ?grp p = None" using fg p(1) by (auto simp: map_of_eq_None_iff)
    then have "map_of (memory_requests api t ps) p = (if get_piece_priority api t p > 0 then Some 0 else None)"
      using map_of_release [OF api p(2,3), of ?h ps] p(1) unfolding req by (simp add: map_add_def get_piece_priority_def)
    with pri [of p] show "lt_piece_priority api (lt_prioritize_pieces api ?h (memory_requests api t ps)) p =
        min 0 (get_piece_priority api t p)" by (auto simp: get_piece_priority_def)
  next
    assume k: "k < length ps"
    have "map_of (memory_requests api t ps) (ps ! k) =
        (if requested api t (ps ! k, rank_priority k) then Some (rank_priority k) else None)"
      using map_of_release [OF api, of "ps ! k" ?h ps] ps k map_of_ranked [OF d k, of "requested api t"]
      unfolding req by (auto simp: map_add_def split: option.splits)
    moreover have "0 < rank_priority k" by (simp add: rank_priority_def)
    ultimately show "lt_piece_priority api (lt_prioritize_pieces api ?h (memory_requests api t ps)) (ps ! k) =
        (if have_piece api t (ps ! k) then get_piece_priority api t (ps ! k)
         else max (get_piece_priority api t (ps ! k)) (rank_priority k))"
      using pri [of "ps ! k"] by (auto simp: requested_def get_piece_priority_def max_def)
  }
qed

lemma readahead_length:
  assumes "distinct (map snd rs)"
  obtains st where "readahead_loop rs (readahead_start rs limit hp) = Some st" and "loop_inv rs hp limit st"
    and "\<not> readahead_more rs st" and "int (length (ra_pieces st)) \<le> max 0 limit"
proof (cases "0 \<le> limit")
  case True
  obtain st where st: "readahead_loop rs (readahead_start rs limit hp) = Some st" "loop_inv rs hp limit st"
    "\<not> readahead_more rs st" using readahead_loop_spec [OF assms, of limit hp] by blast
  with True show thesis by (intro that [of st]) (auto simp: loop_inv_def)
next
  case False
  have "readahead_loop rs (readahead_start rs limit hp) = Some (readahead_start rs limit hp)"
    using False by (simp add: readahead_loop_def while_option_unfold readahead_more_def readahead_start_def)
  with False show thesis
    by (intro that [of "readahead_start rs limit hp"] loop_inv_start) (simp_all add: readahead_more_def readahead_start_def)
qed

lemma update_reader_ok:
  assumes wf: "wf_storage s" and ps: "\<forall>p \<in> set ps. 0 \<le> p \<and> p < ms_piece_count s" and init: "ms_is_initialized s"
  shows "\<exists>bs. update_reader_pieces ps s = Inr (s\<lparr>ms_reader_pieces := bs\<rparr>) \<and> (\<forall>p. bit_test bs p \<longleftrightarrow> p \<in> set ps)"
proof -
  let ?z = "replicate (length (ms_reader_pieces s)) False"
  have len: "int (length (ms_reader_pieces s)) = ms_piece_count s + 10"
    using wf by (auto simp: wf_storage_def shape_ok_def)
  have "\<forall>i \<in> set ps. 0 \<le> i \<and> i < int (length ?z)" using ps len by fastforce
  then obtain bs where bs: "bitset_set_all ?z ps = Inr bs" using bitset_set_all_ok by blast
  then show ?thesis using init bitset_set_all_test [OF bs] by (auto simp: update_reader_pieces_def)
qed

text \<open>What \<open>prioritize\<close> leaves of a torrent in memory and of the readers.\<close>

lemma prioritize_memory:
  assumes api: "piece_api_ok api n" and mem: "is_memory_storage t" "t_memory_storage t = Some s"
    and s: "wf_storage s" "ms_is_initialized s" "ms_piece_count s = int n"
    and rs: "distinct (map snd (t_readers t))"
      "\<forall>a \<in> snd ` set (t_readers t). 0 \<le> rd_piece_start (hp a) \<and> piece_end_limit (hp a) < int n"
    and limit: "limit = get_buffers_count s * c_readahead_percents config sdiv 100"
  obtains st bs where "prioritize api config t hp = Some (Inr (t\<lparr>t_native :=
        lt_prioritize_pieces api (t_native t) (memory_requests api t (ra_pieces st)),
        t_memory_storage := Some (s\<lparr>ms_reader_pieces := bs\<rparr>)\<rparr>, ra_heap st))"
    and "loop_inv (t_readers t) hp limit st" and "\<not> readahead_more (t_readers t) st"
    and "int (length (ra_pieces st)) \<le> max 0 limit" and "\<forall>p \<in> set (ra_pieces st). 0 \<le> p \<and> p < int n"
    and "\<forall>p. bit_test bs p \<longleftrightarrow> p \<in> set (ra_pieces st)"
    and "update_reader_pieces (ra_pieces st) s = Inr (s\<lparr>ms_reader_pieces := bs\<rparr>)"
proof -
  let ?rs = "t_readers t"
  obtain st where st: "readahead_loop ?rs (readahead_start ?rs limit hp) = Some st" "loop_inv ?rs hp limit st"
    "\<not> readahead_more ?rs st" "int (length (ra_pieces st)) \<le> max 0 limit"
    by (rule readahead_length [OF rs(1)])
  let ?ps = "ra_pieces st"
  have rng: "\<forall>p \<in> set ?ps. 0 \<le> p \<and> p < int n" using st(2) rs(2) by (fastforce simp: loop_inv_def wants_def)
  obtain bs where bs: "update_reader_pieces ?ps s = Inr (s\<lparr>ms_reader_pieces := bs\<rparr>)" "\<forall>p. bit_test bs p \<longleftrightarrow> p \<in> set ?ps"
    using update_reader_ok [OF s(1) _ s(2), of ?ps] rng s(3) by auto
  let ?req = "memory_requests api t ?ps"
  let ?t1 = "t\<lparr>t_native := lt_prioritize_pieces api (t_native t) ?req\<rparr>"
  have t1: "(if ?req \<noteq> [] then ?t1 else t) = ?t1" using api by (simp add: piece_api_ok_def)
  have lim: "readahead_pieces config t = Inr limit" using mem limit by (simp add: readahead_pieces_def)
  have req: "(if is_memory_storage t then release_requests (lt_get_piece_priorities api (t_native t)) ?ps else []) @
      group_requests api t (progression_result 2 (17, 10) 1) 5 1 ?ps = ?req"
    by (simp only: mem(1) if_True memory_requests_def)
  have m1: "is_memory_storage ?t1" "t_memory_storage ?t1 = Some s" using mem by (simp_all add: is_memory_storage_def)
  have "prioritize api config t hp = Some (Inr (?t1\<lparr>t_memory_storage := Some (s\<lparr>ms_reader_pieces := bs\<rparr>)\<rparr>, ra_heap st))"
    unfolding prioritize_def Let_def lim sum.case st(1) option.map req t1
    by (simp only: m1 if_True option.case bs(1) bind_result_Inr)
  then show thesis by (rule that) (use st rng bs in simp_all)
qed


text \<open>One reader of the demo file, at its beginning.\<close>

definition demo_reader :: reader where
  "demo_reader = \<lparr>rd_file = demo_file, rd_range = (0, 55), rd_id = 7, rd_offset = 0, rd_size = 0, rd_piece_size = 16,
     rd_position = 0, rd_piece_start = 0, rd_piece_end = 3, rd_isClosing = False, rd_isPrioritized = False,
     rd_isIterated = False, rd_piece_timeout = 60\<rparr>"


section \<open>States\<close>

text \<open>
  C24. The state that \<open>update_state\<close> computes: an error shows as \<open>Error\<close> unless resume
  data is being checked, a paused torrent never shows as active, and because
  \<open>is_forced\<close> is the negation of \<open>is_paused\<close>, the states \<open>Downloading\<close>,
  \<open>StalledDownloading\<close>, \<open>Uploading\<close> and \<open>StalledUploading\<close> are never reached, nor
  are \<open>QueuedUploading\<close>, \<open>Moving\<close>, \<open>MissingFiles\<close> and \<open>Unknown\<close>.
\<close>

theorem update_state_reachable:
  "t_state (update_state t) \<notin> {State_Unknown, State_Downloading, State_StalledDownloading, State_Uploading,
     State_StalledUploading, State_QueuedUploading, State_Moving, State_MissingFiles} \<and>
   (t_state (update_state t) = State_Error \<longleftrightarrow> has_error t \<and> st_state (t_status t) \<noteq> Checking_resume_data) \<and>
   \<not> (is_paused t \<and> is_active (update_state t)) \<and> \<not> (is_errored (update_state t) \<and> is_active (update_state t))"
  by (simp add: update_state_def computed_state_def Let_def is_forced_def is_active_def is_errored_def)



section \<open>Removal\<close>

text \<open>
  C29. Removing a torrent deletes exactly the files it is asked to: the torrent file when
  \<open>is_delete_files\<close>, the resume and parts files also for every torrent in memory, nothing else;
  downloaded data is deleted only when asked for and only with file storage.
\<close>

theorem remove_deletes:
  "remove del_files del_data t fs = (t', flags, fs') \<Longrightarrow>
     fs' = (\<lambda>path. if (del_files \<and> path = t_torrentFile t) \<or>
         ((del_files \<or> is_memory_storage t) \<and> (path = t_resumeFile t \<or> path = t_partsFile t))
       then None else fs path) \<and>
     (flags = Delete_files \<longleftrightarrow> del_data \<and> \<not> is_memory_storage t) \<and> t_isClosing t'"
proof -
  have r: "remove_if_exists path fs = fs(path := None)" for path fs
    by (auto simp: remove_if_exists_def file_exists_def)
  assume "remove del_files del_data t fs = (t', flags, fs')"
  then have e: "t' = t\<lparr>t_isClosing := True\<rparr>"
    "flags = (if del_data \<and> \<not> is_memory_storage t then Delete_files else Delete_partfile)"
    "fs' = (let fs1 = (if del_files then fs(t_torrentFile t := None) else fs) in
       if del_files \<or> is_memory_storage t then fs1(t_resumeFile t := None, t_partsFile t := None) else fs1)"
    by (cases del_files; cases "is_memory_storage t"; simp add: remove_def Let_def r)+
  show ?thesis unfolding e
    by (cases del_files; cases "is_memory_storage t") (simp_all add: fun_eq_iff)
qed

theorem remove_deletes_witness:
  "case remove True True demo_torrent (\<lambda>p. Some ''x'') of (t', flags, fs') \<Rightarrow>
     fs' ''./d0.torrent'' = Some ''x'' \<and> fs' ''d0.torrent'' = None \<and> flags = Delete_partfile"
proof -
  obtain t' flags fs' where r: "remove True True demo_torrent (\<lambda>p. Some ''x'') = (t', flags, fs')"
    by (cases "remove True True demo_torrent (\<lambda>p. Some ''x'')")
  have f: "t_torrentFile demo_torrent = ''d0.torrent''" "t_resumeFile demo_torrent = ''d0.resume''"
    "t_partsFile demo_torrent = ''d0.parts''" "is_memory_storage demo_torrent"
    by (code_simp, code_simp, code_simp, code_simp)
  from remove_deletes [OF r] r f show ?thesis by (cases flags) auto
qed

section \<open>Progress of buffers\<close>

text \<open>
  A download queue as libtorrent reports it: no piece twice, only pieces that are not complete,
  and of each no more bytes than it has.
\<close>

definition queue_ok :: "'h lt_api \<Rightarrow> 'h torrent \<Rightarrow> partial_piece list \<Rightarrow> bool" where
  "queue_ok api t queue \<longleftrightarrow> distinct (map pp_index queue) \<and>
     (\<forall>e \<in> set queue. \<not> have_piece api t (pp_index e) \<and> 0 \<le> sum_list (pp_blocks e) \<and>
        sum_list (pp_blocks e) \<le> piece_length_at t (pp_index e))"

lemma sum_list_nonneg_int: "(\<And>x. x \<in> set xs \<Longrightarrow> (0 :: int) \<le> f x) \<Longrightarrow> 0 \<le> sum_list (map f xs)"
  by (induction xs) auto

lemma missing_bounds:
  assumes "\<forall>p \<in> set ps. 0 \<le> piece_length_at t p"
  shows "0 \<le> missing_bytes api t ps" and "missing_bytes api t ps \<le> sum_list (map (piece_length_at t) ps)"
  using assms by (induction ps) (auto simp: missing_bytes_def)

lemma queued_le_missing:
  assumes q: "queue_ok api t queue" and ps: "distinct ps" "\<forall>p \<in> set ps. 0 \<le> piece_length_at t p"
  shows "0 \<le> queued_bytes queue ps" and "queued_bytes queue ps \<le> missing_bytes api t ps"
proof -
  let ?m = "\<lambda>p. if have_piece api t p then 0 else piece_length_at t p"
  let ?f = "\<lambda>e. if pp_index e \<in> set ps then sum_list (pp_blocks e) else 0"
  show "0 \<le> queued_bytes queue ps" unfolding queued_bytes_def
    by (rule sum_list_nonneg_int) (use q in \<open>auto simp: queue_ok_def\<close>)
  have dq: "distinct queue" "inj_on pp_index (set queue)" using q by (auto simp: queue_ok_def distinct_map)
  have "queued_bytes queue ps = sum ?f (set queue)"
    using dq(1) by (simp add: queued_bytes_def sum_list_distinct_conv_sum_set)
  also have "\<dots> \<le> (\<Sum>e \<in> set queue. if pp_index e \<in> set ps then ?m (pp_index e) else 0)"
    using q by (intro sum_mono) (auto simp: queue_ok_def)
  also have "\<dots> = (\<Sum>p \<in> pp_index ` set queue. if p \<in> set ps then ?m p else 0)"
    using dq(2) by (simp add: sum.reindex)
  also have "\<dots> = sum ?m (pp_index ` set queue \<inter> set ps)" by (simp add: sum.inter_restrict)
  also have "\<dots> \<le> sum ?m (set ps)" using ps(2) by (intro sum_mono2) auto
  also have "\<dots> = missing_bytes api t ps"
    using ps(1) by (simp add: missing_bytes_def sum_list_distinct_conv_sum_set)
  finally show "queued_bytes queue ps \<le> missing_bytes api t ps" .
qed

text \<open>
  C19. The progress of a buffer: for a file that is being buffered, with the pieces and the size
  that \<open>start_buffer\<close> set up and a consistent download queue, the new progress lies between 0
  and 100 percent; it is 100, and buffering ends, exactly when every byte of the buffer has
  arrived; otherwise buffering goes on.
\<close>

theorem update_file_progress_spec:
  assumes f: "f_isBuffering f" "f_buffer_progress f < 100" "0 < f_buffer_size f" "distinct (f_buffer_pieces f)"
    and sz: "f_buffer_size f = sum_list (map (piece_length_at t) (f_buffer_pieces f))"
      "\<forall>p \<in> set (f_buffer_pieces f). 0 \<le> piece_length_at t p"
    and q: "queue_ok api t queue"
  shows "let f' = update_file_progress api t queue f in
    0 \<le> f_buffer_progress f' \<and> f_buffer_progress f' \<le> 100 \<and>
    (f_buffer_progress f' = 100 \<longleftrightarrow> missing_bytes api t (f_buffer_pieces f) = queued_bytes queue (f_buffer_pieces f)) \<and>
    (f_isBuffering f' \<longleftrightarrow> f_buffer_progress f' < 100)"
proof -
  let ?m = "missing_bytes api t (f_buffer_pieces f)" and ?k = "queued_bytes queue (f_buffer_pieces f)"
  let ?b = "f_buffer_size f"
  define x where "x = (if ?m > 0 then ?m - ?k else ?m)"
  note mb = missing_bounds [OF sz(2), of api] and qb = queued_le_missing [OF q f(4) sz(2)]
  have x: "0 \<le> x" "x \<le> ?b" "x = 0 \<longleftrightarrow> ?m = ?k" using mb qb sz(1) by (auto simp: x_def)
  let ?p = "of_int (?b - x) / of_int ?b * 100 :: rat"
  have b: "(0 :: rat) < of_int ?b" using f(3) by simp
  have p0: "0 \<le> ?p" using x b by (simp add: zero_le_divide_iff)
  have "?p \<ge> 100 \<longleftrightarrow> of_int (?b - x) \<ge> (of_int ?b :: rat)" using b by (simp add: field_simps)
  then have p1: "?p \<ge> 100 \<longleftrightarrow> x = 0" using x(1) by (simp add: of_int_le_iff)
  have "update_file_progress api t queue f = set_buffer_progress ?p f"
    using f(1-3) by (simp add: update_file_progress_def x_def Let_def)
  with p0 p1 x(3) f(1) show ?thesis by (auto simp: set_buffer_progress_def Let_def)
qed

theorem update_file_progress_spec_witness:
  "let f = demo_file\<lparr>f_isBuffering := True, f_buffer_pieces := [0, 1], f_buffer_size := 32\<rparr>;
       f' = update_file_progress demo_api demo_torrent [\<lparr>pp_index = 1, pp_blocks = [4, 4]\<rparr>] f in
   0 \<le> f_buffer_progress f' \<and> f_isBuffering f'"
proof -
  let ?f = "demo_file\<lparr>f_isBuffering := True, f_buffer_pieces := [0, 1], f_buffer_size := 32\<rparr>"
  let ?q = "[\<lparr>pp_index = 1, pp_blocks = [4, 4]\<rparr>]"
  have l: "piece_length_at demo_torrent 0 = 16" "piece_length_at demo_torrent 1 = 16" by (code_simp, code_simp)
  have h: "\<not> have_piece demo_api demo_torrent p" for p
    by (simp add: have_piece_def demo_api_def demo_torrent_def new_torrent_def demo_handle_def)
  have n: "missing_bytes demo_api demo_torrent (f_buffer_pieces ?f) = 32" "queued_bytes ?q (f_buffer_pieces ?f) = 8"
    using h l by (simp_all add: missing_bytes_def queued_bytes_def)
  have "let f' = update_file_progress demo_api demo_torrent ?q ?f in
    0 \<le> f_buffer_progress f' \<and> f_buffer_progress f' \<le> 100 \<and>
    (f_buffer_progress f' = 100 \<longleftrightarrow> missing_bytes demo_api demo_torrent (f_buffer_pieces ?f) = queued_bytes ?q (f_buffer_pieces ?f)) \<and>
    (f_isBuffering f' \<longleftrightarrow> f_buffer_progress f' < 100)"
    by (rule update_file_progress_spec) (use l h in \<open>simp_all add: demo_file_def queue_ok_def\<close>)
  then show ?thesis unfolding n by (auto simp: Let_def)
qed

section \<open>Trackers\<close>

interpretation torrent_readers: registry torrent_find_reader torrent_register_reader torrent_unregister_reader
    "\<lambda>t. map_ok (t_readers t)"
  by unfold_locales (auto simp: torrent_find_reader_def torrent_register_reader_def torrent_unregister_reader_def)

text \<open>The reports of a sequence of alerts: name, message and number of peers.\<close>

definition alert_report :: "torrent_alert \<Rightarrow> (string \<times> string \<times> int) option" where
  "alert_report a = (case a of
     Dht_reply_alert n \<Rightarrow> Some (''DHT'', [], n)
   | Tracker_reply_alert url msg n \<Rightarrow> Some (url, msg, n)
   | Tracker_warning_alert url msg \<Rightarrow> Some (url, msg, 0)
   | Tracker_error_alert url msg \<Rightarrow> Some (url, msg, 0)
   | _ \<Rightarrow> None)"

definition dispatch_alerts ::
  "(string \<Rightarrow> bool) \<Rightarrow> torrent_alert list \<Rightarrow> 'h torrent \<times> file_system \<Rightarrow> 'h torrent \<times> file_system" where
  "dispatch_alerts can_write as tf = foldl (\<lambda>(t, fs) a. dispatch_alert can_write a t fs) tf as"

lemma dispatch_alert_tracker:
  "map_find (t_trackerInfos (fst (dispatch_alert can_write a t fs))) url =
     (case alert_report a of
        Some (u, msg, n) \<Rightarrow> if u = url then Some \<lparr>tr_lastMessage = msg,
            tr_numPeers = max n (case map_find (t_trackerInfos t) url of None \<Rightarrow> 0 | Some i \<Rightarrow> tr_numPeers i)\<rparr>
          else map_find (t_trackerInfos t) url
      | None \<Rightarrow> map_find (t_trackerInfos t) url)"
  by (cases a) (auto simp: dispatch_alert_def alert_report_def update_tracker_def Let_def)

text \<open>
  What a torrent knows of a tracker: after any sequence of alerts, the number of peers of a
  tracker is the largest number it has reported (0 at least), and the message is that of its
  latest report; a tracker that has not reported is unknown.
\<close>

lemma tracker_reports:
  assumes "t_trackerInfos t = []"
  shows "map_find (t_trackerInfos (fst (dispatch_alerts can_write as (t, fs)))) url =
    (let rs = filter (\<lambda>r. fst r = url) (List.map_filter alert_report as) in
     if rs = [] then None
     else Some \<lparr>tr_lastMessage = fst (snd (last rs)), tr_numPeers = Max (insert 0 (snd ` snd ` set rs))\<rparr>)"
proof (induction as rule: rev_induct)
  case Nil
  with assms show ?case by (simp add: dispatch_alerts_def map_filter_simps)
next
  case (snoc a as)
  obtain t' fs' where d: "dispatch_alerts can_write as (t, fs) = (t', fs')" by fastforce
  have s: "dispatch_alerts can_write (as @ [a]) (t, fs) = dispatch_alert can_write a t' fs'"
    using d by (simp add: dispatch_alerts_def)
  define rs where "rs = filter (\<lambda>r. fst r = url) (List.map_filter alert_report as)"
  have rs': "filter (\<lambda>r. fst r = url) (List.map_filter alert_report (as @ [a])) =
      rs @ (case alert_report a of Some r \<Rightarrow> if fst r = url then [r] else [] | None \<Rightarrow> [])"
    by (auto simp: rs_def List.map_filter_def split: option.splits)
  have old: "map_find (t_trackerInfos t') url = (if rs = [] then None
      else Some \<lparr>tr_lastMessage = fst (snd (last rs)), tr_numPeers = Max (insert 0 (snd ` snd ` set rs))\<rparr>)"
    using snoc d by (simp add: rs_def Let_def)
  have mx: "Max (insert 0 (insert n (snd ` snd ` set rs))) = max n (Max (insert 0 (snd ` snd ` set rs)))" for n
    by (subst insert_commute, subst Max_insert) simp_all
  show ?case unfolding s dispatch_alert_tracker rs' Let_def
    by (cases "alert_report a") (auto simp: old mx)
qed

lemma tracker_reports_example:
  "map_find (t_trackerInfos (fst (dispatch_alerts (\<lambda>f. True)
      [Tracker_reply_alert ''udp://a'' ''ok'' 12, Tracker_error_alert ''udp://a'' ''timeout''] (demo_torrent, \<lambda>f. None)))) ''udp://a''
   = Some \<lparr>tr_lastMessage = ''timeout'', tr_numPeers = 12\<rparr>"
proof -
  have "t_trackerInfos demo_torrent = []" by (simp add: demo_torrent_def new_torrent_def)
  from tracker_reports [OF this] show ?thesis
    by (simp add: List.map_filter_def alert_report_def Let_def)
qed

section \<open>Metadata\<close>

lemma build_files_spec:
  "build_files api config t i nfs = Inr fs \<Longrightarrow> length fs = length nfs \<and>
     (\<forall>k < length nfs. f_index (fs ! k) = i + int k \<and> f_name (fs ! k) = nf_name (nfs ! k) \<and>
        f_size (fs ! k) = nf_size (nfs ! k) \<and> f_offset (fs ! k) = nf_offset (nfs ! k) \<and>
        (f_piece_start (fs ! k), f_piece_end (fs ! k)) =
          region_pieces (nf_offset (nfs ! k)) (nf_size (nfs ! k)) (piece_length t) (pieces_count t))"
proof (induction nfs arbitrary: i fs)
  case (Cons nf nfs)
  from Cons.prems obtain f fs' where f: "new_file config t i (nf_path nf) (nf_name nf) (nf_size nf) (nf_offset nf)
      (get_file_priority api t i) = Inr f" "build_files api config t (i + 1) nfs = Inr fs'" "fs = f # fs'"
    by (auto simp: bind_result_eq_Inr)
  have g: "f_index f = i" "f_name f = nf_name nf" "f_size f = nf_size nf" "f_offset f = nf_offset nf"
    "(f_piece_start f, f_piece_end f) = region_pieces (nf_offset nf) (nf_size nf) (piece_length t) (pieces_count t)"
    using f(1) by (auto simp: new_file_def bind_result_eq_Inr Let_def)
  from Cons.IH [OF f(2)] g show ?case unfolding f(3) by (auto simp: nth_Cons split: nat.splits)
qed simp

lemma find_by_index:
  assumes "\<forall>k < length fs. f_index (fs ! k) = int k"
  shows "find (\<lambda>f. f_index f = i) fs = (if 0 \<le> i \<and> nat i < length fs then Some (fs ! nat i) else None)"
proof (cases "0 \<le> i \<and> nat i < length fs")
  case True
  have "f_index (fs ! nat i) = i" "\<forall>j < nat i. f_index (fs ! j) \<noteq> i"
    using assms True by (simp, metis less_trans nat_int order_less_irrefl)
  with True show ?thesis by (auto simp: find_Some_iff intro!: exI [of _ "nat i"])
next
  case False
  with assms have "\<not> (\<exists>f \<in> set fs. f_index f = i)" by (auto simp: in_set_conv_nth)
  then have "find (\<lambda>f. f_index f = i) fs = None" by (simp add: find_None_iff)
  with False show ?thesis by (simp only: if_False)
qed

text \<open>
  C32. Files after the metadata has arrived: there is one file for each file of the metadata,
  in its order; \<open>get_file\<close> finds the file with an index that the torrent has, with the name,
  size, offset and piece range of the metadata, and throws a \<open>FileException\<close> for any other
  index.
\<close>

theorem update_metadata_files:
  assumes "update_metadata api q bencode can_write config impl t fs = Inr (t', fs')"
    and "q_torrent_file q (t_native t) = Some ti"
  shows "length (t_files t') = length (ti_files ti) \<and>
    (\<forall>i. if 0 \<le> i \<and> nat i < length (ti_files ti)
       then \<exists>f. get_file t' i = Inr f \<and> f_index f = i \<and> f_name f = nf_name (ti_files ti ! nat i) \<and>
         f_size f = nf_size (ti_files ti ! nat i) \<and> f_offset f = nf_offset (ti_files ti ! nat i)
       else \<exists>msg. get_file t' i = Inl (Throw FileException msg))"
proof -
  obtain t3 where b: "build_files api config t3 0 (ti_files ti) = Inr (t_files t')"
    using assms by (auto simp: update_metadata_def on_metadata_received_def Let_def bind_result_eq_Inr save_resume_data_def
        split: option.splits if_splits)
  note s = build_files_spec [OF b]
  then have "\<forall>k < length (t_files t'). f_index (t_files t' ! k) = int k" by simp
  from find_by_index [OF this] s show ?thesis
    by (auto simp: get_file_def find_file_def)
qed

theorem update_metadata_files_witness:
  "case update_metadata demo_api demo_query (\<lambda>ti. ''d'') (\<lambda>f. True) (default_config False) (Some demo_storage)
      demo_torrent (\<lambda>f. None) of
     Inr (t', fs') \<Rightarrow> (\<exists>f. get_file t' 0 = Inr f \<and> f_name f = ''a.mkv'') \<and> (\<exists>msg. get_file t' 1 = Inl (Throw FileException msg))
   | Inl e \<Rightarrow> False"
proof -
  let ?u = "update_metadata demo_api demo_query (\<lambda>ti. ''d'') (\<lambda>f. True) (default_config False) (Some demo_storage)
      demo_torrent (\<lambda>f. None)"
  have "case ?u of Inr r \<Rightarrow> True | Inl e \<Rightarrow> False" by code_simp
  then obtain t' fs' where u: "?u = Inr (t', fs')" by (auto split: sum.splits)
  have i: "q_torrent_file demo_query (t_native demo_torrent) = Some demo_info" by (simp add: demo_query_def)
  have "\<forall>i. if 0 \<le> i \<and> nat i < length (ti_files demo_info)
       then \<exists>f. get_file t' i = Inr f \<and> f_index f = i \<and> f_name f = nf_name (ti_files demo_info ! nat i) \<and>
         f_size f = nf_size (ti_files demo_info ! nat i) \<and> f_offset f = nf_offset (ti_files demo_info ! nat i)
       else \<exists>msg. get_file t' i = Inl (Throw FileException msg)"
    using update_metadata_files [OF u i] by blast
  from this [rule_format, of 0] this [rule_format, of 1] u show ?thesis by (auto simp: demo_info_def)
qed

end
