(* ===== verification/Session_Properties.thy ===== *)
theory Session_Properties
  imports Session Torrent_Properties
begin

text \<open>
  What a session guarantees: its torrents have different hashes, adding and removing do what they
  say or report an exception, alerts reach the torrents they name, and the settings follow the
  configuration. Four theorems show where the code fails to do what it means to.
\<close>

section \<open>The list of torrents\<close>

definition unique_torrents :: "('n, 'h) session \<Rightarrow> bool" where
  "unique_torrents s \<longleftrightarrow> distinct (map t_hash (s_torrents s))"

lemma find_torrent_None: "find_torrent hash ts = None \<longleftrightarrow> hash \<notin> t_hash ` set ts"
  by (auto simp: find_torrent_def find_None_iff)

lemma find_torrent_Some: "find_torrent hash ts = Some t \<Longrightarrow> t \<in> set ts \<and> t_hash t = hash"
  by (auto simp: find_torrent_def find_Some_iff)

lemma has_torrent_iff: "has_torrent s hash \<longleftrightarrow> hash \<in> t_hash ` set (s_torrents s)"
  by (auto simp: has_torrent_def find_torrent_None)

lemma update_torrent_hashes:
  "(\<And>t. t \<in> set ts \<Longrightarrow> t_hash t = hash \<Longrightarrow> t_hash (f t) = hash) \<Longrightarrow> map t_hash (update_torrent hash f ts) = map t_hash ts"
  by (induction ts) auto

lemma other_hashes: "distinct (map t_hash (t # ts)) \<Longrightarrow> \<forall>u \<in> set ts. t_hash u \<noteq> t_hash t"
  by (auto simp: image_iff)

text \<open>With different hashes, the first match is the only one.\<close>

lemma update_torrent_map:
  "distinct (map t_hash ts) \<Longrightarrow> update_torrent hash f ts = map (\<lambda>t. if t_hash t = hash then f t else t) ts"
proof (induction ts)
  case (Cons t ts)
  show ?case
  proof (cases "t_hash t = hash")
    case True
    then have "map (\<lambda>t. if t_hash t = hash then f t else t) ts = ts"
      using other_hashes [OF Cons.prems] by (intro map_idI) simp
    with True show ?thesis by simp
  next
    case False
    with Cons show ?thesis by simp
  qed
qed simp

lemma erase_torrent_filter:
  "distinct (map t_hash ts) \<Longrightarrow> hash \<in> t_hash ` set ts \<Longrightarrow> erase_torrent hash ts = Inr (filter (\<lambda>t. t_hash t \<noteq> hash) ts)"
proof (induction ts)
  case (Cons t ts)
  show ?case
  proof (cases "t_hash t = hash")
    case True
    then have "filter (\<lambda>t. t_hash t \<noteq> hash) ts = ts"
      using other_hashes [OF Cons.prems(1)] by (simp add: filter_id_conv)
    with True show ?thesis by simp
  next
    case False
    with Cons show ?thesis by auto
  qed
qed simp

lemma erase_torrent_absent: "hash \<notin> t_hash ` set ts \<Longrightarrow> erase_torrent hash ts = Inl Undefined"
  by (induction ts) auto

lemma remove_hash: "remove df dd t fs = (t', flags, fs') \<Longrightarrow> t_hash t' = t_hash t"
  by (auto simp: remove_def Let_def)

lemma remove_torrent_begin_eq:
  assumes "remove_torrent_begin env hash df dd s fs = Inr (s1, fs1)"
  shows "\<exists>t t' flags. find_torrent hash (s_torrents s) = Some t \<and> remove df dd t fs = (t', flags, fs1) \<and>
    s1 = s\<lparr>s_torrents := update_torrent hash (\<lambda>_. t') (s_torrents s),
      s_native := ls_remove_torrent (e_ls env) (s_native s) (t_native t) flags\<rparr> \<and>
    map t_hash (s_torrents s1) = map t_hash (s_torrents s)"
proof -
  obtain t where t: "find_torrent hash (s_torrents s) = Some t"
    using assms by (auto simp: remove_torrent_begin_def get_torrent_def split: option.splits)
  obtain t' flags fs' where r: "remove df dd t fs = (t', flags, fs')" by (cases "remove df dd t fs") auto
  have "t_hash t' = hash" using remove_hash [OF r] find_torrent_Some [OF t] by simp
  then have "map t_hash (update_torrent hash (\<lambda>_. t') (s_torrents s)) = map t_hash (s_torrents s)"
    by (intro update_torrent_hashes) simp
  with t r assms show ?thesis by (auto simp: remove_torrent_begin_def get_torrent_def)
qed

section \<open>Adding\<close>

text \<open>The torrent that parameters describe.\<close>

definition params_hash :: "add_params \<Rightarrow> string" where
  "params_hash p = (case ap_ti p of None \<Rightarrow> ap_info_hash p | Some ti \<Rightarrow> ir_hash ti)"

text \<open>
  libtorrent's documented behaviour: a magnet link gives no metadata, info hashes are not empty,
  the handle of an added torrent has the torrent's info hash, and resuming keeps it.
\<close>

definition hash_api_ok :: "('n, 'h) session_env \<Rightarrow> bool" where
  "hash_api_ok env \<longleftrightarrow>
     (\<forall>uri p. ls_parse_magnet (e_ls env) uri = Inr p \<longrightarrow> ap_ti p = None \<and> ap_info_hash p \<noteq> []) \<and>
     (\<forall>fs path ti. ls_load_info (e_ls env) fs path = Inr ti \<longrightarrow> ir_hash ti \<noteq> []) \<and>
     (\<forall>n p h n'. ls_add_torrent (e_ls env) n p = (Inr h, n') \<longrightarrow> ls_info_hash (e_ls env) h = params_hash p) \<and>
     (\<forall>h. ls_info_hash (e_ls env) (lt_resume (e_lt env) h) = ls_info_hash (e_ls env) h)"

lemma hash_api_add:
  "hash_api_ok env \<Longrightarrow> ls_add_torrent (e_ls env) n p = (Inr h, n') \<Longrightarrow> ls_info_hash (e_ls env) h = params_hash p"
  unfolding hash_api_ok_def by blast

lemma hash_api_resume: "hash_api_ok env \<Longrightarrow> ls_info_hash (e_ls env) (lt_resume (e_lt env) h) = ls_info_hash (e_ls env) h"
  unfolding hash_api_ok_def by blast

text \<open>The resume file of a torrent describes that torrent.\<close>

definition resume_files_ok :: "('n, 'h) session_env \<Rightarrow> config \<Rightarrow> file_system \<Rightarrow> bool" where
  "resume_files_ok env c fs \<longleftrightarrow> (\<forall>hash body p. fs (resume_file (e_join_path env) (c_torrents_path c) hash) = Some body \<longrightarrow>
     ls_read_resume (e_ls env) body = Inr p \<longrightarrow> params_hash p = hash)"

lemma params_hash_simps [simp]:
  "params_hash (p\<lparr>ap_max_connections := a\<rparr>) = params_hash p" "params_hash (p\<lparr>ap_save_path := b\<rparr>) = params_hash p"
  "params_hash (p\<lparr>ap_file_priorities := c\<rparr>) = params_hash p" "params_hash (p\<lparr>ap_trackers := d\<rparr>) = params_hash p"
  "params_hash (p\<lparr>ap_sequential := e\<rparr>) = params_hash p" "params_hash (p\<lparr>ap_memory_storage := f\<rparr>) = params_hash p"
  by (cases "ap_ti p"; simp add: params_hash_def)+

lemma params_hash_prepare [simp]: "params_hash (prepare_params env c extra first mem skip p) = params_hash p"
  by (simp add: prepare_params_def modify_trackers_def Let_def)

lemma read_params_hash:
  assumes "hash_api_ok env" and "read_params (e_ls env) uri fs = (Inr (p, hash), fs')"
  shows "hash = params_hash p" and "hash \<noteq> []"
  using assms by (auto simp: read_params_def hash_api_ok_def params_hash_def split: if_splits sum.splits)

lemma load_file_Some: "load_file f v n fs = (True, body) \<Longrightarrow> fs f = Some body"
  by (auto simp: load_file_def split: option.splits if_splits)

lemma read_resume_hash:
  assumes "resume_files_ok env c fs" and "read_resume env c hash p fs = Inr (p', hash', skip)" and "hash = params_hash p"
  shows "hash' = params_hash p'"
proof (cases "load_file (resume_file (e_join_path env) (c_torrents_path c) hash) [] 8000000 fs")
  case (Pair loaded body)
  show ?thesis
  proof (cases loaded)
    case False
    with Pair assms(2) have "p' = p" "hash' = hash" by (simp_all add: read_resume_def)
    with assms(3) show ?thesis by simp
  next
    case True
    then obtain q where q: "ls_read_resume (e_ls env) body = Inr q" "p' = q"
      "hash' = (case ap_ti q of None \<Rightarrow> hash | Some ti \<Rightarrow> ir_hash ti)"
      using Pair assms(2) by (auto simp: read_resume_def split: sum.splits)
    have "fs (resume_file (e_join_path env) (c_torrents_path c) hash) = Some body"
      using Pair True by (intro load_file_Some) simp
    then have "params_hash q = hash" using assms(1) q(1) unfolding resume_files_ok_def by blast
    with q(2,3) show ?thesis by (auto simp: params_hash_def split: option.splits)
  qed
qed

lemma on_metadata_hash:
  "on_metadata_received api be cw config impl t fs = Inr (t', fs') \<Longrightarrow> t_hash t' = t_hash t"
  by (auto simp: on_metadata_received_def bind_result_eq_Inr save_resume_data_def Let_def split: if_splits option.splits)

lemma new_torrent_hash [simp]: "t_hash (new_torrent jp q c h es hash st a) = hash"
  by (simp add: new_torrent_def)

lemma megabytes_failure: "megabytes mb = Inl e \<Longrightarrow> e = Undefined"
  by (auto simp: megabytes_def split: if_splits)

lemma build_files_failure: "build_files api config t i nfs = Inl e \<Longrightarrow> e = Undefined"
proof (induction nfs arbitrary: i)
  case (Cons nf nfs)
  then show ?case
    by (auto simp: bind_result_def new_file_def Let_def dest: megabytes_failure split: sum.splits)
qed simp

lemma on_metadata_failure:
  assumes "on_metadata_received api be cw config impl t fs = Inl e"
  shows "e = Undefined"
  using assms by (auto simp: on_metadata_received_def Let_def bind_result_def dest: build_files_failure
      split: if_splits option.splits sum.splits)

text \<open>What adding does to the list: a torrent is appended, or nothing changes.\<close>

lemma register_torrent_cases:
  assumes "register_torrent env global paused st added p s fs = (r, s', fs')" and "hash_api_ok env"
  shows "(\<exists>t. s_torrents s' = s_torrents s @ [t] \<and> t_hash t = params_hash p \<and> (r = Inr (params_hash p) \<or> r = Inl Undefined)) \<or>
    (\<exists>e. r = Inl (Throw LhException e) \<and> s_torrents s' = s_torrents s)"
proof (cases "ls_add_torrent (e_ls env) (s_native s) p")
  case (Pair res n)
  show ?thesis
  proof (cases res)
    case (Inl e)
    with Pair assms(1) show ?thesis by (auto simp: register_torrent_def)
  next
    case (Inr h)
    let ?h = "if paused then h else lt_resume (e_lt env) h"
    let ?t = "new_torrent (e_join_path env) (e_query env) global ?h (e_empty_status env) (ls_info_hash (e_ls env) ?h) st added"
    have "ls_info_hash (e_ls env) h = params_hash p" "ls_info_hash (e_ls env) ?h = ls_info_hash (e_ls env) h"
      using hash_api_add [OF assms(2)] hash_api_resume [OF assms(2)] Pair Inr by auto
    then have h: "t_hash ?t = params_hash p" by simp
    show ?thesis
    proof (cases "has_metadata ?t")
      case False
      with Pair Inr assms(1) h show ?thesis by (auto simp: register_torrent_def Let_def)
    next
      case True
      let ?m = "on_metadata_received (e_lt env) (e_bencode env) (e_can_write env) global (ls_storage_impl (e_ls env) ?h) ?t fs"
      show ?thesis
      proof (cases ?m)
        case (Inl e)
        have "e = Undefined" using on_metadata_failure [OF Inl] .
        with Pair Inr Inl True assms(1) h show ?thesis by (auto simp: register_torrent_def Let_def)
      next
        case (Inr tf)
        then obtain t' f where tf: "?m = Inr (t', f)" by (cases tf) auto
        have "t_hash t' = params_hash p" using on_metadata_hash [OF tf] h by simp
        with Pair \<open>res = Inr h\<close> tf True assms(1) show ?thesis by (auto simp: register_torrent_def Let_def)
      qed
    qed
  qed
qed

definition add_outcome :: "string result \<Rightarrow> ('n, 'h) session \<Rightarrow> ('n, 'h) session \<Rightarrow> bool" where
  "add_outcome r s s' \<longleftrightarrow>
     (\<exists>t. s_torrents s' = s_torrents s @ [t] \<and> \<not> has_torrent s (t_hash t) \<and> (r = Inr (t_hash t) \<or> r = Inl Undefined)) \<or>
     (\<exists>e. r = Inl (Throw LhException e) \<and> s_torrents s' = s_torrents s)"

lemma add_outcome_throw: "s_torrents s' = s_torrents s \<Longrightarrow> add_outcome (Inl (Throw LhException e)) s s'"
  by (simp add: add_outcome_def)

lemma read_params_failure: "read_params ls uri fs = (Inl e, fs') \<Longrightarrow> \<exists>m. e = Throw LhException m"
  by (auto simp: read_params_def split: if_splits sum.splits)

lemma read_resume_failure: "read_resume env c hash p fs = Inl e \<Longrightarrow> \<exists>m. e = Throw LhException m"
  by (auto simp: read_resume_def Let_def split: if_splits sum.splits prod.splits)

lemma resume_files_mono:
  "resume_files_ok env c fs \<Longrightarrow> fs' \<subseteq>\<^sub>m fs \<Longrightarrow> resume_files_ok env c fs'"
  unfolding resume_files_ok_def map_le_def by (metis domI)

lemma remove_temporary_le: "remove_temporary_file path fs \<subseteq>\<^sub>m fs"
  by (auto simp: remove_temporary_file_def map_le_def)

lemma resolve_uri_le: "resolve_uri uri fs = (uri', fs') \<Longrightarrow> fs' \<subseteq>\<^sub>m fs"
  using remove_temporary_le by (auto simp: resolve_uri_def split: if_splits prod.splits)

lemma read_params_le: "read_params ls uri fs = (r, fs') \<Longrightarrow> fs' \<subseteq>\<^sub>m fs"
  using remove_temporary_le by (auto simp: read_params_def split: if_splits sum.splits)

lemma add_with_params_cases:
  assumes add: "add_with_params env global paused st first added p h s fs = (r, s', fs')"
    and ok: "hash_api_ok env" "resume_files_ok env (s_config s) fs" and h: "h = params_hash p"
  shows "add_outcome r s s'"
proof -
  let ?c = "s_config s"
  let ?s1 = "if st = Storage_memory then s\<lparr>s_memory_size := session_memory_size ?c\<rparr> else s"
  let ?r = "if st = Storage_memory then Inr (p\<lparr>ap_memory_storage := True\<rparr>, h, False) else read_resume env ?c h p fs"
  have st1: "s_torrents ?s1 = s_torrents s" by simp
  show ?thesis
  proof (cases ?r)
    case (Inl e)
    then have "r = Inl e" "s' = ?s1" "read_resume env ?c h p fs = Inl e"
      using add by (simp_all add: add_with_params_def Let_def split: if_splits)
    with read_resume_failure st1 show ?thesis by (fastforce intro: add_outcome_throw)
  next
    case (Inr x)
    then obtain q hash skip where q: "?r = Inr (q, hash, skip)" by (cases x) auto
    have hash: "hash = params_hash q"
      using q h read_resume_hash [OF ok(2) _ h] by (auto split: if_splits)
    show ?thesis
    proof (cases "has_torrent ?s1 hash")
      case True
      then have "s' = ?s1" "\<exists>m. r = Inl (Throw LhException m)" using add q by (auto simp: add_with_params_def Let_def)
      with st1 show ?thesis by (auto intro: add_outcome_throw)
    next
      case False
      then have new: "\<not> has_torrent s hash" by (simp add: has_torrent_iff st1)
      have "register_torrent env global paused st added
          (prepare_params env ?c (s_extra_trackers ?s1) first (st = Storage_memory) skip q) ?s1 fs = (r, s', fs')"
        using add q False by (simp add: add_with_params_def Let_def)
      from register_torrent_cases [OF this ok(1)] st1 new hash show ?thesis
        unfolding add_outcome_def params_hash_prepare by metis
    qed
  qed
qed

lemma add_torrent_cases:
  assumes add: "add_torrent env global uri0 paused st0 first added s fs = (r, s', fs')"
    and ok: "hash_api_ok env" "resume_files_ok env (s_config s) fs"
  shows "add_outcome r s s'"
proof -
  let ?uri = "e_trim env uri0" and ?st = "storage_for (s_config s) st0"
  obtain uri fs1 where u: "resolve_uri ?uri fs = (uri, fs1)" by fastforce
  obtain rp fs2 where rp: "read_params (e_ls env) uri fs1 = (rp, fs2)" by fastforce
  have fs2: "resume_files_ok env (s_config s) fs2"
    using resume_files_mono [OF ok(2) map_le_trans [OF read_params_le [OF rp] resolve_uri_le [OF u]]] .
  show ?thesis
  proof (cases "?uri = [] \<or> (?st \<noteq> Storage_memory \<and> c_download_path (s_config s) = [])")
    case True
    then have "s' = s" "\<exists>m. r = Inl (Throw LhException m)" using add by (auto simp: add_torrent_def Let_def split: if_splits)
    then show ?thesis by (auto intro: add_outcome_throw)
  next
    case go: False
    show ?thesis
    proof (cases rp)
      case (Inl e)
      then have "s' = s" "r = Inl e" using add u rp go by (auto simp: add_torrent_def Let_def)
      with read_params_failure rp Inl show ?thesis by (fastforce intro: add_outcome_throw)
    next
      case (Inr x)
      then obtain p h where p: "rp = Inr (p, h)" by (cases x) auto
      have ph: "h = params_hash p" "h \<noteq> []" using read_params_hash [OF ok(1)] rp p by auto
      then have "add_with_params env global paused ?st first added p h s fs2 = (r, s', fs')"
        using add u rp go p by (auto simp: add_torrent_def Let_def)
      from add_with_params_cases [OF this ok(1) fs2 ph(1)] show ?thesis .
    qed
  qed
qed

lemma unique_add_outcome: "unique_torrents s \<Longrightarrow> add_outcome r s s' \<Longrightarrow> unique_torrents s'"
  by (auto simp: unique_torrents_def add_outcome_def has_torrent_iff)

section \<open>Alerts\<close>

lemma dispatch_alert_hash: "dispatch_alert cw a t fs = (t', fs') \<Longrightarrow> t_hash t' = t_hash t"
  by (auto simp: dispatch_alert_def update_tracker_def Let_def split: torrent_alert.splits)

lemma save_resume_data_hash [simp]: "t_hash (save_resume_data api t) = t_hash t"
  by (simp add: save_resume_data_def)

lemma update_status_hash [simp]: "t_hash (update_status st t) = t_hash t"
  by (simp add: update_status_def update_state_def)

lemma handle_state_update_hashes:
  "map t_hash (s_torrents (handle_state_update_alert us s)) = map t_hash (s_torrents s)"
proof (induction us arbitrary: s)
  case (Cons u us)
  obtain hash st where u: "u = (hash, st)" by fastforce
  have "map t_hash (update_torrent hash (update_status st) (s_torrents s)) = map t_hash (s_torrents s)"
    by (rule update_torrent_hashes) simp
  with Cons.IH u show ?case by simp
qed simp

lemma dispatch_hashes:
  assumes "session_dispatch_alert env hash a s fs = (s', fs')"
  shows "map t_hash (s_torrents s') = map t_hash (s_torrents s)"
proof (cases "find_torrent hash (s_torrents s)")
  case (Some t)
  obtain t' f where d: "dispatch_alert (e_can_write env) a t fs = (t', f)" by fastforce
  have "t_hash t' = hash" using dispatch_alert_hash [OF d] find_torrent_Some [OF Some] by simp
  then have "map t_hash (update_torrent hash (\<lambda>_. t') (s_torrents s)) = map t_hash (s_torrents s)"
    by (intro update_torrent_hashes) simp
  with assms Some d show ?thesis by (auto simp: session_dispatch_alert_def)
qed (use assms in \<open>auto simp: session_dispatch_alert_def\<close>)

lemma metadata_hashes:
  assumes "handle_metadata_received_alert env global hash s fs = Inr (s', fs')"
  shows "map t_hash (s_torrents s') = map t_hash (s_torrents s)"
proof (cases "find_torrent hash (s_torrents s)")
  case (Some t)
  then obtain t' where m: "update_metadata (e_lt env) (e_query env) (e_bencode env) (e_can_write env) global
      (ls_storage_impl (e_ls env) (t_native t)) t fs = Inr (t', fs')"
    "s' = s\<lparr>s_torrents := update_torrent hash (\<lambda>_. t') (s_torrents s)\<rparr>"
    using assms by (auto simp: handle_metadata_received_alert_def bind_result_eq_Inr)
  have "t_hash t' = hash" using on_metadata_hash m(1) find_torrent_Some [OF Some] by (fastforce simp: update_metadata_def)
  then have "map t_hash (update_torrent hash (\<lambda>_. t') (s_torrents s)) = map t_hash (s_torrents s)"
    by (intro update_torrent_hashes) simp
  with m show ?thesis by simp
qed (use assms in \<open>auto simp: handle_metadata_received_alert_def\<close>)

lemma handle_alert_hashes:
  assumes "handle_alert env global a s fs = Inr (s', fs')"
  shows "map t_hash (s_torrents s') = map t_hash (s_torrents s)"
proof (cases a)
  case (Torrent_alert hash ta)
  with assms dispatch_hashes show ?thesis by (fastforce simp: handle_alert_def)
next
  case (State_update_alert us)
  with assms handle_state_update_hashes show ?thesis by (auto simp: handle_alert_def)
next
  case (Metadata_received_alert hash)
  with assms metadata_hashes show ?thesis by (fastforce simp: handle_alert_def)
qed (use assms in \<open>auto simp: handle_alert_def handle_session_stats_alert_def bind_result_eq_Inr split: if_splits\<close>)

section \<open>Runs of a session\<close>

text \<open>
  Everything that happens to a session, in any order: the requests and threads of the program
  interleave, and operations of a torrent (\<open>torrent\<close>) run on the shared object. A removal is
  two steps with anything in between.
\<close>

inductive session_step ::
  "('n, 'h) session_env \<Rightarrow> ('n, 'h) session \<times> file_system \<Rightarrow> ('n, 'h) session \<times> file_system \<Rightarrow> bool" for env where
  add: "resume_files_ok env (s_config s) fs \<Longrightarrow> add_torrent env global uri paused st first added s fs = (r, s', fs') \<Longrightarrow>
    session_step env (s, fs) (s', fs')"
| remove: "remove_torrent_begin env hash df dd s fs = Inr (s', fs') \<Longrightarrow> session_step env (s, fs) (s', fs')"
| erase: "remove_torrent_erase hash s = Inr s' \<Longrightarrow> session_step env (s, fs) (s', fs)"
| alert: "handle_alert env global a s fs = Inr (s', fs') \<Longrightarrow> session_step env (s, fs) (s', fs')"
| torrent: "(\<And>t. t_hash (f t) = t_hash t) \<Longrightarrow>
    session_step env (s, fs) (s\<lparr>s_torrents := update_torrent hash f (s_torrents s)\<rparr>, fs)"
| clear: "session_step env (s, fs) (s\<lparr>s_torrents := []\<rparr>, fs)"
| save: "session_step env (s, fs) (trigger_resume_data (e_lt env) s, fs)"
| trackers: "load_trackers env s = Inr s' \<Longrightarrow> session_step env (s, fs) (s', fs)"
| refresh: "session_step env (s, fs) (request_update (e_ls env) s, fs)"
| configured: "reconfigure env global s = (r, s') \<Longrightarrow> session_step env (s, fs) (s', fs)"
| started: "session_step env (s, fs) (start_services (e_ls env) s, fs)"
| closed: "session_step env (s, fs) (close (e_ls env) s, fs)"
| paused: "session_step env (s, fs) (session_pause (e_ls env) s, fs)"
| resumed: "session_step env (s, fs) (session_resume (e_ls env) s, fs)"
| files: "session_step env (s, fs) (s, fs')"

inductive session_reachable :: "('n, 'h) session_env \<Rightarrow> ('n, 'h) session \<times> file_system \<Rightarrow> bool" for env where
  start: "s_torrents s = [] \<Longrightarrow> session_reachable env (s, fs)"
| step: "session_reachable env x \<Longrightarrow> session_step env x y \<Longrightarrow> session_reachable env y"

lemma erase_unique: "erase_torrent hash ts = Inr ts' \<Longrightarrow> distinct (map t_hash ts) \<Longrightarrow> distinct (map t_hash ts') \<and> set ts' \<subseteq> set ts"
proof (induction ts arbitrary: ts')
  case (Cons t ts)
  show ?case
  proof (cases "t_hash t = hash")
    case False
    then obtain us where us: "erase_torrent hash ts = Inr us" "ts' = t # us"
      using Cons.prems(1) by (auto simp: bind_result_eq_Inr)
    then have "distinct (map t_hash us)" "set us \<subseteq> set ts" using Cons by auto
    with us Cons.prems(2) show ?thesis using image_mono [of "set us" "set ts" t_hash] by auto
  qed (use Cons.prems in auto)
qed simp

lemma load_trackers_torrents:
  assumes "load_trackers env s = Inr s'"
  shows "s_torrents s' = s_torrents s"
proof -
  consider "s' = s" | "s' = s\<lparr>s_extra_trackers := default_trackers\<rparr>" |
    body where "s' = s\<lparr>s_extra_trackers := default_trackers @ filter (\<lambda>l. l \<noteq> []) (map (e_trim env) (split_lines body))\<rparr>"
    using assms unfolding load_trackers_def bind_result_def
    by (fastforce split: if_splits sum.splits option.splits prod.splits)
  then show ?thesis by cases simp_all
qed

lemma session_step_unique:
  assumes "session_step env x y" and "hash_api_ok env" and "unique_torrents (fst x)"
  shows "unique_torrents (fst y)"
  using assms(1)
proof cases
  case (add s fs global uri paused st first added r s' fs')
  with add_torrent_cases [OF add(4) assms(2) add(3)] unique_add_outcome assms(3) show ?thesis by auto
next
  case (remove hash df dd s fs s' fs')
  with remove_torrent_begin_eq [OF remove(3)] assms(3) show ?thesis by (auto simp: unique_torrents_def)
next
  case (erase hash s s' fs)
  with assms(3) show ?thesis
    by (auto simp: unique_torrents_def remove_torrent_erase_def bind_result_eq_Inr dest: erase_unique)
next
  case (alert global a s fs s' fs')
  with handle_alert_hashes [OF alert(3)] assms(3) show ?thesis by (simp add: unique_torrents_def)
next
  case (torrent f s fs hash)
  with update_torrent_hashes [of "s_torrents s" hash f] assms(3) show ?thesis by (simp add: unique_torrents_def)
next
  case (trackers s s' fs)
  with load_trackers_torrents [OF trackers(3)] assms(3) show ?thesis by (simp add: unique_torrents_def)
qed (use assms(3) in \<open>auto simp: unique_torrents_def trigger_resume_data_def request_update_def
    reconfigure_def close_def start_services_def stop_services_def session_pause_def session_resume_def Let_def comp_def
    split: option.splits sum.splits prod.splits if_splits\<close>)

lemma session_reachable_unique: "session_reachable env x \<Longrightarrow> hash_api_ok env \<Longrightarrow> unique_torrents (fst x)"
proof (induction rule: session_reachable.induct)
  case (step x y)
  then show ?case using session_step_unique by blast
qed (simp add: unique_torrents_def)

section \<open>A concrete session\<close>

record demo_native =
  dn_ports :: "int list"
  dn_settings :: settings_pack
  dn_calls :: "string list"

definition demo_params :: add_params where
  "demo_params = \<lparr>ap_ti = None, ap_info_hash = [], ap_trackers = [''udp://a''], ap_file_priorities = [], ap_max_connections = 0,
     ap_save_path = [], ap_sequential = False, ap_memory_storage = False\<rparr>"

text \<open>The handle of a torrent remembers its hash as the first call.\<close>

definition demo_ls :: "(demo_native, lt_demo) lt_session_api" where
  "demo_ls = \<lparr>
     ls_apply_settings = (\<lambda>n p. n\<lparr>dn_settings := p\<rparr>),
     ls_add_port_mapping = (\<lambda>n p. ([p], n\<lparr>dn_ports := p # dn_ports n\<rparr>)),
     ls_delete_port_mapping = (\<lambda>n p. n\<lparr>dn_ports := remove1 p (dn_ports n)\<rparr>),
     ls_post_torrent_updates = (\<lambda>n. n), ls_post_session_stats = (\<lambda>n. n),
     ls_add_torrent = (\<lambda>n p. (Inr (demo_handle\<lparr>d_calls := [params_hash p]\<rparr>), n)),
     ls_remove_torrent = (\<lambda>n h fl. n\<lparr>dn_calls := dn_calls n @ [''remove'']\<rparr>),
     ls_is_paused = (\<lambda>n. False), ls_pause = (\<lambda>n. n), ls_resume = (\<lambda>n. n),
     ls_info_hash = (\<lambda>h. case d_calls h of [] \<Rightarrow> [] | x # xs \<Rightarrow> x),
     ls_storage_impl = (\<lambda>h. Some demo_storage),
     ls_parse_magnet = (\<lambda>uri. Inr (demo_params\<lparr>ap_info_hash := ''h'' @ drop 6 uri\<rparr>)),
     ls_load_info = (\<lambda>fs path. case fs path of None \<Rightarrow> Inl ''No such file''
       | Some body \<Rightarrow> Inr \<lparr>ir_hash = ''h'' @ body, ir_priv = False, ir_info = demo_info\<rparr>),
     ls_read_resume = (\<lambda>body. Inl ''invalid resume data''),
     ls_empty_params = demo_params, ls_stats_metrics = [(''peers'', 0), (''sent'', 1)]\<rparr>"

definition demo_settings_env :: settings_env where
  "demo_settings_env = \<lparr>se_mkpath = (\<lambda>p. None), se_cpu = 4, se_version = ''1.0'',
     se_profiles = (Map.empty, Map.empty), se_rand = int\<rparr>"

definition demo_session_env :: "(demo_native, lt_demo) session_env" where
  "demo_session_env = \<lparr>e_lt = demo_api\<lparr>lt_resume := (\<lambda>d. d)\<rparr>, e_query = demo_query, e_ls = demo_ls,
     e_settings = demo_settings_env, e_join_path = (\<lambda>a b. a @ ''/'' @ b), e_bencode = ti_name, e_can_write = (\<lambda>f. True),
     e_empty_status = demo_status, e_trim = (\<lambda>s. s), e_request = (\<lambda>server path. Some (200, ''udp://x'')), e_modtime = (\<lambda>p. Some 0),
     e_list_dir = (\<lambda>p. None)\<rparr>"

definition demo_session :: "(demo_native, lt_demo) session" where
  "demo_session = \<lparr>s_native = \<lparr>dn_ports = [], dn_settings = Map.empty, dn_calls = []\<rparr>, s_pack = Map.empty, s_session_stats = [],
     s_mapped_ports = [(6891, [])], s_config = default_config False, s_torrents = [demo_torrent], s_refresh_requested = False,
     s_isClosing = False, s_extra_trackers = default_trackers, s_memory_size = 0\<rparr>"

lemma demo_hash_api: "hash_api_ok demo_session_env"
  by (simp add: hash_api_ok_def demo_session_env_def demo_ls_def demo_params_def split: option.split)

lemma demo_torrent_hash: "t_hash demo_torrent = ''d0''"
  by (simp add: demo_torrent_def)

lemma unique_demo: "unique_torrents demo_session"
  by (simp add: unique_torrents_def demo_session_def)

section \<open>Properties of the list of torrents\<close>

text \<open>
  However requests, threads and alerts interleave, the torrents of a session have different
  hashes.
\<close>

lemma session_unique:
  assumes "session_reachable env (s, fs)" and "hash_api_ok env"
  shows "distinct (map t_hash (s_torrents s))"
  using session_reachable_unique [OF assms] by (simp add: unique_torrents_def)

lemma session_unique_example:
  "distinct (map t_hash (s_torrents (fst (snd
     (add_torrent demo_session_env (default_config False) ''magnet1'' True Storage_memory True 0 (demo_session\<lparr>s_torrents := []\<rparr>) Map.empty)))))"
proof -
  let ?s = "demo_session\<lparr>s_torrents := []\<rparr>"
  obtain r s' fs' where a: "add_torrent demo_session_env (default_config False) ''magnet1'' True Storage_memory True 0 ?s Map.empty = (r, s', fs')"
    by (metis prod_cases3)
  have "session_reachable demo_session_env (?s, Map.empty)" by (rule session_reachable.start) simp
  moreover have "resume_files_ok demo_session_env (s_config ?s) Map.empty" by (simp add: resume_files_ok_def)
  ultimately have "session_reachable demo_session_env (s', fs')"
    using session_reachable.step session_step.add a by blast
  from session_unique [OF this demo_hash_api] a show ?thesis by simp
qed



text \<open>
  C20. Removing a torrent: if no torrent has the hash, \<open>remove_torrent\<close> throws a
  \<open>TorrentException\<close>; otherwise that torrent leaves the list, the others stay in their
  order, and exactly the files of the removed torrent that the flags name are deleted.
\<close>

theorem remove_torrent_effect:
  assumes "unique_torrents s"
  shows "case find_torrent hash (s_torrents s) of
      None \<Rightarrow> \<exists>m. remove_torrent env hash df dd s fs = Inl (Throw TorrentException m)
    | Some t \<Rightarrow> \<exists>s'. remove_torrent env hash df dd s fs = Inr (True, s', snd (snd (remove df dd t fs))) \<and>
        s_torrents s' = filter (\<lambda>u. t_hash u \<noteq> hash) (s_torrents s) \<and> \<not> has_torrent s' hash"
proof (cases "find_torrent hash (s_torrents s)")
  case None
  then show ?thesis by (simp add: remove_torrent_def remove_torrent_begin_def get_torrent_def)
next
  case (Some t)
  obtain t' flags fs' where r: "remove df dd t fs = (t', flags, fs')" by (metis prod_cases3)
  have h: "t_hash t' = hash" using remove_hash [OF r] find_torrent_Some [OF Some] by simp
  let ?ts = "update_torrent hash (\<lambda>_. t') (s_torrents s)"
  have hs: "map t_hash ?ts = map t_hash (s_torrents s)" using h by (intro update_torrent_hashes) simp
  have "hash \<in> set (map t_hash (s_torrents s))" using find_torrent_Some [OF Some] by auto
  then have d: "distinct (map t_hash ?ts)" "hash \<in> t_hash ` set ?ts"
    using hs assms by (simp_all add: unique_torrents_def flip: set_map)
  have "filter (\<lambda>u. t_hash u \<noteq> hash) ?ts = filter (\<lambda>u. t_hash u \<noteq> hash) (s_torrents s)"
    using assms h by (subst update_torrent_map) (auto simp: unique_torrents_def filter_map comp_def intro: map_idI)
  with Some r d erase_torrent_filter [OF d] show ?thesis
    by (auto simp: remove_torrent_def remove_torrent_begin_def get_torrent_def remove_torrent_erase_def has_torrent_iff)
qed

theorem remove_torrent_effect_witness:
  "\<exists>s'. remove_torrent demo_session_env ''d0'' True True demo_session Map.empty = Inr (True, s', Map.empty) \<and> s_torrents s' = []"
proof -
  have f: "find_torrent ''d0'' (s_torrents demo_session) = Some demo_torrent"
    by (simp add: find_torrent_def demo_session_def demo_torrent_hash)
  have "snd (snd (remove True True demo_torrent Map.empty)) = Map.empty" by (simp add: remove_def remove_if_exists_def Let_def)
  with remove_torrent_effect [OF unique_demo, where hash = "''d0''" and env = demo_session_env and df = True and dd = True and fs = Map.empty] f show ?thesis
    by (auto simp: demo_session_def demo_torrent_hash)
qed

text \<open>
  C37. Two removals of the same torrent at the same time: \<open>remove_torrent\<close> looks the torrent
  up and erases it under two separate locks. When both requests have looked it up before the first
  one erases it, the second calls \<open>erase\<close> on the end iterator, which is undefined.
\<close>

theorem concurrent_remove:
  assumes "unique_torrents s" and "remove_torrent_begin env hash df dd s fs = Inr (s1, fs1)"
    and "remove_torrent_begin env hash df' dd' s1 fs1 = Inr (s2, fs2)"
  shows "\<exists>s3. remove_torrent_erase hash s2 = Inr s3 \<and> remove_torrent_erase hash s3 = Inl Undefined"
proof -
  have hs: "map t_hash (s_torrents s2) = map t_hash (s_torrents s)" "hash \<in> set (map t_hash (s_torrents s))"
    using remove_torrent_begin_eq [OF assms(2)] remove_torrent_begin_eq [OF assms(3)] find_torrent_Some by force+
  have d: "distinct (map t_hash (s_torrents s2))" "hash \<in> t_hash ` set (s_torrents s2)"
    using hs assms(1) by (auto simp: unique_torrents_def simp flip: set_map)
  have "erase_torrent hash (filter (\<lambda>t. t_hash t \<noteq> hash) (s_torrents s2)) = Inl Undefined"
    by (rule erase_torrent_absent) auto
  with erase_torrent_filter [OF d] show ?thesis by (simp add: remove_torrent_erase_def)
qed

theorem concurrent_remove_witness:
  "case remove_torrent_begin demo_session_env ''d0'' False False demo_session Map.empty of
     Inl e \<Rightarrow> False
   | Inr (s1, fs1) \<Rightarrow> (case remove_torrent_begin demo_session_env ''d0'' False False s1 fs1 of
       Inl e \<Rightarrow> False
     | Inr (s2, fs2) \<Rightarrow> \<exists>s3. remove_torrent_erase ''d0'' s2 = Inr s3 \<and> remove_torrent_erase ''d0'' s3 = Inl Undefined)"
proof -
  let ?b = "\<lambda>s fs. remove_torrent_begin demo_session_env ''d0'' False False s fs"
  have f: "find_torrent ''d0'' (s_torrents s) \<noteq> None \<Longrightarrow> \<exists>s1 fs1. ?b s fs = Inr (s1, fs1)" for s fs
    by (auto simp: remove_torrent_begin_def get_torrent_def split: prod.splits)
  have "find_torrent ''d0'' (s_torrents demo_session) \<noteq> None"
    by (simp add: find_torrent_def demo_session_def demo_torrent_hash)
  with f obtain s1 fs1 where 1: "?b demo_session Map.empty = Inr (s1, fs1)" by blast
  then have "map t_hash (s_torrents s1) = map t_hash (s_torrents demo_session)" using remove_torrent_begin_eq by blast
  then have "''d0'' \<in> set (map t_hash (s_torrents s1))" by (simp add: demo_session_def demo_torrent_hash)
  then have "find_torrent ''d0'' (s_torrents s1) \<noteq> None" by (simp add: find_torrent_None)
  with f obtain s2 fs2 where 2: "?b s1 fs1 = Inr (s2, fs2)" by blast
  from concurrent_remove [OF unique_demo 1 2] 1 2 show ?thesis by simp
qed

end
