(* ===== verification/Session_Guarantees.thy ===== *)
theory Session_Guarantees
  imports Session_Properties "HOL-Library.Multiset"
begin

text \<open>
  Further properties of a session: the trackers it adds, the settings it derives from the
  configuration, its services, the effect of status updates and the end of the alert thread.
\<close>

section \<open>Trackers\<close>

lemma add_trackers_spec:
  "\<exists>new. add_trackers extra trs = trs @ new \<and> set (trs @ new) = set trs \<union> set extra \<and> distinct new \<and> set new \<inter> set trs = {}"
proof (induction extra arbitrary: trs)
  case (Cons tr extra)
  show ?case
  proof (cases "tr \<in> set trs")
    case True
    with Cons.IH [of trs] show ?thesis by auto
  next
    case False
    obtain new where n: "add_trackers extra (trs @ [tr]) = (trs @ [tr]) @ new"
      "set ((trs @ [tr]) @ new) = set (trs @ [tr]) \<union> set extra" "distinct new" "set new \<inter> set (trs @ [tr]) = {}"
      using Cons.IH [of "trs @ [tr]"] by blast
    with False show ?thesis by (intro exI [of _ "tr # new"]) auto
  qed
qed simp



section \<open>Settings\<close>

lemma configure_eq:
  assumes "configure env c pack = Inr (pack', c', ports)"
  shows "\<exists>listen. c' = adjusted_config c \<and> listen_loop (se_rand env) 0 c' (interfaces c') ([], []) = Inr (ports, listen) \<and>
    pack' = set_pack ((''listen_interfaces'', Text listen) # outgoing_settings c') (configured_pack env c pack)"
  using assms by (auto simp: configure_def Let_def bind_result_eq_Inr simp del: set_pack_Cons split: if_splits)

lemma configure_lookup:
  assumes "configure env c pack = Inr (pack', c', ports)" and "k \<noteq> ''listen_interfaces''" and "k \<noteq> ''outgoing_interfaces''"
  shows "pack' k = configured_pack env c pack k"
  using configure_eq [OF assms(1)] assms(2,3) by (auto simp: outgoing_settings_def)

definition no_mappings :: "port_map \<Rightarrow> bool" where
  "no_mappings ps \<longleftrightarrow> (\<forall>e \<in> set ps. snd e = [])"

lemma no_mappings_set: "no_mappings ps \<Longrightarrow> no_mappings (map_set p [] ps)"
proof (induction ps)
  case (Cons e ps)
  obtain q ids where "e = (q, ids)" by fastforce
  with Cons show ?case by (simp add: no_mappings_def)
qed (simp add: no_mappings_def)

lemma listen_loop_ports:
  "listen_loop rand k c is st = Inr st' \<Longrightarrow> no_mappings (fst st) \<Longrightarrow> no_mappings (fst st')"
proof (induction "is" arbitrary: k st)
  case (Cons i "is")
  have a: "no_mappings (fst (add_listen i p st))" if "no_mappings (fst st)" for p st
    using that by (simp add: add_listen_def no_mappings_set)
  obtain p where p: "random (rand k) (c_listen_port_min c) (c_listen_port_max c) = Inr p"
    using Cons.prems(1) by (auto simp: bind_result_eq_Inr)
  show ?case
  proof (cases "c_listen_port_max c - c_listen_port_min c > 0")
    case True
    then obtain q where "listen_loop rand (k + 2) c is (add_listen i q (add_listen i p st)) = Inr st'"
      using Cons.prems(1) p by (auto simp: bind_result_eq_Inr Let_def)
    with Cons.IH a Cons.prems(2) show ?thesis by blast
  next
    case False
    then have "listen_loop rand (k + 1) c is (add_listen i p st) = Inr st'"
      using Cons.prems(1) p by (auto simp: bind_result_eq_Inr Let_def)
    with Cons.IH a Cons.prems(2) show ?thesis by blast
  qed
qed simp

lemmas settings_defs = config_settings_def storage_settings_def connection_settings_def rate_settings_def seed_settings_def
  encryption_settings_def proxy_settings_def alert_settings_def outgoing_settings_def

text \<open>The names that a group of settings can set, for settings that are set elsewhere.\<close>

lemma storage_settings_names: "fst ` set (storage_settings c) \<subseteq> {''use_read_cache'', ''coalesce_reads'', ''coalesce_writes'', ''max_queued_disk_bytes''}"
  by (auto simp: storage_settings_def split: if_splits)

lemma connection_settings_names: "fst ` set (connection_settings c) \<subseteq> {''connections_limit'', ''connection_speed''}"
  by (auto simp: connection_settings_def split: if_splits)

lemma rate_settings_names: "fst ` set (rate_settings c) \<subseteq> {''download_rate_limit'', ''upload_rate_limit''}"
  by (auto simp: rate_settings_def split: if_splits)

lemma seed_settings_names: "fst ` set (seed_settings c) \<subseteq> {''share_ratio_limit'', ''seed_time_ratio_limit'', ''seed_time_limit''}"
  by (auto simp: seed_settings_def split: if_splits)

lemma encryption_settings_names:
  "fst ` set (encryption_settings c) \<subseteq> {''allowed_enc_level'', ''prefer_rc4'', ''out_enc_policy'', ''in_enc_policy''}"
  by (cases "c_encryption_policy c") (auto simp: encryption_settings_def)

lemma proxy_settings_names:
  "fst ` set (proxy_settings c) \<subseteq> {''proxy_type'', ''i2p_port'', ''i2p_hostname'', ''allow_i2p_mixed'', ''proxy_port'',
     ''proxy_hostname'', ''proxy_username'', ''proxy_password'', ''proxy_peer_connections'', ''proxy_hostnames'', ''proxy_tracker_connections''}"
  by (cases "c_proxy_type c") (auto simp: proxy_settings_def split: if_splits)

lemma alert_settings_names: "fst ` set (alert_settings c) \<subseteq> {''alert_mask''}"
  by (auto simp: alert_settings_def split: if_splits)

lemma config_settings_other:
  assumes "k \<notin> fst ` set (storage_settings c)" "k \<notin> fst ` set (connection_settings c)" "k \<notin> fst ` set (rate_settings c)"
    "k \<notin> fst ` set (seed_settings c)" "k \<notin> fst ` set (encryption_settings c)" "k \<notin> fst ` set (proxy_settings c)"
    "k \<notin> fst ` set (alert_settings c)"
  shows "set_pack (config_settings c) pack k = pack k"
  using assms by (intro set_pack_other) (simp add: config_settings_def image_Un)

lemmas settings_names = storage_settings_names connection_settings_names rate_settings_names seed_settings_names
  encryption_settings_names proxy_settings_names alert_settings_names

lemma service_not_in_config:
  assumes "k \<in> {''enable_dht'', ''enable_lsd'', ''enable_upnp'', ''enable_natpmp'', ''user_agent''}"
  shows "set_pack (config_settings c) pack k = pack k" and "k \<notin> fst ` set memory_settings"
proof -
  show "set_pack (config_settings c) pack k = pack k"
    by (rule config_settings_other; rule contra_subsetD [OF settings_names(1)] contra_subsetD [OF settings_names(2)]
        contra_subsetD [OF settings_names(3)] contra_subsetD [OF settings_names(4)] contra_subsetD [OF settings_names(5)]
        contra_subsetD [OF settings_names(6)] contra_subsetD [OF settings_names(7)]; use assms in auto)
  show "k \<notin> fst ` set memory_settings" using assms by (auto simp: memory_settings_def)
qed

lemma configured_pack_service:
  assumes "k \<in> {''enable_dht'', ''enable_lsd'', ''enable_upnp'', ''enable_natpmp'', ''user_agent''}"
  shows "configured_pack env c pack k =
    apply_profile (se_profiles env) c (set_pack (base_settings (se_cpu env) (get_user_agent (se_version env) c)) pack) k"
  using service_not_in_config [OF assms] set_pack_other
  by (cases "session_memory_storage c") (simp_all add: configured_pack_def Let_def)

lemma base_settings_services:
  "set_pack (base_settings cpu ua) pack ''enable_dht'' = Some (Flag False)"
  "set_pack (base_settings cpu ua) pack ''enable_lsd'' = Some (Flag False)"
  "set_pack (base_settings cpu ua) pack ''enable_upnp'' = Some (Flag False)"
  "set_pack (base_settings cpu ua) pack ''enable_natpmp'' = Some (Flag False)"
  "set_pack (base_settings cpu ua) pack ''user_agent'' = Some (Text ua)"
  by (simp_all add: base_settings_def)

lemma memory_settings_lookup:
  "set_pack memory_settings pack ''cache_size'' = Some (Number 0)"
  "set_pack memory_settings pack ''share_ratio_limit'' = Some (Number 0)"
  "set_pack memory_settings pack ''seed_time_limit'' = Some (Number 0)"
  "set_pack memory_settings pack ''use_read_cache'' = Some (Flag False)"
  by (simp_all add: memory_settings_def)

lemma adjusted_memory:
  assumes "session_memory_storage c" and "0 \<le> c_buffer_size c + c_end_buffer_size c" and "c_buffer_size c + c_end_buffer_size c + 8 < 2 ^ 31"
  shows "needed_memory (adjusted_config c) \<le> session_memory_size (adjusted_config c)"
    and "c_memory_size c \<le> c_memory_size (adjusted_config c)"
proof -
  let ?n = "c_buffer_size c + c_end_buffer_size c + 8"
  have n: "needed_memory c = ?n * 1024 * 1024" by (simp add: needed_memory_def)
  have "to_int32 (needed_memory c sdiv 1024 sdiv 1024) = ?n"
    using assms(2,3) by (simp add: n sdiv_nonneg to_int32_id)
  then show "needed_memory (adjusted_config c) \<le> session_memory_size (adjusted_config c)"
    "c_memory_size c \<le> c_memory_size (adjusted_config c)"
    using n assms(1) by (auto simp: adjusted_config_def listen_ports_def raise_memory_def session_memory_size_def needed_memory_def)
qed


text \<open>\<open>configure\<close> succeeds when the directories can be made and the ports are a range.\<close>

lemma listen_loop_ok:
  "c_listen_port_max c + 1 - c_listen_port_min c \<noteq> 0 \<Longrightarrow> \<exists>st'. listen_loop rand k c is st = Inr st'"
proof (induction "is" arbitrary: k st)
  case (Cons i "is")
  then show ?case by (simp add: random_def Let_def)
qed simp

lemma configure_ok:
  assumes "check_directories (se_mkpath env) c = Inr ()" and "settings_fit c"
    and "c_listen_port_max (adjusted_config c) + 1 - c_listen_port_min (adjusted_config c) \<noteq> 0"
  shows "\<exists>p c' ports. configure env c pack = Inr (p, c', ports)"
proof -
  obtain st where "listen_loop (se_rand env) 0 (adjusted_config c) (interfaces (adjusted_config c)) ([], []) = Inr st"
    using listen_loop_ok [OF assms(3)] by blast
  with assms(1,2) show ?thesis by (cases st) (simp add: configure_def Let_def)
qed

lemma demo_configure: "\<exists>p c ports. configure demo_settings_env (default_config False) pack = Inr (p, c, ports)"
proof -
  let ?c = "default_config False"
  have "check_directories (se_mkpath demo_settings_env) ?c = Inr ()"
    by (simp add: check_directories_def demo_settings_env_def default_config_def)
  moreover have "settings_fit ?c" by (simp add: settings_fit_def fits_int_def default_config_def)
  moreover have "c_listen_port_max (adjusted_config ?c) + 1 - c_listen_port_min (adjusted_config ?c) \<noteq> 0"
    by (simp add: adjusted_config_def listen_ports_def raise_memory_def default_config_def)
  ultimately show ?thesis by (rule configure_ok)
qed




text \<open>A profile other than the default one discards what was set before it, such as the user agent.\<close>

lemma profile_discards_settings:
  assumes "configure env c pack = Inr (pack', c', ports)" and "c_libtorrent_profile c = Profile_minimal_memory"
  shows "pack' ''user_agent'' = fst (se_profiles env) ''user_agent''"
  using configure_lookup [OF assms(1), of "''user_agent''"] configured_pack_service [of "''user_agent''" env c pack] assms(2)
  by (simp add: apply_profile_def)

section \<open>Services\<close>

text \<open>
  What libtorrent promises of port mappings: adding one adds the mappings it returns, deleting one
  removes it, and settings do not touch them.
\<close>

definition port_api_ok :: "('n, 'h) lt_session_api \<Rightarrow> ('n \<Rightarrow> int multiset) \<Rightarrow> bool" where
  "port_api_ok ls mappings \<longleftrightarrow>
     (\<forall>n p ids n'. ls_add_port_mapping ls n p = (ids, n') \<longrightarrow> mappings n' = mset ids + mappings n) \<and>
     (\<forall>n i. mappings (ls_delete_port_mapping ls n i) = mappings n - {#i#}) \<and>
     (\<forall>n pack. mappings (ls_apply_settings ls n pack) = mappings n)"

lemma port_api_add:
  "port_api_ok ls mappings \<Longrightarrow> ls_add_port_mapping ls n p = (ids, n') \<Longrightarrow> mappings n' = mset ids + mappings n"
  unfolding port_api_ok_def by blast

lemma port_api_simps:
  assumes "port_api_ok ls mappings"
  shows "mappings (ls_delete_port_mapping ls n i) = mappings n - {#i#}" "mappings (ls_apply_settings ls n pack) = mappings n"
  using assms unfolding port_api_ok_def by blast+

lemma map_ports_mappings:
  assumes ok: "port_api_ok ls mappings"
  shows "map_ports ls ps n = (ps', n') \<Longrightarrow> mappings n' = mset (concat (map snd ps')) + mappings n"
proof (induction ps arbitrary: n ps')
  case (Cons e ps)
  obtain port old where e: "e = (port, old)" by fastforce
  obtain ids n1 where a: "ls_add_port_mapping ls n port = (ids, n1)" by fastforce
  obtain qs n2 where m: "map_ports ls ps n1 = (qs, n2)" by fastforce
  from Cons.prems e a m have "ps' = (port, ids) # qs" "n' = n2" by auto
  with Cons.IH m port_api_add [OF ok a] show ?case by simp
qed simp

lemma delete_mappings:
  assumes ok: "port_api_ok ls mappings"
  shows "mappings (foldl (ls_delete_port_mapping ls) n ids) = mappings n - mset ids"
  by (induction ids arbitrary: n) (simp_all add: port_api_simps [OF ok])

text \<open>
  C30. Stopping the services undoes starting them: the port mappings in libtorrent are again those
  from before, the session keeps none, and every service that was started is disabled.
\<close>

theorem start_stop_services:
  assumes "port_api_ok ls mappings" and "s' = stop_services ls (start_services ls s)"
  shows "mappings (s_native s') = mappings (s_native s) \<and> s_mapped_ports s' = [] \<and>
    (\<not> c_disable_dht (s_config s) \<longrightarrow> s_pack s' ''enable_dht'' = Some (Flag False)) \<and>
    (\<not> c_disable_lsd (s_config s) \<longrightarrow> s_pack s' ''enable_lsd'' = Some (Flag False)) \<and>
    (\<not> c_disable_upnp (s_config s) \<longrightarrow> s_pack s' ''enable_upnp'' = Some (Flag False) \<and> s_pack s' ''enable_natpmp'' = Some (Flag False))"
proof -
  let ?pack = "set_pack (start_settings (s_config s)) (s_pack s)"
  obtain ps n where m: "map_ports ls (s_mapped_ports s) (ls_apply_settings ls (s_native s) ?pack) = (ps, n)" by fastforce
  have s: "start_services ls s = s\<lparr>s_pack := ?pack, s_mapped_ports := ps, s_native := n\<rparr>"
    using m by (simp add: start_services_def Let_def)
  have "mappings (s_native s') = mappings n - mset (concat (map snd ps))"
    unfolding assms(2) s by (simp add: stop_services_def Let_def port_api_simps [OF assms(1)] delete_mappings [OF assms(1)])
  moreover have "mappings n = mset (concat (map snd ps)) + mappings (s_native s)"
    using map_ports_mappings [OF assms(1) m] by (simp add: port_api_simps [OF assms(1)])
  moreover have "s_mapped_ports s' = []" "s_pack s' = set_pack (stop_settings (s_config s)) ?pack"
    unfolding assms(2) s by (simp_all add: stop_services_def Let_def)
  ultimately show ?thesis by (simp add: stop_settings_def)
qed

theorem start_stop_services_witness:
  "mset (dn_ports (s_native (stop_services demo_ls (start_services demo_ls demo_session)))) = {#}"
proof -
  have "port_api_ok demo_ls (\<lambda>n. mset (dn_ports n))" by (simp add: port_api_ok_def demo_ls_def)
  from start_stop_services [OF this refl, of demo_session] show ?thesis by (simp add: demo_session_def)
qed

section \<open>Status updates\<close>

lemma update_status_twice: "update_status st2 (update_status st1 t) = update_status st2 t"
  by (simp add: update_status_def update_state_def computed_state_def has_error_def has_metadata_def is_paused_def is_queued_def
      is_seed_def is_forced_def Let_def)

lemma update_status_torrents:
  assumes "unique_torrents s"
  shows "s_torrents (if has_torrent s hash then s\<lparr>s_torrents := update_torrent hash (update_status st) (s_torrents s)\<rparr> else s) =
    map (\<lambda>t. if t_hash t = hash then update_status st t else t) (s_torrents s)"
  using assms update_torrent_map [of "s_torrents s" hash "update_status st"]
  by (auto simp: unique_torrents_def has_torrent_iff intro!: map_idI [symmetric])

text \<open>
  C23. Status updates reach exactly the torrents they name: after a state update alert every torrent
  has the last status that the alert holds for its hash, with the state that belongs to it, and a
  torrent that is not mentioned is unchanged. Statuses of unknown torrents are ignored.
\<close>

theorem state_update_effect:
  assumes "unique_torrents s"
  shows "s_torrents (handle_state_update_alert us s) =
    map (\<lambda>t. case map_of (rev us) (t_hash t) of None \<Rightarrow> t | Some st \<Rightarrow> update_status st t) (s_torrents s)"
  using assms
proof (induction us arbitrary: s)
  case (Cons u us)
  obtain hash st where u: "u = (hash, st)" by fastforce
  let ?s = "if has_torrent s hash then s\<lparr>s_torrents := update_torrent hash (update_status st) (s_torrents s)\<rparr> else s"
  have t: "s_torrents ?s = map (\<lambda>t. if t_hash t = hash then update_status st t else t) (s_torrents s)"
    by (rule update_status_torrents [OF Cons.prems])
  have "map t_hash (s_torrents ?s) = map t_hash (s_torrents s)" unfolding t by simp
  then have "unique_torrents ?s" using Cons.prems by (simp add: unique_torrents_def)
  from Cons.IH [OF this] show ?case
    unfolding u handle_state_update_alert.simps t
    by (auto simp: update_status_twice map_add_def split: option.splits)
qed simp

theorem state_update_effect_witness:
  "s_torrents (handle_state_update_alert [(''d0'', demo_status\<lparr>st_errc := True\<rparr>), (''zz'', demo_status)] demo_session) =
     [update_status (demo_status\<lparr>st_errc := True\<rparr>) demo_torrent]"
  using state_update_effect [OF unique_demo, of "[(''d0'', demo_status\<lparr>st_errc := True\<rparr>), (''zz'', demo_status)]"]
  by (simp add: demo_session_def demo_torrent_hash)

section \<open>The alert thread\<close>

definition loop_running :: "('n, 'h) alert_loop result \<Rightarrow> bool" where
  "loop_running r \<longleftrightarrow> (case r of Inl e \<Rightarrow> False | Inr st \<Rightarrow> \<not> al_returned st)"

lemma consume_round_step:
  assumes "consume_round env global rounds st = Inr st'"
  shows "al_round st' = Suc (al_round st)" and "ar_closing (rounds (al_round st)) \<Longrightarrow> al_returned st'"
  using assms by (auto simp: consume_round_def Let_def bind_result_eq_Inr split: if_splits)

lemma loop_stops:
  assumes "ar_closing (rounds k)"
  shows "(case r of Inl e \<Rightarrow> True | Inr st \<Rightarrow> al_returned st \<or> al_round st \<le> k) \<Longrightarrow>
    \<exists>r'. while_option loop_running (\<lambda>r. bind_result r (consume_round env global rounds)) r = Some r'"
proof (induction "case r of Inl e \<Rightarrow> 0 | Inr st \<Rightarrow> if al_returned st then 0 else Suc k - al_round st" arbitrary: r rule: less_induct)
  case less
  show ?case
  proof (cases "loop_running r")
    case False
    then show ?thesis by (subst while_option_unfold) simp
  next
    case True
    then obtain st where st: "r = Inr st" "\<not> al_returned st" by (auto simp: loop_running_def split: sum.splits)
    let ?r = "consume_round env global rounds st"
    have k: "al_round st \<le> k" using less.prems st by simp
    have "(case ?r of Inl e \<Rightarrow> True | Inr st' \<Rightarrow> al_returned st' \<or> al_round st' \<le> k) \<and>
        (case ?r of Inl e \<Rightarrow> 0 | Inr st' \<Rightarrow> if al_returned st' then 0 else Suc k - al_round st') < Suc k - al_round st"
    proof (cases ?r)
      case (Inr st')
      note c = consume_round_step [OF Inr]
      have "al_returned st' \<or> al_round st' \<le> k" using c assms k by (cases "al_round st = k") auto
      with Inr c k show ?thesis by auto
    qed (use k in simp)
    with less.hyps [of ?r] st have "\<exists>r'. while_option loop_running (\<lambda>r. bind_result r (consume_round env global rounds)) ?r = Some r'"
      by simp
    with True st show ?thesis by (subst while_option_unfold) simp
  qed
qed

text \<open>
  C25. The alert thread returns when the application closes: if the application is closing at the end
  of some round, \<open>consume_alerts\<close> returns, and unless a handler is undefined it returns by its
  \<open>return\<close> statement.
\<close>

theorem consume_alerts_returns:
  assumes "ar_closing (rounds k)"
  shows "\<exists>r. consume_alerts env global rounds start s fs = Some r \<and> (\<forall>st. r = Inr st \<longrightarrow> al_returned st)"
proof -
  let ?r = "Inr \<lparr>al_round = 0, al_returned = False, al_last_save = start, al_session = s, al_files = fs\<rparr>"
  obtain r where r: "while_option loop_running (\<lambda>r. bind_result r (consume_round env global rounds)) ?r = Some r"
    using loop_stops [where rounds = rounds and k = k and r = ?r and env = env and global = global, OF assms] by auto
  then have "consume_alerts env global rounds start s fs = Some r"
    by (simp add: consume_alerts_def loop_running_def [abs_def])
  moreover have "\<not> loop_running r" by (rule while_option_stop [OF r])
  ultimately show ?thesis by (auto simp: loop_running_def)
qed

theorem consume_alerts_returns_witness:
  "\<exists>r. consume_alerts demo_session_env (default_config False)
     (\<lambda>k. \<lparr>ar_alerts = [(False, Torrent_alert ''d0'' (Dht_reply_alert 3))], ar_closing = k \<ge> 2, ar_now = int k * 500\<rparr>) 0
     demo_session Map.empty = Some r"
proof -
  let ?rounds = "\<lambda>k :: nat. \<lparr>ar_alerts = [(False, Torrent_alert ''d0'' (Dht_reply_alert 3))], ar_closing = k \<ge> 2, ar_now = int k * 500\<rparr>"
  have "ar_closing (?rounds 2)" by simp
  from consume_alerts_returns [where rounds = ?rounds and env = demo_session_env and global = "default_config False" and start = 0
      and s = demo_session and fs = Map.empty, OF this] show ?thesis by blast
qed

end
