(* ===== verification/Session_Threads.thy ===== *)
theory Session_Threads
  imports Session_Guarantees
begin

text \<open>
  The thread \<open>prioritize\<close> of a session (src/src/bittorrent/session.cpp): every half second it updates
  the progress of buffers and hands out the priorities of the pieces that readers want.
\<close>

text \<open>
  \<open>closing k\<close> says whether the application is closing after the \<open>k\<close>-th sleep, and
  \<open>others k\<close> is what the other threads have done to the torrents and readers by then. \<open>None\<close>:
  the thread does not return.
\<close>

partial_function (option) prioritize_thread ::
  "'h lt_api \<Rightarrow> 'h lt_query \<Rightarrow> config \<Rightarrow> (nat \<Rightarrow> bool) \<Rightarrow> (nat \<Rightarrow> 'h torrent list \<times> reader_heap \<Rightarrow> 'h torrent list \<times> reader_heap) \<Rightarrow>
    nat \<Rightarrow> 'h torrent list \<times> reader_heap \<Rightarrow> ('h torrent list \<times> reader_heap) result option" where
  "prioritize_thread api q global closing others k st =
     (case prioritize_round api q global (fst st) (snd st) of
        None \<Rightarrow> None
      | Some (Inl e) \<Rightarrow> Some (Inl e)
      | Some (Inr st') \<Rightarrow>
          if closing k then Some (Inr (others k st'))
          else prioritize_thread api q global closing others (Suc k) (others k st'))"

section \<open>A pass returns\<close>

text \<open>The readers registered with each torrent are different objects.\<close>

definition readers_apart :: "'h torrent list \<Rightarrow> bool" where
  "readers_apart ts \<longleftrightarrow> list_all (\<lambda>t. distinct (map snd (t_readers t))) ts"

lemma prioritize_returns:
  assumes "distinct (map snd (t_readers t))"
  shows "\<exists>r. prioritize api config t hp = Some r \<and> (\<forall>t' hp'. r = Inr (t', hp') \<longrightarrow> t_readers t' = t_readers t)"
proof (cases "readahead_pieces config t")
  case (Inl e)
  then show ?thesis by (simp add: prioritize_def)
next
  case (Inr limit)
  obtain st where "readahead_loop (t_readers t) (readahead_start (t_readers t) limit hp) = Some st"
    by (rule readahead_length [OF assms])
  with Inr show ?thesis
    by (auto simp: prioritize_def Let_def bind_result_eq_Inr split: if_splits option.splits)
qed

lemma update_buffer_progress_readers [simp]: "t_readers (update_buffer_progress api q t) = t_readers t"
  by (simp add: update_buffer_progress_def)

text \<open>What the thread does for one torrent.\<close>

definition prioritize_torrent ::
  "'h lt_api \<Rightarrow> 'h lt_query \<Rightarrow> config \<Rightarrow> 'h torrent \<Rightarrow> reader_heap \<Rightarrow> ('h torrent \<times> reader_heap) result option" where
  "prioritize_torrent api q global t hp =
     (if is_buffering t then Some (Inr (update_buffer_progress api q t, hp))
      else if \<not> torrent_has_readers t then Some (Inr (t, hp)) else prioritize api global t hp)"

lemma prioritize_torrent_returns:
  assumes "distinct (map snd (t_readers t))"
  shows "\<exists>r. prioritize_torrent api q global t hp = Some r \<and> (\<forall>t' hp'. r = Inr (t', hp') \<longrightarrow> t_readers t' = t_readers t)"
  using prioritize_returns [OF assms, of api global hp] by (auto simp: prioritize_torrent_def)

lemma prioritize_round_Cons:
  "prioritize_round api q global (t # ts) hp = (case prioritize_torrent api q global t hp of
     None \<Rightarrow> None
   | Some (Inl e) \<Rightarrow> Some (Inl e)
   | Some (Inr (t', hp')) \<Rightarrow> map_option (\<lambda>r. bind_result r (\<lambda>(ts', hp''). Inr (t' # ts', hp''))) (prioritize_round api q global ts hp'))"
  by (simp add: prioritize_torrent_def)

lemma prioritize_round_returns:
  "readers_apart ts \<Longrightarrow> \<exists>r. prioritize_round api q global ts hp = Some r \<and>
    (\<forall>ts' hp'. r = Inr (ts', hp') \<longrightarrow> map t_readers ts' = map t_readers ts)"
proof (induction ts arbitrary: hp)
  case (Cons t ts)
  then have d: "distinct (map snd (t_readers t))" "readers_apart ts" by (simp_all add: readers_apart_def)
  obtain r where r: "prioritize_torrent api q global t hp = Some r"
    "\<And>t' hp'. r = Inr (t', hp') \<Longrightarrow> t_readers t' = t_readers t"
    using prioritize_torrent_returns [OF d(1), of api q global hp] by blast
  show ?case
  proof (cases r)
    case (Inl e)
    then show ?thesis by (simp only: prioritize_round_Cons r(1)) simp
  next
    case (Inr x)
    obtain t' hp' where x: "x = (t', hp')" by fastforce
    obtain r' where "prioritize_round api q global ts hp' = Some r'"
      "\<And>ts' hp''. r' = Inr (ts', hp'') \<Longrightarrow> map t_readers ts' = map t_readers ts"
      using Cons.IH [OF d(2), of hp'] by blast
    moreover have "t_readers t' = t_readers t" using r(2) Inr x by simp
    ultimately show ?thesis
      using Inr x by (simp only: prioritize_round_Cons r(1)) (auto simp: bind_result_eq_Inr)
  qed
qed simp

lemma readers_apart_map: "readers_apart ts \<longleftrightarrow> list_all (\<lambda>rs. distinct (map snd rs)) (map t_readers ts)"
  by (simp add: readers_apart_def list_all_iff)

lemma readers_apart_same: "map t_readers ts' = map t_readers ts \<Longrightarrow> readers_apart ts' \<longleftrightarrow> readers_apart ts"
  by (simp only: readers_apart_map)

section \<open>The thread returns\<close>

text \<open>
  C26. The prioritising thread returns when the application closes: if the application is closing after
  some sleep, and the other threads register different objects as readers of a torrent, every pass of the thread
  returns, and the thread ends at the first sleep after which the application is closing, or with an
  exception before.
\<close>

theorem prioritize_thread_returns:
  assumes "closing n" and "readers_apart ts"
    and "\<And>k ts hp. readers_apart ts \<Longrightarrow> readers_apart (fst (others k (ts, hp)))"
  shows "\<exists>r. prioritize_thread api q global closing others 0 (ts, hp) = Some r"
proof -
  have "\<exists>r. prioritize_thread api q global closing others k st = Some r" if "readers_apart (fst st)" "k + m = n" for k m st
    using that
  proof (induction m arbitrary: k st)
    case (0 k)
    obtain r where r: "prioritize_round api q global (fst st) (snd st) = Some r"
      using prioritize_round_returns [OF 0(1)] by blast
    show ?case
      by (subst prioritize_thread.simps) (use r 0 assms(1) in \<open>auto split: sum.splits\<close>)
  next
    case (Suc m)
    obtain r where r: "prioritize_round api q global (fst st) (snd st) = Some r"
      "\<And>ts' hp'. r = Inr (ts', hp') \<Longrightarrow> map t_readers ts' = map t_readers (fst st)"
      using prioritize_round_returns [OF Suc.prems(1)] by blast
    have "\<exists>r. prioritize_thread api q global closing others (Suc k) (others k st') = Some r" if "r = Inr st'" for st'
    proof (rule Suc.IH)
      have "readers_apart (fst st')" using r(2) [of "fst st'" "snd st'"] that readers_apart_same Suc.prems(1) by force
      then show "readers_apart (fst (others k st'))" using assms(3) [of "fst st'" k "snd st'"] by simp
      show "Suc k + m = n" using Suc.prems(2) by simp
    qed
    then show ?case
      by (subst prioritize_thread.simps) (use r in \<open>auto split: sum.splits\<close>)
  qed
  from this [of "(ts, hp)" 0 n] assms(2) show ?thesis by simp
qed

theorem prioritize_thread_returns_witness:
  "\<exists>r. prioritize_thread demo_api demo_query (default_config False) (\<lambda>k. k = 3) (\<lambda>k st. st) 0
     ([demo_torrent\<lparr>t_readers := [(7, 0)]\<rparr>], \<lambda>a. demo_reader) = Some r"
  by (rule prioritize_thread_returns [of _ 3]) (simp_all add: readers_apart_def)

end
