(* ===== verification/Reader.thy ===== *)
theory Reader
  imports Torrent_Ops
begin

text \<open>
  The class \<open>Reader\<close> (\<open>src/src/bittorrent/reader.h\<close>, \<open>reader.cpp\<close>): a reader turns the
  byte range of a request into pieces, waits for them and copies them out of the storage.

  While a reader waits, libtorrent and the other threads go on: \<open>polls k\<close> is what the
  \<open>k\<close>-th look at the world shows. libtorrent's own storage, for torrents that are not in
  memory, is the parameter \<open>disk\<close>: an error flag and the bytes read.
\<close>

section \<open>Pieces and offsets\<close>

definition piece_from_offset :: "reader \<Rightarrow> int \<Rightarrow> int" where
  "piece_from_offset r off =
     (if rd_piece_size r \<le> 0 then 0
      else
        let p = to_int32 ((rd_offset r + off) sdiv rd_piece_size r) in
        if p > f_piece_end (rd_file r) then f_piece_end (rd_file r)
        else if p < f_piece_start (rd_file r) then f_piece_start (rd_file r)
        else p)"

text \<open>A remainder by a piece size of zero is undefined.\<close>

definition piece_offset_from_offset :: "reader \<Rightarrow> int \<Rightarrow> int result" where
  "piece_offset_from_offset r off =
     (if rd_piece_size r = 0 then Inl Undefined else Inr ((rd_offset r + off) smod rd_piece_size r))"

definition piece_offset :: "reader \<Rightarrow> int \<Rightarrow> int" where
  "piece_offset r piece = piece * rd_piece_size r - rd_offset r"

section \<open>Construction and destruction\<close>

text \<open>\<open>m_size\<close> keeps its initial value 0. The identifier is a random number of seven digits.\<close>

definition new_reader :: "(nat \<Rightarrow> nat) \<Rightarrow> 'h torrent \<Rightarrow> lh_file \<Rightarrow> int \<times> int \<Rightarrow> reader" where
  "new_reader draw t f rng =
     (let r = \<lparr>rd_file = f, rd_range = rng, rd_id = int (read_digits (get_random_numeric draw 7)),
        rd_offset = f_offset f, rd_size = 0, rd_piece_size = piece_length t, rd_position = fst rng,
        rd_piece_start = 0, rd_piece_end = 0, rd_isClosing = False, rd_isPrioritized = False,
        rd_isIterated = False, rd_piece_timeout = 60\<rparr>
      in r\<lparr>rd_piece_start := piece_from_offset r (fst rng),
           rd_piece_end := (if snd rng > 0 then piece_from_offset r (snd rng)
                            else piece_from_offset r (rd_size r - 1))\<rparr>)"

definition destroy_reader :: "reader \<Rightarrow> lh_file \<times> 'h torrent \<Rightarrow> reader \<times> lh_file \<times> 'h torrent" where
  "destroy_reader r ft =
     (r\<lparr>rd_isClosing := True\<rparr>, unregister_reader (rd_id r) (fst ft),
      torrent_unregister_reader (rd_id r) (snd ft))"

section \<open>Waiting\<close>

record 'h poll =
  po_torrent :: "'h torrent"
  po_app_closing :: bool
  po_elapsed_ms :: int

text \<open>
  The loop of \<open>wait_for_piece\<close>: it looks at the world every 300 ms until the piece is there,
  something is closing, or the timeout has passed; the result is the number of the last look.
\<close>

definition waiting :: "'h lt_api \<Rightarrow> (nat \<Rightarrow> 'h poll) \<Rightarrow> int \<Rightarrow> int \<Rightarrow> nat \<Rightarrow> bool" where
  "waiting api polls timeout piece k \<longleftrightarrow>
     \<not> have_piece api (po_torrent (polls k)) piece \<and>
     \<not> (po_app_closing (polls k) \<or> t_isClosing (po_torrent (polls k))) \<and>
     \<not> po_elapsed_ms (polls k) > timeout * 1000"

definition wait_loop :: "'h lt_api \<Rightarrow> (nat \<Rightarrow> 'h poll) \<Rightarrow> int \<Rightarrow> int \<Rightarrow> nat \<Rightarrow> nat option" where
  "wait_loop api polls timeout piece k = while_option (waiting api polls timeout piece) Suc k"

text \<open>
  \<open>wait_for_piece\<close> first asks for the piece and its successors; what the others do meanwhile is
  in \<open>polls\<close>, which may depend on the torrent it leaves.
\<close>

definition wait_for_piece ::
  "'h lt_api \<Rightarrow> ('h torrent \<Rightarrow> nat \<Rightarrow> 'h poll) \<Rightarrow> reader \<Rightarrow> int \<Rightarrow> 'h torrent \<Rightarrow> 'h torrent result option" where
  "wait_for_piece api world r piece t =
     (case prioritize_pieces api (rd_piece_start r)
             (min (rd_piece_start r + 2) (f_piece_end (rd_file r))) t of
        Inl e \<Rightarrow> Some (Inl e)
      | Inr t1 \<Rightarrow> map_option (\<lambda>k. Inr (po_torrent (world t1 k)))
          (wait_loop api (world t1) (rd_piece_timeout r) piece 0))"

section \<open>Reading\<close>

text \<open>The call of \<open>readv\<close> on the storage of the torrent: error flag, count, buffer, torrent.\<close>

definition storage_readv ::
  "'h lt_api \<Rightarrow> clock \<Rightarrow> (int \<Rightarrow> int \<Rightarrow> nat \<Rightarrow> bool \<times> byte list) \<Rightarrow> byte list \<Rightarrow> int \<Rightarrow> int \<Rightarrow> 'h torrent \<Rightarrow>
    (bool \<times> int \<times> byte list \<times> 'h torrent) result" where
  "storage_readv api now disk b piece off t =
     (if is_memory_storage t then
        (case t_memory_storage t of
           None \<Rightarrow> Inl Undefined
         | Some s \<Rightarrow> bind_result (readv api now [b] piece off (t_native t) s) (\<lambda>(n, bufs, h, s').
             Inr (False, n, concat bufs, t\<lparr>t_native := h, t_memory_storage := Some s'\<rparr>)))
      else
        let (ec, bytes) = disk piece off (length b); data = take (length b) bytes in
        Inr (ec, int (length data), overlay b 0 data, t))"

text \<open>The variables of the loop of \<open>read\<close>; the span \<open>b\<close> is the buffer from \<open>g_span\<close> on.\<close>

record 'h reading =
  g_torrent :: "'h torrent"
  g_position :: int
  g_buffer :: "byte list"
  g_span :: nat
  g_left :: int
  g_ret :: int
  g_stopped :: bool

text \<open>A span that starts behind the end of the buffer is undefined.\<close>

definition read_span :: "'h reading \<Rightarrow> nat" where
  "read_span g =
     (if g_ret g > 0 then g_span g + nat (int (length (g_buffer g)) - g_left g) else g_span g)"

definition read_copy ::
  "'h lt_api \<Rightarrow> clock \<Rightarrow> (int \<Rightarrow> int \<Rightarrow> nat \<Rightarrow> bool \<times> byte list) \<Rightarrow> reader \<Rightarrow> int \<Rightarrow> 'h reading \<Rightarrow> 'h reading result" where
  "read_copy api now disk r p g =
     bind_result (clear_piece_deadline p (g_torrent g)) (\<lambda>t.
     let start = read_span g in
     if start > length (g_buffer g) then Inl Undefined
     else bind_result (piece_offset_from_offset r (g_position g)) (\<lambda>off.
       bind_result (storage_readv api now disk (drop start (g_buffer g)) p off t) (\<lambda>(ec, n, b, t').
         let g1 = g\<lparr>g_torrent := t', g_buffer := take start (g_buffer g) @ b, g_span := start\<rparr> in
         if ec then Inr (g1\<lparr>g_ret := g_ret g + n, g_stopped := True\<rparr>)
         else Inr (g1\<lparr>g_left := g_left g - n, g_position := g_position g + n, g_ret := g_ret g + n\<rparr>))))"

fun read_loop ::
  "'h lt_api \<Rightarrow> clock \<Rightarrow> (int \<Rightarrow> int \<Rightarrow> nat \<Rightarrow> bool \<times> byte list) \<Rightarrow> ('h torrent \<Rightarrow> nat \<Rightarrow> 'h poll) \<Rightarrow> reader \<Rightarrow>
    int list \<Rightarrow> 'h reading \<Rightarrow> 'h reading result option" where
  "read_loop api now disk world r [] g = Some (Inr g)"
| "read_loop api now disk world r (p # ps) g =
     (case (if have_piece api (g_torrent g) p then Some (Inr (g_torrent g))
            else wait_for_piece api world r p (g_torrent g)) of
        None \<Rightarrow> None
      | Some (Inl e) \<Rightarrow> Some (Inl e)
      | Some (Inr t) \<Rightarrow>
          if \<not> have_piece api (g_torrent g) p \<and> (rd_isClosing r \<or> t_isClosing t \<or> \<not> have_piece api t p)
          then Some (Inr (g\<lparr>g_torrent := t, g_stopped := True\<rparr>))
          else (case read_copy api now disk r p (g\<lparr>g_torrent := t\<rparr>) of
             Inl e \<Rightarrow> Some (Inl e)
           | Inr g' \<Rightarrow> if g_stopped g' then Some (Inr g') else read_loop api now disk world r ps g'))"

text \<open>
  \<open>read\<close> of the reader at address \<open>a\<close>: the number of bytes, the buffer, the torrent and the
  heap of readers. \<open>None\<close> when it does not return.
\<close>

definition read ::
  "'h lt_api \<Rightarrow> clock \<Rightarrow> (int \<Rightarrow> int \<Rightarrow> nat \<Rightarrow> bool \<times> byte list) \<Rightarrow> ('h torrent \<Rightarrow> nat \<Rightarrow> 'h poll) \<Rightarrow> config \<Rightarrow>
    byte list \<Rightarrow> address \<Rightarrow> 'h torrent \<Rightarrow> reader_heap \<Rightarrow>
    (int \<times> byte list \<times> 'h torrent \<times> reader_heap) result option" where
  "read api now disk world config buffer a t hp =
     (let r = hp a; pos = rd_position r; n = int (length buffer) in
      if pos \<ge> f_size (rd_file r) then Some (Inr (0, buffer, t, hp))
      else
        let r1 = r\<lparr>rd_piece_start := piece_from_offset r pos,
                   rd_piece_end := piece_from_offset r (pos + n - 1)\<rparr>
        in case (if rd_isPrioritized r1 then Some (Inr (t, hp(a := r1)))
                 else prioritize api config t (hp(a := r1\<lparr>rd_isPrioritized := True\<rparr>))) of
             None \<Rightarrow> None
           | Some (Inl e) \<Rightarrow> Some (Inl e)
           | Some (Inr (t1, hp1)) \<Rightarrow>
               let r2 = hp1 a in
               map_option (\<lambda>res. bind_result res (\<lambda>g.
                   Inr (g_ret g, g_buffer g, g_torrent g, hp1(a := r2\<lparr>rd_position := g_position g\<rparr>))))
                 (read_loop api now disk world r2 [rd_piece_start r2..rd_piece_end r2]
                   \<lparr>g_torrent = t1, g_position = pos, g_buffer = buffer, g_span = 0, g_left = n, g_ret = 0,
                    g_stopped = False\<rparr>))"

section \<open>Priorities\<close>

definition reader_set_piece_priority ::
  "'h lt_api \<Rightarrow> int \<Rightarrow> int \<Rightarrow> int \<Rightarrow> 'h torrent \<Rightarrow> 'h torrent result" where
  "reader_set_piece_priority api piece deadline prio t =
     (if get_piece_priority api t piece < prio
      then set_piece_deadline api piece deadline (piece_priority api piece prio t)
      else Inr t)"

fun set_pieces_priorities_loop :: "'h lt_api \<Rightarrow> int \<Rightarrow> int \<Rightarrow> int list \<Rightarrow> 'h torrent \<Rightarrow> 'h torrent result" where
  "set_pieces_priorities_loop api pieces i [] t = Inr t"
| "set_pieces_priorities_loop api pieces i (p # ps) t =
     bind_result
       (if have_piece api t p then Inr t
        else if i \<le> pieces then reader_set_piece_priority api p 0 7 t
        else reader_set_piece_priority api p ((i - pieces) * 10) 6 t)
       (set_pieces_priorities_loop api pieces (i + 1) ps)"

definition set_pieces_priorities :: "'h lt_api \<Rightarrow> reader \<Rightarrow> int \<Rightarrow> int \<Rightarrow> 'h torrent \<Rightarrow> 'h torrent result" where
  "set_pieces_priorities api r piece pieces t =
     set_pieces_priorities_loop api pieces 0 [piece..min (piece + pieces) (rd_piece_end r)] t"

end
