(* ===== verification/Reader_Properties.thy ===== *)
theory Reader_Properties
  imports Reader Torrent_Properties
begin

text \<open>
  What a reader does: its offsets and pieces, the end of its waiting, and the bytes it delivers.
  The reader relies on the storage through the interface \<open>piece_source\<close>: a source that
  holds a piece hands out its bytes and goes on holding what it held.
\<close>

section \<open>Offsets and pieces\<close>

definition reads_file :: "torrent_info \<Rightarrow> reader \<Rightarrow> bool" where
  "reads_file ti r \<longleftrightarrow> file_in ti (rd_file r) \<and> rd_piece_size r = ti_piece_length ti \<and>
     rd_offset r = f_offset (rd_file r) \<and>
     f_piece_start (rd_file r) = piece_of ti (f_offset (rd_file r)) \<and>
     f_piece_end (rd_file r) = piece_of ti (f_offset (rd_file r) + f_size (rd_file r) - 1)"

lemma smod_nonneg: "0 \<le> a \<Longrightarrow> 0 < b \<Longrightarrow> a smod b = a mod b" for a b :: int
  by (simp add: signed_modulo_int_def signed_divide_int_def sgn_if minus_div_mult_eq_mod [symmetric])

lemma piece_of_mono: "info_ok ti \<Longrightarrow> x \<le> y \<Longrightarrow> piece_of ti x \<le> piece_of ti y"
  by (simp add: piece_of_def zdiv_mono1 info_ok_def)

lemma div_less_bound: "0 < b \<Longrightarrow> a < c * b \<Longrightarrow> a div b < c" for a b c :: int
proof (rule ccontr)
  assume "0 < b" "a < c * b" "\<not> a div b < c"
  then have "c * b \<le> a div b * b" by (simp add: mult_right_mono)
  moreover have "a div b * b \<le> a" using div_mult_mod_eq [of a b] pos_mod_sign [OF \<open>0 < b\<close>, of a] by linarith
  ultimately show False using \<open>a < c * b\<close> by simp
qed

lemma piece_from_offset_eq:
  assumes ok: "info_ok ti" and r: "reads_file ti r" and off: "0 \<le> off" "rd_offset r + off < 2 ^ 31 * ti_piece_length ti"
  shows "piece_from_offset r off = min (piece_of ti (rd_offset r + off)) (f_piece_end (rd_file r))"
proof -
  have len: "0 < ti_piece_length ti" and o: "0 \<le> rd_offset r" using ok r by (auto simp: info_ok_def reads_file_def file_in_def)
  have b: "0 \<le> piece_of ti (rd_offset r + off)" "piece_of ti (rd_offset r + off) < 2 ^ 31"
    using len o off div_less_bound [OF len off(2)] by (simp_all add: piece_of_def pos_imp_zdiv_nonneg_iff)
  have "f_piece_start (rd_file r) \<le> piece_of ti (rd_offset r + off)"
    using r piece_of_mono [OF ok] off by (simp add: reads_file_def)
  moreover have "to_int32 ((rd_offset r + off) sdiv rd_piece_size r) = piece_of ti (rd_offset r + off)"
    using b len o off r by (simp add: sdiv_nonneg to_int32_id piece_of_def reads_file_def)
  ultimately show ?thesis using len r by (auto simp: piece_from_offset_def reads_file_def Let_def)
qed

section \<open>Waiting\<close>

lemma wait_loop_from:
  assumes "waiting api polls timeout piece k"
  shows "wait_loop api polls timeout piece k = wait_loop api polls timeout piece (Suc k)"
  using assms by (simp add: wait_loop_def while_option_unfold [of _ _ k])

lemma wait_loop_stop:
  assumes "\<not> waiting api polls timeout piece (k + n)"
  shows "\<exists>j \<le> k + n. wait_loop api polls timeout piece k = Some j \<and> k \<le> j \<and> \<not> waiting api polls timeout piece j"
  using assms
proof (induction n arbitrary: k)
  case 0
  then show ?case by (auto simp: wait_loop_def while_option_unfold [of _ _ k])
next
  case (Suc n)
  show ?case
  proof (cases "waiting api polls timeout piece k")
    case True
    have "\<not> waiting api polls timeout piece (Suc k + n)" using Suc.prems by simp
    from Suc.IH [OF this] True show ?thesis by (auto simp: wait_loop_from)
  next
    case False
    then show ?thesis by (auto simp: wait_loop_def while_option_unfold [of _ _ k])
  qed
qed

text \<open>Asking for pieces of the torrent succeeds.\<close>

lemma prioritize_pieces_loop_ok:
  assumes api: "piece_api_ok api n"
  shows "\<forall>i \<in> set is. 0 \<le> i \<and> i < int n \<Longrightarrow> length (t_deadline_pieces t) = n \<Longrightarrow>
    \<exists>t'. prioritize_pieces_loop api start is t = Inr t' \<and> same_torrent t t'"
proof (induction "is" arbitrary: t)
  case Nil
  then show ?case by simp
next
  case (Cons i "is")
  have one: "\<exists>t'. set_piece_priority api i d v t = Inr t' \<and> same_torrent t t'" for d v
  proof -
    have "length (t_deadline_pieces (piece_priority api i v t)) = n"
      using Cons.prems(2) by (simp add: piece_priority_def Let_def)
    from set_piece_deadline_ok [OF api this, of i d] Cons.prems(1) obtain t' where
      "set_piece_deadline api i d (piece_priority api i v t) = Inr t'" "same_torrent (piece_priority api i v t) t'"
      by auto
    then show ?thesis using same_torrent_trans [OF piece_priority_same] by (auto simp: set_piece_priority_def)
  qed
  obtain t1 where t1: "(if have_piece api t i then Inr t else if i = start then set_piece_priority api i 0 7 t
      else set_piece_priority api i ((i - start) * 50) 6 t) = Inr t1" "same_torrent t t1"
    using one [of 0 7] one [of "(i - start) * 50" 6] by (cases "have_piece api t i"; cases "i = start") auto
  have "length (t_deadline_pieces t1) = n" using same_torrent_fields(5) [OF t1(2)] Cons.prems(2) by simp
  with Cons.IH [of t1] Cons.prems(1) obtain t' where
    "prioritize_pieces_loop api start is t1 = Inr t'" "same_torrent t1 t'" by auto
  with t1 same_torrent_trans [OF t1(2)] show ?case by (auto split: if_splits)
qed

lemma prioritize_pieces_ok:
  assumes "piece_api_ok api (length (t_deadline_pieces t))" and "0 \<le> a" and "b < int (length (t_deadline_pieces t))"
  shows "\<exists>t'. prioritize_pieces api a b t = Inr t' \<and> same_torrent t t'"
  unfolding prioritize_pieces_def using assms by (intro prioritize_pieces_loop_ok) auto

section \<open>Sources of pieces\<close>

locale piece_source =
  fixes held :: "'s \<Rightarrow> int \<Rightarrow> byte list option"
    and fetch :: "byte list \<Rightarrow> int \<Rightarrow> int \<Rightarrow> 's \<Rightarrow> (bool \<times> int \<times> byte list \<times> 's) result"
    and ok :: "int \<Rightarrow> 's \<Rightarrow> bool" and handle :: "'s \<Rightarrow> 'v"
  assumes len_pos: "ok len s \<Longrightarrow> 0 < len"
    and held_length: "ok len s \<Longrightarrow> held s p = Some m \<Longrightarrow> length m = nat len"
    and fetch_held: "ok len s \<Longrightarrow> held s p = Some m \<Longrightarrow> 0 \<le> off \<Longrightarrow> off \<le> len \<Longrightarrow>
      \<exists>s'. fetch b p off s = Inr (False, min (len - off) (int (length b)),
          take (length b) (drop (nat off) m) @ drop (length m - nat off) b, s') \<and>
        ok len s' \<and> held s' = held s \<and> handle s' = handle s"
begin

text \<open>The byte at a position of the torrent's data.\<close>

definition byte_at :: "int \<Rightarrow> 's \<Rightarrow> int \<Rightarrow> byte" where
  "byte_at len s x = the (held s (x div len)) ! nat (x mod len)"

lemma byte_at_same: "held s' = held s \<Longrightarrow> byte_at len s' = byte_at len s"
  by (simp add: byte_at_def fun_eq_iff)

lemma fetch_bytes:
  assumes s: "ok len s" and h: "held s (x div len) \<noteq> None" and x: "0 \<le> x"
    and n: "n = min (len - x mod len) (int (length b))"
  shows "\<exists>s'. fetch b (x div len) (x mod len) s =
      Inr (False, n, map (byte_at len s) [x..x + n - 1] @ drop (nat n) b, s') \<and>
      ok len s' \<and> held s' = held s \<and> handle s' = handle s"
proof -
  obtain m where m: "held s (x div len) = Some m" using h by blast
  have len: "0 < len" "length m = nat len" using len_pos [OF s] held_length [OF s m] by simp_all
  have o: "0 \<le> x mod len" "x mod len < len" using len by simp_all
  obtain k where k: "x mod len = int k" using zero_le_imp_eq_int [OF o(1)] by blast
  have n0: "0 \<le> n" "n \<le> len - x mod len" "n \<le> int (length b)" using n o by auto
  have "take (length b) (drop (nat (x mod len)) m) = map (byte_at len s) [x..x + n - 1]"
  proof (rule nth_equalityI)
    show l: "length (take (length b) (drop (nat (x mod len)) m)) = length (map (byte_at len s) [x..x + n - 1])"
      using n n0 k len by (auto simp: min_def)
    fix i assume "i < length (take (length b) (drop (nat (x mod len)) m))"
    then have i: "int i < n" "i < length b" "nat (x mod len) + i < length m" using l n0 by auto
    have "x + int i = len * (x div len) + (x mod len + int i)" by (simp add: algebra_simps)
    moreover have "0 \<le> x mod len + int i" "x mod len + int i < len" using i(1) n0 o by simp_all
    ultimately have "(x + int i) div len = x div len" "(x + int i) mod len = x mod len + int i"
      by (metis div_pos_pos_trivial mod_pos_pos_trivial div_mult_self4 mod_mult_self4 len(1) add.right_neutral
          less_imp_neq add.commute, metis div_pos_pos_trivial mod_pos_pos_trivial div_mult_self4 mod_mult_self4 len(1)
          less_imp_neq add.commute)
    then have "byte_at len s (x + int i) = m ! (nat (x mod len) + i)"
      using m o by (simp add: byte_at_def nat_add_distrib)
    with i o show "take (length b) (drop (nat (x mod len)) m) ! i = map (byte_at len s) [x..x + n - 1] ! i"
      by (simp add: nth_upto)
  qed
  moreover have "drop (length m - nat (x mod len)) b = drop (nat n) b"
    using n len o by (cases "len - x mod len \<le> int (length b)") (auto simp: nat_diff_distrib)
  ultimately show ?thesis
    using fetch_held [OF s m o(1), of b] o n by auto
qed

end

text \<open>A torrent in memory is a source of the pieces that its storage holds.\<close>

definition torrent_content :: "'h torrent \<Rightarrow> int \<Rightarrow> byte list option" where
  "torrent_content t p = (case t_memory_storage t of None \<Rightarrow> None | Some s \<Rightarrow> content s p)"

definition memory_torrent :: "int \<Rightarrow> 'h torrent \<Rightarrow> bool" where
  "memory_torrent len t \<longleftrightarrow> is_memory_storage t \<and>
     (case t_memory_storage t of None \<Rightarrow> False
      | Some s \<Rightarrow> wf_storage s \<and> ms_is_initialized s \<and> ms_piece_length s = len)"

lemma memory_torrentE:
  assumes "memory_torrent len t"
  obtains s where "is_memory_storage t" "t_memory_storage t = Some s" "wf_storage s" "ms_is_initialized s"
    "ms_piece_length s = len" "torrent_content t = content s"
  using assms by (auto simp: memory_torrent_def torrent_content_def fun_eq_iff split: option.splits)

lemma memory_torrent_deadlines [simp]:
  "memory_torrent len (t\<lparr>t_deadline_pieces := d\<rparr>) = memory_torrent len t"
  "torrent_content (t\<lparr>t_deadline_pieces := d\<rparr>) = torrent_content t"
  by (simp_all add: memory_torrent_def is_memory_storage_def torrent_content_def fun_eq_iff)

lemma content_valid: "content s p = Some m \<Longrightarrow> valid_piece s p"
  by (simp add: content_def split: if_splits)

lemma content_length: "wf_storage s \<Longrightarrow> content s p = Some m \<Longrightarrow> length m = nat (ms_piece_length s)"
  using wf_owner(4) [of s p] by (auto simp: content_def split: if_splits)

interpretation memory_source: piece_source torrent_content "storage_readv api now disk" memory_torrent t_native
proof unfold_locales
  fix len and t :: "'a torrent" and p m
  assume t: "memory_torrent len t"
  then obtain s where s: "is_memory_storage t" "t_memory_storage t = Some s" "wf_storage s" "ms_is_initialized s"
    "ms_piece_length s = len" "torrent_content t = content s" by (rule memory_torrentE)
  show len: "0 < len" using wf_lengths(4) [OF s(3)] s(5) by simp
  assume m: "torrent_content t p = Some m"
  then have c: "content s p = Some m" using s(6) by simp
  show l: "length m = nat len" using content_length [OF s(3) c] s(5) by simp
  fix off b
  assume off: "0 \<le> off" "off \<le> len"
  have "off \<le> int (length m)" using off l by simp
  then obtain s' where s': "readv api now [b] p off (t_native t) s =
      Inr (min (int (length m) - off) (int (length (concat [b]))), fill (drop (nat off) m) [b], t_native t, s')"
    "wf_storage s'" "same_frame s s'" "content s' = content s"
    using readv_spec [OF s(3,4) content_valid [OF c] c off(1), of api now "[b]" "t_native t"] by blast
  let ?t = "t\<lparr>t_native := t_native t, t_memory_storage := Some s'\<rparr>"
  have "memory_torrent len ?t"
    using s s'(2,3) by (simp add: memory_torrent_def is_memory_storage_def same_frame_def)
  moreover have "torrent_content ?t = torrent_content t" using s(6) s'(4) by (simp add: torrent_content_def fun_eq_iff)
  ultimately show "\<exists>s'. storage_readv api now disk b p off t = Inr (False, min (len - off) (int (length b)),
      take (length b) (drop (nat off) m) @ drop (length m - nat off) b, s') \<and> memory_torrent len s' \<and>
    torrent_content s' = torrent_content t \<and> t_native s' = t_native t"
    using s(1,2) s'(1) l len by (simp add: storage_readv_def)
qed

section \<open>One piece of a read\<close>

text \<open>The bytes of the torrent's data that the storage holds.\<close>

definition stored_byte :: "int \<Rightarrow> 'h torrent \<Rightarrow> int \<Rightarrow> byte" where
  "stored_byte len t x = the (torrent_content t (x div len)) ! nat (x mod len)"

lemma read_copy_spec:
  assumes t: "memory_torrent len (g_torrent g)" and r: "rd_piece_size r = len"
    and x: "x = rd_offset r + g_position g" "0 \<le> x" and held: "torrent_content (g_torrent g) (x div len) \<noteq> None"
    and p: "x div len < int (length (t_deadline_pieces (g_torrent g)))"
    and start: "read_span g = k" "k \<le> length (g_buffer g)"
    and n: "n = min (len - x mod len) (int (length (g_buffer g)) - int k)"
  shows "\<exists>t'. read_copy api now disk r (x div len) g = Inr (g\<lparr>g_torrent := t',
      g_buffer := take k (g_buffer g) @ map (stored_byte len (g_torrent g)) [x..x + n - 1] @ drop (k + nat n) (g_buffer g),
      g_span := k, g_left := g_left g - n, g_position := g_position g + n, g_ret := g_ret g + n\<rparr>) \<and>
    memory_torrent len t' \<and> torrent_content t' = torrent_content (g_torrent g) \<and>
    t_native t' = t_native (g_torrent g) \<and> length (t_deadline_pieces t') = length (t_deadline_pieces (g_torrent g))"
proof -
  let ?t = "(g_torrent g)\<lparr>t_deadline_pieces := (t_deadline_pieces (g_torrent g))[nat (x div len) := False]\<rparr>"
  let ?b = "drop k (g_buffer g)"
  have len: "0 < len" by (rule memory_source.len_pos [OF t])
  then have p0: "0 \<le> x div len" using x by (simp add: pos_imp_zdiv_nonneg_iff)
  have c: "clear_piece_deadline (x div len) (g_torrent g) = Inr ?t" using p p0 by (simp add: clear_piece_deadline_def)
  have o: "piece_offset_from_offset r (g_position g) = Inr (x mod len)"
    using len r x by (simp add: piece_offset_from_offset_def smod_nonneg)
  have n': "n = min (len - x mod len) (int (length ?b))" using n start(2) by (simp add: of_nat_diff)
  obtain t' where t': "storage_readv api now disk ?b (x div len) (x mod len) ?t =
      Inr (False, n, map (memory_source.byte_at len ?t) [x..x + n - 1] @ drop (nat n) ?b, t')"
    "memory_torrent len t'" "torrent_content t' = torrent_content ?t" "t_native t' = t_native ?t"
    using memory_source.fetch_bytes [where len = len and s = ?t and x = x and api = api and now = now and disk = disk,
        OF _ _ x(2) n'] t held by auto
  have "memory_source.byte_at len ?t = stored_byte len (g_torrent g)"
    by (simp add: memory_source.byte_at_def stored_byte_def fun_eq_iff)
  moreover have "length (t_deadline_pieces t') = length (t_deadline_pieces (g_torrent g))"
    using t'(1) t by (auto simp: storage_readv_def memory_torrent_def bind_result_eq_Inr is_memory_storage_def split: option.splits)
  ultimately show ?thesis
    using c o t' start by (intro exI [of _ t']) (simp add: read_copy_def Let_def add.commute)
qed

lemma read_loop_step:
  assumes "have_piece api (g_torrent g) p" and "read_copy api now disk r p g = Inr g'" and "\<not> g_stopped g'"
  shows "read_loop api now disk world r (p # ps) g = read_loop api now disk world r ps g'"
  using assms by simp

section \<open>Two pieces of a read\<close>

text \<open>The variables of \<open>read\<close> when its loop starts.\<close>

definition read_start :: "'h torrent \<Rightarrow> int \<Rightarrow> byte list \<Rightarrow> 'h reading" where
  "read_start t pos b = \<lparr>g_torrent = t, g_position = pos, g_buffer = b, g_span = 0, g_left = int (length b), g_ret = 0,
     g_stopped = False\<rparr>"

text \<open>The pieces of a range are downloaded and in the storage.\<close>

definition range_ready :: "'h lt_api \<Rightarrow> int \<Rightarrow> 'h torrent \<Rightarrow> int \<Rightarrow> int \<Rightarrow> bool" where
  "range_ready api len t a b \<longleftrightarrow> memory_torrent len t \<and> 0 \<le> a \<and> b < int (length (t_deadline_pieces t)) \<and>
     (\<forall>p. a \<le> p \<and> p \<le> b \<longrightarrow> torrent_content t p \<noteq> None \<and> have_piece api t p)"

lemma range_ready_same:
  assumes "range_ready api len t a b" and "memory_torrent len t'" and "torrent_content t' = torrent_content t"
    and "t_native t' = t_native t" and "length (t_deadline_pieces t') = length (t_deadline_pieces t)"
  shows "range_ready api len t' a b" and "stored_byte len t' = stored_byte len t"
  using assms by (simp_all add: range_ready_def have_piece_def stored_byte_def fun_eq_iff)

text \<open>After the first piece, and after the second when the range goes on.\<close>

lemma read_first:
  assumes ready: "range_ready api len t (x div len) b" and r: "rd_piece_size r = len" and x: "x = rd_offset r + pos" "0 \<le> x"
    and b: "x div len \<le> b" and n: "n = min (len - x mod len) (int (length buf))"
  shows "\<exists>t'. read_copy api now disk r (x div len) (read_start t pos buf) = Inr \<lparr>g_torrent = t', g_position = pos + n,
      g_buffer = map (stored_byte len t) [x..x + n - 1] @ drop (nat n) buf, g_span = 0,
      g_left = int (length buf) - n, g_ret = n, g_stopped = False\<rparr> \<and>
    range_ready api len t' (x div len) b \<and> stored_byte len t' = stored_byte len t"
proof -
  let ?g = "read_start t pos buf"
  have t: "memory_torrent len (g_torrent ?g)" "x div len < int (length (t_deadline_pieces (g_torrent ?g)))"
    "torrent_content (g_torrent ?g) (x div len) \<noteq> None"
    using ready b by (auto simp: range_ready_def read_start_def)
  have g: "x = rd_offset r + g_position ?g" "read_span ?g = 0" "0 \<le> length (g_buffer ?g)"
    "n = min (len - x mod len) (int (length (g_buffer ?g)) - int 0)"
    using x n by (simp_all add: read_start_def read_span_def)
  obtain t' where t': "read_copy api now disk r (x div len) ?g = Inr (?g\<lparr>g_torrent := t',
      g_buffer := take 0 (g_buffer ?g) @ map (stored_byte len (g_torrent ?g)) [x..x + n - 1] @ drop (0 + nat n) (g_buffer ?g),
      g_span := 0, g_left := g_left ?g - n, g_position := g_position ?g + n, g_ret := g_ret ?g + n\<rparr>)"
    "memory_torrent len t'" "torrent_content t' = torrent_content (g_torrent ?g)" "t_native t' = t_native (g_torrent ?g)"
    "length (t_deadline_pieces t') = length (t_deadline_pieces (g_torrent ?g))"
    using read_copy_spec [OF t(1) r g(1) x(2) t(3,2) g(2-4), of api now disk] by blast
  have "range_ready api len t' (x div len) b" "stored_byte len t' = stored_byte len t"
    using range_ready_same [OF ready t'(2)] t'(3-5) by (simp_all add: read_start_def)
  with t'(1) show ?thesis by (intro exI [of _ t']) (simp add: read_start_def)
qed

lemma next_piece:
  assumes "0 < len" and "n = len - x mod (len :: int)"
  shows "(x + n) div len = x div len + 1" and "(x + n) mod len = 0"
proof -
  have e: "x + n = (x div len + 1) * len" using assms(2) by (simp add: distrib_right minus_div_mult_eq_mod [symmetric])
  show "(x + n) div len = x div len + 1" "(x + n) mod len = 0" unfolding e using assms(1) by simp_all
qed

lemma read_second:
  assumes ready: "range_ready api len t (x div len) b" and r: "rd_piece_size r = len" and x: "x = rd_offset r + pos" "0 \<le> x"
    and b: "x div len + 1 \<le> b" and n: "n = len - x mod len" "n \<le> int (length buf)"
    and m: "m = min len (int (length buf) - n)"
  shows "\<exists>t'. read_loop api now disk world r (x div len # (x div len + 1) # ps) (read_start t pos buf) =
      read_loop api now disk world r ps \<lparr>g_torrent = t', g_position = pos + n + m,
        g_buffer = map (stored_byte len t) [x..x + (n + m) - 1] @ drop (nat (n + m)) buf, g_span = nat n,
        g_left = int (length buf) - (n + m), g_ret = n + m, g_stopped = False\<rparr> \<and>
    range_ready api len t' (x div len) b \<and> stored_byte len t' = stored_byte len t"
proof -
  have len: "0 < len" using ready memory_source.len_pos by (auto simp: range_ready_def)
  have n0: "0 < n" "n = min (len - x mod len) (int (length buf))" using n len by auto
  obtain t1 where t1: "read_copy api now disk r (x div len) (read_start t pos buf) = Inr \<lparr>g_torrent = t1, g_position = pos + n,
      g_buffer = map (stored_byte len t) [x..x + n - 1] @ drop (nat n) buf, g_span = 0,
      g_left = int (length buf) - n, g_ret = n, g_stopped = False\<rparr>"
    "range_ready api len t1 (x div len) b" "stored_byte len t1 = stored_byte len t"
    using read_first [OF ready r x _ n0(2), of now disk] b by auto
  let ?g = "\<lparr>g_torrent = t1, g_position = pos + n, g_buffer = map (stored_byte len t) [x..x + n - 1] @ drop (nat n) buf,
      g_span = 0, g_left = int (length buf) - n, g_ret = n, g_stopped = False\<rparr>"
  let ?x = "x + n"
  have d: "?x div len = x div len + 1" "?x mod len = 0" using next_piece [OF len n(1)] by simp_all
  have lb: "length (g_buffer ?g) = length buf" using n n0 by simp
  have k: "read_span ?g = nat n" using n0 lb by (simp add: read_span_def)
  have t: "memory_torrent len (g_torrent ?g)" "?x div len < int (length (t_deadline_pieces (g_torrent ?g)))"
    "torrent_content (g_torrent ?g) (?x div len) \<noteq> None" "have_piece api t1 (x div len + 1)"
    using t1(2) b d by (auto simp: range_ready_def)
  have g: "?x = rd_offset r + g_position ?g" "0 \<le> ?x" "nat n \<le> length (g_buffer ?g)"
    "m = min (len - ?x mod len) (int (length (g_buffer ?g)) - int (nat n))"
    using x n n0 m d lb by simp_all
  obtain t' where t': "read_copy api now disk r (?x div len) ?g = Inr (?g\<lparr>g_torrent := t',
      g_buffer := take (nat n) (g_buffer ?g) @ map (stored_byte len (g_torrent ?g)) [?x..?x + m - 1] @
        drop (nat n + nat m) (g_buffer ?g),
      g_span := nat n, g_left := g_left ?g - m, g_position := g_position ?g + m, g_ret := g_ret ?g + m\<rparr>)"
    "memory_torrent len t'" "torrent_content t' = torrent_content (g_torrent ?g)" "t_native t' = t_native (g_torrent ?g)"
    "length (t_deadline_pieces t') = length (t_deadline_pieces (g_torrent ?g))"
    using read_copy_spec [OF t(1) r g(1,2) t(3,2) k g(3,4), of api now disk] by blast
  have s: "range_ready api len t' (x div len) b" "stored_byte len t' = stored_byte len t"
    using range_ready_same [OF t1(2) t'(2)] t'(3-5) t1(3) by simp_all
  have m0: "0 \<le> m" using m n len by simp
  have "[x..x + (n + m) - 1] = [x..x + n - 1] @ [?x..?x + m - 1]"
    using n0 m0 upto_split1 [of x "?x" "x + (n + m) - 1"] by (cases "m = 0") (auto simp: upto_split2 algebra_simps upto_split1)
  then have buf: "take (nat n) (g_buffer ?g) @ map (stored_byte len (g_torrent ?g)) [?x..?x + m - 1] @ drop (nat n + nat m) (g_buffer ?g)
      = map (stored_byte len t) [x..x + (n + m) - 1] @ drop (nat (n + m)) buf"
    using n0 m0 t1(3) by (simp add: nat_add_distrib add.commute)
  have "have_piece api t (x div len)" using ready b by (simp add: range_ready_def)
  then show ?thesis
    using t1(1) t'(1) t(4) s buf by (intro exI [of _ t']) (simp add: d read_start_def diff_diff_eq)
qed

section \<open>Properties of readers\<close>

text \<open>
  An offset inside the file is turned into the piece that holds it and the place inside
  that piece: the piece is one of the file's pieces, and \<open>piece_offset\<close> and
  \<open>piece_offset_from_offset\<close> agree on where in the piece the byte is.
\<close>

lemma reader_offsets:
  assumes "info_ok ti" and "reads_file ti r" and "0 \<le> off" and "off < f_size (rd_file r)"
  shows "let p = piece_from_offset r off in
    f_piece_start (rd_file r) \<le> p \<and> p \<le> f_piece_end (rd_file r) \<and>
    piece_offset_from_offset r off = Inr (off - piece_offset r p) \<and>
    0 \<le> off - piece_offset r p \<and> off - piece_offset r p < rd_piece_size r"
proof -
  let ?x = "rd_offset r + off"
  have len: "0 < ti_piece_length ti" "ti_num_pieces ti < 2 ^ 31" using assms(1) by (simp_all add: info_ok_def)
  have x: "0 \<le> ?x" "?x < ti_num_pieces ti * ti_piece_length ti"
    using assms by (auto simp: reads_file_def file_in_def info_ok_def)
  have "?x < 2 ^ 31 * ti_piece_length ti"
    using x(2) mult_right_mono [of "ti_num_pieces ti" "2 ^ 31" "ti_piece_length ti"] len by linarith
  note p = piece_from_offset_eq [OF assms(1-3) this]
  have mono: "piece_of ti (rd_offset r) \<le> piece_of ti ?x" "piece_of ti ?x \<le> piece_of ti (rd_offset r + f_size (rd_file r) - 1)"
    using piece_of_mono [OF assms(1)] assms(3,4) by auto
  have e: "piece_from_offset r off = piece_of ti ?x" using p mono(2) assms(2) by (simp add: reads_file_def)
  have m: "off - piece_offset r (piece_of ti ?x) = ?x mod ti_piece_length ti"
    using assms(2) by (simp add: piece_offset_def piece_of_def reads_file_def minus_div_mult_eq_mod [symmetric])
  show ?thesis unfolding Let_def e m
    using mono assms(2) len x(1) by (auto simp: piece_offset_from_offset_def smod_nonneg reads_file_def)
qed

lemma demo_reads: "reads_file demo_info demo_reader"
  by (simp add: reads_file_def demo_reader_def demo_file_def demo_info_def file_in_def piece_of_def)

lemma reader_offsets_example:
  "piece_from_offset demo_reader 20 = 1 \<and> piece_offset_from_offset demo_reader 20 = Inr 4"
proof -
  have p: "piece_from_offset demo_reader 20 = 1" "piece_offset demo_reader 1 = 16" by (code_simp, code_simp)
  show ?thesis using reader_offsets [OF info_ok_demo demo_reads, of 20] unfolding Let_def p
    by (simp add: demo_reader_def demo_file_def)
qed


text \<open>A world in which nothing happens.\<close>

definition idle_world :: "'h torrent \<Rightarrow> nat \<Rightarrow> 'h poll" where
  "idle_world t k = \<lparr>po_torrent = t, po_app_closing = False, po_elapsed_ms = int k * 300\<rparr>"


text \<open>A read of a reader that has set its priorities, up to the loop.\<close>

lemma read_prioritized:
  assumes ok: "info_ok ti" and r: "reads_file ti (hp a)" and prio: "rd_isPrioritized (hp a)"
    and pos: "0 \<le> rd_position (hp a)" "rd_position (hp a) < f_size (rd_file (hp a))" and buf: "buffer \<noteq> []"
    and x: "x = rd_offset (hp a) + rd_position (hp a)" "x + int (length buffer) \<le> 2 ^ 31 * ti_piece_length ti"
  shows "read api now disk world config buffer a t hp =
      (let r1 = (hp a)\<lparr>rd_piece_start := piece_of ti x,
                 rd_piece_end := min (piece_of ti (x + int (length buffer) - 1)) (f_piece_end (rd_file (hp a)))\<rparr>
       in map_option (\<lambda>res. bind_result res (\<lambda>g. Inr (g_ret g, g_buffer g, g_torrent g, hp(a := r1\<lparr>rd_position := g_position g\<rparr>))))
            (read_loop api now disk world r1 [rd_piece_start r1..rd_piece_end r1] (read_start t (rd_position (hp a)) buffer)))"
proof -
  have l: "0 < int (length buffer)" using buf by simp
  have b: "x < 2 ^ 31 * ti_piece_length ti" "x + int (length buffer) - 1 < 2 ^ 31 * ti_piece_length ti" using x(2) l by linarith+
  have "piece_of ti x \<le> f_piece_end (rd_file (hp a))"
    using piece_of_mono [OF ok] pos x r by (simp add: reads_file_def)
  moreover have "piece_from_offset (hp a) (rd_position (hp a)) = min (piece_of ti x) (f_piece_end (rd_file (hp a)))"
    using piece_from_offset_eq [OF ok r pos(1)] b x(1) by simp
  ultimately have 1: "piece_from_offset (hp a) (rd_position (hp a)) = piece_of ti x" by simp
  have 2: "piece_from_offset (hp a) (rd_position (hp a) + int (length buffer) - 1) =
      min (piece_of ti (x + int (length buffer) - 1)) (f_piece_end (rd_file (hp a)))"
    using piece_from_offset_eq [OF ok r, of "rd_position (hp a) + int (length buffer) - 1"] x(1) l pos b by (simp add: algebra_simps)
  show ?thesis
    unfolding read_def Let_def 1 2 read_start_def using pos(2) prio by (simp add: fun_upd_def cong: if_cong)
qed

text \<open>
  C12. A read delivers the stored bytes: when the pieces of the requested range are downloaded
  and in memory and there are at most two of them, \<open>read\<close> returns, the buffer starts with
  the bytes of the torrent's data from the reader's position on, as many as the buffer takes or the
  file's last piece has, and the position moves on by that number.
\<close>

theorem read_delivers:
  assumes "info_ok ti" and "reads_file ti (hp a)" and "rd_isPrioritized (hp a)"
    and "0 \<le> rd_position (hp a)" and "rd_position (hp a) < f_size (rd_file (hp a))" and "buffer \<noteq> []"
    and "x = rd_offset (hp a) + rd_position (hp a)" and "x + int (length buffer) \<le> 2 ^ 31 * ti_piece_length ti"
    and "p = min (piece_of ti (x + int (length buffer) - 1)) (f_piece_end (rd_file (hp a)))" and "p \<le> piece_of ti x + 1"
    and "range_ready api (ti_piece_length ti) t (piece_of ti x) p"
    and "n = min (int (length buffer)) ((p + 1) * ti_piece_length ti - x)"
  shows "\<exists>t' hp'. read api now disk world config buffer a t hp =
      Some (Inr (n, map (stored_byte (ti_piece_length ti) t) [x..x + n - 1] @ drop (nat n) buffer, t', hp')) \<and>
    rd_position (hp' a) = rd_position (hp a) + n"
proof -
  let ?len = "ti_piece_length ti" and ?B = "int (length buffer)" and ?pos = "rd_position (hp a)"
  let ?r = "(hp a)\<lparr>rd_piece_start := piece_of ti x, rd_piece_end := p\<rparr>"
  note rd = read_prioritized [where hp = hp and a = a, OF assms(1-8), folded assms(9), of api now disk world config t]
  have len: "0 < ?len" using assms(1) by (simp add: info_ok_def)
  have x0: "0 \<le> x" using assms(2,4,7) by (simp add: reads_file_def file_in_def)
  have sz: "rd_piece_size ?r = ?len" and off: "x = rd_offset ?r + ?pos" using assms(2,7) by (simp_all add: reads_file_def)
  have p0: "piece_of ti x \<le> p"
    using piece_of_mono [OF assms(1)] assms(2,5,6,7,9) by (simp add: reads_file_def Suc_le_eq)
  have ready: "range_ready api ?len t (x div ?len) p" using assms(11) by (simp add: piece_of_def)
  have split: "(x div ?len + 1) * ?len - x = ?len - x mod ?len"
    by (simp add: distrib_right minus_div_mult_eq_mod [symmetric])
  show ?thesis
  proof (cases "p = piece_of ti x")
    case True
    have n: "n = min (?len - x mod ?len) ?B" using assms(12) split True by (simp add: piece_of_def min.commute)
    obtain t' where "read_copy api now disk ?r (x div ?len) (read_start t ?pos buffer) = Inr \<lparr>g_torrent = t', g_position = ?pos + n,
        g_buffer = map (stored_byte ?len t) [x..x + n - 1] @ drop (nat n) buffer, g_span = 0,
        g_left = ?B - n, g_ret = n, g_stopped = False\<rparr>"
      using read_first [OF ready sz off x0 _ n, of now disk] True by (auto simp: piece_of_def)
    moreover have "have_piece api t (x div ?len)" using ready True by (simp add: range_ready_def piece_of_def)
    ultimately show ?thesis using rd True by (simp add: read_start_def piece_of_def)
  next
    case False
    then have p1: "p = x div ?len + 1" using assms(10) p0 by (simp add: piece_of_def)
    have "(x div ?len + 1) * ?len \<le> x + ?B - 1"
    proof -
      have "x div ?len + 1 \<le> (x + ?B - 1) div ?len" using p1 assms(9) by (simp add: piece_of_def)
      from mult_right_mono [OF this, of ?len] show ?thesis using len div_mult_mod_eq [of "x + ?B - 1" ?len]
          pos_mod_sign [OF len, of "x + ?B - 1"] by linarith
    qed
    then have n1: "?len - x mod ?len \<le> ?B" using split by simp
    let ?m = "min ?len (?B - (?len - x mod ?len))"
    have n: "n = ?len - x mod ?len + ?m"
      using assms(12) split p1 by (simp add: distrib_right min_def)
    have upto: "[piece_of ti x..p] = [x div ?len, x div ?len + 1]"
      using p1 by (simp add: piece_of_def upto_rec1)
    obtain t' where "read_loop api now disk world ?r (x div ?len # (x div ?len + 1) # []) (read_start t ?pos buffer) =
      read_loop api now disk world ?r [] \<lparr>g_torrent = t', g_position = ?pos + (?len - x mod ?len) + ?m,
        g_buffer = map (stored_byte ?len t) [x..x + (?len - x mod ?len + ?m) - 1] @ drop (nat (?len - x mod ?len + ?m)) buffer,
        g_span = nat (?len - x mod ?len), g_left = ?B - (?len - x mod ?len + ?m), g_ret = ?len - x mod ?len + ?m, g_stopped = False\<rparr>"
      using read_second [OF ready sz off x0 _ refl n1 refl, of now disk world "[]"] p1 by auto
    then show ?thesis using rd upto n by (simp del: read_loop.simps(2) add: add.assoc)
  qed
qed

text \<open>The demo torrent with its first three pieces downloaded and stored.\<close>

definition demo_write :: "int \<Rightarrow> byte \<Rightarrow> memory_storage \<Rightarrow> memory_storage" where
  "demo_write p v s = (case writev demo_api int [replicate 16 v] p 0 demo_handle s of
     Some (Inr (n, h, s')) \<Rightarrow> s' | _ \<Rightarrow> s)"

definition demo_filled :: memory_storage where
  "demo_filled = demo_write 2 3 (demo_write 1 2 (demo_write 0 1 demo_storage))"

definition demo_ready :: "lt_demo torrent" where
  "demo_ready = demo_torrent\<lparr>t_native := demo_handle\<lparr>d_have := (\<lambda>i. True)\<rparr>, t_memory_storage := Some demo_filled\<rparr>"

lemma wf_demo_write:
  assumes "wf_storage s" and "valid_piece s p"
  shows "wf_storage (demo_write p v s)" and "ms_piece_count (demo_write p v s) = ms_piece_count s"
proof -
  have "wf_storage (demo_write p v s) \<and> same_frame s (demo_write p v s)"
    using writev_step [OF assms, of 0 demo_api int "[replicate 16 v]" demo_handle] assms wf_piece [OF assms]
    by (auto simp: demo_write_def piece_ok_def Let_def split: option.split sum.split)
  then show "wf_storage (demo_write p v s)" "ms_piece_count (demo_write p v s) = ms_piece_count s"
    by (simp_all add: same_frame_def)
qed

lemma wf_demo_filled: "wf_storage demo_filled"
proof -
  have "ms_piece_count demo_storage = 4" by code_simp
  then show ?thesis unfolding demo_filled_def by (intro wf_demo_write wf_demo_storage) (simp_all add: valid_piece_def wf_demo_write wf_demo_storage)
qed

lemma demo_filled_content:
  "content demo_filled 0 = Some (replicate 16 1)" "content demo_filled 1 = Some (replicate 16 2)"
  "content demo_filled 2 = Some (replicate 16 3)" "ms_is_initialized demo_filled" "ms_piece_length demo_filled = 16"
  by (code_simp, code_simp, code_simp, code_simp, code_simp)

lemma demo_range_ready: "b \<le> 2 \<Longrightarrow> range_ready demo_api 16 demo_ready 0 b"
proof -
  assume b: "b \<le> 2"
  have "torrent_content demo_ready p \<noteq> None" if "0 \<le> p" "p \<le> b" for p
  proof -
    have "p \<in> {0, 1, 2}" using that b by auto
    then show ?thesis using demo_filled_content by (auto simp: torrent_content_def demo_ready_def)
  qed
  then show ?thesis
    using b wf_demo_filled demo_filled_content(4,5)
    by (simp add: range_ready_def memory_torrent_def demo_ready_def demo_torrent_def new_torrent_def is_memory_storage_def
        have_piece_def demo_api_def)
qed

theorem read_delivers_witness:
  "\<exists>t' hp'. read demo_api int (\<lambda>p off n. (False, [])) idle_world (default_config False) (replicate 20 0) 0 demo_ready
      (\<lambda>a. demo_reader\<lparr>rd_isPrioritized := True, rd_position := 10\<rparr>) =
    Some (Inr (20, replicate 6 1 @ replicate 14 2, t', hp')) \<and> rd_position (hp' 0) = 30"
proof -
  let ?hp = "\<lambda>a :: address. demo_reader\<lparr>rd_isPrioritized := True, rd_position := 10\<rparr>"
  have r: "reads_file demo_info (?hp 0)" using demo_reads by (simp add: reads_file_def)
  have i: "ti_piece_length demo_info = 16" "f_size demo_file = 56" "f_piece_end demo_file = 3" "rd_offset demo_reader = 0"
    by (simp_all add: demo_info_def demo_file_def demo_reader_def)
  have p: "piece_of demo_info (10 + int 20 - 1) = 1" "piece_of demo_info 10 = 0" by (simp_all add: piece_of_def i)
  have m: "map (stored_byte 16 demo_ready) [10..29] = replicate 6 1 @ replicate 14 2" by code_simp
  have d: "map (stored_byte 16 demo_ready) [10..10 + 20 - 1] @ drop (nat 20) (replicate 20 0) = replicate 6 1 @ replicate 14 2"
    using m by simp
  have "\<exists>t' hp'. read demo_api int (\<lambda>p off n. (False, [])) idle_world (default_config False) (replicate 20 0) 0 demo_ready ?hp =
      Some (Inr (20, map (stored_byte (ti_piece_length demo_info) demo_ready) [10..10 + 20 - 1] @ drop (nat 20) (replicate 20 0), t', hp')) \<and>
    rd_position (hp' 0) = rd_position (?hp 0) + 20"
    by (rule read_delivers [where p = 1, OF info_ok_demo r])
      (use demo_range_ready [of 1] p i in \<open>simp_all add: demo_reader_def\<close>)
  then show ?thesis unfolding i d by simp
qed

text \<open>
  C40. The third piece of a read goes to the wrong place: \<open>read\<close> advances its span by all the
  bytes delivered so far instead of the bytes of the last piece, so that in a read over three pieces
  the third one starts one first part too late. When the buffer ends before that place, the
  span is built with an offset past its end and the read has no defined behaviour.
\<close>

theorem read_third_piece:
  assumes "info_ok ti" and "reads_file ti (hp a)" and "rd_isPrioritized (hp a)"
    and "0 \<le> rd_position (hp a)" and "rd_position (hp a) < f_size (rd_file (hp a))" and "buffer \<noteq> []"
    and "x = rd_offset (hp a) + rd_position (hp a)" and "x + int (length buffer) \<le> 2 ^ 31 * ti_piece_length ti"
    and "p = min (piece_of ti (x + int (length buffer) - 1)) (f_piece_end (rd_file (hp a)))" and "p = piece_of ti x + 2"
    and "range_ready api (ti_piece_length ti) t (piece_of ti x) p"
    and "n = ti_piece_length ti - x mod ti_piece_length ti" and "int (length buffer) < 2 * n + ti_piece_length ti"
  shows "read api now disk world config buffer a t hp = Some (Inl Undefined)"
proof -
  let ?len = "ti_piece_length ti" and ?B = "int (length buffer)" and ?pos = "rd_position (hp a)"
  let ?r = "(hp a)\<lparr>rd_piece_start := piece_of ti x, rd_piece_end := p\<rparr>"
  note rd = read_prioritized [where hp = hp and a = a, OF assms(1-8), folded assms(9), of api now disk world config t]
  have len: "0 < ?len" using assms(1) by (simp add: info_ok_def)
  have x0: "0 \<le> x" using assms(2,4,7) by (simp add: reads_file_def file_in_def)
  have sz: "rd_piece_size ?r = ?len" and off: "x = rd_offset ?r + ?pos" using assms(2,7) by (simp_all add: reads_file_def)
  have ready: "range_ready api ?len t (x div ?len) p" using assms(11) by (simp add: piece_of_def)
  have n0: "0 < n" using assms(12) len by simp
  have "x div ?len + 2 \<le> (x + ?B - 1) div ?len" using assms(9,10) by (simp add: piece_of_def)
  from mult_right_mono [OF this, of ?len] have B: "n + ?len < ?B"
    using len pos_mod_sign [OF len, of "x + ?B - 1"] assms(12)
    by (simp add: distrib_right minus_div_mult_eq_mod [symmetric])
  then have m: "?len = min ?len (?B - n)" by simp
  have upto: "[piece_of ti x..p] = [x div ?len, x div ?len + 1, x div ?len + 2]"
    using assms(10) by (simp add: piece_of_def upto_rec1)
  have b: "x div ?len + 1 \<le> p" "n \<le> ?B" using assms(10) B len by (simp_all add: piece_of_def)
  let ?g = "\<lambda>t'. \<lparr>g_torrent = t', g_position = ?pos + n + ?len,
        g_buffer = map (stored_byte ?len t) [x..x + (n + ?len) - 1] @ drop (nat (n + ?len)) buffer,
        g_span = nat n, g_left = ?B - (n + ?len), g_ret = n + ?len, g_stopped = False\<rparr>"
  obtain t' where t': "read_loop api now disk world ?r [x div ?len, x div ?len + 1, x div ?len + 2] (read_start t ?pos buffer) =
      read_loop api now disk world ?r [x div ?len + 2] (?g t')" "range_ready api ?len t' (x div ?len) p"
    using read_second [OF ready sz off x0 b(1) assms(12) b(2) m, of now disk world "[x div ?len + 2]"] by blast
  have h: "have_piece api t' (x div ?len + 2)" "0 \<le> x div ?len" "x div ?len + 2 < int (length (t_deadline_pieces t'))"
    using t'(2) assms(10) by (auto simp: range_ready_def piece_of_def)
  have "read_span (?g t') > length (g_buffer (?g t'))"
    using n0 len B assms(13) by (simp add: read_span_def nat_diff_distrib)
  then have "read_copy api now disk ?r (x div ?len + 2) (?g t') = Inl Undefined"
    using h by (simp add: read_copy_def clear_piece_deadline_def Let_def)
  with h have "read_loop api now disk world ?r [x div ?len + 2] (?g t') = Some (Inl Undefined)" by simp
  then show ?thesis using rd upto t'(1) by (simp del: read_loop.simps(2))
qed

theorem read_third_piece_witness:
  "read demo_api int (\<lambda>p off n. (False, [])) idle_world (default_config False) (replicate 33 0) 0 demo_ready
      (\<lambda>a. demo_reader\<lparr>rd_isPrioritized := True, rd_position := 0\<rparr>) = Some (Inl Undefined)"
proof -
  let ?hp = "\<lambda>a :: address. demo_reader\<lparr>rd_isPrioritized := True, rd_position := 0\<rparr>"
  have r: "reads_file demo_info (?hp 0)" using demo_reads by (simp add: reads_file_def)
  have i: "ti_piece_length demo_info = 16" "f_size demo_file = 56" "f_piece_end demo_file = 3" "rd_offset demo_reader = 0"
    by (simp_all add: demo_info_def demo_file_def demo_reader_def)
  have p: "piece_of demo_info (0 + int 33 - 1) = 2" "piece_of demo_info 0 = 0" by (simp_all add: piece_of_def i)
  show ?thesis
    by (rule read_third_piece [where p = 2 and x = 0 and n = 16, OF info_ok_demo r])
      (use demo_range_ready [of 2] p i in \<open>simp_all add: demo_reader_def\<close>)
qed

end
