(* ===== verification/Serving.thy ===== *)
theory Serving
  imports Reader_Properties
begin

text \<open>
  Reading while the torrent is being downloaded. The other threads are an environment of the reader:
  what they may do between its looks at the world is a condition on \<open>polls\<close>, and what they
  have done before a read is the torrent that the read finds.
\<close>

section \<open>Torrents that hold the data\<close>

text \<open>
  \<open>data\<close> is the data of the torrent. Every piece that libtorrent reports is in memory, with the
  right bytes.
\<close>

definition serves :: "'h lt_api \<Rightarrow> torrent_info \<Rightarrow> (int \<Rightarrow> byte) \<Rightarrow> 'h torrent \<Rightarrow> bool" where
  "serves api ti data t \<longleftrightarrow> memory_torrent (ti_piece_length ti) t \<and>
     int (length (t_deadline_pieces t)) = ti_num_pieces ti \<and>
     (\<forall>x. 0 \<le> x \<and> x < ti_total_size ti \<and> have_piece api t (piece_of ti x) \<longrightarrow>
        torrent_content t (piece_of ti x) \<noteq> None \<and> stored_byte (ti_piece_length ti) t x = data x)"

text \<open>
  The download goes on while a reader waits: all torrents that it sees hold the data, and each piece
  of the file arrives before something closes or the timeout is over.
\<close>

definition arrives :: "'h lt_api \<Rightarrow> int \<Rightarrow> (nat \<Rightarrow> 'h poll) \<Rightarrow> int \<Rightarrow> bool" where
  "arrives api timeout polls p \<longleftrightarrow> (\<exists>k. have_piece api (po_torrent (polls k)) p \<and>
     (\<forall>j \<le> k. \<not> po_app_closing (polls j) \<and> \<not> t_isClosing (po_torrent (polls j)) \<and> po_elapsed_ms (polls j) \<le> timeout * 1000))"

definition downloads ::
  "'h lt_api \<Rightarrow> torrent_info \<Rightarrow> (int \<Rightarrow> byte) \<Rightarrow> lh_file \<Rightarrow> int \<Rightarrow> ('h torrent \<Rightarrow> nat \<Rightarrow> 'h poll) \<Rightarrow> bool" where
  "downloads api ti data f timeout world \<longleftrightarrow> (\<forall>t k. serves api ti data (po_torrent (world t k))) \<and>
     (\<forall>t p. f_piece_start f \<le> p \<and> p \<le> f_piece_end f \<longrightarrow> arrives api timeout (world t) p)"

lemma serves_same:
  assumes "serves api ti data t" and "memory_torrent (ti_piece_length ti) t'" and "torrent_content t' = torrent_content t"
    and "have_piece api t' = have_piece api t" and "length (t_deadline_pieces t') = length (t_deadline_pieces t)"
  shows "serves api ti data t'"
  using assms by (simp add: serves_def stored_byte_def)

text \<open>The bytes of one piece.\<close>

lemma serves_bytes:
  assumes "serves api ti data t" and "0 < ti_piece_length ti" and "have_piece api t (piece_of ti x)" and "0 \<le> x"
    and "n \<le> ti_piece_length ti - x mod ti_piece_length ti" and "x + n \<le> ti_total_size ti"
  shows "map (stored_byte (ti_piece_length ti) t) [x..x + n - 1] = map data [x..x + n - 1]"
proof (rule map_cong [OF refl])
  fix y assume "y \<in> set [x..x + n - 1]"
  then have y: "x \<le> y" "y < x + n" by auto
  let ?len = "ti_piece_length ti"
  have "y = ?len * (x div ?len) + (x mod ?len + (y - x))" by (simp add: algebra_simps)
  moreover have "0 \<le> x mod ?len + (y - x)" "x mod ?len + (y - x) < ?len" using y assms(2,5) pos_mod_sign [of ?len x] by linarith+
  ultimately have "y div ?len = x div ?len"
    by (metis add.right_neutral div_mult_self4 div_pos_pos_trivial assms(2) less_irrefl)
  then show "stored_byte ?len t y = data y"
    using assms(1,3,4,6) y by (simp add: serves_def piece_of_def)
qed

section \<open>Waiting for a piece that arrives\<close>

lemma wait_arrives:
  assumes "piece_api_ok api (length (t_deadline_pieces t))" and "0 \<le> rd_piece_start r"
    and "f_piece_end (rd_file r) < int (length (t_deadline_pieces t))"
    and "downloads api ti data (rd_file r) (rd_piece_timeout r) world"
    and "f_piece_start (rd_file r) \<le> p" and "p \<le> f_piece_end (rd_file r)"
  shows "\<exists>t'. wait_for_piece api world r p t = Some (Inr t') \<and> serves api ti data t' \<and> have_piece api t' p \<and> \<not> t_isClosing t'"
proof -
  have e: "min (rd_piece_start r + 2) (f_piece_end (rd_file r)) < int (length (t_deadline_pieces t))" using assms(3) by simp
  obtain t1 where t1: "prioritize_pieces api (rd_piece_start r) (min (rd_piece_start r + 2) (f_piece_end (rd_file r))) t = Inr t1"
    using prioritize_pieces_ok [OF assms(1,2) e] by blast
  obtain k where k: "have_piece api (po_torrent (world t1 k)) p" "\<And>j. j \<le> k \<Longrightarrow> \<not> po_app_closing (world t1 j) \<and>
      \<not> t_isClosing (po_torrent (world t1 j)) \<and> po_elapsed_ms (world t1 j) \<le> rd_piece_timeout r * 1000"
    using assms(4-6) unfolding downloads_def arrives_def by blast
  have "\<not> waiting api (world t1) (rd_piece_timeout r) p (0 + k)" using k(1) by (simp add: waiting_def)
  from wait_loop_stop [OF this] obtain j where j: "j \<le> k" "wait_loop api (world t1) (rd_piece_timeout r) p 0 = Some j"
    "\<not> waiting api (world t1) (rd_piece_timeout r) p j" by auto
  have "have_piece api (po_torrent (world t1 j)) p" using j(3) k(2) [OF j(1)] by (auto simp: waiting_def)
  moreover have "serves api ti data (po_torrent (world t1 j))" using assms(4) by (simp add: downloads_def)
  ultimately show ?thesis using t1 j(2) k(2) [OF j(1)] by (simp add: wait_for_piece_def)
qed

section \<open>One piece\<close>

lemma read_span_torrent [simp]: "read_span (g\<lparr>g_torrent := t\<rparr>) = read_span g"
  by (simp add: read_span_def)

lemma read_loop_got:
  assumes "(if have_piece api (g_torrent g) p then Some (Inr (g_torrent g)) else wait_for_piece api world r p (g_torrent g)) = Some (Inr t)"
    and "have_piece api (g_torrent g) p \<or> \<not> (rd_isClosing r \<or> t_isClosing t \<or> \<not> have_piece api t p)"
    and "read_copy api now disk r p (g\<lparr>g_torrent := t\<rparr>) = Inr g'" and "\<not> g_stopped g'"
  shows "read_loop api now disk world r (p # ps) g = read_loop api now disk world r ps g'"
  using assms by (cases "have_piece api (g_torrent g) p") auto

lemma read_loop_piece:
  assumes t: "serves api ti data (g_torrent g)" and api: "piece_api_ok api (nat (ti_num_pieces ti))"
    and r: "reads_file ti r" "info_ok ti" "\<not> rd_isClosing r" "0 \<le> rd_piece_start r"
    and w: "downloads api ti data (rd_file r) (rd_piece_timeout r) world"
    and x: "x = rd_offset r + g_position g" "rd_offset r \<le> x" "x + n \<le> rd_offset r + f_size (rd_file r)"
    and k: "read_span g = k" "k < length (g_buffer g)"
    and n: "n = min (ti_piece_length ti - x mod ti_piece_length ti) (int (length (g_buffer g)) - int k)"
    and run: "\<not> g_stopped g"
  shows "\<exists>t'. read_loop api now disk world r (piece_of ti x # ps) g =
      read_loop api now disk world r ps (g\<lparr>g_torrent := t',
        g_buffer := take k (g_buffer g) @ map data [x..x + n - 1] @ drop (k + nat n) (g_buffer g),
        g_span := k, g_left := g_left g - n, g_position := g_position g + n, g_ret := g_ret g + n\<rparr>) \<and>
    serves api ti data t'"
proof -
  let ?p = "piece_of ti x" and ?len = "ti_piece_length ti"
  have len: "0 < ?len" using r(2) by (simp add: info_ok_def)
  have f: "0 \<le> rd_offset r" "rd_offset r + f_size (rd_file r) \<le> ti_total_size ti" "rd_piece_size r = ?len"
    "f_piece_start (rd_file r) = piece_of ti (rd_offset r)"
    "f_piece_end (rd_file r) = piece_of ti (rd_offset r + f_size (rd_file r) - 1)"
    using r(1) by (auto simp: reads_file_def file_in_def)
  have n0: "0 < n" using n k(2) len by (simp add: min_def)
  have p: "f_piece_start (rd_file r) \<le> ?p" "?p \<le> f_piece_end (rd_file r)"
    using x n0 f piece_of_mono [OF r(2)] by simp_all
  have "ti_total_size ti \<le> ti_num_pieces ti * ?len" using r(2) by (simp add: info_ok_def)
  then have "rd_offset r + f_size (rd_file r) - 1 < ti_num_pieces ti * ?len" using f(2) by linarith
  from div_less_bound [OF len this] have e: "f_piece_end (rd_file r) < ti_num_pieces ti" using f(5) by (simp add: piece_of_def)
  obtain t where t1: "(if have_piece api (g_torrent g) ?p then Some (Inr (g_torrent g)) else wait_for_piece api world r ?p (g_torrent g)) = Some (Inr t)"
    "serves api ti data t" "have_piece api t ?p" "have_piece api (g_torrent g) ?p \<or> \<not> t_isClosing t"
  proof (cases "have_piece api (g_torrent g) ?p")
    case False
    have l: "length (t_deadline_pieces (g_torrent g)) = nat (ti_num_pieces ti)" using t by (auto simp: serves_def)
    have "f_piece_end (rd_file r) < int (length (t_deadline_pieces (g_torrent g)))" using t e by (simp add: serves_def)
    from wait_arrives [OF _ r(4) this w p] api l False show ?thesis by (auto intro: that)
  qed (use t in \<open>auto intro: that\<close>)
  let ?g = "g\<lparr>g_torrent := t\<rparr>"
  have x0: "0 \<le> x" "x < ti_total_size ti" using x f n0 by linarith+
  have m: "memory_torrent ?len (g_torrent ?g)" "torrent_content (g_torrent ?g) (x div ?len) \<noteq> None"
    "x div ?len < int (length (t_deadline_pieces (g_torrent ?g)))"
    using t1(2,3) x0 p(2) e by (auto simp: serves_def piece_of_def)
  have g: "x = rd_offset r + g_position ?g" "read_span ?g = k" "k \<le> length (g_buffer ?g)"
    "n = min (?len - x mod ?len) (int (length (g_buffer ?g)) - int k)"
    using x k n by simp_all
  obtain t' where t': "read_copy api now disk r (x div ?len) ?g = Inr (?g\<lparr>g_torrent := t',
      g_buffer := take k (g_buffer ?g) @ map (stored_byte ?len (g_torrent ?g)) [x..x + n - 1] @ drop (k + nat n) (g_buffer ?g),
      g_span := k, g_left := g_left ?g - n, g_position := g_position ?g + n, g_ret := g_ret ?g + n\<rparr>)"
    "memory_torrent ?len t'" "torrent_content t' = torrent_content (g_torrent ?g)" "t_native t' = t_native (g_torrent ?g)"
    "length (t_deadline_pieces t') = length (t_deadline_pieces (g_torrent ?g))"
    using read_copy_spec [OF m(1) f(3) g(1) x0(1) m(2,3) g(2-4), of api now disk] by blast
  have data: "map (stored_byte ?len (g_torrent ?g)) [x..x + n - 1] = map data [x..x + n - 1]"
  proof -
    have "n \<le> ?len - x mod ?len" "x + n \<le> ti_total_size ti" using n x(3) f(2) by simp_all
    note bytes = serves_bytes [OF t1(2) len t1(3) x0(1) this]
    have "g_torrent ?g = t" by simp
    then show ?thesis using bytes by (simp only:)
  qed
  have c: "read_copy api now disk r ?p ?g = Inr (g\<lparr>g_torrent := t',
        g_buffer := take k (g_buffer g) @ map data [x..x + n - 1] @ drop (k + nat n) (g_buffer g),
        g_span := k, g_left := g_left g - n, g_position := g_position g + n, g_ret := g_ret g + n\<rparr>)"
    by (simp add: t'(1) [unfolded data] piece_of_def)
  have "serves api ti data t'"
    using serves_same [OF t1(2) t'(2)] t'(3-5) by (simp add: have_piece_def fun_eq_iff)
  moreover have "have_piece api (g_torrent g) ?p \<or> \<not> (rd_isClosing r \<or> t_isClosing t \<or> \<not> have_piece api t ?p)"
    using t1(3,4) r(3) by blast
  ultimately show ?thesis using read_loop_got [OF t1(1) _ c] run by auto
qed

section \<open>One read\<close>

lemma same_piece: "0 < len \<Longrightarrow> y div len = x div len \<Longrightarrow> y < x - x mod len + len" for x y len :: int
proof -
  assume a: "0 < len" "y div len = x div len"
  have "y = x div len * len + y mod len" using div_mult_mod_eq [of y len] a(2) by simp
  then show ?thesis using div_mult_mod_eq [of x len] pos_mod_bound [OF a(1), of y] by linarith
qed

lemma other_piece: "0 < len \<Longrightarrow> x \<le> y \<Longrightarrow> y < x + len \<Longrightarrow> y div len \<noteq> x div len \<Longrightarrow>
    y div len = x div len + 1 \<and> x - x mod len + len \<le> y" for x y len :: int
proof -
  assume a: "0 < len" "x \<le> y" "y < x + len" "y div len \<noteq> x div len"
  have "x div len \<le> y div len" "y div len \<le> (x + len) div len" using a by (intro zdiv_mono1; simp)+
  moreover have "(x + len) div len = x div len + 1" using a(1) by simp
  ultimately have e: "y div len = x div len + 1" using a(4) by linarith
  have "(x div len + 1) * len + y mod len = y" using div_mult_mod_eq [of y len] by (simp only: e)
  then have "(x div len + 1) * len \<le> y" using pos_mod_sign [OF a(1), of y] by linarith
  moreover have "(x div len + 1) * len = x - x mod len + len"
    by (simp add: distrib_right minus_div_mult_eq_mod [symmetric])
  ultimately show ?thesis using e by simp
qed

text \<open>A reader of the file \<open>f\<close> at a position.\<close>

definition reads_at :: "torrent_info \<Rightarrow> lh_file \<Rightarrow> int \<Rightarrow> reader \<Rightarrow> bool" where
  "reads_at ti f pos r \<longleftrightarrow> reads_file ti r \<and> rd_file r = f \<and> rd_position r = pos \<and> \<not> rd_isClosing r \<and> rd_piece_timeout r = 60"

lemma read_prioritized_delivers:
  assumes ok: "info_ok ti" and api: "piece_api_ok api (nat (ti_num_pieces ti))" and t: "serves api ti data t"
    and r: "reads_at ti f pos (hp a)" "rd_isPrioritized (hp a)" and w: "downloads api ti data f 60 world"
    and pos: "0 \<le> pos" "pos + int (length buffer) \<le> f_size f" and buf: "buffer \<noteq> []" "int (length buffer) \<le> ti_piece_length ti"
    and x: "x = f_offset f + pos"
  shows "\<exists>t' hp'. read api now disk world config buffer a t hp =
      Some (Inr (int (length buffer), map data [x..x + int (length buffer) - 1], t', hp')) \<and>
    reads_at ti f (pos + int (length buffer)) (hp' a) \<and> rd_isPrioritized (hp' a) \<and> (\<forall>b. b \<noteq> a \<longrightarrow> hp' b = hp b)"
proof -
  let ?B = "int (length buffer)" and ?len = "ti_piece_length ti"
  have B: "0 < ?B" using buf by simp
  have len: "0 < ?len" using ok by (simp add: info_ok_def)
  have rf: "reads_file ti (hp a)" "rd_file (hp a) = f" "rd_position (hp a) = pos" "\<not> rd_isClosing (hp a)" "rd_piece_timeout (hp a) = 60"
    using r(1) by (simp_all add: reads_at_def)
  have off: "rd_offset (hp a) = f_offset f" "0 \<le> f_offset f" "f_offset f + f_size f \<le> ti_total_size ti"
    "f_piece_end f = piece_of ti (f_offset f + f_size f - 1)"
    using rf by (auto simp: reads_file_def file_in_def)
  have small: "x + ?B \<le> 2 ^ 31 * ?len"
  proof -
    have "ti_total_size ti \<le> ti_num_pieces ti * ?len" "ti_num_pieces ti \<le> 2 ^ 31" using ok by (simp_all add: info_ok_def)
    moreover from mult_right_mono [OF this(2), of ?len] have "ti_num_pieces ti * ?len \<le> 2 ^ 31 * ?len" using len by simp
    ultimately show ?thesis using off(3) pos x by linarith
  qed
  have q: "piece_of ti (x + ?B - 1) \<le> f_piece_end f"
    unfolding off(4) using pos x by (intro piece_of_mono [OF ok]) simp
  let ?q = "piece_of ti (x + ?B - 1)"
  let ?r = "(hp a)\<lparr>rd_piece_start := piece_of ti x, rd_piece_end := ?q\<rparr>"
  have rd: "read api now disk world config buffer a t hp =
      map_option (\<lambda>res. bind_result res (\<lambda>g. Inr (g_ret g, g_buffer g, g_torrent g, hp(a := ?r\<lparr>rd_position := g_position g\<rparr>))))
        (read_loop api now disk world ?r [piece_of ti x..?q] (read_start t pos buffer))"
    using read_prioritized [where hp = hp and a = a, OF ok rf(1) r(2) _ _ buf(1), of x api now disk world config t]
      rf off(1) pos B x small q by (simp add: Let_def)
  have p0: "0 \<le> piece_of ti x" using x pos off(2) len by (simp add: piece_of_def pos_imp_zdiv_nonneg_iff)
  have rr: "reads_file ti ?r" "\<not> rd_isClosing ?r" "0 \<le> rd_piece_start ?r" "rd_offset ?r = f_offset f" "rd_file ?r = f"
    "downloads api ti data (rd_file ?r) (rd_piece_timeout ?r) world"
    using rf off p0 w by (simp_all add: reads_file_def)
  let ?n = "min (?len - x mod ?len) ?B"
  let ?g0 = "read_start t pos buffer"
  have s0: "serves api ti data (g_torrent ?g0)" "x = rd_offset ?r + g_position ?g0" "rd_offset ?r \<le> x"
    "x + ?n \<le> rd_offset ?r + f_size (rd_file ?r)" "read_span ?g0 = 0" "0 < length (g_buffer ?g0)"
    "?n = min (?len - x mod ?len) (int (length (g_buffer ?g0)) - int 0)" "\<not> g_stopped ?g0"
    using t x pos B rr(4,5) by (simp_all add: read_start_def read_span_def buf)
  note first = read_loop_piece [OF s0(1) api rr(1) ok rr(2,3,6) s0(2-8), of now disk]
  have g0: "?g0\<lparr>g_torrent := t1, g_buffer := take 0 (g_buffer ?g0) @ map data [x..x + ?n - 1] @ drop (0 + nat ?n) (g_buffer ?g0),
        g_span := 0, g_left := g_left ?g0 - ?n, g_position := g_position ?g0 + ?n, g_ret := g_ret ?g0 + ?n\<rparr> =
      \<lparr>g_torrent = t1, g_position = pos + ?n, g_buffer = map data [x..x + ?n - 1] @ drop (nat ?n) buffer, g_span = 0,
       g_left = ?B - ?n, g_ret = ?n, g_stopped = False\<rparr>" for t1
    by (simp add: read_start_def)
  have result: ?thesis if "read_loop api now disk world ?r [piece_of ti x..?q] ?g0 =
      Some (Inr \<lparr>g_torrent = t', g_position = pos + ?B, g_buffer = map data [x..x + ?B - 1], g_span = k, g_left = l, g_ret = ?B,
        g_stopped = False\<rparr>)" for t' k l
    using rf r(2) unfolding rd that by (simp add: reads_at_def reads_file_def)
  show ?thesis
  proof (cases "?q = piece_of ti x")
    case True
    have n: "?n = ?B" using same_piece [OF len, of "x + ?B - 1" x] True by (simp add: piece_of_def)
    obtain t1 where "read_loop api now disk world ?r [piece_of ti x] ?g0 = Some (Inr
        \<lparr>g_torrent = t1, g_position = pos + ?n, g_buffer = map data [x..x + ?n - 1] @ drop (nat ?n) buffer, g_span = 0,
         g_left = ?B - ?n, g_ret = ?n, g_stopped = False\<rparr>)"
      using first [of "[]"] unfolding g0 by auto
    then show ?thesis using result True unfolding n by simp
  next
    case False
    note o = other_piece [OF len, of x "x + ?B - 1"]
    have q1: "?q = piece_of ti x + 1" and nB: "?len - x mod ?len < ?B"
      using o False B buf(2) by (simp_all add: piece_of_def)
    then have n: "?n = ?len - x mod ?len" "0 < ?n" using len B by simp_all
    have ps: "[piece_of ti x..?q] = [piece_of ti x, piece_of ti (x + ?n)]"
      using q1 next_piece(1) [OF len n(1)] by (simp add: piece_of_def upto_rec1)
    let ?g1 = "\<lambda>t1. \<lparr>g_torrent = t1, g_position = pos + ?n, g_buffer = map data [x..x + ?n - 1] @ drop (nat ?n) buffer, g_span = 0,
         g_left = ?B - ?n, g_ret = ?n, g_stopped = False\<rparr>"
    obtain t1 where t1: "read_loop api now disk world ?r [piece_of ti x..?q] ?g0 =
        read_loop api now disk world ?r [piece_of ti (x + ?n)] (?g1 t1)" "serves api ti data t1"
      using first [of "[piece_of ti (x + ?n)]"] unfolding g0 ps by blast
    let ?g = "?g1 t1" and ?m = "?B - ?n"
    have lb: "length (g_buffer ?g) = length buffer" by simp
    have s1: "serves api ti data (g_torrent ?g)" "x + ?n = rd_offset ?r + g_position ?g" "rd_offset ?r \<le> x + ?n"
      "x + ?n + ?m \<le> rd_offset ?r + f_size (rd_file ?r)" "read_span ?g = nat ?n" "nat ?n < length (g_buffer ?g)"
      "?m = min (?len - (x + ?n) mod ?len) (int (length (g_buffer ?g)) - int (nat ?n))" "\<not> g_stopped ?g"
      subgoal using t1(2) by simp
      subgoal using x rr(4) by simp
      subgoal using x pos n(2) rr(4) by simp
      subgoal using x pos rr(4,5) by simp
      subgoal using n(2) nB lb unfolding read_span_def by simp
      subgoal using n nB lb by simp
      subgoal using n nB lb buf(2) next_piece(2) [OF len n(1)] by simp
      subgoal by simp
      done
    have split: "[x..x + ?B - 1] = [x..x + ?n - 1] @ [x + ?n..x + ?B - 1]"
      using n(2) nB n(1) upto_split1 [of x "x + ?n" "x + ?B - 1"] by simp
    obtain t2 where "read_loop api now disk world ?r [piece_of ti (x + ?n)] ?g = Some (Inr (?g\<lparr>g_torrent := t2,
        g_buffer := take (nat ?n) (g_buffer ?g) @ map data [x + ?n..x + ?n + ?m - 1] @ drop (nat ?n + nat ?m) (g_buffer ?g),
        g_span := nat ?n, g_left := g_left ?g - ?m, g_position := g_position ?g + ?m, g_ret := g_ret ?g + ?m\<rparr>))"
      using read_loop_piece [OF s1(1) api rr(1) ok rr(2,3,6) s1(2-8), of now disk "[]"] by auto
    moreover have "take (nat ?n) (g_buffer ?g) @ map data [x + ?n..x + ?n + ?m - 1] @ drop (nat ?n + nat ?m) (g_buffer ?g) =
        map data [x..x + ?B - 1]"
      unfolding split using n nB by simp
    ultimately show ?thesis using result [of t2 "nat ?n" "?B - ?n - ?m"] unfolding t1(1) by simp
  qed
qed

text \<open>
  The first read of a reader hands out priorities, for which all readers that are registered with the
  torrent have to be readers of its pieces.
\<close>

definition prioritizable :: "torrent_info \<Rightarrow> 'h torrent \<Rightarrow> reader_heap \<Rightarrow> bool" where
  "prioritizable ti t hp \<longleftrightarrow> distinct (map snd (t_readers t)) \<and>
     (case t_memory_storage t of None \<Rightarrow> False | Some s \<Rightarrow> ms_piece_count s = ti_num_pieces ti) \<and>
     (\<forall>a \<in> snd ` set (t_readers t). 0 \<le> rd_piece_start (hp a) \<and> f_piece_end (rd_file (hp a)) < ti_num_pieces ti)"

lemma same_reader_record:
  assumes "same_reader r r'"
  shows "r' = r\<lparr>rd_isIterated := rd_isIterated r'\<rparr>"
  using assms by (cases r; cases r') (simp add: same_reader_def set_iterated_def)

lemma content_reader_pieces: "content (s\<lparr>ms_reader_pieces := bs\<rparr>) = content s"
  by (simp add: content_def valid_piece_def fun_eq_iff)

lemma prioritize_keeps_have:
  "piece_api_ok api n \<Longrightarrow> lt_have_piece api (lt_prioritize_pieces api h rs) = lt_have_piece api h"
proof -
  assume api: "piece_api_ok api n"
  have "lt_have_piece api (foldl (\<lambda>h r. lt_set_piece_priority api h (fst r) (snd r)) h rs) = lt_have_piece api h"
    using api by (induction rs arbitrary: h) (simp_all add: piece_api_ok_def fun_eq_iff)
  then show ?thesis using api by (simp add: piece_api_ok_def)
qed

lemma prioritize_serves:
  assumes "piece_api_ok api (nat (ti_num_pieces ti))" and "serves api ti data t" and "prioritizable ti t hp" and "info_ok ti"
  shows "\<exists>t' hp'. prioritize api config t hp = Some (Inr (t', hp')) \<and> serves api ti data t' \<and> (\<forall>a. same_reader (hp a) (hp' a))"
proof -
  obtain s where s: "is_memory_storage t" "t_memory_storage t = Some s" "wf_storage s" "ms_is_initialized s"
    "ms_piece_length s = ti_piece_length ti" "torrent_content t = content s"
    using assms(2) by (auto simp: serves_def elim: memory_torrentE)
  have n: "ms_piece_count s = int (nat (ti_num_pieces ti))" "0 \<le> ti_num_pieces ti"
    using assms(3,4) s(2) by (simp_all add: prioritizable_def info_ok_def)
  have rs: "distinct (map snd (t_readers t))"
    "\<forall>a \<in> snd ` set (t_readers t). 0 \<le> rd_piece_start (hp a) \<and> piece_end_limit (hp a) < int (nat (ti_num_pieces ti))"
    using assms(3) n(2) by (auto simp: prioritizable_def piece_end_limit_def)
  obtain st bs where st: "prioritize api config t hp = Some (Inr (t\<lparr>t_native :=
        lt_prioritize_pieces api (t_native t) (memory_requests api t (ra_pieces st)),
        t_memory_storage := Some (s\<lparr>ms_reader_pieces := bs\<rparr>)\<rparr>, ra_heap st))"
    "loop_inv (t_readers t) hp (get_buffers_count s * c_readahead_percents config sdiv 100) st"
    "update_reader_pieces (ra_pieces st) s = Inr (s\<lparr>ms_reader_pieces := bs\<rparr>)"
    by (rule prioritize_memory [OF assms(1) s(1-4) n(1) rs refl])
  let ?t = "t\<lparr>t_native := lt_prioritize_pieces api (t_native t) (memory_requests api t (ra_pieces st)),
        t_memory_storage := Some (s\<lparr>ms_reader_pieces := bs\<rparr>)\<rparr>"
  have "wf_storage (s\<lparr>ms_reader_pieces := bs\<rparr>)" by (rule wf_update_reader_pieces [OF s(3) st(3)])
  then have "memory_torrent (ti_piece_length ti) ?t"
    using s by (simp add: memory_torrent_def is_memory_storage_def)
  then have "serves api ti data ?t"
    using assms(2) s(6) by (intro serves_same [OF assms(2)])
      (simp_all add: torrent_content_def content_reader_pieces fun_eq_iff have_piece_def prioritize_keeps_have [OF assms(1)])
  with st show ?thesis by (auto simp: loop_inv_def)
qed

text \<open>The first read is a read after the priorities have been handed out.\<close>

lemma same_reader_eqs:
  assumes "same_reader r r'"
  shows "rd_file r' = rd_file r" "rd_offset r' = rd_offset r" "rd_piece_size r' = rd_piece_size r" "rd_position r' = rd_position r"
    "rd_piece_start r' = rd_piece_start r" "rd_piece_end r' = rd_piece_end r" "rd_isClosing r' = rd_isClosing r"
    "rd_isPrioritized r' = rd_isPrioritized r" "rd_piece_timeout r' = rd_piece_timeout r"
  by (subst same_reader_record [OF assms], simp)+

lemma piece_from_offset_cong:
  "rd_file r' = rd_file r \<Longrightarrow> rd_offset r' = rd_offset r \<Longrightarrow> rd_piece_size r' = rd_piece_size r \<Longrightarrow>
    piece_from_offset r' = piece_from_offset r"
  by (intro ext) (simp only: piece_from_offset_def)

lemma reads_file_cong:
  "rd_file r' = rd_file r \<Longrightarrow> rd_offset r' = rd_offset r \<Longrightarrow> rd_piece_size r' = rd_piece_size r \<Longrightarrow>
    reads_file ti r' = reads_file ti r"
  by (simp only: reads_file_def)

lemma piece_from_offset_nonneg: "info_ok ti \<Longrightarrow> reads_file ti r \<Longrightarrow> 0 \<le> piece_from_offset r off"
proof -
  assume a: "info_ok ti" "reads_file ti r"
  then have "0 \<le> f_piece_start (rd_file r)"
    by (simp add: reads_file_def file_in_def piece_of_def info_ok_def pos_imp_zdiv_nonneg_iff)
  moreover have "f_piece_start (rd_file r) \<le> f_piece_end (rd_file r)"
    using a piece_of_mono [OF a(1)] by (simp add: reads_file_def file_in_def)
  ultimately show ?thesis by (auto simp: piece_from_offset_def Let_def)
qed

text \<open>The reader as its first read leaves it to \<open>prioritize\<close>.\<close>

definition placed_reader :: "reader \<Rightarrow> int \<Rightarrow> reader" where
  "placed_reader r n = r\<lparr>rd_piece_start := piece_from_offset r (rd_position r),
     rd_piece_end := piece_from_offset r (rd_position r + n - 1), rd_isPrioritized := True\<rparr>"

lemma placed_reader_fields [simp]:
  "rd_file (placed_reader r n) = rd_file r" "rd_offset (placed_reader r n) = rd_offset r"
  "rd_piece_size (placed_reader r n) = rd_piece_size r" "rd_position (placed_reader r n) = rd_position r"
  "rd_isClosing (placed_reader r n) = rd_isClosing r" "rd_isPrioritized (placed_reader r n)"
  "rd_piece_timeout (placed_reader r n) = rd_piece_timeout r"
  "rd_piece_start (placed_reader r n) = piece_from_offset r (rd_position r)"
  "rd_piece_end (placed_reader r n) = piece_from_offset r (rd_position r + n - 1)"
  by (simp_all add: placed_reader_def)

lemma read_unprioritized:
  assumes "\<not> rd_isPrioritized (hp a)" and "rd_position (hp a) < f_size (rd_file (hp a))"
    and "r = placed_reader (hp a) (int (length buffer))"
    and "prioritize api config t (hp(a := r)) = Some (Inr (t1, hp1))" and "same_reader r (hp1 a)"
  shows "read api now disk world config buffer a t hp = read api now disk world config buffer a t1 hp1"
proof -
  note e = same_reader_eqs [OF assms(5)]
  have f: "rd_position (hp1 a) = rd_position (hp a)" "rd_file (hp1 a) = rd_file (hp a)" "rd_isPrioritized (hp1 a)"
    by (simp_all add: e assms(3))
  have pf: "piece_from_offset (hp1 a) = piece_from_offset (hp a)"
    by (rule piece_from_offset_cong) (simp_all add: e assms(3))
  have same: "(hp1 a)\<lparr>rd_piece_start := piece_from_offset (hp a) (rd_position (hp a)),
      rd_piece_end := piece_from_offset (hp a) (rd_position (hp a) + int (length buffer) - 1)\<rparr> = hp1 a"
  proof -
    have "rd_piece_start (hp1 a) = piece_from_offset (hp a) (rd_position (hp a))"
      "rd_piece_end (hp1 a) = piece_from_offset (hp a) (rd_position (hp a) + int (length buffer) - 1)"
      by (simp_all add: e assms(3))
    then show ?thesis by (cases "hp1 a") simp
  qed
  have np: "(f_size (rd_file (hp a)) \<le> rd_position (hp a)) = False" using assms(2) by simp
  have q: "rd_isPrioritized ((hp a)\<lparr>rd_piece_start := i, rd_piece_end := j\<rparr>) = False" for i j using assms(1) by simp
  note p = assms(4) [unfolded assms(3) placed_reader_def]
  have "read api now disk world config buffer a t hp = map_option (\<lambda>res. bind_result res (\<lambda>g.
      Inr (g_ret g, g_buffer g, g_torrent g, hp1(a := (hp1 a)\<lparr>rd_position := g_position g\<rparr>))))
    (read_loop api now disk world (hp1 a) [rd_piece_start (hp1 a)..rd_piece_end (hp1 a)] (read_start t1 (rd_position (hp a)) buffer))"
    by (simp only: read_def Let_def np if_False q p option.case sum.case prod.case read_start_def simp_thms)
  moreover have "read api now disk world config buffer a t1 hp1 = map_option (\<lambda>res. bind_result res (\<lambda>g.
      Inr (g_ret g, g_buffer g, g_torrent g, hp1(a := (hp1 a)\<lparr>rd_position := g_position g\<rparr>))))
    (read_loop api now disk world (hp1 a) [rd_piece_start (hp1 a)..rd_piece_end (hp1 a)] (read_start t1 (rd_position (hp a)) buffer))"
    by (simp only: read_def Let_def f pf same np if_False if_True reader.simps option.case sum.case prod.case read_start_def fun_upd_upd fun_upd_triv)
  ultimately show ?thesis by simp
qed

lemma read_waits_and_delivers:
  assumes ok: "info_ok ti" and api: "piece_api_ok api (nat (ti_num_pieces ti))" and t: "serves api ti data t"
    and r: "reads_at ti f pos (hp a)" "rd_isPrioritized (hp a) \<or> prioritizable ti t hp" and w: "downloads api ti data f 60 world"
    and pos: "0 \<le> pos" "pos + int (length buffer) \<le> f_size f" and buf: "buffer \<noteq> []" "int (length buffer) \<le> ti_piece_length ti"
    and x: "x = f_offset f + pos"
  shows "\<exists>t' hp'. read api now disk world config buffer a t hp =
      Some (Inr (int (length buffer), map data [x..x + int (length buffer) - 1], t', hp')) \<and>
    reads_at ti f (pos + int (length buffer)) (hp' a) \<and> rd_isPrioritized (hp' a)"
proof (cases "rd_isPrioritized (hp a)")
  case True
  then show ?thesis
    using read_prioritized_delivers [where hp = hp and a = a, OF ok api t r(1) True w pos buf x, of now disk config] by blast
next
  case False
  then have pr: "prioritizable ti t hp" using r(2) by simp
  let ?r = "placed_reader (hp a) (int (length buffer))"
  have "0 \<le> rd_piece_start ?r" "rd_file ?r = rd_file (hp a)"
    using r(1) piece_from_offset_nonneg [OF ok] by (simp_all add: reads_at_def)
  then have "prioritizable ti t (hp(a := ?r))" using pr by (auto simp: prioritizable_def)
  from prioritize_serves [OF api t this ok, of config] obtain t1 hp1 where
    p: "prioritize api config t (hp(a := ?r)) = Some (Inr (t1, hp1))" "serves api ti data t1" "\<forall>b. same_reader ((hp(a := ?r)) b) (hp1 b)"
    by blast
  have s: "same_reader ?r (hp1 a)" using p(3) by (metis fun_upd_same)
  have "0 < int (length buffer)" using buf by simp
  then have "pos < f_size f" using pos(2) by linarith
  then have "rd_position (hp a) < f_size (rd_file (hp a))" using r(1) by (simp add: reads_at_def)
  note rd = read_unprioritized [OF False this refl p(1) s]
  have q: "reads_at ti f pos (hp1 a)" "rd_isPrioritized (hp1 a)"
    using r(1) reads_file_cong [of "hp1 a" "hp a" ti] by (simp_all add: same_reader_eqs [OF s] reads_at_def)
  show ?thesis unfolding rd
    using read_prioritized_delivers [where hp = hp1 and a = a, OF ok api p(2) q w pos buf x, of now disk config] by blast
qed

end
