(* ===== verification/Dto.thy ===== *)
theory Dto
  imports Session
begin

text \<open>
  The data transfer objects of \<open>src/src/dto/\<close> and the functions that fill them. A field that
  may be unset is an option; \<open>Int8\<close> and \<open>Int32\<close> fields keep the low bits of what is
  assigned, \<open>Float64\<close> fields are rational. An \<open>oatpp::String\<close> made from a C string ends
  before the first zero byte. JSON is not modelled: a response carries the object.
\<close>

definition to_int8 :: "int \<Rightarrow> int" where
  "to_int8 x = (x + 2 ^ 7) mod 2 ^ 8 - 2 ^ 7"

section \<open>Status of a torrent\<close>

definition upload_rate :: "'h torrent \<Rightarrow> int" where
  "upload_rate t = st_upload_payload_rate (t_status t)"

definition download_rate :: "'h torrent \<Rightarrow> int" where
  "download_rate t = st_download_payload_rate (t_status t)"

definition torrent_total :: "'h torrent \<Rightarrow> int" where
  "torrent_total t = info_field ti_total_size t"

definition total_done :: "'h torrent \<Rightarrow> int" where
  "total_done t = st_total_done (t_status t)"

definition total_wanted :: "'h torrent \<Rightarrow> int" where
  "total_wanted t = st_total_wanted (t_status t)"

definition total_wanted_done :: "'h torrent \<Rightarrow> int" where
  "total_wanted_done t = st_total_wanted_done (t_status t)"

definition total_download :: "'h torrent \<Rightarrow> int" where
  "total_download t = st_all_time_download (t_status t)"

definition total_upload :: "'h torrent \<Rightarrow> int" where
  "total_upload t = st_all_time_upload (t_status t)"

definition active_time :: "'h torrent \<Rightarrow> int" where
  "active_time t = st_active_seconds (t_status t)"

definition finished_time :: "'h torrent \<Rightarrow> int" where
  "finished_time t = st_finished_seconds (t_status t)"

definition seeding_time :: "'h torrent \<Rightarrow> int" where
  "seeding_time t = st_seeding_seconds (t_status t)"

definition seeds_count :: "'h torrent \<Rightarrow> int" where
  "seeds_count t = st_num_seeds (t_status t)"

definition peers_count :: "'h torrent \<Rightarrow> int" where
  "peers_count t = st_num_peers (t_status t)"

text \<open>The values of \<open>enum class TorrentState\<close>.\<close>

definition state_code :: "torrent_state \<Rightarrow> int" where
  "state_code s = (case s of
     State_Unknown \<Rightarrow> -1 | State_Queued \<Rightarrow> 0 | State_ForcedDownloading \<Rightarrow> 1 | State_Downloading \<Rightarrow> 2
   | State_DownloadingMetadata \<Rightarrow> 3 | State_StalledDownloading \<Rightarrow> 4 | State_ForcedUploading \<Rightarrow> 5
   | State_Uploading \<Rightarrow> 6 | State_StalledUploading \<Rightarrow> 7 | State_CheckingResumeData \<Rightarrow> 8
   | State_QueuedDownloading \<Rightarrow> 9 | State_QueuedUploading \<Rightarrow> 10 | State_CheckingUploading \<Rightarrow> 11
   | State_CheckingDownloading \<Rightarrow> 12 | State_PausedDownloading \<Rightarrow> 13 | State_PausedUploading \<Rightarrow> 14
   | State_Moving \<Rightarrow> 15 | State_MissingFiles \<Rightarrow> 16 | State_Error \<Rightarrow> 17)"

record torrent_status_dto =
  ts_total :: int
  ts_total_done :: int
  ts_total_wanted :: int
  ts_total_wanted_done :: int
  ts_progress :: rat
  ts_download_rate :: int
  ts_upload_rate :: int
  ts_state :: int
  ts_state_string :: string
  ts_seeders :: int
  ts_seeders_total :: int
  ts_peers :: int
  ts_peers_total :: int
  ts_seeding_time :: int
  ts_finished_time :: int
  ts_active_time :: int
  ts_total_download :: int
  ts_total_upload :: int

definition torrentStatusDtoFromTorrent :: "'h torrent \<Rightarrow> torrent_status_dto" where
  "torrentStatusDtoFromTorrent t = \<lparr>
     ts_total = torrent_total t, ts_total_done = total_done t, ts_total_wanted = total_wanted t,
     ts_total_wanted_done = total_wanted_done t, ts_progress = progress t,
     ts_download_rate = download_rate t, ts_upload_rate = upload_rate t,
     ts_state = state_code (t_state t), ts_state_string = c_str (state_string t),
     ts_seeders = seeds_count t, ts_seeders_total = total_seeds_count t, ts_peers = peers_count t,
     ts_peers_total = total_peers_count t, ts_seeding_time = seeding_time t,
     ts_finished_time = finished_time t, ts_active_time = active_time t,
     ts_total_download = total_download t, ts_total_upload = total_upload t\<rparr>"

record torrent_info_dto =
  td_hash :: string
  td_name :: string
  td_size :: int
  td_has_metadata :: bool
  td_is_memory_storage :: bool
  td_torrent_status :: "torrent_status_dto option"

definition torrentInfoDtoFromTorrent :: "'h torrent \<Rightarrow> bool \<Rightarrow> torrent_info_dto" where
  "torrentInfoDtoFromTorrent t is_status = \<lparr>
     td_hash = c_str (t_hash t), td_name = c_str (torrent_name t), td_size = torrent_size t,
     td_has_metadata = has_metadata t, td_is_memory_storage = is_memory_storage t,
     td_torrent_status = (if is_status then Some (torrentStatusDtoFromTorrent t) else None)\<rparr>"

section \<open>Files\<close>

record file_status_dto =
  fs_total :: int
  fs_total_done :: int
  fs_progress :: rat
  fs_priority :: int
  fs_buffering_total :: int
  fs_buffering_progress :: rat

text \<open>The vectors are indexed with the index of the file; outside them the behaviour is undefined.\<close>

definition fileStatusDtoFromFile ::
  "'h lt_api \<Rightarrow> lh_file \<times> 'h torrent \<Rightarrow> int list \<Rightarrow> rat list \<Rightarrow> file_status_dto result" where
  "fileStatusDtoFromFile api ft completed prog =
     (let f = fst ft; i = f_index f in
      if 0 \<le> i \<and> nat i < length completed \<and> nat i < length prog then
        Inr \<lparr>fs_total = f_size f, fs_total_done = completed ! nat i, fs_progress = prog ! nat i,
          fs_priority = to_int8 (priority api ft), fs_buffering_total = to_int8 (f_buffer_size f),
          fs_buffering_progress = f_buffer_progress f\<rparr>
      else Inl Undefined)"

record file_info_dto =
  fi_id :: int
  fi_size :: int
  fi_offset :: int
  fi_path :: string
  fi_name :: string
  fi_stream :: string
  fi_file_status :: "file_status_dto option"

definition fileInfoDtoFromFile ::
  "'h lt_api \<Rightarrow> (string \<Rightarrow> string) \<Rightarrow> lh_file \<times> 'h torrent \<Rightarrow> int list \<Rightarrow> rat list \<Rightarrow> string \<Rightarrow> bool \<Rightarrow> file_info_dto result" where
  "fileInfoDtoFromFile api uri_escape ft completed prog host is_status =
     (let f = fst ft;
          dto = \<lparr>fi_id = f_index f, fi_size = f_size f, fi_offset = f_offset f, fi_path = c_str (f_path f),
                 fi_name = c_str (f_name f), fi_stream = c_str (host @ stream_uri uri_escape (snd ft) f),
                 fi_file_status = None\<rparr>
      in if is_status
         then bind_result (fileStatusDtoFromFile api ft completed prog) (\<lambda>st. Inr (dto\<lparr>fi_file_status := Some st\<rparr>))
         else Inr dto)"

section \<open>Sessions and operations\<close>

record session_status_dto =
  ss_torrents_count :: int
  ss_is_paused :: bool

definition sessionStatusDtoFromSession :: "('n, 'h) lt_session_api \<Rightarrow> ('n, 'h) session \<Rightarrow> session_status_dto" where
  "sessionStatusDtoFromSession ls s =
     \<lparr>ss_torrents_count = int (length (s_torrents s)), ss_is_paused = session_is_paused ls s\<rparr>"

record error_dto =
  er_error :: string

record status_dto =
  sd_status :: string
  sd_code :: int
  sd_message :: string

record session_operation_dto =
  so_success :: bool
  so_error :: "string option"

record torrent_operation_dto =
  to_success :: bool
  to_hash :: string
  to_error :: "string option"

record file_operation_dto =
  fo_success :: bool
  fo_hash :: string
  fo_id :: int
  fo_path :: "string option"
  fo_error :: "string option"

record torrent_add_dto =
  ta_success :: bool
  ta_has_metadata :: "bool option"
  ta_hash :: "string option"
  ta_error :: "string option"

end
