(* ===== verification/Dump.thy ===== *)
theory Dump
  imports Dto Torrent_Properties
begin

text \<open>
  The debug page of a torrent: \<open>Torrent::dump\<close> of src/src/bittorrent/torrent.cpp. Each block
  of lines of the page is one definition. \<open>Fmt\<close> is the concatenation that its format string
  describes; strings passed through \<open>c_str\<close> end at the first zero byte.
\<close>

section \<open>Formatting\<close>

definition newline :: string where
  "newline = [CHR 0x0A]"

definition quoted :: "string \<Rightarrow> string" where
  "quoted s = [CHR 0x22] @ s @ [CHR 0x22]"

definition show_bool :: "bool \<Rightarrow> string" where
  "show_bool b = (if b then ''true'' else ''false'')"

text \<open>The conversion \<open>%-ns\<close>.\<close>

definition pad_right :: "nat \<Rightarrow> string \<Rightarrow> string" where
  "pad_right n s = s @ replicate (n - length s) CHR '' ''"

text \<open>The conversion \<open>%.2f\<close>, of a rational number.\<close>

definition show_fixed2 :: "rat \<Rightarrow> string" where
  "show_fixed2 r =
     (let i = nat \<lfloor>\<bar>r\<bar> * 100 + 1 / 2\<rfloor>
      in (if r < 0 then ''-'' else []) @ show_nat (i div 100) @ ''.'' @ [digit (i mod 100 div 10), digit (i mod 10)])"

text \<open>One line: a label, a text, and the end of a line after a blank.\<close>

definition dump_line :: "string \<Rightarrow> string \<Rightarrow> string" where
  "dump_line label s = label @ s @ '' '' @ newline"

definition dump_size :: "string \<Rightarrow> int \<Rightarrow> string \<Rightarrow> string result" where
  "dump_size label n rest = bind_result (humanize_bytes n) (\<lambda>s. Inr (dump_line label (c_str s @ rest)))"

text \<open>The blocks of a page, written one after the other.\<close>

fun concat_results :: "string result list \<Rightarrow> string result" where
  "concat_results [] = Inr []"
| "concat_results (r # rs) = bind_result r (\<lambda>s. bind_result (concat_results rs) (\<lambda>s'. Inr (s @ s')))"

section \<open>Name, sizes, connections and flags\<close>

definition dump_head :: "'h torrent \<Rightarrow> string result" where
  "dump_head t = concat_results [
     Inr (dump_line ''    Name:               '' (c_str (torrent_name t))),
     Inr (dump_line ''    Storage:            '' (storage_to_string (t_storageType t))),
     Inr (dump_line ''    Infohash:           '' (c_str (t_hash t))),
     Inr (dump_line ''    Status:             '' (c_str (state_string t))),
     Inr (dump_line ''    Pieces count:       '' (show_int (pieces_count t))),
     dump_size ''    Piece length:       '' (piece_length t) [],
     Inr newline]"

definition dump_speed :: "'h torrent \<Rightarrow> string result" where
  "dump_speed t = concat_results [
     Inr (''    Speed:'' @ newline),
     dump_size ''        Download:   '' (download_rate t) ''/s'',
     dump_size ''        Upload:     '' (upload_rate t) ''/s'',
     Inr newline]"

definition dump_sizes :: "'h torrent \<Rightarrow> string result" where
  "dump_sizes t = concat_results [
     Inr (''    Size:'' @ newline),
     dump_size ''        Total:                  '' (torrent_total t) [],
     dump_size ''        Done:                   '' (total_done t) ('' ('' @ show_fixed2 (progress_total t) @ ''%)''),
     dump_size ''        Wanted:                 '' (total_wanted t) [],
     dump_size ''        Wanted done:            '' (total_wanted_done t) ('' ('' @ show_fixed2 (progress_wanted t) @ ''%)''),
     Inr newline]"

definition connections_count :: "'h torrent \<Rightarrow> int" where
  "connections_count t = st_num_connections (t_status t)"

definition connections_limit :: "'h torrent \<Rightarrow> int" where
  "connections_limit t = st_connections_limit (t_status t)"

definition dump_connections :: "'h torrent \<Rightarrow> string" where
  "dump_connections t =
     ''    Connections:'' @ newline @
     dump_line ''        Connections:            '' (show_int (connections_count t)) @
     dump_line ''        Connections limit:      '' (show_int (connections_limit t)) @
     dump_line ''        Connected seeds:        '' (show_int (seeds_count t)) @
     dump_line ''        Connected peers:        '' (show_int (peers_count t)) @
     dump_line ''        All Seeds:              '' (show_int (total_seeds_count t)) @
     dump_line ''        All Peers:              '' (show_int (total_peers_count t))"

definition dump_flags :: "'h torrent \<Rightarrow> string" where
  "dump_flags t =
     (let s = t_status t in
      ''    Flags:'' @ newline @
      dump_line ''        paused: '' (show_bool (st_paused s)) @
      dump_line ''        auto_managed: '' (show_bool (st_auto_managed s)) @
      dump_line ''        sequential_download: '' (show_bool (st_sequential_download s)) @
      dump_line ''        need_save_resume: '' (show_bool (st_need_save_resume s)) @
      dump_line ''        is_seeding: '' (show_bool (st_is_seeding s)) @
      dump_line ''        is_finished: '' (show_bool (st_is_finished s)) @
      dump_line ''        has_metadata: '' (show_bool (st_has_metadata s)) @
      dump_line ''        has_incoming: '' (show_bool (st_has_incoming s)) @
      dump_line ''        moving_storage: '' (show_bool (st_moving_storage s)) @
      dump_line ''        announcing_to_trackers: '' (show_bool (st_announcing_to_trackers s)) @
      dump_line ''        announcing_to_lsd: '' (show_bool (st_announcing_to_lsd s)) @
      dump_line ''        announcing_to_dht: '' (show_bool (st_announcing_to_dht s)) @ newline)"

section \<open>Files and trackers\<close>

text \<open>\<open>priorities[f->index()]\<close> is not checked against the length of the vector.\<close>

definition dump_file :: "(string \<Rightarrow> string) \<Rightarrow> int list \<Rightarrow> 'h torrent \<Rightarrow> lh_file \<Rightarrow> string result" where
  "dump_file uri_escape priorities t f =
     (if \<not> (0 \<le> f_index f \<and> nat (f_index f) < length priorities) then Inl Undefined
      else
        let pr = priorities ! nat (f_index f) in
        bind_result (humanize_bytes (f_size f)) (\<lambda>s.
          Inr (dump_line (''        <a href='' @ quoted (c_str (stream_uri uri_escape t f)) @ '' target=_blank>'' @ c_str (f_path f) @
              ''</a> ('' @ c_str s @ ''): '') (if pr > 0 then show_int pr else ''-''))))"

definition dump_files :: "(string \<Rightarrow> string) \<Rightarrow> 'h lt_query \<Rightarrow> 'h torrent \<Rightarrow> string result" where
  "dump_files uri_escape q t = concat_results
     (Inr (''    Files (Priority):'' @ newline) #
      map (dump_file uri_escape (q_file_priorities q (t_native t)) t) (t_files t) @
      [Inr newline])"

definition tracker_line :: "string \<Rightarrow> string \<Rightarrow> string \<Rightarrow> bool \<Rightarrow> bool \<Rightarrow> string \<Rightarrow> string" where
  "tracker_line url seeds peers is_updating is_working msg =
     ''        '' @ pad_right 60 url @ '': '' @ pad_right 3 seeds @ '' seeds, '' @ pad_right 3 peers @ '' peers, updating: '' @
     pad_right 5 (show_bool is_updating) @ '', is_working: '' @ pad_right 5 (show_bool is_working) @ '', message: '' @ msg @ newline"

text \<open>The counts are the largest of the endpoints and -1; the last message that is not empty is shown.\<close>

definition dump_tracker :: "(string, tracker_info) std_map \<Rightarrow> announce_entry \<Rightarrow> string" where
  "dump_tracker infos tracker =
     (let eps = ae_endpoints tracker;
          complete = foldl (\<lambda>m e. max m (ep_scrape_complete e)) (-1) eps;
          incomplete = foldl (\<lambda>m e. max m (ep_scrape_incomplete e)) (-1) eps;
          msg = foldl (\<lambda>m e. if ep_message e \<noteq> [] then ep_message e else m) [] eps;
          peers = (if incomplete = -1
            then (case map_find infos (ae_url tracker) of Some info \<Rightarrow> tr_numPeers info | None \<Rightarrow> incomplete)
            else incomplete)
      in tracker_line (c_str (ae_url tracker)) (peer_num_to_string complete) (peer_num_to_string peers)
           (list_ex ep_updating eps) (list_ex ep_is_working eps) (c_str msg))"

text \<open>\<open>std::map::insert\<close> keeps the first entry of a tracker; the lines are sorted by url.\<close>

definition tracker_lines :: "(string, tracker_info) std_map \<Rightarrow> announce_entry list \<Rightarrow> (string, string) std_map" where
  "tracker_lines infos entries = foldl (\<lambda>m e. map_insert (ae_url e) (dump_tracker infos e) m) [] entries"

definition dump_trackers :: "'h lt_query \<Rightarrow> 'h torrent \<Rightarrow> string" where
  "dump_trackers q t =
     ''    Trackers:'' @ newline @
     concat (map snd (tracker_lines (t_trackerInfos t) (q_trackers q (t_native t)))) @
     (case map_find (t_trackerInfos t) ''DHT'' of
        None \<Rightarrow> []
      | Some entry \<Rightarrow> tracker_line ''DHT'' ''-'' (peer_num_to_string (tr_numPeers entry)) False True (c_str (tr_lastMessage entry))) @
     newline"

section \<open>Pieces\<close>

text \<open>The text so far, the pieces that are stored and those that are wanted.\<close>

record piece_map =
  pm_text :: string
  pm_have :: int
  pm_prioritized :: int

definition reader_positions :: "reader_heap \<Rightarrow> 'h torrent \<Rightarrow> int list" where
  "reader_positions heap t = map (\<lambda>(i, a). rd_piece_start (heap a)) (t_readers t)"

definition dump_piece :: "'h lt_api \<Rightarrow> 'h torrent \<Rightarrow> int list \<Rightarrow> piece_map \<Rightarrow> int \<Rightarrow> piece_map" where
  "dump_piece api t positions m i =
     (let have = lt_have_piece api (t_native t) i; prio = lt_piece_priority api (t_native t) i;
          m1 = (if i \<in> set positions then
                  m\<lparr>pm_prioritized := pm_prioritized m + 1,
                    pm_have := (if have then pm_have m + 1 else pm_have m),
                    pm_text := pm_text m @ (if have then ''<b>*</b>'' else ''<b>?</b>'')\<rparr>
                else if have then
                  m\<lparr>pm_have := pm_have m + 1,
                    pm_prioritized := (if prio > 0 then pm_prioritized m + 1 else pm_prioritized m),
                    pm_text := pm_text m @ ''+''\<rparr>
                else if prio = 0 then m\<lparr>pm_text := pm_text m @ ''-''\<rparr>
                else m\<lparr>pm_prioritized := pm_prioritized m + 1, pm_text := pm_text m @ show_int prio\<rparr>)
      in if i > 0 \<and> (i + 1) mod 100 = 0 then m1\<lparr>pm_text := pm_text m1 @ newline @ ''        ''\<rparr> else m1)"

definition dump_pieces :: "'h lt_api \<Rightarrow> reader_heap \<Rightarrow> 'h torrent \<Rightarrow> string" where
  "dump_pieces api heap t =
     (let m = foldl (dump_piece api t (reader_positions heap t))
                \<lparr>pm_text = ''        '', pm_have = 0, pm_prioritized = 0\<rparr> (map int [0..<nat (pieces_count t)])
      in ''    Pieces:'' @ newline @ pm_text m @ newline @
         ''        Readers: <b>'' @ show_int (int (length (t_readers t))) @ ''</b>, Stored: <b>'' @ show_int (pm_have m) @
         ''</b>, Prioritized: <b>'' @ show_int (pm_prioritized m) @ ''</b>'')"

definition dump ::
  "'h lt_api \<Rightarrow> 'h lt_query \<Rightarrow> (string \<Rightarrow> string) \<Rightarrow> reader_heap \<Rightarrow> 'h torrent \<Rightarrow> string result" where
  "dump api q uri_escape heap t = concat_results [
     dump_head t, dump_speed t, dump_sizes t,
     Inr (dump_connections t), Inr (dump_flags t),
     dump_files uri_escape q t,
     Inr (dump_trackers q t),
     Inr (dump_pieces api heap t),
     Inr (newline @ newline @ newline),
     Inr (''    '' @ replicate 150 CHR ''*'' @ newline),
     Inr (newline @ newline)]"

section \<open>What the page shows\<close>

lemma humanize_bytes_ok: "\<exists>s. humanize_bytes n = Inr s"
  using humanize_bytes_total [of n] by (auto split: if_splits)

lemma dump_size_ok: "\<exists>s. dump_size label n rest = Inr s"
  using humanize_bytes_ok [of n] by (auto simp: dump_size_def)

lemma concat_results_ok: "\<forall>r \<in> set rs. \<exists>s. r = Inr s \<Longrightarrow> \<exists>s. concat_results rs = Inr s"
  by (induction rs) auto

lemma concat_results_append:
  "concat_results rs = Inr s \<Longrightarrow> concat_results rs' = Inr s' \<Longrightarrow> concat_results (rs @ rs') = Inr (s @ s')"
  by (induction rs arbitrary: s) (auto simp: bind_result_eq_Inr)

lemma dump_files_ok:
  assumes "\<forall>f \<in> set (t_files t). 0 \<le> f_index f \<and> nat (f_index f) < length (q_file_priorities q (t_native t))"
  shows "\<exists>s. dump_files esc q t = Inr s"
proof -
  have "\<exists>s. dump_file esc (q_file_priorities q (t_native t)) t f = Inr s" if "f \<in> set (t_files t)" for f
    using assms that humanize_bytes_ok [of "f_size f"] by (auto simp: dump_file_def Let_def)
  then show ?thesis unfolding dump_files_def by (intro concat_results_ok) auto
qed

text \<open>The counters of the loop over the pieces.\<close>

definition wanted_piece :: "'h lt_api \<Rightarrow> 'h torrent \<Rightarrow> int list \<Rightarrow> int \<Rightarrow> bool" where
  "wanted_piece api t positions i \<longleftrightarrow> i \<in> set positions \<or>
     (if lt_have_piece api (t_native t) i then lt_piece_priority api (t_native t) i > 0 else lt_piece_priority api (t_native t) i \<noteq> 0)"

lemma dump_piece_counts:
  "pm_have (dump_piece api t ps m i) = pm_have m + of_bool (lt_have_piece api (t_native t) i)"
  "pm_prioritized (dump_piece api t ps m i) = pm_prioritized m + of_bool (wanted_piece api t ps i)"
  by (auto simp: dump_piece_def wanted_piece_def Let_def)

lemma dump_fold_counts:
  "pm_have (foldl (dump_piece api t ps) m is) = pm_have m + int (length (filter (lt_have_piece api (t_native t)) is)) \<and>
   pm_prioritized (foldl (dump_piece api t ps) m is) = pm_prioritized m + int (length (filter (wanted_piece api t ps) is))"
  by (induction "is" arbitrary: m) (auto simp: dump_piece_counts)

lemma length_filter_pieces: "length (filter P (map int [0..<nat n])) = card {i. 0 \<le> i \<and> i < n \<and> P i}"
proof -
  have "x \<in> int ` {0..<nat n}" if "0 \<le> x" "x < n" for x
    using that by (intro image_eqI [of _ _ "nat x"]) auto
  then have "set (filter P (map int [0..<nat n])) = {i. 0 \<le> i \<and> i < n \<and> P i}" by auto
  moreover have "distinct (filter P (map int [0..<nat n]))" by (simp add: distinct_map)
  ultimately show ?thesis by (metis distinct_card)
qed

text \<open>
  The debug page of a torrent is written for every torrent whose files all have a priority in
  libtorrent's list, and its last line counts correctly: the registered readers, the pieces that
  libtorrent has, and the pieces that a reader starts at or that have a priority.
\<close>

lemma dump_page:
  assumes "\<forall>f \<in> set (t_files t). 0 \<le> f_index f \<and> nat (f_index f) < length (q_file_priorities q (t_native t))"
  shows "\<exists>before after. dump api q esc heap t = Inr (before @
    ''Readers: <b>'' @ show_int (int (length (t_readers t))) @
    ''</b>, Stored: <b>'' @ show_int (int (card {i. 0 \<le> i \<and> i < pieces_count t \<and> have_piece api t i})) @
    ''</b>, Prioritized: <b>'' @ show_int (int (card {i. 0 \<le> i \<and> i < pieces_count t \<and> wanted_piece api t (reader_positions heap t) i})) @
    ''</b>'' @ after)"
proof -
  let ?start = "[dump_head t, dump_speed t, dump_sizes t, Inr (dump_connections t), Inr (dump_flags t), dump_files esc q t,
     Inr (dump_trackers q t)]"
  let ?rest = "[Inr (newline @ newline @ newline), Inr (''    '' @ replicate 150 CHR ''*'' @ newline), Inr (newline @ newline)] :: string result list"
  have "\<exists>s. dump_head t = Inr s" "\<exists>s. dump_speed t = Inr s" "\<exists>s. dump_sizes t = Inr s"
    unfolding dump_head_def dump_speed_def dump_sizes_def
    by (intro concat_results_ok; use dump_size_ok in auto)+
  then obtain s where s: "concat_results ?start = Inr s"
    using concat_results_ok [of ?start] dump_files_ok [OF assms] by auto
  obtain s' where s': "concat_results ?rest = Inr s'" using concat_results_ok [of ?rest] by auto
  let ?m = "foldl (dump_piece api t (reader_positions heap t)) \<lparr>pm_text = ''        '', pm_have = 0, pm_prioritized = 0\<rparr>
      (map int [0..<nat (pieces_count t)])"
  have "concat_results [Inr (dump_pieces api heap t)] = Inr (dump_pieces api heap t)" by simp
  from concat_results_append [OF concat_results_append [OF s this] s']
  have d: "dump api q esc heap t = Inr ((s @ dump_pieces api heap t) @ s')" by (simp add: dump_def)
  have counts: "pm_have ?m = int (card {i. 0 \<le> i \<and> i < pieces_count t \<and> have_piece api t i})"
    "pm_prioritized ?m = int (card {i. 0 \<le> i \<and> i < pieces_count t \<and> wanted_piece api t (reader_positions heap t) i})"
    by (simp_all add: dump_fold_counts have_piece_def flip: length_filter_pieces)
  show ?thesis
    by (rule exI [of _ "s @ ''    Pieces:'' @ newline @ pm_text ?m @ newline @ ''        ''"], rule exI [of _ s'])
      (simp add: d dump_pieces_def Let_def counts)
qed

lemma dump_page_example:
  "\<exists>before after. dump demo_api demo_query (\<lambda>s. s) (\<lambda>a. demo_reader) (demo_torrent\<lparr>t_files := [demo_file], t_readers := [(7, 0)]\<rparr>) =
   Inr (before @ ''Readers: <b>'' @ show_int 1 @ ''</b>, Stored: <b>'' @ show_int 0 @ ''</b>, Prioritized: <b>'' @ after)"
proof -
  let ?t = "demo_torrent\<lparr>t_files := [demo_file], t_readers := [(7, 0)]\<rparr>"
  have "\<forall>f \<in> set (t_files ?t). 0 \<le> f_index f \<and> nat (f_index f) < length (q_file_priorities demo_query (t_native ?t))"
    by (simp add: demo_file_def demo_query_def)
  note d = dump_page [OF this, of demo_api "\<lambda>s. s" "\<lambda>a. demo_reader"]
  have "\<not> have_piece demo_api ?t i" for i
    by (simp add: have_piece_def demo_api_def demo_torrent_def new_torrent_def demo_handle_def)
  then have none: "card {i. 0 \<le> i \<and> i < pieces_count ?t \<and> have_piece demo_api ?t i} = 0" by simp
  have one: "length (t_readers ?t) = 1" by simp
  show ?thesis using d unfolding none one by auto
qed

end
