(* ===== verification/Web.thy ===== *)
theory Web
  imports Dump Reader
begin

text \<open>
  The HTTP endpoints of \<open>src/src/web/\<close>: the controllers for torrents, files, streams, the
  session, the settings and the rest, the authorisation and the error handler. An endpoint is a
  function of its decoded parameters and the state of the program; it returns the response and the
  new state. \<open>Inl\<close> is left to undefined behaviour and to exceptions that the endpoint does
  not catch. oatpp, JSON and percent-encoding are parameters. Log output is left out.
\<close>

section \<open>Responses and the state of the program\<close>

datatype web_body =
    Torrents_body "torrent_info_dto list"
  | Torrent_body torrent_info_dto
  | Torrent_status_body torrent_status_dto
  | Torrent_operation_body torrent_operation_dto
  | Files_body "file_info_dto list"
  | File_body file_info_dto
  | File_status_body file_status_dto
  | File_operation_body file_operation_dto
  | Session_status_body session_status_dto
  | Session_operation_body session_operation_dto
  | Torrent_add_body torrent_add_dto
  | Error_body error_dto
  | Status_body status_dto
  | Text_body string
  | Empty_body int
  | Stream_body address int

record response =
  rs_status :: int
  rs_body :: web_body
  rs_headers :: "(string \<times> string) list"

definition dto_response :: "int \<Rightarrow> web_body \<Rightarrow> response" where
  "dto_response code b = \<lparr>rs_status = code, rs_body = b, rs_headers = []\<rparr>"

text \<open>
  \<open>we_parse_json\<close> reads JSON onto a configuration: an error message, if any, and the
  configuration with the fields read so far. \<open>we_range\<close> is \<open>Range::parse\<close> and
  \<open>we_content_range\<close> the text of a \<open>Content-Range\<close>.
\<close>

record ('n, 'h) web_env =
  we_session :: "('n, 'h) session_env"
  we_unescape :: "string \<Rightarrow> string"
  we_escape :: "string \<Rightarrow> string"
  we_lower :: "string \<Rightarrow> string"
  we_parse_json :: "string \<Rightarrow> config \<Rightarrow> string option \<times> config"
  we_serialize :: "(string \<times> json_value) list \<Rightarrow> string"
  we_range :: "string \<Rightarrow> int \<times> int"
  we_content_range :: "int \<Rightarrow> int \<Rightarrow> int \<Rightarrow> string"

record ('n, 'h) web =
  w_session :: "('n, 'h) session"
  w_files :: file_system
  w_config :: config
  w_heap :: reader_heap
  w_next :: address
  w_closing :: bool

definition put_torrent :: "'h torrent \<Rightarrow> ('n, 'h) web \<Rightarrow> ('n, 'h) web" where
  "put_torrent t w = w\<lparr>w_session := (w_session w)\<lparr>s_torrents := update_torrent (t_hash t) (\<lambda>_. t) (s_torrents (w_session w))\<rparr>\<rparr>"

text \<open>The file is an object of the torrent: what an operation changes is changed there.\<close>

definition put_file :: "lh_file \<Rightarrow> 'h torrent \<Rightarrow> 'h torrent" where
  "put_file f t = t\<lparr>t_files := map (\<lambda>g. if f_index g = f_index f then f else g) (t_files t)\<rparr>"

definition clean_hash :: "('n, 'h) web_env \<Rightarrow> string \<Rightarrow> string" where
  "clean_hash env hash_param = we_lower env (e_trim (we_session env) (we_unescape env hash_param))"

definition flag_param :: "('n, 'h) web_env \<Rightarrow> string \<Rightarrow> bool" where
  "flag_param env p \<longleftrightarrow> we_unescape env p = ''true''"

text \<open>
  \<open>std::stoi\<close>: blanks, a sign, then digits, and whatever follows; it throws when there are no
  digits or the number does not fit.
\<close>

definition is_blank :: "char \<Rightarrow> bool" where
  "is_blank c \<longleftrightarrow> c \<in> {CHR 0x20, CHR 0x09, CHR 0x0A, CHR 0x0B, CHR 0x0C, CHR 0x0D}"

definition stoi :: "string \<Rightarrow> int result" where
  "stoi s =
     (let s1 = dropWhile is_blank s;
          neg = (s1 \<noteq> [] \<and> hd s1 = CHR ''-'');
          s2 = (if s1 \<noteq> [] \<and> (hd s1 = CHR ''-'' \<or> hd s1 = CHR ''+'') then tl s1 else s1);
          ds = takeWhile is_digit s2;
          n = (if neg then - int (read_digits ds) else int (read_digits ds))
      in if ds = [] \<or> \<not> fits_int n then Inl (Throw StdException ''stoi'') else Inr n)"

section \<open>Torrents\<close>

definition torrent_ok :: "string \<Rightarrow> response" where
  "torrent_ok hash = dto_response 200 (Torrent_operation_body \<lparr>to_success = True, to_hash = c_str hash, to_error = None\<rparr>)"

definition torrent_failed :: "string \<Rightarrow> string \<Rightarrow> response" where
  "torrent_failed hash msg =
     dto_response 500 (Torrent_operation_body \<lparr>to_success = False, to_hash = c_str hash, to_error = Some (c_str msg)\<rparr>)"

text \<open>The \<open>catch\<close> of an endpoint; \<open>w\<close> is the state when the exception is thrown.\<close>

definition catch_with :: "(string \<Rightarrow> response) \<Rightarrow> 'w \<Rightarrow> (response \<times> 'w) result \<Rightarrow> (response \<times> 'w) result" where
  "catch_with failed w r = (case r of
     Inl (Throw c msg) \<Rightarrow> Inr (failed msg, w)
   | Inl Undefined \<Rightarrow> Inl Undefined
   | Inr x \<Rightarrow> Inr x)"

definition torrents_list :: "('n, 'h) web_env \<Rightarrow> string \<Rightarrow> ('n, 'h) web \<Rightarrow> (response \<times> ('n, 'h) web) result" where
  "torrents_list env status_param w =
     Inr (dto_response 200 (Torrents_body
       (map (\<lambda>t. torrentInfoDtoFromTorrent t (flag_param env status_param)) (s_torrents (w_session w)))), w)"

definition torrents_remove ::
  "('n, 'h) web_env \<Rightarrow> string \<Rightarrow> string \<Rightarrow> string \<Rightarrow> ('n, 'h) web \<Rightarrow> (response \<times> ('n, 'h) web) result" where
  "torrents_remove env hash_param delete_files delete_data w =
     (let hash = clean_hash env hash_param in
      catch_with (torrent_failed hash) w
        (bind_result (remove_torrent (we_session env) hash (flag_param env delete_files) (flag_param env delete_data)
            (w_session w) (w_files w)) (\<lambda>(done, s, fs).
          Inr (torrent_ok hash, w\<lparr>w_session := s, w_files := fs\<rparr>))))"

definition with_torrent ::
  "('n, 'h) web_env \<Rightarrow> string \<Rightarrow> (string \<Rightarrow> 'h torrent \<Rightarrow> (response \<times> ('n, 'h) web) result) \<Rightarrow> ('n, 'h) web \<Rightarrow>
    (response \<times> ('n, 'h) web) result" where
  "with_torrent env hash_param f w =
     (let hash = clean_hash env hash_param in
      catch_with (torrent_failed hash) w (bind_result (get_torrent (w_session w) hash) (f hash)))"

definition torrents_resume :: "('n, 'h) web_env \<Rightarrow> string \<Rightarrow> ('n, 'h) web \<Rightarrow> (response \<times> ('n, 'h) web) result" where
  "torrents_resume env hash_param w = with_torrent env hash_param
     (\<lambda>hash t. Inr (torrent_ok hash, put_torrent (resume (e_lt (we_session env)) t) w)) w"

definition torrents_pause :: "('n, 'h) web_env \<Rightarrow> string \<Rightarrow> ('n, 'h) web \<Rightarrow> (response \<times> ('n, 'h) web) result" where
  "torrents_pause env hash_param w = with_torrent env hash_param
     (\<lambda>hash t. Inr (torrent_ok hash, put_torrent (pause (e_lt (we_session env)) t) w)) w"

definition torrents_info :: "('n, 'h) web_env \<Rightarrow> string \<Rightarrow> string \<Rightarrow> ('n, 'h) web \<Rightarrow> (response \<times> ('n, 'h) web) result" where
  "torrents_info env hash_param status_param w = with_torrent env hash_param
     (\<lambda>hash t. Inr (dto_response 200 (Torrent_body (torrentInfoDtoFromTorrent t (flag_param env status_param))), w)) w"

definition torrents_status :: "('n, 'h) web_env \<Rightarrow> string \<Rightarrow> ('n, 'h) web \<Rightarrow> (response \<times> ('n, 'h) web) result" where
  "torrents_status env hash_param w = with_torrent env hash_param
     (\<lambda>hash t. Inr (dto_response 200 (Torrent_status_body (torrentStatusDtoFromTorrent t)), w)) w"

fun file_infos ::
  "('n, 'h) web_env \<Rightarrow> 'h torrent \<Rightarrow> int list \<Rightarrow> rat list \<Rightarrow> string \<Rightarrow> bool \<Rightarrow> lh_file list \<Rightarrow> file_info_dto list result" where
  "file_infos env t completed prog host is_status [] = Inr []"
| "file_infos env t completed prog host is_status (f # fs) =
     bind_result (fileInfoDtoFromFile (e_lt (we_session env)) (we_escape env) (f, t) completed prog host is_status) (\<lambda>d.
     bind_result (file_infos env t completed prog host is_status fs) (\<lambda>ds. Inr (d # ds)))"

definition torrents_files ::
  "('n, 'h) web_env \<Rightarrow> string \<Rightarrow> string \<Rightarrow> string \<Rightarrow> ('n, 'h) web \<Rightarrow> (response \<times> ('n, 'h) web) result" where
  "torrents_files env hash_param status_param host_header w = with_torrent env hash_param
     (\<lambda>hash t.
       let completed = files_completed_bytes (e_query (we_session env)) t in
       bind_result (files_progress (e_query (we_session env)) t) (\<lambda>prog.
       bind_result (file_infos env t completed prog (''http://'' @ host_header) (flag_param env status_param) (t_files t))
         (\<lambda>ds. Inr (dto_response 200 (Files_body ds), w)))) w"

text \<open>
  \<open>oatpp::String(tf.data())\<close> reads the bytes up to the first zero byte; without one it reads
  past the end of the vector.
\<close>

definition string_of_data :: "string \<Rightarrow> string result" where
  "string_of_data bytes = (if CHR 0x00 \<in> set bytes then Inr (c_str bytes) else Inl Undefined)"

definition torrents_generate :: "('n, 'h) web_env \<Rightarrow> string \<Rightarrow> ('n, 'h) web \<Rightarrow> (response \<times> ('n, 'h) web) result" where
  "torrents_generate env hash_param w = with_torrent env hash_param
     (\<lambda>hash t. bind_result (generate (e_bencode (we_session env)) t) (\<lambda>tf.
        bind_result (string_of_data tf) (\<lambda>s. Inr (dto_response 200 (Text_body s), w)))) w"

section \<open>Files\<close>

definition file_ok :: "string \<Rightarrow> int \<Rightarrow> lh_file \<Rightarrow> response" where
  "file_ok hash index f = dto_response 200 (File_operation_body
     \<lparr>fo_success = True, fo_hash = c_str hash, fo_id = index, fo_path = Some (c_str (f_path f)), fo_error = None\<rparr>)"

definition file_failed :: "string \<Rightarrow> int \<Rightarrow> string \<Rightarrow> response" where
  "file_failed hash index msg = dto_response 500 (File_operation_body
     \<lparr>fo_success = False, fo_hash = c_str hash, fo_id = index, fo_path = None, fo_error = Some (c_str msg)\<rparr>)"

text \<open>The index is read before the hash is cleaned: an index that is no number reports the raw hash.\<close>

definition with_file ::
  "('n, 'h) web_env \<Rightarrow> string \<Rightarrow> string \<Rightarrow>
    (string \<Rightarrow> int \<Rightarrow> lh_file \<times> 'h torrent \<Rightarrow> (response \<times> ('n, 'h) web) result) \<Rightarrow> ('n, 'h) web \<Rightarrow>
    (response \<times> ('n, 'h) web) result" where
  "with_file env hash_param index_param f w =
     (case stoi (we_unescape env index_param) of
        Inl (Throw c msg) \<Rightarrow> Inr (file_failed (we_unescape env hash_param) (-1) msg, w)
      | Inl Undefined \<Rightarrow> Inl Undefined
      | Inr index \<Rightarrow>
          let hash = clean_hash env hash_param in
          catch_with (file_failed hash index) w
            (bind_result (get_torrent (w_session w) hash) (\<lambda>t.
             bind_result (get_file t index) (\<lambda>file. f hash index (file, t)))))"

definition put_both :: "lh_file \<times> 'h torrent \<Rightarrow> ('n, 'h) web \<Rightarrow> ('n, 'h) web" where
  "put_both ft w = put_torrent (put_file (fst ft) (snd ft)) w"

text \<open>\<open>lt::low_priority\<close> is 1, \<open>lt::dont_download\<close> is 0.\<close>

definition files_download ::
  "('n, 'h) web_env \<Rightarrow> string \<Rightarrow> string \<Rightarrow> string \<Rightarrow> ('n, 'h) web \<Rightarrow> (response \<times> ('n, 'h) web) result" where
  "files_download env hash_param index_param buffer_param w = with_file env hash_param index_param
     (\<lambda>hash index ft.
       let api = e_lt (we_session env); ft1 = set_priority api 1 ft in
       bind_result (if flag_param env buffer_param then start_buffer api ft1 else Inr ft1) (\<lambda>ft2.
         Inr (file_ok hash index (fst ft2), put_both ft2 w))) w"

definition files_stop :: "('n, 'h) web_env \<Rightarrow> string \<Rightarrow> string \<Rightarrow> ('n, 'h) web \<Rightarrow> (response \<times> ('n, 'h) web) result" where
  "files_stop env hash_param index_param w = with_file env hash_param index_param
     (\<lambda>hash index ft.
       let ft1 = set_priority (e_lt (we_session env)) 0 ft
       in Inr (file_ok hash index (fst ft1), put_both ft1 w)) w"

definition files_info :: "('n, 'h) web_env \<Rightarrow> string \<Rightarrow> string \<Rightarrow> string \<Rightarrow> ('n, 'h) web \<Rightarrow> (response \<times> ('n, 'h) web) result" where
  "files_info env hash_param index_param host_header w = with_file env hash_param index_param
     (\<lambda>hash index ft.
       bind_result (fileInfoDtoFromFile (e_lt (we_session env)) (we_escape env) ft [] [] (''http://'' @ host_header) False)
         (\<lambda>d. Inr (dto_response 200 (File_body d), w))) w"

definition files_status :: "('n, 'h) web_env \<Rightarrow> string \<Rightarrow> string \<Rightarrow> ('n, 'h) web \<Rightarrow> (response \<times> ('n, 'h) web) result" where
  "files_status env hash_param index_param w = with_file env hash_param index_param
     (\<lambda>hash index ft.
       let completed = files_completed_bytes (e_query (we_session env)) (snd ft) in
       bind_result (files_progress (e_query (we_session env)) (snd ft)) (\<lambda>prog.
       bind_result (fileStatusDtoFromFile (e_lt (we_session env)) ft completed prog) (\<lambda>d.
         Inr (dto_response 200 (File_status_body d), w)))) w"

section \<open>Streams\<close>

definition requested_range :: "('n, 'h) web_env \<Rightarrow> string option \<Rightarrow> lh_file \<Rightarrow> int \<times> int" where
  "requested_range env header f =
     (let (a, b) = we_range env (case header of None \<Rightarrow> ''bytes=0-'' | Some h \<Rightarrow> if h = [] then ''bytes=0-'' else h)
      in (a, if b = 0 then f_size f - 1 else b))"

text \<open>
  A reader is made and registered for every request. The body of a \<open>GET\<close> keeps it; after a
  \<open>HEAD\<close> nobody does and it is destroyed when the function returns.
\<close>

definition stream_headers :: "lh_file \<Rightarrow> (string \<times> string) list" where
  "stream_headers f =
     [(''Accept-Ranges'', ''bytes''), (''Connection'', ''close'')] @
     (if guess_mime_type (f_name f) \<noteq> [] then [(''Content-Type'', c_str (guess_mime_type (f_name f)))] else [])"

text \<open>A file on disk that is not selected is set to be downloaded.\<close>

definition stream_target :: "'h lt_api \<Rightarrow> lh_file \<times> 'h torrent \<Rightarrow> lh_file \<times> 'h torrent" where
  "stream_target api ft = (if \<not> is_memory_storage (snd ft) \<and> priority api ft < 1 then set_priority api 1 ft else ft)"

definition stream_file ::
  "('n, 'h) web_env \<Rightarrow> (nat \<Rightarrow> nat) \<Rightarrow> string \<Rightarrow> string \<Rightarrow> string \<Rightarrow> string option \<Rightarrow> ('n, 'h) web \<Rightarrow> (response \<times> ('n, 'h) web) result" where
  "stream_file env draw meth hash_param index_param range_header w = with_file env hash_param index_param
     (\<lambda>hash index ft0.
       let (f, t) = stream_target (e_lt (we_session env)) ft0;
           (a, b) = requested_range env range_header f;
           content_length = f_size f - a;
           r = new_reader draw t f (a, b);
           addr = w_next w;
           f1 = register_reader (rd_id r) addr f;
           t1 = torrent_register_reader (rd_id r) addr t;
           store = (\<lambda>v. w\<lparr>w_heap := (w_heap w)(addr := v), w_next := addr + 1\<rparr>)
       in if meth = ''HEAD'' then
            let (r', f2, t2) = destroy_reader r (f1, t1)
            in Inr (\<lparr>rs_status = 200, rs_body = Empty_body (f_size f), rs_headers = stream_headers f\<rparr>,
                 put_both (f2, t2) (store r'))
          else
            Inr (\<lparr>rs_status = 206, rs_body = Stream_body addr content_length,
                   rs_headers = (''Content-Range'', we_content_range env a b (f_size f)) # stream_headers f\<rparr>,
                 put_both (f1, t1) (store r))) w"

text \<open>
  The bodies that the server reads from: a stream asks its reader, an empty body has nothing to give
  although it announces the size of the file.
\<close>

definition stream_body_read ::
  "'h lt_api \<Rightarrow> clock \<Rightarrow> (int \<Rightarrow> int \<Rightarrow> nat \<Rightarrow> bool \<times> byte list) \<Rightarrow> ('h torrent \<Rightarrow> nat \<Rightarrow> 'h poll) \<Rightarrow> config \<Rightarrow>
    byte list \<Rightarrow> address \<Rightarrow> 'h torrent \<Rightarrow> reader_heap \<Rightarrow> (int \<times> byte list \<times> 'h torrent \<times> reader_heap) result option" where
  "stream_body_read api now disk world config buffer a t hp = read api now disk world config buffer a t hp"

definition empty_body_read :: "byte list \<Rightarrow> int \<times> byte list" where
  "empty_body_read buffer = (0, buffer)"

definition known_size :: "web_body \<Rightarrow> int option" where
  "known_size b = (case b of Stream_body a n \<Rightarrow> Some n | Empty_body n \<Rightarrow> Some n | _ \<Rightarrow> None)"

section \<open>The session\<close>

text \<open>The debug page of all torrents; nothing is caught here.\<close>

definition page_start :: string where
  "page_start = ''<!DOCTYPE html><html lang='' @ quoted ''en-US'' @ ''><head>'' @ ''<title>lt2http Status</title>'' @
     ''<meta http-equiv='' @ quoted ''Content-Type'' @ '' content='' @ quoted ''text/html; charset=utf-8'' @ ''/>'' @
     ''<meta http-equiv='' @ quoted ''refresh'' @ '' content='' @ quoted ''30'' @ ''>'' @ ''</head><body>''"

definition session_info :: "('n, 'h) web_env \<Rightarrow> ('n, 'h) web \<Rightarrow> (response \<times> ('n, 'h) web) result" where
  "session_info env w =
     bind_result (concat_results (map (\<lambda>t.
       bind_result (dump (e_lt (we_session env)) (e_query (we_session env)) (we_escape env) (w_heap w) t)
         (\<lambda>page. Inr (''<pre>'' @ page @ ''</pre>''))) (s_torrents (w_session w)))) (\<lambda>pages.
       Inr (dto_response 200 (Text_body (c_str (page_start @ pages @ ''</body></html>''))), w))"

definition session_status :: "('n, 'h) web_env \<Rightarrow> ('n, 'h) web \<Rightarrow> (response \<times> ('n, 'h) web) result" where
  "session_status env w =
     Inr (dto_response 200 (Session_status_body (sessionStatusDtoFromSession (e_ls (we_session env)) (w_session w))), w)"

definition session_ok :: response where
  "session_ok = dto_response 200 (Session_operation_body \<lparr>so_success = True, so_error = None\<rparr>)"

definition session_endpoint_resume :: "('n, 'h) web_env \<Rightarrow> ('n, 'h) web \<Rightarrow> (response \<times> ('n, 'h) web) result" where
  "session_endpoint_resume env w = Inr (session_ok, w\<lparr>w_session := session_resume (e_ls (we_session env)) (w_session w)\<rparr>)"

definition session_endpoint_pause :: "('n, 'h) web_env \<Rightarrow> ('n, 'h) web \<Rightarrow> (response \<times> ('n, 'h) web) result" where
  "session_endpoint_pause env w = Inr (session_ok, w\<lparr>w_session := session_pause (e_ls (we_session env)) (w_session w)\<rparr>)"

definition add_failed :: "string \<Rightarrow> response" where
  "add_failed msg = dto_response 500 (Torrent_add_body
     \<lparr>ta_success = False, ta_has_metadata = None, ta_hash = None, ta_error = Some (c_str msg)\<rparr>)"

definition add_ok :: "'h torrent \<Rightarrow> response" where
  "add_ok t = dto_response 200 (Torrent_add_body
     \<lparr>ta_success = True, ta_has_metadata = Some (has_metadata t), ta_hash = Some (c_str (t_hash t)), ta_error = None\<rparr>)"

text \<open>The new torrent is the last of the list.\<close>

definition add_and_report ::
  "('n, 'h) web_env \<Rightarrow> storage_type_t \<Rightarrow> int \<Rightarrow> string \<Rightarrow> ('n, 'h) web \<Rightarrow> (response \<times> ('n, 'h) web) result" where
  "add_and_report env storage now uri w =
     (case add_torrent (we_session env) (w_config w) uri False storage True now (w_session w) (w_files w) of
        (Inl (Throw c msg), s, fs) \<Rightarrow> Inr (add_failed msg, w\<lparr>w_session := s, w_files := fs\<rparr>)
      | (Inl Undefined, s, fs) \<Rightarrow> Inl Undefined
      | (Inr hash, s, fs) \<Rightarrow> Inr (add_ok (last (s_torrents s)), w\<lparr>w_session := s, w_files := fs\<rparr>))"

definition parse_storage :: "string \<Rightarrow> storage_type_t result" where
  "parse_storage s = from_string storage_values storage_strings ''storage_type_t'' (c_str s)"

definition temporary_path :: "('n, 'h) web_env \<Rightarrow> (nat \<Rightarrow> nat) \<Rightarrow> config \<Rightarrow> string" where
  "temporary_path env draw config =
     path_append (e_join_path (we_session env)) (c_torrents_path config) (''tmp_'' @ get_random_numeric draw 10 @ ''.torrent'')"

text \<open>
  \<open>upload\<close>: the part named \<open>file\<close> of the request, nothing when there is none (the null
  pointer is then dereferenced), or the message of the exception that reading the request throws.
\<close>

definition session_add_file ::
  "('n, 'h) web_env \<Rightarrow> (nat \<Rightarrow> nat) \<Rightarrow> int \<Rightarrow> string \<Rightarrow> string + string option \<Rightarrow> ('n, 'h) web \<Rightarrow> (response \<times> ('n, 'h) web) result" where
  "session_add_file env draw now storage_param upload w =
     catch_with add_failed w
       (bind_result (parse_storage storage_param) (\<lambda>storage.
        case upload of
          Inl msg \<Rightarrow> Inl (Throw StdException msg)
        | Inr None \<Rightarrow> Inl Undefined
        | Inr (Some data) \<Rightarrow>
            let uri = temporary_path env draw (w_config w);
                (saved, fs) = save_file (e_can_write (we_session env)) uri data (w_files w)
            in add_and_report env storage now uri (w\<lparr>w_files := fs\<rparr>)))"

definition session_add_uri ::
  "('n, 'h) web_env \<Rightarrow> (nat \<Rightarrow> nat) \<Rightarrow> int \<Rightarrow> string \<Rightarrow> string \<Rightarrow> ('n, 'h) web \<Rightarrow> (response \<times> ('n, 'h) web) result" where
  "session_add_uri env draw now uri_param storage_param w =
     catch_with add_failed w
       (let uri = we_unescape env uri_param in
        bind_result (parse_storage storage_param) (\<lambda>storage.
        if take 4 uri = ''http'' then
          bind_result (do_request (e_request (we_session env)) uri) (\<lambda>res. case res of
             None \<Rightarrow> Inl (Throw LhException
               (''Could not download file from url '' @ [CHR 0x27] @ c_str uri @ [CHR 0x27] @ ''. Response: null''))
           | Some (status, body) \<Rightarrow>
               if status \<noteq> 200 then Inl (Throw LhException
                 (''Could not download file from url '' @ [CHR 0x27] @ c_str uri @ [CHR 0x27] @ ''. Status: '' @ show_int status))
               else
                 let path = temporary_path env draw (w_config w);
                     (saved, fs) = save_file (e_can_write (we_session env)) path body (w_files w)
                 in add_and_report env storage now path (w\<lparr>w_files := fs\<rparr>))
        else add_and_report env storage now uri w))"

section \<open>Settings and the rest\<close>

definition json_response :: "string \<Rightarrow> response" where
  "json_response s = \<lparr>rs_status = 200, rs_body = Text_body (c_str s), rs_headers = [(''Content-Type'', ''application/json'')]\<rparr>"

definition settings_get :: "('n, 'h) web_env \<Rightarrow> ('n, 'h) web \<Rightarrow> (response \<times> ('n, 'h) web) result" where
  "settings_get env w = Inr (json_response (we_serialize env (json_members (w_config w))), w)"

text \<open>\<open>ErrorHandler::handleError\<close> makes the response of an HTTP error.\<close>

definition handle_error :: "int \<Rightarrow> string \<Rightarrow> (string \<times> string) list \<Rightarrow> response" where
  "handle_error code msg headers = \<lparr>rs_status = code,
     rs_body = Status_body \<lparr>sd_status = ''ERROR'', sd_code = code, sd_message = msg\<rparr>, rs_headers = headers\<rparr>"

text \<open>
  A body that can not be read completely is an HTTP error, but what was read of it stays in the
  configuration. An exception of \<open>reconfigure\<close> leaves the endpoint; the server answers it with
  the error handler.
\<close>

definition settings_set :: "('n, 'h) web_env \<Rightarrow> string \<Rightarrow> ('n, 'h) web \<Rightarrow> (response \<times> ('n, 'h) web) result" where
  "settings_set env body w =
     (case we_parse_json env (c_str body) (w_config w) of
        (Some err, c) \<Rightarrow> Inr (handle_error 500 (c_str (''Error converting json: '' @ err)) [], w\<lparr>w_config := c\<rparr>)
      | (None, c) \<Rightarrow>
          (case reconfigure (we_session env) c (w_session w) of
             (Inl Undefined, s) \<Rightarrow> Inl Undefined
           | (Inl (Throw cl msg), s) \<Rightarrow> Inr (handle_error 500 msg [], w\<lparr>w_config := c, w_session := s\<rparr>)
           | (Inr _, s) \<Rightarrow> Inr (json_response (we_serialize env (json_members c)), w\<lparr>w_config := c, w_session := s\<rparr>)))"

definition misc_index :: "('n, 'h) web \<Rightarrow> response \<times> ('n, 'h) web" where
  "misc_index w =
     (\<lparr>rs_status = 200, rs_body = Text_body
        (''<html lang='' @ [CHR 0x27] @ ''en'' @ [CHR 0x27] @ ''>'' @ ''  <head>'' @ ''    <meta charset=utf-8/>'' @ ''  </head>'' @
         ''  <body>'' @ ''    <a href='' @ [CHR 0x27] @ ''swagger/ui'' @ [CHR 0x27] @ ''>Checkout Swagger-UI page</a>'' @
         ''  </body>'' @ ''</html>''),
       rs_headers = [(''Content-Type'', ''text/html'')]\<rparr>, w)"

text \<open>\<open>changes\<close> is the text of the changelog; its line ends become \<open><br>\<close>.\<close>

definition misc_changelog :: "string \<Rightarrow> ('n, 'h) web \<Rightarrow> response \<times> ('n, 'h) web" where
  "misc_changelog changes w =
     (\<lparr>rs_status = 200, rs_body = Text_body (c_str
        (''<html lang='' @ [CHR 0x27] @ ''en'' @ [CHR 0x27] @ ''>'' @ ''  <head>'' @ ''    <meta charset=utf-8/>'' @ ''  </head>'' @
         ''  <body>'' @ concat (map (\<lambda>c. if c = CHR 0x0A then ''<br>'' else [c]) changes) @ ''  </body>'' @ ''</html>'')),
       rs_headers = [(''Content-Type'', ''text/html'')]\<rparr>, w)"

definition misc_shutdown :: "('n, 'h) web \<Rightarrow> response \<times> ('n, 'h) web" where
  "misc_shutdown w = (dto_response 200 (Text_body ''true''), w\<lparr>w_closing := True\<rparr>)"

section \<open>Authorisation\<close>

text \<open>
  \<open>credentials\<close>: the user and password that oatpp reads from the \<open>Authorization\<close> header,
  or the error it answers when the header is missing or malformed. The interceptor lets a request
  through (\<open>None\<close>) or answers with an error.
\<close>

definition intercept :: "config \<Rightarrow> response + string \<times> string \<Rightarrow> response option" where
  "intercept config credentials =
     (if \<not> is_auth_needed config then None
      else case credentials of
        Inl denied \<Rightarrow> Some denied
      | Inr (user, password) \<Rightarrow>
          if user = c_web_login config \<and> password = c_web_password config then None
          else Some (handle_error 401 ''Unauthorized'' []))"

end
