(* ===== verification/Web_Properties.thy ===== *)
theory Web_Properties
  imports Web Session_Guarantees Reader_Properties
begin

text \<open>
  What the endpoints promise: unknown torrents are reported, a stream registers its reader and lets
  go of it, and the length of a streamed body is not that of the requested range.
\<close>

section \<open>Finding torrents and files\<close>

lemma find_update_torrent:
  "t_hash t' = hash \<Longrightarrow> find_torrent hash ts \<noteq> None \<Longrightarrow> find_torrent hash (update_torrent hash (\<lambda>_. t') ts) = Some t'"
  by (induction ts) (auto simp: find_torrent_def)

lemma get_torrent_Inr: "get_torrent s hash = Inr t \<longleftrightarrow> find_torrent hash (s_torrents s) = Some t"
  by (auto simp: get_torrent_def split: option.splits)

lemma get_file_Inr: "get_file t index = Inr f \<longleftrightarrow> find_file index t = Some f"
  by (auto simp: get_file_def split: option.splits)

lemma find_file_index: "find_file index t = Some f \<Longrightarrow> f_index f = index"
  by (auto simp: find_file_def find_Some_iff)

lemma find_put_file: "f_index f = index \<Longrightarrow> find_file index t \<noteq> None \<Longrightarrow> find_file index (put_file f t) = Some f"
proof -
  have "find (\<lambda>g. f_index g = index) xs \<noteq> None \<Longrightarrow> f_index f = index \<Longrightarrow>
      find (\<lambda>g. f_index g = index) (map (\<lambda>g. if f_index g = index then f else g) xs) = Some f" for xs
    by (induction xs) auto
  then show "f_index f = index \<Longrightarrow> find_file index t \<noteq> None \<Longrightarrow> find_file index (put_file f t) = Some f"
    by (auto simp: find_file_def put_file_def)
qed

text \<open>The torrent and the file that a request names.\<close>

definition names_file :: "('n, 'h) web_env \<Rightarrow> string \<Rightarrow> string \<Rightarrow> ('n, 'h) web \<Rightarrow> int \<Rightarrow> lh_file \<Rightarrow> 'h torrent \<Rightarrow> bool" where
  "names_file env hash_param index_param w index f t \<longleftrightarrow>
     stoi (we_unescape env index_param) = Inr index \<and>
     find_torrent (clean_hash env hash_param) (s_torrents (w_session w)) = Some t \<and> find_file index t = Some f"

lemma with_file_named:
  assumes "names_file env hash_param index_param w index f t"
  shows "with_file env hash_param index_param act w =
    catch_with (file_failed (clean_hash env hash_param) index) w (act (clean_hash env hash_param) index (f, t))"
  using assms by (simp add: with_file_def names_file_def get_torrent_Inr [THEN iffD2] get_file_Inr [THEN iffD2] Let_def)

lemma put_both_found:
  assumes "names_file env hash_param index_param w index f t" and "t_hash t' = t_hash t" and "f_index f' = f_index f"
    and "t_files t' = t_files t"
  shows "find_torrent (clean_hash env hash_param) (s_torrents (w_session (put_both (f', t') w))) = Some (put_file f' t')"
    and "find_file index (put_file f' t') = Some f'"
proof -
  have h: "t_hash (put_file f' t') = clean_hash env hash_param"
    using assms(1,2) find_torrent_Some by (fastforce simp: names_file_def put_file_def)
  with find_update_torrent [OF h] assms(1)
  show "find_torrent (clean_hash env hash_param) (s_torrents (w_session (put_both (f', t') w))) = Some (put_file f' t')"
    by (simp add: put_both_def put_torrent_def names_file_def)
  have "find_file index t' \<noteq> None" using assms(1,4) by (simp add: names_file_def find_file_def)
  then show "find_file index (put_file f' t') = Some f'"
    using assms(1,3) find_file_index by (intro find_put_file) (auto simp: names_file_def)
qed

section \<open>Streaming\<close>

lemma stream_target_fields:
  assumes "stream_target api (f, t) = (f', t')"
  shows "f_size f' = f_size f" "f_name f' = f_name f" "f_index f' = f_index f" "f_readers f' = f_readers f"
    "t_hash t' = t_hash t" "t_files t' = t_files t" "t_readers t' = t_readers t"
  using assms by (auto simp: stream_target_def set_priority_def set_file_priority_def save_resume_data_def Let_def split: if_splits)

lemma stream_file_get:
  assumes "names_file env hash_param index_param w index f t" and "meth \<noteq> ''HEAD''"
    and "stream_target (e_lt (we_session env)) (f, t) = (f', t')" and "requested_range env range_header f' = (a, b)"
    and "r = new_reader draw t' f' (a, b)"
  shows "stream_file env draw meth hash_param index_param range_header w =
    Inr (\<lparr>rs_status = 206, rs_body = Stream_body (w_next w) (f_size f' - a),
          rs_headers = (''Content-Range'', we_content_range env a b (f_size f')) # stream_headers f'\<rparr>,
      put_both (register_reader (rd_id r) (w_next w) f', torrent_register_reader (rd_id r) (w_next w) t')
        (w\<lparr>w_heap := (w_heap w)(w_next w := r), w_next := w_next w + 1\<rparr>))"
  using assms(2-5) by (simp add: stream_file_def with_file_named [OF assms(1)] catch_with_def Let_def)

lemma stream_file_head:
  assumes "names_file env hash_param index_param w index f t"
    and "stream_target (e_lt (we_session env)) (f, t) = (f', t')" and "requested_range env range_header f' = (a, b)"
    and "r = new_reader draw t' f' (a, b)"
  shows "stream_file env draw ''HEAD'' hash_param index_param range_header w =
    Inr (\<lparr>rs_status = 200, rs_body = Empty_body (f_size f'), rs_headers = stream_headers f'\<rparr>,
      put_both (unregister_reader (rd_id r) (register_reader (rd_id r) (w_next w) f'),
          torrent_unregister_reader (rd_id r) (torrent_register_reader (rd_id r) (w_next w) t'))
        (w\<lparr>w_heap := (w_heap w)(w_next w := r\<lparr>rd_isClosing := True\<rparr>), w_next := w_next w + 1\<rparr>))"
  using assms(2-4) by (simp add: stream_file_def with_file_named [OF assms(1)] catch_with_def Let_def destroy_reader_def)

text \<open>
  C28. A stream registers its reader: after a \<open>GET\<close> both the file and the torrent that the
  request names find the new reader under its number, and every other reader they had. After a
  \<open>HEAD\<close> the reader is gone from both again; if its number was free, both know the same readers
  as before.
\<close>

theorem stream_readers:
  assumes "names_file env hash_param index_param w index f t" and "stream_target (e_lt (we_session env)) (f, t) = (f', t')"
    and "requested_range env range_header f' = (a, b)" and "i = rd_id (new_reader draw t' f' (a, b))"
  shows "\<exists>resp w' t1 f1. stream_file env draw meth hash_param index_param range_header w = Inr (resp, w') \<and>
    names_file env hash_param index_param w' index f1 t1 \<and>
    (if meth = ''HEAD'' then find_reader f1 = (find_reader f)(i := None) \<and> torrent_find_reader t1 = (torrent_find_reader t)(i := None)
     else find_reader f1 = (find_reader f)(i \<mapsto> w_next w) \<and> torrent_find_reader t1 = (torrent_find_reader t)(i \<mapsto> w_next w) \<and>
       rd_id (w_heap w' (w_next w)) = i)"
proof -
  let ?r = "new_reader draw t' f' (a, b)" and ?n = "w_next w"
  note fld = stream_target_fields [OF assms(2)]
  have named: "names_file env hash_param index_param (put_both (f2, t2) (w\<lparr>w_heap := hp, w_next := k\<rparr>)) index f2 (put_file f2 t2)"
    if "t_hash t2 = t_hash t" "f_index f2 = f_index f" "t_files t2 = t_files t" for f2 t2 hp k
  proof -
    have "names_file env hash_param index_param (w\<lparr>w_heap := hp, w_next := k\<rparr>) index f t" using assms(1) by (simp add: names_file_def)
    from put_both_found [OF this that] assms(1) show ?thesis by (simp add: names_file_def)
  qed
  have readers: "torrent_find_reader (put_file f2 t2) = torrent_find_reader t2" for f2 t2
    by (simp add: torrent_find_reader_def put_file_def)
  show ?thesis
  proof (cases "meth = ''HEAD''")
    case True
    let ?f2 = "unregister_reader i (register_reader i ?n f')" and ?t2 = "torrent_unregister_reader i (torrent_register_reader i ?n t')"
    have "find_reader ?f2 = (find_reader f)(i := None)" "torrent_find_reader ?t2 = (torrent_find_reader t)(i := None)"
      using fld by (auto simp: fun_eq_iff find_reader_def unregister_reader_def register_reader_def torrent_find_reader_def
          torrent_unregister_reader_def torrent_register_reader_def)
    moreover have "t_hash ?t2 = t_hash t" "f_index ?f2 = f_index f" "t_files ?t2 = t_files t"
      using fld by (simp_all add: unregister_reader_def register_reader_def torrent_unregister_reader_def torrent_register_reader_def)
    moreover note stream_file_head [OF assms(1-3) refl, of draw, folded assms(4)]
    ultimately show ?thesis
      using True named [of ?t2 ?f2] readers [of ?f2 ?t2]
      by (intro exI [of _ "\<lparr>rs_status = 200, rs_body = Empty_body (f_size f'), rs_headers = stream_headers f'\<rparr>"]
          exI [of _ "put_both (?f2, ?t2) (w\<lparr>w_heap := (w_heap w)(?n := ?r\<lparr>rd_isClosing := True\<rparr>), w_next := ?n + 1\<rparr>)"]
          exI [of _ "put_file ?f2 ?t2"] exI [of _ ?f2]) simp
  next
    case False
    let ?f2 = "register_reader i ?n f'" and ?t2 = "torrent_register_reader i ?n t'"
    have "find_reader ?f2 = (find_reader f)(i \<mapsto> ?n)" "torrent_find_reader ?t2 = (torrent_find_reader t)(i \<mapsto> ?n)"
      using fld by (auto simp: fun_eq_iff find_reader_def register_reader_def torrent_find_reader_def torrent_register_reader_def)
    moreover have "t_hash ?t2 = t_hash t" "f_index ?f2 = f_index f" "t_files ?t2 = t_files t"
      using fld by (simp_all add: register_reader_def torrent_register_reader_def)
    moreover have "rd_id (w_heap (put_both (?f2, ?t2) (w\<lparr>w_heap := (w_heap w)(?n := ?r), w_next := ?n + 1\<rparr>)) ?n) = i"
      using assms(4) by (simp add: put_both_def put_torrent_def)
    moreover note stream_file_get [OF assms(1) False assms(2,3) refl, of draw, folded assms(4)]
    ultimately show ?thesis
      using False named [of ?t2 ?f2] readers [of ?f2 ?t2]
      by (intro exI [of _ "\<lparr>rs_status = 206, rs_body = Stream_body ?n (f_size f' - a),
            rs_headers = (''Content-Range'', we_content_range env a b (f_size f')) # stream_headers f'\<rparr>"]
          exI [of _ "put_both (?f2, ?t2) (w\<lparr>w_heap := (w_heap w)(?n := ?r), w_next := ?n + 1\<rparr>)"]
          exI [of _ "put_file ?f2 ?t2"] exI [of _ ?f2]) simp
  qed
qed

text \<open>A program with the demo torrent; ranges other than the whole file are bytes 4 to 9.\<close>

definition demo_web_env :: "(demo_native, lt_demo) web_env" where
  "demo_web_env = \<lparr>we_session = demo_session_env, we_unescape = (\<lambda>s. s), we_escape = (\<lambda>s. s), we_lower = (\<lambda>s. s),
     we_parse_json = (\<lambda>s c. (None, c)), we_serialize = (\<lambda>c. []),
     we_range = (\<lambda>s. if s = ''bytes=0-'' then (0, 0) else (4, 9)), we_content_range = (\<lambda>a b n. show_int a @ ''-'' @ show_int b)\<rparr>"

definition demo_web :: "(demo_native, lt_demo) web" where
  "demo_web = \<lparr>w_session = demo_session\<lparr>s_torrents := [demo_torrent\<lparr>t_files := [demo_file]\<rparr>]\<rparr>, w_files = Map.empty,
     w_config = default_config False, w_heap = (\<lambda>a. demo_reader), w_next = 1, w_closing = False\<rparr>"

lemma demo_named: "names_file demo_web_env ''d0'' ''0'' demo_web 0 demo_file (demo_torrent\<lparr>t_files := [demo_file]\<rparr>)"
  by (simp add: names_file_def demo_web_env_def demo_web_def clean_hash_def demo_session_env_def find_torrent_def demo_torrent_hash
      find_file_def demo_file_def stoi_def is_blank_def is_digit_def read_digits_def digit_value_def fits_int_def Let_def)

lemma demo_target:
  "stream_target (e_lt (we_session demo_web_env)) (demo_file, demo_torrent\<lparr>t_files := [demo_file]\<rparr>) = (demo_file, demo_torrent\<lparr>t_files := [demo_file]\<rparr>)"
  by (simp add: stream_target_def is_memory_storage_def demo_torrent_def new_torrent_def)

lemma demo_range:
  "requested_range demo_web_env (Some ''bytes=4-9'') demo_file = (4, 9)"
  by (simp add: requested_range_def demo_web_env_def)

theorem stream_readers_witness:
  "\<exists>resp w' t1 f1. stream_file demo_web_env (\<lambda>k. 1) ''GET'' ''d0'' ''0'' (Some ''bytes=4-9'') demo_web = Inr (resp, w') \<and>
     names_file demo_web_env ''d0'' ''0'' w' 0 f1 t1 \<and>
     find_reader f1 (rd_id (new_reader (\<lambda>k. 1) (demo_torrent\<lparr>t_files := [demo_file]\<rparr>) demo_file (4, 9))) = Some 1"
proof -
  have "w_next demo_web = 1" by (simp add: demo_web_def)
  with stream_readers [OF demo_named demo_target demo_range refl, of "\<lambda>k. 1" "''GET''"] show ?thesis
    by (elim exE conjE) (intro exI conjI, assumption+, simp)
qed

text \<open>
  C39. The length of a streamed body: a \<open>GET\<close> announces the requested range in
  \<open>Content-Range\<close> but streams everything from its start to the end of the file, so the body has
  the announced length only when the range ends with the file.
\<close>

theorem stream_content_length:
  assumes "names_file env hash_param index_param w index f t" and "meth \<noteq> ''HEAD''"
    and "requested_range env range_header f = (a, b)" and "is_memory_storage t"
  shows "\<exists>resp w'. stream_file env draw meth hash_param index_param range_header w = Inr (resp, w') \<and>
    rs_body resp = Stream_body (w_next w) (f_size f - a) \<and>
    hd (rs_headers resp) = (''Content-Range'', we_content_range env a b (f_size f)) \<and>
    (f_size f - a = b - a + 1 \<longleftrightarrow> b = f_size f - 1)"
proof -
  have "stream_target (e_lt (we_session env)) (f, t) = (f, t)" using assms(4) by (simp add: stream_target_def)
  from stream_file_get [OF assms(1,2) this assms(3) refl, of draw] show ?thesis by auto
qed

theorem stream_content_length_witness:
  "\<exists>resp w'. stream_file demo_web_env (\<lambda>k. 1) ''GET'' ''d0'' ''0'' (Some ''bytes=4-9'') demo_web = Inr (resp, w') \<and>
     rs_body resp = Stream_body 1 52 \<and> hd (rs_headers resp) = (''Content-Range'', ''4-9'')"
proof -
  have m: "is_memory_storage (demo_torrent\<lparr>t_files := [demo_file]\<rparr>)"
    by (simp add: is_memory_storage_def demo_torrent_def new_torrent_def)
  have c: "we_content_range demo_web_env 4 9 (f_size demo_file) = ''4-9''" "f_size demo_file - 4 = 52" "w_next demo_web = 1"
    by (code_simp, simp add: demo_file_def, simp add: demo_web_def)
  from stream_content_length [OF demo_named _ demo_range m, of "''GET''" "\<lambda>k. 1"] show ?thesis unfolding c by auto
qed

section \<open>Unknown torrents\<close>

definition reports_failure :: "response \<Rightarrow> bool" where
  "reports_failure resp \<longleftrightarrow> rs_status resp = 500 \<and>
     (case rs_body resp of
        Torrent_operation_body d \<Rightarrow> \<not> to_success d \<and> to_error d \<noteq> None
      | File_operation_body d \<Rightarrow> \<not> fo_success d \<and> fo_error d \<noteq> None
      | _ \<Rightarrow> False)"

lemma torrent_failed_reports [simp]: "reports_failure (torrent_failed h m)"
  by (simp add: torrent_failed_def dto_response_def reports_failure_def)

lemma file_failed_reports [simp]: "reports_failure (file_failed h i m)"
  by (simp add: file_failed_def dto_response_def reports_failure_def)

lemma with_torrent_unknown:
  assumes "find_torrent (clean_hash env hash_param) (s_torrents (w_session w)) = None"
  shows "\<exists>resp. with_torrent env hash_param act w = Inr (resp, w) \<and> reports_failure resp"
  using assms by (simp add: with_torrent_def get_torrent_def catch_with_def Let_def)

lemma with_file_unknown:
  assumes "find_torrent (clean_hash env hash_param) (s_torrents (w_session w)) = None"
  shows "\<exists>resp. with_file env hash_param index_param act w = Inr (resp, w) \<and> reports_failure resp"
proof -
  show ?thesis
  proof (cases "stoi (we_unescape env index_param)")
    case (Inl e)
    then have "e = Throw StdException ''stoi''" by (auto simp: stoi_def Let_def split: if_splits)
    with Inl show ?thesis by (simp add: with_file_def)
  next
    case (Inr i)
    with assms show ?thesis by (simp add: with_file_def get_torrent_def catch_with_def Let_def)
  qed
qed

text \<open>
  C35. Every endpoint that is given the hash of a torrent the session does not have answers 500 with
  an error message, and changes nothing.
\<close>

theorem unknown_torrent:
  assumes "find_torrent (clean_hash env h) (s_torrents (w_session w)) = None"
  shows "\<forall>out \<in> {torrents_remove env h p q w, torrents_resume env h w, torrents_pause env h w, torrents_info env h p w,
      torrents_status env h w, torrents_files env h p q w, torrents_generate env h w, files_download env h p q w,
      files_stop env h p w, files_info env h p q w, files_status env h p w, stream_file env draw p h q r w}.
    \<exists>resp. out = Inr (resp, w) \<and> reports_failure resp"
proof -
  have "\<exists>resp. torrents_remove env h p q w = Inr (resp, w) \<and> reports_failure resp"
    using assms by (simp add: torrents_remove_def remove_torrent_def remove_torrent_begin_def get_torrent_def catch_with_def Let_def)
  with with_torrent_unknown [OF assms] with_file_unknown [OF assms] show ?thesis
    by (simp add: torrents_resume_def torrents_pause_def torrents_info_def torrents_status_def torrents_files_def
        torrents_generate_def files_download_def files_stop_def files_info_def files_status_def stream_file_def)
qed

theorem unknown_torrent_witness:
  "\<exists>resp. torrents_pause demo_web_env ''zz'' demo_web = Inr (resp, demo_web) \<and> reports_failure resp"
proof -
  have "find_torrent (clean_hash demo_web_env ''zz'') (s_torrents (w_session demo_web)) = None"
    by (simp add: demo_web_env_def demo_web_def clean_hash_def demo_session_env_def find_torrent_def demo_torrent_hash)
  from unknown_torrent [OF this] show ?thesis by blast
qed

section \<open>Authorisation\<close>

text \<open>
  When a login or a password is configured, a request passes exactly when it carries both;
  without either every request passes.
\<close>

lemma intercept_passes:
  "intercept config credentials = None \<longleftrightarrow>
     c_web_login config = [] \<and> c_web_password config = [] \<or>
     credentials = Inr (c_web_login config, c_web_password config)"
  by (auto simp: intercept_def is_auth_needed_def split: sum.splits prod.splits)

end
