(* ===== verification/Streaming.thy ===== *)
theory Streaming
  imports Serving Web_Properties
begin

text \<open>
  A stream from the request to its last byte: the response of the endpoint, and the reads that the
  server makes of its body while the torrent is being downloaded.
\<close>

section \<open>A body pulled by the server\<close>

text \<open>
  The server fetches a body in several reads. For each it chooses the size of its buffer; by then the
  other threads have left some torrent, and they go on in some way while the reader waits.
\<close>

record 'h pull =
  pu_size :: nat
  pu_torrent :: "'h torrent"
  pu_world :: "'h torrent \<Rightarrow> nat \<Rightarrow> 'h poll"

lemma upto_append: "0 \<le> n \<Longrightarrow> 0 \<le> m \<Longrightarrow> [x..x + n + m - 1] = [x..x + n - 1] @ [x + n..x + n + m - 1]" for x :: int
  by (cases "m = 0") (auto intro: upto_split1)

text \<open>It stops at a read that delivers nothing.\<close>

fun pull_body ::
  "'h lt_api \<Rightarrow> clock \<Rightarrow> (int \<Rightarrow> int \<Rightarrow> nat \<Rightarrow> bool \<times> byte list) \<Rightarrow> config \<Rightarrow> address \<Rightarrow> 'h pull list \<Rightarrow> reader_heap \<Rightarrow>
    (byte list \<times> reader_heap) result option" where
  "pull_body api now disk config a [] hp = Some (Inr ([], hp))"
| "pull_body api now disk config a (pu # pus) hp =
     (case stream_body_read api now disk (pu_world pu) config (replicate (pu_size pu) 0) a (pu_torrent pu) hp of
        None \<Rightarrow> None
      | Some (Inl e) \<Rightarrow> Some (Inl e)
      | Some (Inr (n, b, t, hp')) \<Rightarrow>
          if n \<le> 0 then Some (Inr ([], hp'))
          else map_option (\<lambda>r. bind_result r (\<lambda>(rest, hp''). Inr (take (nat n) b @ rest, hp'')))
            (pull_body api now disk config a pus hp'))"

definition pull_ok :: "'h lt_api \<Rightarrow> torrent_info \<Rightarrow> (int \<Rightarrow> byte) \<Rightarrow> lh_file \<Rightarrow> 'h pull \<Rightarrow> bool" where
  "pull_ok api ti data f pu \<longleftrightarrow> 0 < pu_size pu \<and> int (pu_size pu) \<le> ti_piece_length ti \<and>
     serves api ti data (pu_torrent pu) \<and> downloads api ti data f 60 (pu_world pu)"

lemma pull_delivers:
  assumes ok: "info_ok ti" and api: "piece_api_ok api (nat (ti_num_pieces ti))"
  shows "list_all (pull_ok api ti data f) pus \<Longrightarrow> reads_at ti f pos (hp a) \<Longrightarrow>
    rd_isPrioritized (hp a) \<or> pus = [] \<or> prioritizable ti (pu_torrent (hd pus)) hp \<Longrightarrow> 0 \<le> pos \<Longrightarrow>
    pos + int (sum_list (map pu_size pus)) \<le> f_size f \<Longrightarrow>
    \<exists>hp'. pull_body api now disk config a pus hp =
      Some (Inr (map data [f_offset f + pos..f_offset f + pos + int (sum_list (map pu_size pus)) - 1], hp'))"
proof (induction pus arbitrary: pos hp)
  case (Cons pu pus)
  let ?b = "replicate (pu_size pu) (0 :: byte)" and ?x = "f_offset f + pos" and ?s = "int (sum_list (map pu_size pus))"
  have pu: "0 < pu_size pu" "int (pu_size pu) \<le> ti_piece_length ti" "serves api ti data (pu_torrent pu)"
    "downloads api ti data f 60 (pu_world pu)" using Cons.prems(1) by (simp_all add: pull_ok_def)
  have l: "int (length ?b) = int (pu_size pu)" "?b \<noteq> []" using pu(1) by simp_all
  obtain t' hp' where r: "read api now disk (pu_world pu) config ?b a (pu_torrent pu) hp =
      Some (Inr (int (pu_size pu), map data [?x..?x + int (pu_size pu) - 1], t', hp'))"
    "reads_at ti f (pos + int (pu_size pu)) (hp' a)" "rd_isPrioritized (hp' a)"
    using read_waits_and_delivers [where hp = hp and a = a and buffer = ?b, OF ok api pu(3) Cons.prems(2) _ pu(4) Cons.prems(4) _ l(2) _ refl,
        of now disk config] Cons.prems(3,5) pu(2) l by auto
  obtain hp'' where "pull_body api now disk config a pus hp' =
      Some (Inr (map data [?x + int (pu_size pu)..?x + int (pu_size pu) + ?s - 1], hp''))"
    using Cons.IH [where pos = "pos + int (pu_size pu)" and hp = hp'] r(2,3) Cons.prems(1,4,5) by (auto simp: add.assoc)
  moreover have "[?x..?x + int (pu_size pu) + ?s - 1] = [?x..?x + int (pu_size pu) - 1] @ [?x + int (pu_size pu)..?x + int (pu_size pu) + ?s - 1]"
    by (rule upto_append) simp_all
  ultimately show ?case using r(1) pu(1) by (simp add: stream_body_read_def add.assoc)
qed simp

section \<open>From the request to the bytes\<close>

text \<open>The file lies where the metadata says.\<close>

definition file_placed :: "torrent_info \<Rightarrow> lh_file \<Rightarrow> bool" where
  "file_placed ti f \<longleftrightarrow> file_in ti f \<and> f_piece_start f = piece_of ti (f_offset f) \<and>
     f_piece_end f = piece_of ti (f_offset f + f_size f - 1)"

text \<open>So the constructor of \<open>File\<close> leaves it.\<close>

lemma new_file_placed:
  assumes "t_info t = Some ti" and "info_ok ti" and "0 \<le> off" and "0 < sz" and "off + sz \<le> ti_total_size ti"
    and "new_file config t i path name sz off prio = Inr f"
  shows "file_placed ti f"
  using assms(3-6) region_interval [OF assms(2-5)]
  by (auto simp: new_file_def info_fields [OF assms(1,2)] bind_result_eq_Inr Let_def file_placed_def file_in_def)

lemma new_reader_reads:
  assumes "file_placed ti f" and "piece_length t = ti_piece_length ti"
  shows "reads_at ti f a (new_reader draw t f (a, b))"
  using assms by (simp add: reads_at_def reads_file_def new_reader_def file_placed_def Let_def)

text \<open>
  C7. A stream delivers the file: after a \<open>GET\<close> on a file of a torrent in memory, from a start
  inside the file, the server that fetches the announced number of bytes in buffers of at
  most a piece gets exactly the bytes of the file from the start to its end, in order, although pieces are
  still missing when a read begins, as long as each arrives before the reader's timeout of 60 seconds
  and pieces that libtorrent reports are in memory.
\<close>

theorem stream_delivers:
  assumes "names_file env hash_param index_param w index f t" and "is_memory_storage t"
    and "requested_range env range_header f = (a, b)" and "0 \<le> a"
    and "info_ok ti" and "file_placed ti f" and "piece_length t = ti_piece_length ti"
    and "piece_api_ok (e_lt (we_session env)) (nat (ti_num_pieces ti))"
    and "list_all (pull_ok (e_lt (we_session env)) ti data f) pus" and "pus \<noteq> []"
    and "int (sum_list (map pu_size pus)) = f_size f - a"
    and "prioritizable ti (pu_torrent (hd pus)) ((w_heap w)(w_next w := new_reader draw t f (a, b)))"
  shows "\<exists>resp w' hp'. stream_file env draw ''GET'' hash_param index_param range_header w = Inr (resp, w') \<and>
    rs_status resp = 206 \<and> rs_body resp = Stream_body (w_next w) (f_size f - a) \<and>
    pull_body (e_lt (we_session env)) now disk config (w_next w) pus (w_heap w') =
      Some (Inr (map data [f_offset f + a..f_offset f + f_size f - 1], hp'))"
proof -
  let ?hp = "(w_heap w)(w_next w := new_reader draw t f (a, b))"
  have "stream_target (e_lt (we_session env)) (f, t) = (f, t)" using assms(2) by (simp add: stream_target_def)
  note resp = stream_file_get [OF assms(1) _ this assms(3) refl, of "''GET''" draw]
  have "\<exists>hp'. pull_body (e_lt (we_session env)) now disk config (w_next w) pus ?hp = Some (Inr (map data
      [f_offset f + a..f_offset f + a + int (sum_list (map pu_size pus)) - 1], hp'))"
    by (rule pull_delivers [where hp = ?hp and pos = a, OF assms(5,8,9)])
      (use assms new_reader_reads [OF assms(6,7)] in simp_all)
  then show ?thesis using resp assms(11) by (auto simp: put_both_def put_torrent_def)
qed

text \<open>
  The demo file from its fifth byte: the first three pieces are there, then the storage drops the first one
  for the fourth, which arrives while the third read waits for it.
\<close>

definition demo_data :: "int \<Rightarrow> byte" where
  "demo_data x = of_int (x div 16 + 1)"

definition demo_late :: "lt_demo torrent" where
  "demo_late = demo_torrent\<lparr>t_native := demo_handle\<lparr>d_have := (\<lambda>i. i \<in> {1, 2, 3})\<rparr>,
     t_memory_storage := Some (demo_write 3 4 demo_filled)\<rparr>"

definition demo_early :: "lt_demo torrent" where
  "demo_early = demo_torrent\<lparr>t_native := demo_handle\<lparr>d_have := (\<lambda>i. i \<in> {0, 1, 2})\<rparr>, t_memory_storage := Some demo_filled\<rparr>"

definition busy_world :: "lt_demo torrent \<Rightarrow> nat \<Rightarrow> lt_demo poll" where
  "busy_world t k = \<lparr>po_torrent = (if k = 0 then demo_early else demo_late), po_app_closing = False, po_elapsed_ms = int k * 300\<rparr>"

definition demo_pulls :: "lt_demo pull list" where
  "demo_pulls = [\<lparr>pu_size = 16, pu_torrent = demo_early, pu_world = busy_world\<rparr>, \<lparr>pu_size = 16, pu_torrent = demo_early, pu_world = busy_world\<rparr>,
     \<lparr>pu_size = 16, pu_torrent = demo_early, pu_world = busy_world\<rparr>, \<lparr>pu_size = 4, pu_torrent = demo_late, pu_world = busy_world\<rparr>]"

lemma demo_late_storage: "wf_storage (demo_write 3 4 demo_filled)"
proof -
  have "ms_piece_count demo_filled = 4" by code_simp
  then show ?thesis by (intro wf_demo_write wf_demo_filled) (simp add: valid_piece_def)
qed

lemma demo_late_content:
  "content (demo_write 3 4 demo_filled) 1 = Some (replicate 16 2)" "content (demo_write 3 4 demo_filled) 2 = Some (replicate 16 3)"
  "content (demo_write 3 4 demo_filled) 3 = Some (replicate 8 4 @ replicate 8 0)"
  "ms_is_initialized (demo_write 3 4 demo_filled)" "ms_piece_length (demo_write 3 4 demo_filled) = 16" "ms_piece_count demo_filled = 4"
  by (code_simp, code_simp, code_simp, code_simp, code_simp, code_simp)

definition stream_api :: "lt_demo lt_api" where
  "stream_api = e_lt (we_session demo_web_env)"

lemma stream_api_have: "lt_have_piece stream_api = d_have"
  by (simp add: stream_api_def demo_web_env_def demo_session_env_def demo_api_def)

lemma stream_api_ok: "piece_api_ok stream_api 4"
  using piece_api_ok_demo by (simp add: stream_api_def demo_web_env_def demo_session_env_def piece_api_ok_def)

lemma demo_serves_if:
  assumes "t = demo_torrent\<lparr>t_native := demo_handle\<lparr>d_have := (\<lambda>i. i \<in> H)\<rparr>, t_memory_storage := Some s\<rparr>"
    and "wf_storage s" and "ms_is_initialized s" and "ms_piece_length s = 16"
    and "\<And>p. p \<in> H \<Longrightarrow> content s p = Some (if p = 3 then replicate 8 4 @ replicate 8 0 else replicate 16 (of_int (p + 1)))"
  shows "serves stream_api demo_info demo_data t"
proof -
  have i: "ti_piece_length demo_info = 16" "ti_num_pieces demo_info = 4" by (simp_all add: demo_info_def)
  have "torrent_content t (x div 16) \<noteq> None \<and> stored_byte 16 t x = demo_data x"
    if h: "have_piece stream_api t (x div 16)" and x: "x < 56" for x
  proof -
    have "x div 16 \<in> H" using h by (simp add: assms(1) have_piece_def stream_api_have)
    from assms(5) [OF this] have c: "torrent_content t (x div 16) =
        Some (if x div 16 = 3 then replicate 8 4 @ replicate 8 0 else replicate 16 (of_int (x div 16 + 1)))"
      by (simp add: assms(1) torrent_content_def)
    moreover have "x mod 16 < 8" if "x div 16 = 3" using that x div_mult_mod_eq [of x 16] by linarith
    ultimately show ?thesis by (cases "x div 16 = 3") (simp_all add: stored_byte_def demo_data_def nth_append)
  qed
  moreover have "memory_torrent 16 t" "length (t_deadline_pieces t) = 4"
    using assms(2-4) by (simp_all add: assms(1) memory_torrent_def demo_torrent_def new_torrent_def is_memory_storage_def)
  moreover have "ti_total_size demo_info = 56" by (simp add: demo_info_def)
  ultimately show ?thesis by (simp add: serves_def i piece_of_def)
qed

lemma demo_serves: "serves stream_api demo_info demo_data demo_early" "serves stream_api demo_info demo_data demo_late"
proof -
  show "serves stream_api demo_info demo_data demo_early"
    by (rule demo_serves_if [OF demo_early_def wf_demo_filled demo_filled_content(4,5)]) (use demo_filled_content(1-3) in auto)
  show "serves stream_api demo_info demo_data demo_late"
    by (rule demo_serves_if [OF demo_late_def demo_late_storage demo_late_content(4,5)]) (use demo_late_content(1-3) in auto)
qed

lemma demo_downloads: "downloads stream_api demo_info demo_data demo_file 60 busy_world"
proof -
  have "arrives stream_api 60 (busy_world t) p" if "0 \<le> p" "p \<le> 3" for t p
  proof (cases "p = 3")
    case True
    then have "have_piece stream_api (po_torrent (busy_world t 1)) p"
      by (simp add: busy_world_def demo_late_def have_piece_def stream_api_have)
    moreover have "\<forall>j \<le> 1. \<not> t_isClosing (po_torrent (busy_world t j)) \<and> po_elapsed_ms (busy_world t j) \<le> 60000"
      by (auto simp: busy_world_def demo_late_def demo_early_def demo_torrent_def new_torrent_def)
    ultimately show ?thesis unfolding arrives_def by (intro exI [of _ 1]) (simp add: busy_world_def)
  next
    case False
    then have "p \<in> {0, 1, 2}" using that by auto
    then show ?thesis unfolding arrives_def
      by (intro exI [of _ 0]) (auto simp: busy_world_def demo_early_def have_piece_def stream_api_have demo_torrent_def new_torrent_def)
  qed
  then show ?thesis using demo_serves by (simp add: downloads_def busy_world_def demo_file_def)
qed

theorem stream_delivers_witness:
  "\<exists>resp w' hp'. stream_file demo_web_env (\<lambda>k. 1) ''GET'' ''d0'' ''0'' (Some ''bytes=4-9'') demo_web = Inr (resp, w') \<and>
    rs_body resp = Stream_body 1 52 \<and>
    pull_body stream_api int (\<lambda>p off n. (False, [])) (default_config False) 1 demo_pulls (w_heap w') =
      Some (Inr (replicate 12 1 @ replicate 16 2 @ replicate 16 3 @ replicate 8 4, hp'))"
proof -
  let ?t = "demo_torrent\<lparr>t_files := [demo_file]\<rparr>"
  have d: "map demo_data [f_offset demo_file + 4..f_offset demo_file + f_size demo_file - 1] =
      replicate 12 1 @ replicate 16 2 @ replicate 16 3 @ replicate 8 4" by code_simp
  have l: "piece_length ?t = 16" by code_simp
  have n: "nat (ti_num_pieces demo_info) = 4" "ti_piece_length demo_info = 16" "ti_num_pieces demo_info = 4"
    by (simp_all add: demo_info_def)
  have m: "is_memory_storage ?t" by (simp add: is_memory_storage_def demo_torrent_def new_torrent_def)
  have f: "file_placed demo_info demo_file" by (simp add: file_placed_def file_in_def piece_of_def demo_info_def demo_file_def)
  have p: "list_all (pull_ok stream_api demo_info demo_data demo_file) demo_pulls"
    using demo_serves demo_downloads by (simp add: demo_pulls_def pull_ok_def n)
  have q: "prioritizable demo_info (pu_torrent (hd demo_pulls)) hp" for hp
    by (simp add: prioritizable_def demo_pulls_def demo_early_def n demo_late_content(6) demo_torrent_def new_torrent_def)
  have e: "e_lt (we_session demo_web_env) = stream_api" "w_next demo_web = 1"
    by (simp_all add: stream_api_def demo_web_def)
  have "\<exists>resp w' hp'. stream_file demo_web_env (\<lambda>k. 1) ''GET'' ''d0'' ''0'' (Some ''bytes=4-9'') demo_web = Inr (resp, w') \<and>
    rs_status resp = 206 \<and> rs_body resp = Stream_body (w_next demo_web) (f_size demo_file - 4) \<and>
    pull_body (e_lt (we_session demo_web_env)) int (\<lambda>p off n. (False, [])) (default_config False) (w_next demo_web) demo_pulls (w_heap w') =
      Some (Inr (map demo_data [f_offset demo_file + 4..f_offset demo_file + f_size demo_file - 1], hp'))"
    by (rule stream_delivers [OF demo_named m demo_range _ info_ok_demo f])
      (use p q l n stream_api_ok in \<open>simp_all add: e demo_pulls_def demo_file_def\<close>)
  then show ?thesis unfolding e d by (simp add: demo_file_def) blast
qed

end
