(* ===== verification/Logging.thy ===== *)
theory Logging
  imports Utils Memory_Storage
begin

text \<open>
  The lines of the log: src/src/utils/logger.cpp, the response logger of src/src/web/request_logger.h, and
  the description of the pool that the memory storage writes. \<open>time\<close> is the formatted time, a
  priority that oatpp does not name is shown as a number.
\<close>

datatype log_priority = Priority_V | Priority_D | Priority_I | Priority_W | Priority_E | Priority_other nat

definition coloured :: "string \<Rightarrow> string \<Rightarrow> string" where
  "coloured colour s = [CHR 0x1B] @ ''['' @ colour @ ''m '' @ s @ '' '' @ [CHR 0x1B] @ ''[0m''"

fun level_text :: "log_priority \<Rightarrow> string" where
  "level_text Priority_V = coloured ''0;0'' ''VERB''"
| "level_text Priority_D = coloured ''34;0'' ''DEBU''"
| "level_text Priority_I = coloured ''32;0'' ''INFO''"
| "level_text Priority_W = coloured ''45;0'' ''WARN''"
| "level_text Priority_E = coloured ''41;0'' ''ERRO''"
| "level_text (Priority_other n) = '' '' @ show_nat n @ '' ''"

definition log_line :: "string \<Rightarrow> log_priority \<Rightarrow> string \<Rightarrow> string \<Rightarrow> string" where
  "log_line time priority tag message =
     ''['' @ time @ '']'' @ level_text priority @ ''|'' @
     (if message = [] then '' > '' @ tag @ [CHR 0x0A] else '' '' @ tag @ '' > '' @ message @ [CHR 0x0A])"

text \<open>The line of a response: its status, and method, host and path of the request.\<close>

definition response_log :: "int \<Rightarrow> string \<Rightarrow> string option \<Rightarrow> string \<Rightarrow> string" where
  "response_log code meth host path =
     ''['' @ show_int code @ ''] '' @ c_str meth @ '' http://'' @ (case host of Some h \<Rightarrow> c_str h | None \<Rightarrow> ''NULL'') @ c_str path"

text \<open>The buffers of the pool, each with the piece it holds.\<close>

definition get_buffer_info :: "memory_storage \<Rightarrow> string" where
  "get_buffer_info s = foldl (\<lambda>result b.
     (if result \<noteq> [] then result @ '' '' else result) @ show_int (b_index b) @ '':'' @ show_int (b_pi b)) [] (ms_buffers s)"

text \<open>It is the list of the buffers, joined with blanks.\<close>

lemma foldl_joined:
  "acc \<noteq> [] \<Longrightarrow> foldl (\<lambda>result b. (if result \<noteq> [] then result @ '' '' else result) @ f b) acc bs =
    acc @ concat (map (\<lambda>y. '' '' @ y) (map f bs))"
  by (induction bs arbitrary: acc) simp_all

lemma get_buffer_info_join:
  "get_buffer_info s = join (map (\<lambda>b. show_int (b_index b) @ '':'' @ show_int (b_pi b)) (ms_buffers s)) '' ''"
proof (cases "ms_buffers s")
  case (Cons b bs)
  then show ?thesis
    using foldl_joined [of "show_int (b_index b) @ '':'' @ show_int (b_pi b)" "\<lambda>b. show_int (b_index b) @ '':'' @ show_int (b_pi b)" bs]
    by (simp add: get_buffer_info_def comp_def)
qed (simp add: get_buffer_info_def)

end
