(* ===== verification/Api.thy ===== *)
theory Api
  imports Web
begin

text \<open>
  The description of the HTTP interface: what the \<open>ENDPOINT_INFO\<close> and \<open>ENDPOINT\<close> macros of
  src/src/web/ declare for each endpoint (method, path, parameters with their default values, and the
  types of its responses), and the order in which src/src/app/application.cpp registers them.
\<close>

section \<open>Descriptions\<close>

text \<open>The types that an endpoint declares for its responses.\<close>

datatype response_type =
    Type_String | Type_Binary | Type_Error | Type_Status
  | Type_List_TorrentInfo | Type_TorrentInfo | Type_TorrentStatus | Type_TorrentOperation | Type_TorrentAdd
  | Type_List_FileInfo | Type_FileInfo | Type_FileStatus | Type_FileOperation
  | Type_SessionStatus | Type_SessionOperation

text \<open>A query parameter; \<open>qp_default\<close> is the value of the macro \<open>QUERY\<close> when it is missing.\<close>

record query_param =
  qp_name :: string
  qp_description :: string
  qp_required :: bool
  qp_default :: "string option"

record endpoint_doc =
  ed_method :: string
  ed_path :: string
  ed_summary :: string
  ed_path_params :: "(string \<times> string) list"
  ed_query_params :: "query_param list"
  ed_consumes :: "string list"
  ed_responses :: "(int \<times> response_type \<times> string) list"

section \<open>Settings\<close>

definition settings_get_doc :: endpoint_doc where
  "settings_get_doc = \<lparr>ed_method = ''GET'', ed_path = ''/settings/get'', ed_summary = ''Get global settings'',
     ed_path_params = [],
     ed_query_params = [],
     ed_consumes = [],
     ed_responses = [(200, Type_String, ''application/json'')]\<rparr>"

definition settings_set_doc :: endpoint_doc where
  "settings_set_doc = \<lparr>ed_method = ''POST'', ed_path = ''/settings/set'', ed_summary = ''Set global settings'',
     ed_path_params = [],
     ed_query_params = [],
     ed_consumes = [''application/json''],
     ed_responses = [(200, Type_String, ''application/json'')]\<rparr>"

section \<open>The rest\<close>

definition misc_index_doc :: endpoint_doc where
  "misc_index_doc = \<lparr>ed_method = ''GET'', ed_path = ''/'', ed_summary = ''Index'',
     ed_path_params = [],
     ed_query_params = [],
     ed_consumes = [],
     ed_responses = [(200, Type_String, ''text/html'')]\<rparr>"

definition misc_changelog_doc :: endpoint_doc where
  "misc_changelog_doc = \<lparr>ed_method = ''GET'', ed_path = ''/changelog'', ed_summary = ''Changelog'',
     ed_path_params = [],
     ed_query_params = [],
     ed_consumes = [],
     ed_responses = [(200, Type_String, ''text/html'')]\<rparr>"

definition misc_shutdown_doc :: endpoint_doc where
  "misc_shutdown_doc = \<lparr>ed_method = ''GET'', ed_path = ''/shutdown'', ed_summary = ''Shutdown application gracefully'',
     ed_path_params = [],
     ed_query_params = [],
     ed_consumes = [],
     ed_responses = [(200, Type_String, ''application/json'')]\<rparr>"

section \<open>The session\<close>

definition session_info_doc :: endpoint_doc where
  "session_info_doc = \<lparr>ed_method = ''GET'', ed_path = ''/info'', ed_summary = ''Dump information for all running torrents'',
     ed_path_params = [],
     ed_query_params = [],
     ed_consumes = [],
     ed_responses = [(200, Type_String, ''text/plain'')]\<rparr>"

definition session_status_doc :: endpoint_doc where
  "session_status_doc = \<lparr>ed_method = ''GET'', ed_path = ''/status'', ed_summary = ''Show session status'',
     ed_path_params = [],
     ed_query_params = [],
     ed_consumes = [],
     ed_responses = [(200, Type_SessionStatus, ''application/json''), (500, Type_Error, ''application/json'')]\<rparr>"

definition session_resume_doc :: endpoint_doc where
  "session_resume_doc = \<lparr>ed_method = ''GET'', ed_path = ''/resume'', ed_summary = ''Resume ression'',
     ed_path_params = [],
     ed_query_params = [],
     ed_consumes = [],
     ed_responses = [(200, Type_SessionOperation, ''application/json''), (500, Type_SessionOperation, ''application/json'')]\<rparr>"

definition session_pause_doc :: endpoint_doc where
  "session_pause_doc = \<lparr>ed_method = ''GET'', ed_path = ''/pause'', ed_summary = ''Pause session'',
     ed_path_params = [],
     ed_query_params = [],
     ed_consumes = [],
     ed_responses = [(200, Type_SessionOperation, ''application/json''), (500, Type_SessionOperation, ''application/json'')]\<rparr>"

definition session_add_file_doc :: endpoint_doc where
  "session_add_file_doc = \<lparr>ed_method = ''POST'', ed_path = ''/service/add/file'', ed_summary = ''Add torrent by file (multipart form)'',
     ed_path_params = [],
     ed_query_params = [\<lparr>qp_name = ''file'', qp_description = ''Torrent file upload'', qp_required = True, qp_default = None\<rparr>,
       \<lparr>qp_name = ''storage'', qp_description = ''Define which storage to use. Values: file/memory/automatic. Default: automatic (taken from confguration)'', qp_required = False, qp_default = Some ''automatic''\<rparr>],
     ed_consumes = [],
     ed_responses = [(200, Type_TorrentAdd, ''application/json''), (500, Type_TorrentAdd, ''application/json'')]\<rparr>"

definition session_add_uri_doc :: endpoint_doc where
  "session_add_uri_doc = \<lparr>ed_method = ''GET'', ed_path = ''/service/add/uri'', ed_summary = ''Add torrent by providing magnet uri, uri to a torrent file or path to a local file'',
     ed_path_params = [],
     ed_query_params = [\<lparr>qp_name = ''uri'', qp_description = ''Magnet uri or path to local file or http(s) link'', qp_required = True, qp_default = Some ''''\<rparr>,
       \<lparr>qp_name = ''storage'', qp_description = ''Define which storage to use. Values: file/memory/automatic. Default: automatic (taken from confguration)'', qp_required = False, qp_default = Some ''automatic''\<rparr>],
     ed_consumes = [],
     ed_responses = [(200, Type_TorrentAdd, ''application/json''), (500, Type_TorrentAdd, ''application/json'')]\<rparr>"

section \<open>Torrents\<close>

definition torrents_list_doc :: endpoint_doc where
  "torrents_list_doc = \<lparr>ed_method = ''GET'', ed_path = ''/torrents'', ed_summary = ''List torrents'',
     ed_path_params = [],
     ed_query_params = [\<lparr>qp_name = ''status'', qp_description = ''Define whether we need to include torrent status fields. Values: true/false. Default: false'', qp_required = False, qp_default = Some ''false''\<rparr>],
     ed_consumes = [],
     ed_responses = [(200, Type_List_TorrentInfo, ''application/json''), (500, Type_Error, ''application/json'')]\<rparr>"

definition torrents_remove_doc :: endpoint_doc where
  "torrents_remove_doc = \<lparr>ed_method = ''GET'', ed_path = ''/torrents/{infoHash}/remove'', ed_summary = ''Remove torrent identified by InfoHash'',
     ed_path_params = [(''infoHash'', ''Torrent InfoHash'')],
     ed_query_params = [\<lparr>qp_name = ''deleteFiles'', qp_description = ''Define whether we need to remove temporary files (.parts/.fastresume). Values: true/false. Default: true'', qp_required = False, qp_default = Some ''true''\<rparr>,
       \<lparr>qp_name = ''deleteData'', qp_description = ''Define whether we need to remove downloaded files. Values: true/false. Default: false'', qp_required = False, qp_default = Some ''false''\<rparr>],
     ed_consumes = [],
     ed_responses = [(200, Type_TorrentOperation, ''application/json''), (500, Type_TorrentOperation, ''application/json'')]\<rparr>"

definition torrents_resume_doc :: endpoint_doc where
  "torrents_resume_doc = \<lparr>ed_method = ''GET'', ed_path = ''/torrents/{infoHash}/resume'', ed_summary = ''Resume torrent identified by InfoHash'',
     ed_path_params = [(''infoHash'', ''Torrent InfoHash'')],
     ed_query_params = [],
     ed_consumes = [],
     ed_responses = [(200, Type_TorrentOperation, ''application/json''), (500, Type_TorrentOperation, ''application/json'')]\<rparr>"

definition torrents_pause_doc :: endpoint_doc where
  "torrents_pause_doc = \<lparr>ed_method = ''GET'', ed_path = ''/torrents/{infoHash}/pause'', ed_summary = ''Pause torrent identified by InfoHash'',
     ed_path_params = [(''infoHash'', ''Torrent InfoHash'')],
     ed_query_params = [],
     ed_consumes = [],
     ed_responses = [(200, Type_TorrentOperation, ''application/json''), (500, Type_TorrentOperation, ''application/json'')]\<rparr>"

definition torrents_info_doc :: endpoint_doc where
  "torrents_info_doc = \<lparr>ed_method = ''GET'', ed_path = ''/torrents/{infoHash}/info'', ed_summary = ''Get info for torrent, identified by InfoHash'',
     ed_path_params = [(''infoHash'', ''Torrent InfoHash'')],
     ed_query_params = [\<lparr>qp_name = ''status'', qp_description = ''Define whether we need to include torrent status fields. Values: true/false. Default: false'', qp_required = False, qp_default = Some ''false''\<rparr>],
     ed_consumes = [],
     ed_responses = [(200, Type_TorrentInfo, ''application/json''), (500, Type_TorrentOperation, ''application/json'')]\<rparr>"

definition torrents_status_doc :: endpoint_doc where
  "torrents_status_doc = \<lparr>ed_method = ''GET'', ed_path = ''/torrents/{infoHash}/status'', ed_summary = ''Get status for torrent, identified by InfoHash'',
     ed_path_params = [(''infoHash'', ''Torrent InfoHash'')],
     ed_query_params = [],
     ed_consumes = [],
     ed_responses = [(200, Type_TorrentStatus, ''application/json''), (500, Type_TorrentOperation, ''application/json'')]\<rparr>"

definition torrents_files_doc :: endpoint_doc where
  "torrents_files_doc = \<lparr>ed_method = ''GET'', ed_path = ''/torrents/{infoHash}/files'', ed_summary = ''Get files for torrent, identified by InfoHash'',
     ed_path_params = [(''infoHash'', ''Torrent InfoHash'')],
     ed_query_params = [\<lparr>qp_name = ''status'', qp_description = ''Define whether we need to include file status fields. Values: true/false. Default: false'', qp_required = False, qp_default = Some ''false''\<rparr>],
     ed_consumes = [],
     ed_responses = [(200, Type_List_FileInfo, ''application/json''), (500, Type_TorrentOperation, ''application/json'')]\<rparr>"

definition torrents_generate_doc :: endpoint_doc where
  "torrents_generate_doc = \<lparr>ed_method = ''GET'', ed_path = ''/torrents/{infoHash}/generate'', ed_summary = ''Generate torrent file for torrent, identified by InfoHash'',
     ed_path_params = [(''infoHash'', ''Torrent InfoHash'')],
     ed_query_params = [],
     ed_consumes = [],
     ed_responses = []\<rparr>"

section \<open>Files\<close>

definition files_download_doc :: endpoint_doc where
  "files_download_doc = \<lparr>ed_method = ''GET'', ed_path = ''/torrents/{infoHash}/files/{index}/download'', ed_summary = ''Download file from torrent, identified by InfoHash'',
     ed_path_params = [(''infoHash'', ''Torrent InfoHash''), (''index'', ''File index'')],
     ed_query_params = [\<lparr>qp_name = ''buffer'', qp_description = ''Define whether we need to start file buffering. Values: true/false. Default: false'', qp_required = False, qp_default = Some ''false''\<rparr>],
     ed_consumes = [],
     ed_responses = [(200, Type_FileOperation, ''application/json''), (500, Type_FileOperation, ''application/json'')]\<rparr>"

definition files_stop_doc :: endpoint_doc where
  "files_stop_doc = \<lparr>ed_method = ''GET'', ed_path = ''/torrents/{infoHash}/files/{index}/stop'', ed_summary = ''Stop download for file from torrent, identified by InfoHash'',
     ed_path_params = [(''infoHash'', ''Torrent InfoHash''), (''index'', ''File index'')],
     ed_query_params = [],
     ed_consumes = [],
     ed_responses = [(200, Type_FileOperation, ''application/json''), (500, Type_FileOperation, ''application/json'')]\<rparr>"

definition files_info_doc :: endpoint_doc where
  "files_info_doc = \<lparr>ed_method = ''GET'', ed_path = ''/torrents/{infoHash}/files/{index}/info'', ed_summary = ''Get info for file from torrent, identified by InfoHash'',
     ed_path_params = [(''infoHash'', ''Torrent InfoHash''), (''index'', ''File index'')],
     ed_query_params = [],
     ed_consumes = [],
     ed_responses = [(200, Type_FileInfo, ''application/json''), (500, Type_FileOperation, ''application/json'')]\<rparr>"

definition files_status_doc :: endpoint_doc where
  "files_status_doc = \<lparr>ed_method = ''GET'', ed_path = ''/torrents/{infoHash}/files/{index}/status'', ed_summary = ''Get status for file from torrent, identified by InfoHash'',
     ed_path_params = [(''infoHash'', ''Torrent InfoHash''), (''index'', ''File index'')],
     ed_query_params = [],
     ed_consumes = [],
     ed_responses = [(200, Type_FileStatus, ''application/json''), (500, Type_FileOperation, ''application/json'')]\<rparr>"

section \<open>Streams\<close>

definition stream_stream_head_doc :: endpoint_doc where
  "stream_stream_head_doc = \<lparr>ed_method = ''HEAD'', ed_path = ''/torrents/{infoHash}/files/{index}/stream/{file_name}'', ed_summary = ''Stream file from torrent, identified by InfoHash'',
     ed_path_params = [(''infoHash'', ''Torrent InfoHash''), (''index'', ''File index'')],
     ed_query_params = [],
     ed_consumes = [],
     ed_responses = [(200, Type_Binary, ''application/octet-stream''), (500, Type_FileOperation, ''application/json'')]\<rparr>"

definition stream_stream_doc :: endpoint_doc where
  "stream_stream_doc = \<lparr>ed_method = ''GET'', ed_path = ''/torrents/{infoHash}/files/{index}/stream/{file_name}'', ed_summary = ''Stream file from torrent, identified by InfoHash'',
     ed_path_params = [(''infoHash'', ''Torrent InfoHash''), (''index'', ''File index'')],
     ed_query_params = [],
     ed_consumes = [],
     ed_responses = [(206, Type_Binary, ''application/octet-stream''), (500, Type_FileOperation, ''application/json'')]\<rparr>"

section \<open>Registration\<close>

text \<open>
  \<open>Application::run\<close> adds the endpoints of the controllers to the router in this order, and
  hands the same endpoints to the generator of the API page.
\<close>

definition registered_endpoints :: "endpoint_doc list" where
  "registered_endpoints =
     [settings_get_doc, settings_set_doc] @
     [misc_index_doc, misc_changelog_doc, misc_shutdown_doc] @
     [session_info_doc, session_status_doc, session_resume_doc, session_pause_doc, session_add_file_doc, session_add_uri_doc] @
     [torrents_list_doc, torrents_remove_doc, torrents_resume_doc, torrents_pause_doc, torrents_info_doc, torrents_status_doc, torrents_files_doc, torrents_generate_doc] @
     [files_download_doc, files_stop_doc, files_info_doc, files_status_doc] @
     [stream_stream_head_doc, stream_stream_doc]"

text \<open>The parts of a path between slashes; a part in braces of a pattern stands for any one part.\<close>

fun path_parts :: "string \<Rightarrow> string list" where
  "path_parts [] = [[]]"
| "path_parts (c # cs) =
     (if c = CHR ''/'' then [] # path_parts cs
      else (case path_parts cs of [] \<Rightarrow> [[c]] | p # ps \<Rightarrow> (c # p) # ps))"

definition is_variable :: "string \<Rightarrow> bool" where
  "is_variable p \<longleftrightarrow> p \<noteq> [] \<and> hd p = CHR 0x7B"

text \<open>Two patterns that no path can match both: they differ in length or in a part that is fixed in both.\<close>

definition apart :: "string \<Rightarrow> string \<Rightarrow> bool" where
  "apart p q \<longleftrightarrow> (let ps = path_parts p; qs = path_parts q in
     length ps \<noteq> length qs \<or> list_ex (\<lambda>(a, b). \<not> is_variable a \<and> \<not> is_variable b \<and> a \<noteq> b) (zip ps qs))"

definition fits :: "string \<Rightarrow> string \<Rightarrow> bool" where
  "fits p path \<longleftrightarrow> list_all2 (\<lambda>a b. is_variable a \<or> a = b) (path_parts p) (path_parts path)"

end
