(* ===== verification/Application.thy ===== *)
theory Application
  imports Api Session_Properties
begin

text \<open>
  The program as a whole (src/src/app/): how a request reaches its endpoint, how the application is
  built, served and closed, and what signals do. oatpp's server is a parameter only in so far as it
  decodes requests: a request carries its decoded parameters. Requests without a parameter that has no
  default are refused by oatpp and do not appear here.
\<close>

section \<open>Requests\<close>

datatype request =
    Settings_get
  | Settings_set string
  | Misc_index
  | Misc_changelog
  | Misc_shutdown
  | Session_info
  | Session_status
  | Session_resume
  | Session_pause
  | Session_add_file "string option" "string + string option"
  | Session_add_uri "string option" "string option"
  | Torrents_list "string option"
  | Torrents_remove string "string option" "string option"
  | Torrents_resume string
  | Torrents_pause string
  | Torrents_info string "string option"
  | Torrents_status string
  | Torrents_files string "string option" string
  | Torrents_generate string
  | Files_download string string "string option"
  | Files_stop string string
  | Files_info string string string
  | Files_status string string
  | Stream_head string string "string option"
  | Stream_get string string "string option"

fun doc_of :: "request \<Rightarrow> endpoint_doc" where
  "doc_of Settings_get = settings_get_doc"
| "doc_of (Settings_set body) = settings_set_doc"
| "doc_of Misc_index = misc_index_doc"
| "doc_of Misc_changelog = misc_changelog_doc"
| "doc_of Misc_shutdown = misc_shutdown_doc"
| "doc_of Session_info = session_info_doc"
| "doc_of Session_status = session_status_doc"
| "doc_of Session_resume = session_resume_doc"
| "doc_of Session_pause = session_pause_doc"
| "doc_of (Session_add_file storage upload) = session_add_file_doc"
| "doc_of (Session_add_uri uri storage) = session_add_uri_doc"
| "doc_of (Torrents_list st) = torrents_list_doc"
| "doc_of (Torrents_remove hash df dd) = torrents_remove_doc"
| "doc_of (Torrents_resume hash) = torrents_resume_doc"
| "doc_of (Torrents_pause hash) = torrents_pause_doc"
| "doc_of (Torrents_info hash st) = torrents_info_doc"
| "doc_of (Torrents_status hash) = torrents_status_doc"
| "doc_of (Torrents_files hash st host) = torrents_files_doc"
| "doc_of (Torrents_generate hash) = torrents_generate_doc"
| "doc_of (Files_download hash index buffer) = files_download_doc"
| "doc_of (Files_stop hash index) = files_stop_doc"
| "doc_of (Files_info hash index host) = files_info_doc"
| "doc_of (Files_status hash index) = files_status_doc"
| "doc_of (Stream_head hash index rng) = stream_stream_head_doc"
| "doc_of (Stream_get hash index rng) = stream_stream_doc"

text \<open>The value of a query parameter: what the request says, or the default of the endpoint.\<close>

definition query_value :: "endpoint_doc \<Rightarrow> string \<Rightarrow> string option \<Rightarrow> string" where
  "query_value doc name arg = (case arg of
     Some v \<Rightarrow> v
   | None \<Rightarrow> (case find (\<lambda>p. qp_name p = name) (ed_query_params doc) of
       Some p \<Rightarrow> (case qp_default p of Some d \<Rightarrow> d | None \<Rightarrow> []) | None \<Rightarrow> []))"

text \<open>
  \<open>draw\<close>: the random digits, \<open>now\<close>: the time, \<open>changes\<close>: the text of the changelog.
\<close>

fun dispatch ::
  "('n, 'h) web_env \<Rightarrow> (nat \<Rightarrow> nat) \<Rightarrow> int \<Rightarrow> string \<Rightarrow> request \<Rightarrow> ('n, 'h) web \<Rightarrow> (response \<times> ('n, 'h) web) result" where
  "dispatch env draw now changes Settings_get w = settings_get env w"
| "dispatch env draw now changes (Settings_set body) w = settings_set env body w"
| "dispatch env draw now changes Misc_index w = Inr (misc_index w)"
| "dispatch env draw now changes Misc_changelog w = Inr (misc_changelog changes w)"
| "dispatch env draw now changes Misc_shutdown w = Inr (misc_shutdown w)"
| "dispatch env draw now changes Session_info w = session_info env w"
| "dispatch env draw now changes Session_status w = session_status env w"
| "dispatch env draw now changes Session_resume w = session_endpoint_resume env w"
| "dispatch env draw now changes Session_pause w = session_endpoint_pause env w"
| "dispatch env draw now changes (Session_add_file storage upload) w =
     session_add_file env draw now (query_value session_add_file_doc ''storage'' storage) upload w"
| "dispatch env draw now changes (Session_add_uri uri storage) w =
     session_add_uri env draw now (query_value session_add_uri_doc ''uri'' uri) (query_value session_add_uri_doc ''storage'' storage) w"
| "dispatch env draw now changes (Torrents_list st) w = torrents_list env (query_value torrents_list_doc ''status'' st) w"
| "dispatch env draw now changes (Torrents_remove hash df dd) w =
     torrents_remove env hash (query_value torrents_remove_doc ''deleteFiles'' df) (query_value torrents_remove_doc ''deleteData'' dd) w"
| "dispatch env draw now changes (Torrents_resume hash) w = torrents_resume env hash w"
| "dispatch env draw now changes (Torrents_pause hash) w = torrents_pause env hash w"
| "dispatch env draw now changes (Torrents_info hash st) w = torrents_info env hash (query_value torrents_info_doc ''status'' st) w"
| "dispatch env draw now changes (Torrents_status hash) w = torrents_status env hash w"
| "dispatch env draw now changes (Torrents_files hash st host) w =
     torrents_files env hash (query_value torrents_files_doc ''status'' st) host w"
| "dispatch env draw now changes (Torrents_generate hash) w = torrents_generate env hash w"
| "dispatch env draw now changes (Files_download hash index buffer) w =
     files_download env hash index (query_value files_download_doc ''buffer'' buffer) w"
| "dispatch env draw now changes (Files_stop hash index) w = files_stop env hash index w"
| "dispatch env draw now changes (Files_info hash index host) w = files_info env hash index host w"
| "dispatch env draw now changes (Files_status hash index) w = files_status env hash index w"
| "dispatch env draw now changes (Stream_head hash index rng) w = stream_file env draw ''HEAD'' hash index rng w"
| "dispatch env draw now changes (Stream_get hash index rng) w = stream_file env draw ''GET'' hash index rng w"

text \<open>The interceptor of the connection handler sees every request before its endpoint does.\<close>

definition serve_request ::
  "('n, 'h) web_env \<Rightarrow> (nat \<Rightarrow> nat) \<Rightarrow> int \<Rightarrow> string \<Rightarrow> response + string \<times> string \<Rightarrow> request \<Rightarrow>
    ('n, 'h) web \<Rightarrow> (response \<times> ('n, 'h) web) result" where
  "serve_request env draw now changes credentials req w =
     (case intercept (w_config w) credentials of
        Some resp \<Rightarrow> Inr (resp, w)
      | None \<Rightarrow> dispatch env draw now changes req w)"

section \<open>The life of the application\<close>

datatype phase = Serving | Stopping | Closed | Killed

record ('n, 'h) app =
  a_web :: "('n, 'h) web"
  a_phase :: phase
  a_interface :: string
  a_port :: int

text \<open>
  The constructor reads the configuration and makes the session from it. Printing the help or writing
  a configuration file ends the process (\<open>None\<close>); \<open>heap\<close> is the unused memory.
\<close>

definition new_application ::
  "config_env \<Rightarrow> ('n, 'h) web_env \<Rightarrow> (settings_pack \<Rightarrow> 'n) \<Rightarrow> string list \<Rightarrow> int \<Rightarrow> file_system \<Rightarrow> reader_heap \<Rightarrow>
    po_vars option \<Rightarrow> bool \<Rightarrow> ('n, 'h) web option result" where
  "new_application cenv env start_lt trackers memory fs heap po garbage =
     (case new_config cenv po garbage of
        Failed e \<Rightarrow> Inl e
      | Exited files \<Rightarrow> Inr None
      | Configured c files \<Rightarrow>
          bind_result (new_session (we_session env) start_lt trackers memory c) (\<lambda>s.
            Inr (Some \<lparr>w_session = s, w_files = fs ++ map_of files, w_config = c, w_heap = heap, w_next = 0, w_closing = False\<rparr>)))"

text \<open>\<open>Application::run\<close> up to the server loop. The server listens on the low 16 bits of the port.\<close>

definition run_application :: "('n, 'h) web \<Rightarrow> ('n, 'h) app" where
  "run_application w =
     \<lparr>a_web = w, a_phase = Serving, a_interface = c_web_interface (w_config w), a_port = c_web_port (w_config w)\<rparr>"

definition listen_port :: "('n, 'h) app \<Rightarrow> int" where
  "listen_port a = a_port a mod 2 ^ 16"

definition swagger_server_uri :: "('n, 'h) app \<Rightarrow> string" where
  "swagger_server_uri a =
     ''http://'' @ (if a_interface a \<noteq> ''0.0.0.0'' then a_interface a else ''127.0.0.1'') @ '':'' @ show_int (a_port a)"

text \<open>The condition of the server loop, and what follows the loop.\<close>

definition keep_serving :: "('n, 'h) app \<Rightarrow> bool" where
  "keep_serving a \<longleftrightarrow> \<not> w_closing (a_web a)"

definition set_close :: "bool \<Rightarrow> ('n, 'h) app \<Rightarrow> ('n, 'h) app" where
  "set_close v a = a\<lparr>a_web := (a_web a)\<lparr>w_closing := v\<rparr>\<rparr>"

definition stop_serving :: "('n, 'h) app \<Rightarrow> ('n, 'h) app" where
  "stop_serving a = (set_close True a)\<lparr>a_phase := Stopping\<rparr>"

definition close_application :: "('n, 'h) lt_session_api \<Rightarrow> ('n, 'h) app \<Rightarrow> ('n, 'h) app" where
  "close_application ls a =
     a\<lparr>a_web := (a_web a)\<lparr>w_session := close ls (w_session (a_web a))\<rparr>, a_phase := Closed\<rparr>"

text \<open>Signal 11 (\<open>SIGSEGV\<close>) ends the process; the others only ask it to close.\<close>

definition signalHandler :: "int \<Rightarrow> ('n, 'h) app \<Rightarrow> ('n, 'h) app" where
  "signalHandler signum a =
     (let a1 = set_close True a in if signum = 11 then a1\<lparr>a_phase := Killed\<rparr> else a1)"

text \<open>
  \<open>main\<close> after the construction: an exception of \<open>init\<close> is caught and \<open>close\<close> is
  called all the same, on the application that does not exist.
\<close>

definition main_start :: "('n, 'h) web option result \<Rightarrow> ('n, 'h) app option result" where
  "main_start r = (case r of
     Inl e \<Rightarrow> Inl Undefined
   | Inr None \<Rightarrow> Inr None
   | Inr (Some w) \<Rightarrow> Inr (Some (run_application w)))"

text \<open>
  The steps of a running application, in any order: requests and the threads of the session while it
  is not closed, signals, the end of the server loop, closing after the loop or after an exception.
  A request that adds a torrent finds resume files that belong to their torrents.
\<close>

definition adds_torrent :: "request \<Rightarrow> bool" where
  "adds_torrent req \<longleftrightarrow> (case req of Session_add_file _ _ \<Rightarrow> True | Session_add_uri _ _ \<Rightarrow> True | _ \<Rightarrow> False)"

inductive app_step :: "('n, 'h) web_env \<Rightarrow> ('n, 'h) app \<Rightarrow> ('n, 'h) app \<Rightarrow> bool" for env where
  request: "a_phase a \<in> {Serving, Stopping} \<Longrightarrow>
    (adds_torrent req \<Longrightarrow> resume_files_ok (we_session env) (s_config (w_session (a_web a))) (w_files (a_web a))) \<Longrightarrow>
    serve_request env draw now changes credentials req (a_web a) = Inr (resp, w') \<Longrightarrow> app_step env a (a\<lparr>a_web := w'\<rparr>)"
| background: "a_phase a \<in> {Serving, Stopping} \<Longrightarrow>
    session_step (we_session env) (w_session (a_web a), w_files (a_web a)) (s', fs') \<Longrightarrow>
    app_step env a (a\<lparr>a_web := (a_web a)\<lparr>w_session := s', w_files := fs'\<rparr>\<rparr>)"
| signal: "a_phase a \<in> {Serving, Stopping} \<Longrightarrow> app_step env a (signalHandler signum a)"
| served: "a_phase a = Serving \<Longrightarrow> \<not> keep_serving a \<Longrightarrow> app_step env a (stop_serving a)"
| closed: "a_phase a = Stopping \<Longrightarrow> app_step env a (close_application (e_ls (we_session env)) a)"
| failed: "a_phase a = Serving \<Longrightarrow> app_step env a (close_application (e_ls (we_session env)) a)"

inductive app_reachable :: "('n, 'h) web_env \<Rightarrow> ('n, 'h) app \<Rightarrow> bool" for env where
  start: "new_application cenv env start_lt trackers memory fs heap po garbage = Inr (Some w) \<Longrightarrow>
    app_reachable env (run_application w)"
| step: "app_reachable env a \<Longrightarrow> app_step env a b \<Longrightarrow> app_reachable env b"

end
