(* ===== verification/App_Properties.thy ===== *)
theory App_Properties
  imports Application Web_Properties "HOL-Library.Sublist"
begin

text \<open>
  The HTTP interface as a whole: every answer has a status and a type that its endpoint declares, and
  no two endpoints compete for a path.
\<close>

section \<open>Types of responses\<close>

fun body_type :: "web_body \<Rightarrow> response_type" where
  "body_type (Torrents_body ds) = Type_List_TorrentInfo"
| "body_type (Torrent_body d) = Type_TorrentInfo"
| "body_type (Torrent_status_body d) = Type_TorrentStatus"
| "body_type (Torrent_operation_body d) = Type_TorrentOperation"
| "body_type (Files_body ds) = Type_List_FileInfo"
| "body_type (File_body d) = Type_FileInfo"
| "body_type (File_status_body d) = Type_FileStatus"
| "body_type (File_operation_body d) = Type_FileOperation"
| "body_type (Session_status_body d) = Type_SessionStatus"
| "body_type (Session_operation_body d) = Type_SessionOperation"
| "body_type (Torrent_add_body d) = Type_TorrentAdd"
| "body_type (Error_body d) = Type_Error"
| "body_type (Status_body d) = Type_Status"
| "body_type (Text_body s) = Type_String"
| "body_type (Empty_body n) = Type_Binary"
| "body_type (Stream_body a n) = Type_Binary"

definition kind :: "response \<Rightarrow> int \<times> response_type" where
  "kind resp = (rs_status resp, body_type (rs_body resp))"

definition declared :: "endpoint_doc \<Rightarrow> (int \<times> response_type) set" where
  "declared doc = (\<lambda>(code, ty, mime). (code, ty)) ` set (ed_responses doc)"

text \<open>The answers an endpoint can give besides undefined behaviour; \<open>Inl\<close> with an exception is not one.\<close>

definition answers :: "(int \<times> response_type) set \<Rightarrow> (response \<times> 'w) result \<Rightarrow> bool" where
  "answers K r \<longleftrightarrow> (case r of Inl e \<Rightarrow> e = Undefined | Inr (resp, w) \<Rightarrow> kind resp \<in> K)"

definition yields :: "(int \<times> response_type) set \<Rightarrow> (response \<times> 'w) result \<Rightarrow> bool" where
  "yields K r \<longleftrightarrow> (\<forall>resp w. r = Inr (resp, w) \<longrightarrow> kind resp \<in> K)"

lemma yields_bind [intro!]: "(\<And>a. yields K (f a)) \<Longrightarrow> yields K (bind_result r f)"
  by (cases r) (auto simp: yields_def)

lemma yields_Inr [simp]: "yields K (Inr (resp, w)) \<longleftrightarrow> kind resp \<in> K"
  by (simp add: yields_def)

lemma yields_Inl [simp]: "yields K (Inl e)"
  by (simp add: yields_def)

lemma answers_Inr [simp]: "answers K (Inr (resp, w)) \<longleftrightarrow> kind resp \<in> K"
  by (simp add: answers_def)

lemma answers_catch: "yields K r \<Longrightarrow> (\<And>msg. kind (failed msg) \<in> K) \<Longrightarrow> answers K (catch_with failed w r)"
  by (auto simp: answers_def catch_with_def yields_def split: sum.splits failure.splits)

lemma kind_simps [simp]:
  "kind \<lparr>rs_status = code, rs_body = b, rs_headers = hs\<rparr> = (code, body_type b)"
  "kind (dto_response code b) = (code, body_type b)"
  "kind (torrent_failed h m) = (500, Type_TorrentOperation)" "kind (torrent_ok h) = (200, Type_TorrentOperation)"
  "kind (file_failed h i m) = (500, Type_FileOperation)" "kind (file_ok h i f) = (200, Type_FileOperation)"
  "kind (add_failed m) = (500, Type_TorrentAdd)" "kind (add_ok t) = (200, Type_TorrentAdd)"
  "kind session_ok = (200, Type_SessionOperation)" "kind (json_response s) = (200, Type_String)"
  "kind (handle_error code m hs) = (code, Type_Status)"
  by (simp_all add: kind_def dto_response_def torrent_failed_def torrent_ok_def file_failed_def file_ok_def
      add_failed_def add_ok_def session_ok_def json_response_def handle_error_def)

lemma with_torrent_answers:
  "(500, Type_TorrentOperation) \<in> K \<Longrightarrow> (\<And>hash t. yields K (f hash t)) \<Longrightarrow> answers K (with_torrent env h f w)"
  unfolding with_torrent_def Let_def by (rule answers_catch) auto

lemma stoi_failure: "stoi s = Inl e \<Longrightarrow> e = Throw StdException ''stoi''"
  by (auto simp: stoi_def Let_def split: if_splits)

lemma with_file_answers:
  assumes "(500, Type_FileOperation) \<in> K" and "\<And>hash index ft. yields K (f hash index ft)"
  shows "answers K (with_file env h i f w)"
proof (cases "stoi (we_unescape env i)")
  case (Inl e)
  with stoi_failure [OF Inl] assms(1) show ?thesis by (simp add: with_file_def)
next
  case (Inr index)
  then show ?thesis using assms by (auto simp: with_file_def Let_def intro!: answers_catch)
qed

lemmas doc_defs = settings_get_doc_def settings_set_doc_def misc_index_doc_def misc_changelog_doc_def misc_shutdown_doc_def
  session_info_doc_def session_status_doc_def session_resume_doc_def session_pause_doc_def session_add_file_doc_def
  session_add_uri_doc_def torrents_list_doc_def torrents_remove_doc_def torrents_resume_doc_def torrents_pause_doc_def
  torrents_info_doc_def torrents_status_doc_def torrents_files_doc_def torrents_generate_doc_def files_download_doc_def
  files_stop_doc_def files_info_doc_def files_status_doc_def stream_stream_head_doc_def stream_stream_doc_def

lemma add_and_report_answers: "answers {(200, Type_TorrentAdd), (500, Type_TorrentAdd)} (add_and_report env st now uri w)"
  by (auto simp: add_and_report_def answers_def split: prod.splits sum.splits failure.splits)

lemma add_and_report_yields: "yields {(200, Type_TorrentAdd), (500, Type_TorrentAdd)} (add_and_report env st now uri w)"
  using add_and_report_answers [of env st now uri w] by (auto simp: answers_def yields_def)

lemma concat_results_failure:
  "concat_results rs = Inl e \<Longrightarrow> \<forall>r \<in> set rs. \<forall>e. r = Inl e \<longrightarrow> e = Undefined \<Longrightarrow> e = Undefined"
  by (induction rs) (auto simp: bind_result_def split: sum.splits)

lemma dump_file_failure: "dump_file esc pr t f = Inl e \<Longrightarrow> e = Undefined"
  using humanize_bytes_ok [of "f_size f"] by (auto simp: dump_file_def Let_def split: if_splits)

lemma dump_files_failure: "dump_files esc q t = Inl e \<Longrightarrow> e = Undefined"
  unfolding dump_files_def by (erule concat_results_failure) (auto dest: dump_file_failure)

lemma dump_blocks_ok: "\<exists>s. dump_head t = Inr s" "\<exists>s. dump_speed t = Inr s" "\<exists>s. dump_sizes t = Inr s"
  unfolding dump_head_def dump_speed_def dump_sizes_def
  by (intro concat_results_ok; use dump_size_ok in auto)+

lemma dump_failure: "dump api q esc hp t = Inl e \<Longrightarrow> e = Undefined"
  unfolding dump_def by (erule concat_results_failure) (use dump_blocks_ok [of t] in \<open>auto dest: dump_files_failure\<close>)

lemma session_info_answers: "answers {(200, Type_String)} (session_info env w)"
proof -
  let ?ps = "map (\<lambda>t. bind_result (dump (e_lt (we_session env)) (e_query (we_session env)) (we_escape env) (w_heap w) t)
      (\<lambda>page. Inr (''<pre>'' @ page @ ''</pre>''))) (s_torrents (w_session w))"
  have "e = Undefined" if "concat_results ?ps = Inl e" for e
    using that by (rule concat_results_failure) (auto simp: bind_result_def split: sum.splits dest: dump_failure)
  then show ?thesis unfolding session_info_def by (cases "concat_results ?ps") (auto simp: answers_def)
qed

text \<open>What two endpoints answer besides what they declare.\<close>

definition undeclared :: "request \<Rightarrow> (int \<times> response_type) set" where
  "undeclared req = (case req of
     Torrents_generate hash \<Rightarrow> {(200, Type_String), (500, Type_TorrentOperation)}
   | Settings_set body \<Rightarrow> {(500, Type_Status)}
   | _ \<Rightarrow> {})"

text \<open>
  C14. Every request is answered as its endpoint declares, with a status and a body of the declared
  type, and no exception leaves an endpoint; the only exceptions are \<open>generate\<close>, which declares
  nothing, and \<open>settings/set\<close>, which does not declare its error.
\<close>

theorem responses_declared: "answers (declared (doc_of req) \<union> undeclared req) (dispatch env draw now changes req w)"
proof (cases req)
  case Session_info
  then show ?thesis using session_info_answers [of env w]
    by (auto simp: answers_def declared_def doc_defs split: sum.splits)
next
  case (Session_add_file storage upload)
  then show ?thesis
    by (auto simp: session_add_file_def declared_def undeclared_def doc_defs Let_def intro!: answers_catch
        intro: add_and_report_yields split: sum.splits option.splits prod.splits)
next
  case (Session_add_uri uri storage)
  then show ?thesis
    by (auto simp: session_add_uri_def declared_def undeclared_def doc_defs Let_def add_and_report_yields intro!: answers_catch
        split: option.splits prod.splits)
next
  case (Settings_set body)
  then show ?thesis
    by (auto simp: settings_set_def answers_def undeclared_def declared_def doc_defs split: prod.splits option.splits sum.splits failure.splits)
qed (auto simp: declared_def undeclared_def doc_defs settings_get_def misc_index_def misc_changelog_def misc_shutdown_def
    session_status_def session_endpoint_resume_def session_endpoint_pause_def torrents_list_def
    torrents_resume_def torrents_pause_def torrents_info_def torrents_status_def torrents_files_def torrents_generate_def
    torrents_remove_def files_download_def files_stop_def files_info_def files_status_def stream_file_def Let_def
    intro!: with_torrent_answers with_file_answers answers_catch split: prod.splits)

section \<open>Routes\<close>

lemma fits_apart: "fits p path \<Longrightarrow> fits q path \<Longrightarrow> \<not> apart p q"
  unfolding fits_def apart_def Let_def
  by (fastforce simp: list_all2_conv_all_nth list_ex_iff in_set_zip)

definition competes :: "endpoint_doc \<Rightarrow> endpoint_doc \<Rightarrow> bool" where
  "competes d e \<longleftrightarrow> ed_method d = ed_method e \<and> \<not> apart (ed_path d) (ed_path e)"

lemma no_competition: "sorted_wrt (\<lambda>d e. \<not> competes d e) registered_endpoints"
  by code_simp

lemma apart_sym: "apart p q = apart q p"
proof -
  have "list_ex (\<lambda>(a, b). \<not> is_variable a \<and> \<not> is_variable b \<and> a \<noteq> b) (zip ps qs) =
      list_ex (\<lambda>(a, b). \<not> is_variable a \<and> \<not> is_variable b \<and> a \<noteq> b) (zip qs ps)" for ps qs
    by (fastforce simp: list_ex_iff in_set_zip)
  then show ?thesis by (simp add: apart_def Let_def eq_commute)
qed

text \<open>
  No two endpoints compete for a request: for a router that matches fixed parts of a path
  literally and lets a part in braces stand for one part, every method and path leads to at most one
  of the registered endpoints.
\<close>

lemma routes_unambiguous:
  assumes "\<And>pattern path. routed pattern path \<Longrightarrow> fits pattern path"
    and "d \<in> set registered_endpoints" and "e \<in> set registered_endpoints" and "ed_method d = ed_method e"
    and "routed (ed_path d) path" and "routed (ed_path e) path"
  shows "d = e"
proof -
  let ?xs = registered_endpoints
  obtain i j where i: "i < length ?xs" "d = ?xs ! i" and j: "j < length ?xs" "e = ?xs ! j"
    using assms(2,3) by (auto simp: in_set_conv_nth)
  have "competes d e" "competes e d"
    using fits_apart [OF assms(1) [OF assms(5)] assms(1) [OF assms(6)]] assms(4) apart_sym by (auto simp: competes_def)
  then have "\<not> i < j" "\<not> j < i"
    using no_competition i j by (auto simp: sorted_wrt_iff_nth_less)
  then show ?thesis using i j by (metis nat_neq_iff)
qed

lemma routes_unambiguous_example:
  "{e. e \<in> set registered_endpoints \<and> ed_method e = ''GET'' \<and> fits (ed_path e) ''/torrents/d0/status''} = {torrents_status_doc}"
proof -
  have "fits (ed_path torrents_status_doc) ''/torrents/d0/status''" by code_simp
  moreover have "torrents_status_doc \<in> set registered_endpoints" "ed_method torrents_status_doc = ''GET''"
    by (simp_all add: registered_endpoints_def torrents_status_doc_def)
  moreover have "e = torrents_status_doc" if "e \<in> set registered_endpoints" "ed_method e = ''GET''" "fits (ed_path e) ''/torrents/d0/status''" for e
    using routes_unambiguous [of fits e torrents_status_doc "''/torrents/d0/status''"] that calculation by simp
  ultimately show ?thesis by blast
qed

end
