(* ===== verification/Effects.thy ===== *)
theory Effects
  imports App_Properties
begin

text \<open>
  What the handler of a request does to the state, as a relation between the state before and the
  state after it. A handler may stop at an error, and some errors become responses; the rules below
  hold for every relation that allows a request to do nothing.
\<close>

definition leads :: "(('n, 'h) web \<Rightarrow> ('n, 'h) web \<Rightarrow> bool) \<Rightarrow> ('n, 'h) web \<Rightarrow> (response \<times> ('n, 'h) web) result \<Rightarrow> bool" where
  "leads E w r \<longleftrightarrow> (\<forall>resp w'. r = Inr (resp, w') \<longrightarrow> E w w')"

lemma leads_Inr [simp]: "leads E w (Inr (resp, w')) \<longleftrightarrow> E w w'"
  by (simp add: leads_def)

lemma leads_Inl [simp]: "leads E w (Inl e)"
  by (simp add: leads_def)

lemma leads_bind: "(\<And>a. r = Inr a \<Longrightarrow> leads E w (f a)) \<Longrightarrow> leads E w (bind_result r f)"
  by (cases r) auto

locale effect =
  fixes E :: "('n, 'h) web \<Rightarrow> ('n, 'h) web \<Rightarrow> bool"
  assumes unchanged: "E w w"
begin

lemma leads_catch: "leads E w r \<Longrightarrow> leads E w (catch_with failed w r)"
  using unchanged by (auto simp: leads_def catch_with_def split: sum.splits failure.splits)

lemma leads_with_torrent:
  assumes "\<And>hash t. find_torrent hash (s_torrents (w_session w)) = Some t \<Longrightarrow> leads E w (f hash t)"
  shows "leads E w (with_torrent env h f w)"
  unfolding with_torrent_def Let_def
  by (intro leads_catch leads_bind assms) (simp add: get_torrent_Inr)

lemma leads_with_file:
  assumes "\<And>hash index t file. find_torrent hash (s_torrents (w_session w)) = Some t \<Longrightarrow> find_file index t = Some file \<Longrightarrow>
    leads E w (f hash index (file, t))"
  shows "leads E w (with_file env h i f w)"
  unfolding with_file_def Let_def
  by (auto split: sum.splits failure.splits intro!: leads_catch leads_bind assms simp: unchanged get_torrent_Inr get_file_Inr)

end

end
