(* ===== verification/App_Invariant.thy ===== *)
theory App_Invariant
  imports Effects
begin

text \<open>
  Requests act on the session only by the operations of the session, so that what holds of every
  sequence of session operations holds of the program: the chain from HTTP requests down to
  \<open>session_step\<close>, and the invariants of the running application.
\<close>

section \<open>Effects of a request\<close>

text \<open>
  What a request may do: a sequence of steps of the session, and whatever to the rest of the state,
  except that a pending close stays pending.
\<close>

definition acts :: "('n, 'h) web_env \<Rightarrow> ('n, 'h) web \<Rightarrow> ('n, 'h) web \<Rightarrow> bool" where
  "acts env w w' \<longleftrightarrow> (session_step (we_session env))\<^sup>*\<^sup>* (w_session w, w_files w) (w_session w', w_files w') \<and>
     (w_closing w \<longrightarrow> w_closing w')"

lemma acts_refl [simp]: "acts env w w"
  by (simp add: acts_def)

lemma acts_same: "w_session w' = w_session w \<Longrightarrow> w_files w' = w_files w \<Longrightarrow> (w_closing w \<longrightarrow> w_closing w') \<Longrightarrow> acts env w w'"
  by (simp add: acts_def)

lemma acts_step:
  assumes "session_step (we_session env) (w_session w, w_files w) (w_session w', w_files w')" and "w_closing w' = w_closing w"
  shows "acts env w w'"
  using assms by (auto simp: acts_def)

interpretation acting: effect "acts env" for env
  by unfold_locales simp

text \<open>Changing a torrent without changing its hash is a step of the session.\<close>

lemma update_torrent_cong:
  "(\<And>t. t_hash t = hash \<Longrightarrow> f t = g t) \<Longrightarrow> update_torrent hash f ts = update_torrent hash g ts"
  by (induction ts) auto

lemma acts_put_torrent:
  assumes "w_session w1 = w_session w" and "w_files w1 = w_files w" and "w_closing w1 = w_closing w"
  shows "acts env w (put_torrent t w1)"
proof (rule acts_step)
  let ?f = "\<lambda>u. if t_hash u = t_hash t then t else u"
  have "update_torrent (t_hash t) (\<lambda>_. t) (s_torrents (w_session w)) = update_torrent (t_hash t) ?f (s_torrents (w_session w))"
    by (rule update_torrent_cong) simp
  moreover have "session_step (we_session env) (w_session w, w_files w)
      ((w_session w)\<lparr>s_torrents := update_torrent (t_hash t) ?f (s_torrents (w_session w))\<rparr>, w_files w)"
    by (rule session_step.torrent) simp
  ultimately show "session_step (we_session env) (w_session w, w_files w) (w_session (put_torrent t w1), w_files (put_torrent t w1))"
    using assms by (simp add: put_torrent_def)
qed (use assms in \<open>simp add: put_torrent_def\<close>)

lemma acts_put_both:
  "w_session w1 = w_session w \<Longrightarrow> w_files w1 = w_files w \<Longrightarrow> w_closing w1 = w_closing w \<Longrightarrow> acts env w (put_both ft w1)"
  by (simp add: put_both_def acts_put_torrent)

section \<open>Adding torrents\<close>

text \<open>Documented behaviour of joining paths: the name stands at the end.\<close>

definition names_kept :: "('n, 'h) web_env \<Rightarrow> bool" where
  "names_kept env \<longleftrightarrow> (\<forall>a b. suffix b (e_join_path (we_session env) a b))"

lemma last_path_append:
  assumes "\<And>a b. suffix b (joined a b)" and "name \<noteq> []" and "name \<noteq> ''.''"
  shows "last (path_append joined dir name) = last name"
proof -
  have "suffix name (path_append joined dir name)" using assms by (simp add: path_append_def)
  with assms(2) show ?thesis by (auto simp: suffix_def)
qed

lemma temporary_not_resume:
  assumes "names_kept env"
  shows "temporary_path env draw c \<noteq> resume_file (e_join_path (we_session env)) dir hash"
proof -
  have "last (temporary_path env draw c) = CHR ''t''" "last (resume_file (e_join_path (we_session env)) dir hash) = CHR ''e''"
    unfolding temporary_path_def resume_file_def
    using assms by (subst last_path_append; force simp: names_kept_def)+
  then show ?thesis by auto
qed

lemma resume_files_saved:
  assumes "names_kept env" and "resume_files_ok (we_session env) c fs"
    and "save_file cw (temporary_path env draw g) body fs = (ok, fs')"
  shows "resume_files_ok (we_session env) c fs'"
proof -
  have "fs' (resume_file (e_join_path (we_session env)) (c_torrents_path c) hash) =
      fs (resume_file (e_join_path (we_session env)) (c_torrents_path c) hash)" for hash
    using assms(3) temporary_not_resume [OF assms(1), of draw g "c_torrents_path c" hash]
    by (auto simp: save_file_def split: if_splits)
  with assms(2) show ?thesis unfolding resume_files_ok_def by metis
qed

lemma does_add_and_report:
  assumes "resume_files_ok (we_session env) (s_config (w_session w)) (w_files w1)"
    and "w_session w1 = w_session w" and "w_closing w1 = w_closing w"
  shows "leads (acts env) w (add_and_report env st now uri w1)"
proof -
  obtain r s fs where a: "add_torrent (we_session env) (w_config w1) uri False st True now (w_session w1) (w_files w1) = (r, s, fs)"
    by (metis prod_cases3)
  have "session_step (we_session env) (w_session w, w_files w) (w_session w, w_files w1)" by (rule session_step.files)
  moreover have "session_step (we_session env) (w_session w, w_files w1) (s, fs)"
    using session_step.add [OF assms(1)] a assms(2) by simp
  ultimately have "(session_step (we_session env))\<^sup>*\<^sup>* (w_session w, w_files w) (s, fs)"
    by (meson converse_rtranclp_into_rtranclp rtranclp.rtrancl_refl)
  then have "acts env w (w1\<lparr>w_session := s, w_files := fs\<rparr>)" using assms(3) by (simp add: acts_def)
  with a show ?thesis by (auto simp: add_and_report_def split: sum.splits failure.splits)
qed

section \<open>Every request\<close>

lemma does_remove: "leads (acts env) w (torrents_remove env h df dd w)"
proof -
  let ?hash = "clean_hash env h" and ?s = "w_session w" and ?fs = "w_files w"
  have "acts env w (w\<lparr>w_session := s, w_files := fs\<rparr>)"
    if rem: "remove_torrent (we_session env) ?hash f d ?s ?fs = Inr (ok, s, fs)" for f d ok s fs
  proof -
    obtain s1 where "remove_torrent_begin (we_session env) ?hash f d ?s ?fs = Inr (s1, fs)" "remove_torrent_erase ?hash s1 = Inr s"
      using rem by (auto simp: remove_torrent_def bind_result_eq_Inr)
    then have "session_step (we_session env) (?s, ?fs) (s1, fs)" "session_step (we_session env) (s1, fs) (s, fs)"
      by (auto intro: session_step.remove session_step.erase)
    then show ?thesis unfolding acts_def by (auto intro: converse_rtranclp_into_rtranclp)
  qed
  then show ?thesis unfolding torrents_remove_def Let_def by (auto intro!: acting.leads_catch leads_bind)
qed

lemma does_settings_set: "leads (acts env) w (settings_set env body w)"
proof -
  obtain err c where p: "we_parse_json env (c_str body) (w_config w) = (err, c)" by fastforce
  obtain r s where r: "reconfigure (we_session env) c (w_session w) = (r, s)" by fastforce
  have "acts env w (w\<lparr>w_config := c, w_session := s\<rparr>)"
    by (rule acts_step) (use session_step.configured [OF r] in simp_all)
  with p r show ?thesis
    by (auto simp: settings_set_def split: option.splits sum.splits failure.splits intro: acts_same)
qed

lemma does_stream: "leads (acts env) w (stream_file env draw meth h i rng w)"
  unfolding stream_file_def Let_def
  by (rule acting.leads_with_file) (auto split: prod.splits intro!: acts_put_both)

lemma does_dispatch:
  assumes "names_kept env"
    and "adds_torrent req \<Longrightarrow> resume_files_ok (we_session env) (s_config (w_session w)) (w_files w)"
  shows "leads (acts env) w (dispatch env draw now changes req w)"
proof (cases req)
  case (Session_add_file storage upload)
  then have ok: "resume_files_ok (we_session env) (s_config (w_session w)) (w_files w)" using assms(2) by (simp add: adds_torrent_def)
  then show ?thesis using Session_add_file
    by (auto simp: session_add_file_def Let_def split: sum.splits option.splits prod.splits
        intro!: acting.leads_catch leads_bind does_add_and_report simp: resume_files_saved [OF assms(1) ok])
next
  case (Session_add_uri uri storage)
  then have ok: "resume_files_ok (we_session env) (s_config (w_session w)) (w_files w)" using assms(2) by (simp add: adds_torrent_def)
  then show ?thesis using Session_add_uri
    by (auto simp: session_add_uri_def Let_def split: option.splits prod.splits
        intro!: acting.leads_catch leads_bind does_add_and_report simp: resume_files_saved [OF assms(1) ok])
next
  case (Torrents_remove hash df dd)
  then show ?thesis by (simp add: does_remove)
next
  case (Settings_set body)
  then show ?thesis by (simp add: does_settings_set)
next
  case Session_pause
  then show ?thesis by (auto simp: session_endpoint_pause_def intro!: acts_step session_step.paused)
next
  case Session_resume
  then show ?thesis by (auto simp: session_endpoint_resume_def intro!: acts_step session_step.resumed)
next
  case (Stream_head hash index rng)
  then show ?thesis by (simp add: does_stream)
next
  case (Stream_get hash index rng)
  then show ?thesis by (simp add: does_stream)
next
  case Misc_shutdown
  then show ?thesis by (simp add: misc_shutdown_def acts_same)
qed (auto simp: settings_get_def misc_index_def misc_changelog_def session_info_def session_status_def
    torrents_list_def torrents_resume_def torrents_pause_def torrents_info_def torrents_status_def torrents_files_def
    torrents_generate_def files_download_def files_stop_def files_info_def files_status_def Let_def
    intro!: acting.leads_with_torrent acting.leads_with_file leads_bind acts_put_torrent acts_put_both)


text \<open>The demo program asks nobody for a password.\<close>

lemma demo_names_kept: "names_kept demo_web_env"
  by (simp add: names_kept_def demo_web_env_def demo_session_env_def suffix_def)

lemma demo_open: "intercept (w_config demo_web) credentials = None"
proof -
  have "w_config demo_web = default_config False" by (simp add: demo_web_def)
  moreover have "\<not> is_auth_needed (default_config False)" by code_simp
  ultimately show ?thesis by (simp add: intercept_def)
qed


section \<open>The running application\<close>

lemma start_services_torrents [simp]: "s_torrents (start_services ls s) = s_torrents s"
  by (simp add: start_services_def Let_def split: prod.splits)

lemma new_application_torrents:
  assumes "new_application cenv env start_lt trackers memory fs heap po garbage = Inr (Some w)"
  shows "s_torrents (w_session w) = []" and "\<not> w_closing w"
  using assms by (auto simp: new_application_def new_session_def bind_result_eq_Inr split: config_outcome.splits)

lemma session_steps_unique:
  "(session_step env)\<^sup>*\<^sup>* x y \<Longrightarrow> hash_api_ok env \<Longrightarrow> unique_torrents (fst x) \<Longrightarrow> unique_torrents (fst y)"
  by (induction rule: rtranclp_induct) (auto intro: session_step_unique)

definition app_ok :: "('n, 'h) app \<Rightarrow> bool" where
  "app_ok a \<longleftrightarrow> unique_torrents (w_session (a_web a)) \<and> (a_phase a \<in> {Stopping, Killed} \<longrightarrow> w_closing (a_web a))"

lemma served_acts:
  assumes "names_kept env" and "adds_torrent req \<Longrightarrow> resume_files_ok (we_session env) (s_config (w_session w)) (w_files w)"
    and "serve_request env draw now changes credentials req w = Inr (resp, w')"
  shows "acts env w w'"
  using does_dispatch [OF assms(1) assms(2), where draw = draw and now = now and changes = changes] assms(3)
  by (auto simp: serve_request_def leads_def split: option.splits)

inductive_cases app_stepE: "app_step env a b"

lemma app_step_closing:
  assumes "app_step env a b" and "names_kept env" and "w_closing (a_web a)"
  shows "w_closing (a_web b)"
  using assms(1)
proof (rule app_stepE)
  fix req draw now changes credentials resp w'
  assume "adds_torrent req \<Longrightarrow> resume_files_ok (we_session env) (s_config (w_session (a_web a))) (w_files (a_web a))"
    "serve_request env draw now changes credentials req (a_web a) = Inr (resp, w')" "b = a\<lparr>a_web := w'\<rparr>"
  then show ?thesis using served_acts [OF assms(2)] assms(3) by (fastforce simp: acts_def)
qed (use assms(3) in \<open>auto simp: signalHandler_def set_close_def stop_serving_def close_application_def Let_def\<close>)

lemma app_step_ok:
  assumes "app_step env a b" and "names_kept env" and "hash_api_ok (we_session env)" and "app_ok a"
  shows "app_ok b"
  using assms(1)
proof (rule app_stepE)
  fix req draw now changes credentials resp w'
  assume s: "adds_torrent req \<Longrightarrow> resume_files_ok (we_session env) (s_config (w_session (a_web a))) (w_files (a_web a))"
    "serve_request env draw now changes credentials req (a_web a) = Inr (resp, w')" "b = a\<lparr>a_web := w'\<rparr>"
  have "acts env (a_web a) w'" by (rule served_acts [OF assms(2) s(1,2)])
  then show ?thesis using session_steps_unique [OF _ assms(3)] assms(4) s(3) by (fastforce simp: acts_def app_ok_def)
next
  fix s' fs'
  assume "session_step (we_session env) (w_session (a_web a), w_files (a_web a)) (s', fs')"
    "b = a\<lparr>a_web := (a_web a)\<lparr>w_session := s', w_files := fs'\<rparr>\<rparr>"
  then show ?thesis using session_step_unique [OF _ assms(3)] assms(4) by (fastforce simp: app_ok_def)
qed (use assms(4) in \<open>auto simp: app_ok_def unique_torrents_def signalHandler_def set_close_def stop_serving_def
    close_application_def close_def stop_services_def Let_def\<close>)


text \<open>A start with a configuration file that sets the memory size by hand.\<close>

definition manual_config :: config where
  "manual_config = (default_config False)\<lparr>c_auto_memory_size := False\<rparr>"

definition manual_env :: config_env where
  "manual_env = demo_env\<lparr>ce_parse := \<lambda>json c. Inr manual_config\<rparr>"

definition manual_po :: po_vars where
  "manual_po = \<lparr>po_flag = \<lambda>x. False, po_string = (\<lambda>x. if x = ''config'' then Some ''c.json'' else None),
     po_int = \<lambda>x. None, po_bool = \<lambda>x. None\<rparr>"

lemma manual_new_config: "new_config manual_env (Some manual_po) False = Configured manual_config []"
proof -
  have "convert_options manual_env manual_po manual_config = Inr manual_config"
    by (simp add: convert_options_def enum_option_def manual_po_def)
  moreover have "load_config_file manual_env manual_po c = Inr manual_config" for c
    by (simp add: load_config_file_def manual_env_def demo_env_def manual_po_def)
  moreover have "auto_memory n manual_config = manual_config" for n by (simp add: auto_memory_def manual_config_def)
  ultimately show ?thesis by (simp add: new_config_def write_config_def) (simp add: manual_po_def)
qed

lemma manual_configure: "\<exists>p c ports. configure demo_settings_env manual_config pack = Inr (p, c, ports)"
proof (rule configure_ok)
  show "check_directories (se_mkpath demo_settings_env) manual_config = Inr ()"
    by (simp add: check_directories_def demo_settings_env_def manual_config_def default_config_def)
  show "settings_fit manual_config" by (simp add: settings_fit_def fits_int_def manual_config_def default_config_def)
  show "c_listen_port_max (adjusted_config manual_config) + 1 - c_listen_port_min (adjusted_config manual_config) \<noteq> 0"
    by (simp add: adjusted_config_def listen_ports_def raise_memory_def manual_config_def default_config_def)
qed


text \<open>
  C21. A request to shut down is never forgotten: once \<open>/shutdown\<close> has been answered, no later
  request, thread or signal makes the server loop go on.
\<close>

theorem shutdown_is_final:
  assumes "names_kept env" and "intercept (w_config (a_web a)) credentials = None"
    and "serve_request env draw now changes credentials Misc_shutdown (a_web a) = Inr (resp, w')"
    and "(app_step env)\<^sup>*\<^sup>* (a\<lparr>a_web := w'\<rparr>) b"
  shows "rs_status resp = 200 \<and> \<not> keep_serving b"
proof -
  have "w_closing w'" "rs_status resp = 200"
    using assms(2,3) by (auto simp: serve_request_def misc_shutdown_def dto_response_def)
  moreover have closing: "w_closing (a_web b)" if "w_closing (a_web c)" "(app_step env)\<^sup>*\<^sup>* c b" for c
    using that(2,1) by (induction rule: converse_rtranclp_induct) (auto dest: app_step_closing [OF _ assms(1)])
  ultimately show ?thesis using closing [OF _ assms(4)] by (simp add: keep_serving_def)
qed

theorem shutdown_is_final_witness:
  "\<exists>resp w'. serve_request demo_web_env (\<lambda>k. 1) 0 [] (Inr ([], [])) Misc_shutdown demo_web = Inr (resp, w') \<and> rs_status resp = 200 \<and>
     \<not> keep_serving (stop_serving ((run_application demo_web)\<lparr>a_web := w'\<rparr>))"
proof -
  let ?a = "run_application demo_web"
  obtain resp w' where s: "serve_request demo_web_env (\<lambda>k. 1) 0 [] (Inr ([], [])) Misc_shutdown (a_web ?a) = Inr (resp, w')" "w_closing w'"
    by (auto simp: serve_request_def demo_open misc_shutdown_def run_application_def)
  have "app_step demo_web_env (?a\<lparr>a_web := w'\<rparr>) (stop_serving (?a\<lparr>a_web := w'\<rparr>))"
    by (rule app_step.served) (use s(2) in \<open>simp_all add: run_application_def keep_serving_def\<close>)
  then have "(app_step demo_web_env)\<^sup>*\<^sup>* (?a\<lparr>a_web := w'\<rparr>) (stop_serving (?a\<lparr>a_web := w'\<rparr>))" by blast
  from shutdown_is_final [OF demo_names_kept _ s(1) this] s(1) show ?thesis
    by (auto simp: run_application_def demo_open)
qed

text \<open>
  When a login or a password is configured, a request without exactly these is answered with an
  error and changes nothing, whatever endpoint it names; every other request reaches its endpoint.
\<close>

lemma unauthorised_refused:
  "serve_request env draw now changes credentials req w =
     (if c_web_login (w_config w) = [] \<and> c_web_password (w_config w) = [] \<or>
         credentials = Inr (c_web_login (w_config w), c_web_password (w_config w))
      then dispatch env draw now changes req w
      else Inr (case credentials of Inl denied \<Rightarrow> denied | Inr _ \<Rightarrow> handle_error 401 ''Unauthorized'' [], w))"
  by (auto simp: serve_request_def intercept_def is_auth_needed_def split: sum.splits prod.splits)

end
