(* ===== verification/Credentials.thy ===== *)
theory Credentials
  imports App_Invariant
begin

text \<open>
  What the settings of the web interface let a client do to the login and the password that guard it:
  \<open>JS_OBJECT\<close> of src/src/app/config.h lists the members that are written and read as JSON, and
  leaves these two out, so no answer shows them and no request changes them.
\<close>

section \<open>Members and the other fields\<close>

text \<open>The five fields of a configuration that are not members of its JSON object.\<close>

definition put_private :: "config \<Rightarrow> config \<Rightarrow> config" where
  "put_private c d = d\<lparr>c_config_file := c_config_file c, c_write_config_file := c_write_config_file c,
     c_update_file := c_update_file c, c_web_login := c_web_login c, c_web_password := c_web_password c\<rparr>"

lemma json_members_private [simp]: "json_members (put_private c d) = json_members d"
  by (simp add: json_members_def put_private_def)

text \<open>Nothing else is left out: the members determine every other setting.\<close>

lemma json_members_determine: "json_members c = json_members d \<longleftrightarrow> put_private c d = c"
proof
  assume m: "json_members c = json_members d"
  note inj = storage_enum.to_string_inject strategy_enum.to_string_inject encryption_enum.to_string_inject
    agent_enum.to_string_inject proxy_enum.to_string_inject trackers_enum.to_string_inject
    modify_enum.to_string_inject profile_enum.to_string_inject
  from m show "put_private c d = c"
    by (simp add: json_members_def put_private_def inj)
next
  assume "put_private c d = c"
  then show "json_members c = json_members d" by (metis json_members_private)
qed

lemma private_credentials:
  "c_web_login (put_private c d) = c_web_login c" "c_web_password (put_private c d) = c_web_password c"
  by (simp_all add: put_private_def)

lemma intercept_private: "intercept (put_private c d) = intercept c"
  by (intro ext) (simp only: intercept_def is_auth_needed_def private_credentials)

section \<open>Requests and the other fields\<close>

text \<open>Documented behaviour of the JSON library: reading changes listed members only.\<close>

definition json_reads_members :: "('n, 'h) web_env \<Rightarrow> bool" where
  "json_reads_members env \<longleftrightarrow> (\<forall>s c. put_private c (snd (we_parse_json env s c)) = snd (we_parse_json env s c))"

definition keeps_private :: "('n, 'h) web \<Rightarrow> ('n, 'h) web \<Rightarrow> bool" where
  "keeps_private w w' \<longleftrightarrow> put_private (w_config w) (w_config w') = w_config w'"

lemma put_private_same [simp]: "put_private c c = c"
  by (simp add: put_private_def)

lemma keeps_private_config: "w_config w' = w_config w \<Longrightarrow> keeps_private w w'"
  by (simp add: keeps_private_def)

interpretation keeping: effect keeps_private
  by unfold_locales (simp add: keeps_private_config)

lemma put_config [simp]: "w_config (put_torrent t w) = w_config w" "w_config (put_both ft w) = w_config w"
  by (simp_all add: put_torrent_def put_both_def)

lemma keeps_settings_set:
  assumes "json_reads_members env"
  shows "leads keeps_private w (settings_set env body w)"
proof -
  obtain err c where p: "we_parse_json env (c_str body) (w_config w) = (err, c)" by fastforce
  then have "put_private (w_config w) c = c" using assms by (metis json_reads_members_def snd_conv)
  with p show ?thesis
    by (auto simp: settings_set_def keeps_private_def split: option.splits sum.splits failure.splits prod.splits)
qed

lemma keeps_add_and_report: "w_config w1 = w_config w \<Longrightarrow> leads keeps_private w (add_and_report env st now uri w1)"
  by (auto simp: add_and_report_def intro!: keeps_private_config split: prod.splits sum.splits failure.splits)

lemma keeps_dispatch:
  assumes "json_reads_members env"
  shows "leads keeps_private w (dispatch env draw now changes req w)"
proof (cases req)
  case (Settings_set body)
  then show ?thesis by (simp add: keeps_settings_set [OF assms])
next
  case (Session_add_file storage upload)
  then show ?thesis
    by (auto simp: session_add_file_def Let_def split: sum.splits option.splits prod.splits
        intro!: keeping.leads_catch leads_bind keeps_add_and_report)
next
  case (Session_add_uri uri storage)
  then show ?thesis
    by (auto simp: session_add_uri_def Let_def split: option.splits prod.splits
        intro!: keeping.leads_catch leads_bind keeps_add_and_report)
next
  case (Torrents_remove hash df dd)
  then show ?thesis
    by (auto simp: torrents_remove_def Let_def intro!: keeping.leads_catch leads_bind keeps_private_config)
qed (auto simp: settings_get_def misc_index_def misc_changelog_def misc_shutdown_def session_info_def session_status_def
    session_endpoint_pause_def session_endpoint_resume_def
    torrents_list_def torrents_resume_def torrents_pause_def torrents_info_def torrents_status_def torrents_files_def
    torrents_generate_def files_download_def files_stop_def files_info_def files_status_def stream_file_def Let_def
    split: prod.splits intro!: keeping.leads_with_torrent keeping.leads_with_file leads_bind keeps_private_config)

lemma app_step_private:
  assumes "app_step env a b" and "json_reads_members env"
  shows "keeps_private (a_web a) (a_web b)"
  using assms(1)
proof (rule app_stepE)
  fix req draw now changes credentials resp w'
  assume "serve_request env draw now changes credentials req (a_web a) = Inr (resp, w')" "b = a\<lparr>a_web := w'\<rparr>"
  then show ?thesis using keeps_dispatch [OF assms(2), of "a_web a" draw now changes req]
    by (auto simp: serve_request_def leads_def keeps_private_config split: option.splits)
qed (auto simp: signalHandler_def set_close_def stop_serving_def close_application_def Let_def intro!: keeps_private_config)

lemma app_steps_intercept:
  assumes "(app_step env)\<^sup>*\<^sup>* a b" and "json_reads_members env"
  shows "intercept (w_config (a_web b)) = intercept (w_config (a_web a))"
  using assms(1)
proof (induction rule: rtranclp_induct)
  case (step b c)
  then show ?case using app_step_private [OF step(2) assms(2)] intercept_private
    by (metis keeps_private_def)
qed simp

text \<open>
  C9. Who may use the web interface is decided when the program starts. Whatever requests, threads and
  signals did since, a client whose credentials the first configuration refuses is refused with the
  same answer and changes nothing, and a client that it accepts reaches the endpoint, even after
  other clients changed the settings.
\<close>

theorem credentials_guard:
  assumes "json_reads_members env" and "(app_step env)\<^sup>*\<^sup>* (run_application w) b"
  shows "serve_request env draw now changes credentials req (a_web b) =
    (case intercept (w_config w) credentials of
       Some resp \<Rightarrow> Inr (resp, a_web b)
     | None \<Rightarrow> dispatch env draw now changes req (a_web b))"
  using app_steps_intercept [OF assms(2,1)] by (simp add: serve_request_def run_application_def)

text \<open>A client that changes the port of the settings, and one that does not know the login.\<close>

definition guarded_web :: "(demo_native, lt_demo) web" where
  "guarded_web = demo_web\<lparr>w_config := (default_config False)\<lparr>c_web_login := ''user''\<rparr>\<rparr>"

definition port_env :: "(demo_native, lt_demo) web_env" where
  "port_env = demo_web_env\<lparr>we_parse_json := \<lambda>s c. (Some ''rest'', c\<lparr>c_web_port := 80\<rparr>),
     we_serialize := \<lambda>members. concat (map fst members)\<rparr>"

lemma port_env_reads: "json_reads_members port_env"
  by (simp add: json_reads_members_def port_env_def put_private_def)

lemma guarded_web_intercept:
  "intercept (w_config guarded_web) (Inr (''user'', [])) = None"
  "intercept (w_config guarded_web) (Inr (''me'', [])) = Some (handle_error 401 ''Unauthorized'' [])"
  by (simp_all add: intercept_def is_auth_needed_def guarded_web_def default_config_def)

theorem credentials_guard_witness:
  "\<exists>b :: (demo_native, lt_demo) app. c_web_port (w_config (a_web b)) = 80 \<and>
     serve_request port_env (\<lambda>k. 1) 0 [] (Inr (''me'', [])) Misc_shutdown (a_web b) = Inr (handle_error 401 ''Unauthorized'' [], a_web b)"
proof -
  let ?a = "run_application guarded_web" and ?c = "(w_config guarded_web)\<lparr>c_web_port := 80\<rparr>"
  let ?w = "guarded_web\<lparr>w_config := ?c\<rparr>"
  have "serve_request port_env (\<lambda>k. 1) 0 [] (Inr (''user'', [])) (Settings_set []) (a_web ?a) =
      Inr (handle_error 500 (c_str (''Error converting json: '' @ ''rest'')) [], ?w)"
    by (simp add: serve_request_def guarded_web_intercept run_application_def settings_set_def port_env_def)
  then have "app_step port_env ?a (?a\<lparr>a_web := ?w\<rparr>)"
    by (intro app_step.request) (simp_all add: run_application_def adds_torrent_def)
  then have r: "(app_step port_env)\<^sup>*\<^sup>* ?a (?a\<lparr>a_web := ?w\<rparr>)" by simp
  have "serve_request port_env (\<lambda>k. 1) 0 [] (Inr (''me'', [])) Misc_shutdown (a_web (?a\<lparr>a_web := ?w\<rparr>)) =
      Inr (handle_error 401 ''Unauthorized'' [], a_web (?a\<lparr>a_web := ?w\<rparr>))"
    by (simp only: credentials_guard [OF port_env_reads r] guarded_web_intercept option.case)
  moreover have "c_web_port (w_config (a_web (?a\<lparr>a_web := ?w\<rparr>))) = 80" by simp
  ultimately show ?thesis by blast
qed

text \<open>
  The settings that the web interface shows do not reveal its own login and password: a
  successful answer of \<open>settings/get\<close> or \<open>settings/set\<close> is the same text for every
  configuration with these settings, whatever its credentials are.
\<close>

lemma settings_hide_credentials:
  assumes "req = Settings_get \<or> req = Settings_set body" and "intercept (w_config w) credentials = None"
    and "serve_request env draw now changes credentials req w = Inr (resp, w')" and "rs_status resp = 200"
  shows "resp = json_response (we_serialize env (json_members (put_private secret (w_config w'))))"
  using assms
  by (auto simp: serve_request_def settings_get_def settings_set_def handle_error_def
      split: prod.splits option.splits sum.splits failure.splits)

lemma settings_hide_credentials_example:
  "json_response (we_serialize port_env (json_members (w_config guarded_web))) =
     json_response (we_serialize port_env (json_members (put_private (default_config False) (w_config guarded_web)))) \<and>
   c_web_login (w_config guarded_web) \<noteq> c_web_login (put_private (default_config False) (w_config guarded_web))"
proof -
  let ?r = "json_response (we_serialize port_env (json_members (w_config guarded_web)))"
  have "serve_request port_env (\<lambda>k. 1) 0 [] (Inr (''user'', [])) Settings_get guarded_web = Inr (?r, guarded_web)"
    by (simp add: serve_request_def guarded_web_intercept settings_get_def)
  from settings_hide_credentials [OF _ guarded_web_intercept(1) this, of "[]" "default_config False"] show ?thesis
    by (simp add: json_response_def private_credentials) (simp add: guarded_web_def default_config_def)
qed

end
