(* ===== verification/Swagger.thy ===== *)
theory Swagger
  imports Credentials
begin

text \<open>
  The controller of the API documentation: src/src/web/swagger.h. The document is generated by
  oatpp-swagger from the endpoints that \<open>Application::run\<close> collects; its JSON text is the parameter
  \<open>make_json\<close>. The page is a constant text that loads the document.
\<close>

definition page_lines :: "string list" where
  "page_lines = [
     ''<!-- HTML for static distribution bundle build -->'',
     ''<!DOCTYPE html>'',
     ''<html lang='' @ quoted ''en'' @ ''>'',
     ''  <head>'',
     ''    <meta charset='' @ quoted ''UTF-8'' @ ''>'',
     ''    <title>Swagger UI</title>'',
     ''    <link rel='' @ quoted ''stylesheet'' @ '' type='' @ quoted ''text/css'' @ '' href='' @ quoted ''https://cdnjs.cloudflare.com/ajax/libs/swagger-ui/3.46.0/swagger-ui.min.css'' @ '' >'',
     ''    <link rel='' @ quoted ''icon'' @ '' type='' @ quoted ''image/png'' @ '' href='' @ quoted ''./favicon-32x32.png'' @ '' sizes='' @ quoted ''32x32'' @ '' />'',
     ''    <link rel='' @ quoted ''icon'' @ '' type='' @ quoted ''image/png'' @ '' href='' @ quoted ''./favicon-16x16.png'' @ '' sizes='' @ quoted ''16x16'' @ '' />'',
     ''    <style>'',
     ''      html'',
     ''      {'',
     ''        box-sizing: border-box;'',
     ''        overflow: -moz-scrollbars-vertical;'',
     ''        overflow-y: scroll;'',
     ''      }'',
     [],
     ''      *,'',
     ''      *:before,'',
     ''      *:after'',
     ''      {'',
     ''        box-sizing: inherit;'',
     ''      }'',
     [],
     ''      body'',
     ''      {'',
     ''        margin:0;'',
     ''        background: #fafafa;'',
     ''      }'',
     ''    </style>'',
     ''  </head>'',
     [],
     ''  <body>'',
     ''    <div id='' @ quoted ''swagger-ui'' @ ''></div>'',
     [],
     ''    <script src='' @ quoted ''https://cdnjs.cloudflare.com/ajax/libs/swagger-ui/3.46.0/swagger-ui-bundle.js'' @ '' charset='' @ quoted ''UTF-8'' @ ''> </script>'',
     ''    <script src='' @ quoted ''https://cdnjs.cloudflare.com/ajax/libs/swagger-ui/3.46.0/swagger-ui-standalone-preset.js'' @ '' charset='' @ quoted ''UTF-8'' @ ''> </script>'',
     ''    <script>'',
     ''    window.onload = function() {'',
     ''      // Begin Swagger UI call region'',
     ''      const ui = SwaggerUIBundle({'',
     ''        url: '' @ quoted ''/api-docs/oas-3.0.0.json'' @ '','',
     ''        dom_id: '' @ [CHR 0x27] @ ''#swagger-ui'' @ [CHR 0x27] @ '','',
     ''        deepLinking: true,'',
     ''        presets: ['',
     ''          SwaggerUIBundle.presets.apis,'',
     ''          SwaggerUIStandalonePreset'',
     ''        ],'',
     ''        plugins: ['',
     ''          SwaggerUIBundle.plugins.DownloadUrl'',
     ''        ],'',
     ''        layout: '' @ quoted ''StandaloneLayout'',
     ''      })'',
     ''      // End Swagger UI call region'',
     [],
     ''      window.ui = ui'',
     ''    }'',
     ''  </script>'',
     ''  </body>'',
     ''</html>'']"

definition swagger_page :: string where
  "swagger_page = join page_lines newline"

definition document_path :: string where
  "document_path = ''/api-docs/oas-3.0.0.json''"

definition page_path :: string where
  "page_path = ''/swagger/ui''"

text \<open>The two endpoints. They have no description and are not part of the document.\<close>

definition swagger_api :: "(endpoint_doc list \<Rightarrow> string) \<Rightarrow> response" where
  "swagger_api make_json = dto_response 200 (Text_body (make_json registered_endpoints))"

definition swagger_ui :: response where
  "swagger_ui = \<lparr>rs_status = 200, rs_body = Text_body swagger_page, rs_headers = [(''Content-Type'', ''text/html'')]\<rparr>"

text \<open>All requests that the router knows, behind the interceptor.\<close>

datatype site_request = Api_request request | Document_request | Page_request

definition serve_site ::
  "('n, 'h) web_env \<Rightarrow> (endpoint_doc list \<Rightarrow> string) \<Rightarrow> (nat \<Rightarrow> nat) \<Rightarrow> int \<Rightarrow> string \<Rightarrow> response + string \<times> string \<Rightarrow>
    site_request \<Rightarrow> ('n, 'h) web \<Rightarrow> (response \<times> ('n, 'h) web) result" where
  "serve_site env make_json draw now changes credentials req w = (case req of
     Api_request r \<Rightarrow> serve_request env draw now changes credentials r w
   | Document_request \<Rightarrow>
       (case intercept (w_config w) credentials of Some resp \<Rightarrow> Inr (resp, w) | None \<Rightarrow> Inr (swagger_api make_json, w))
   | Page_request \<Rightarrow>
       (case intercept (w_config w) credentials of Some resp \<Rightarrow> Inr (resp, w) | None \<Rightarrow> Inr (swagger_ui, w)))"

text \<open>The page asks for the document where the controller serves it, and looking at it changes nothing.\<close>

lemma page_loads_document: "page_lines ! 41 = ''        url: '' @ quoted document_path @ '',''"
  by (simp add: page_lines_def document_path_def)

lemma documentation_harmless:
  "serve_site env make_json draw now changes credentials req w = Inr (resp, w') \<Longrightarrow> req = Document_request \<or> req = Page_request \<Longrightarrow> w' = w"
  by (auto simp: serve_site_def split: option.splits)

text \<open>No endpoint of the document competes with the two.\<close>

lemma documentation_apart:
  "list_all (\<lambda>d. ed_method d = ''GET'' \<longrightarrow> apart (ed_path d) document_path \<and> apart (ed_path d) page_path) registered_endpoints"
  by code_simp

end
