(* ===== verification/Spec2Isabelle.thy ===== *)
theory Spec2Isabelle
  imports Memory_Refinement Session_Threads Streaming Logging Swagger
begin

text \<open>
  A verification development for lt2http, a BitTorrent client that serves the files of its
  torrents over HTTP while they are being downloaded.

  \<^bold>\<open>The program.\<close> \<open>main\<close> (src/src/app/main.cpp) builds an \<open>Application\<close> from a configuration,
  which owns a \<open>Session\<close>. The session owns libtorrent and the torrents; a torrent owns its files and,
  when it is kept in memory, a \<open>memory_storage\<close> that libtorrent reads and writes pieces through.
  Controllers (src/src/web) answer HTTP requests from the session; a stream request makes a
  \<open>Reader\<close>, registers it with file and torrent, and lets oatpp pull bytes out of it. Two threads of
  the session consume libtorrent's alerts and hand out the priorities of pieces by the positions of the readers.

  \<^bold>\<open>Theories and sources.\<close>

  \<^item> \<open>Prelude\<close>: results (an exception is \<open>Throw\<close>, undefined behaviour \<open>Undefined\<close>),
    C++ integers and division, copies of bytes, bit sets, C strings. \<open>Containers\<close>: \<open>std::map\<close> as a
    sorted association list. \<open>Libtorrent\<close>, \<open>Native\<close>: the operations and values of libtorrent
    that the sources use; libtorrent is a parameter everywhere.

  \<^item> \<open>Memory_Storage\<close>: bittorrent/memory_storage.h and .cpp, one definition per method.
    \<open>Memory_Invariant\<close>, \<open>Memory_Paths\<close>, \<open>Memory_Access\<close>, \<open>Memory_Properties\<close> hold
    the invariant and the effect of each operation; \<open>Memory_Guarantees\<close> the properties: every
    reachable storage is well formed, a write is read back, other pieces are disturbed by eviction only, the
    victim is the least recently used one, trimming ends with a buffer to spare, and where it does not.
    \<open>Refinement\<close> and \<open>Memory_Refinement\<close> show that every sequence of calls is one of an
    abstract cache that may forget unpinned pieces.

  \<^item> \<open>Utils\<close>, \<open>Http_Url\<close>, \<open>Paths\<close>: src/src/utils (numbers.h, pieces.h, strings.h,
    requests.h, exceptions.h; http_url.h, http_client.h; path.h; get_total_system_memory). Pieces of a byte range, printing and parsing of
    addresses. \<open>Logging\<close>: the lines of logger.cpp, of web/request_logger.h and of the pool of buffers.

  \<^item> \<open>Configuration\<close>: app/config.h and config.cpp, with the precedence of defaults, command line and
    file, and the members of the JSON form.

  \<^item> \<open>Torrent\<close>, \<open>Torrent_Ops\<close>, \<open>Files\<close>: bittorrent/torrent.h, torrent.cpp, file.h,
    file.cpp. \<open>File_Properties\<close>: which pieces buffering asks for. \<open>Readahead\<close>,
    \<open>Torrent_Properties\<close>: the loop of \<open>prioritize\<close> ends and stays within its limit, states,
    progress, removal of files, metadata. \<open>Dump\<close>: the debug page.

  \<^item> \<open>Reader\<close>, \<open>Reader_Properties\<close>: bittorrent/reader.h, reader.cpp. Waiting ends, a read
    delivers the bytes of the file; a read over three pieces goes wrong. \<open>Serving\<close>: reads while the torrent
    is being downloaded, the waiting included.

  \<^item> \<open>Settings\<close>, \<open>Session\<close>: bittorrent/session.h, session.cpp. \<open>Session_Properties\<close>,
    \<open>Session_Guarantees\<close>: adding and removing on every branch, distinct hashes as an invariant of the
    step relation \<open>session_step\<close>, alerts, services, settings, the end of the alert thread.
    \<open>Session_Threads\<close>: the thread \<open>prioritize\<close> and its end.

  \<^item> \<open>Dto\<close>, \<open>Web\<close>, \<open>Web_Properties\<close>: src/src/dto, src/src/web, and the bodies of
    utils/stream_body.cpp and empty_body.cpp. \<open>Api\<close>: the \<open>ENDPOINT_INFO\<close> declarations of the controllers.
    \<open>Streaming\<close>: a streamed response and the reads that the server makes of its body; together they
    deliver the requested range of the file.

  \<^item> \<open>Application\<close>: app/application.cpp, app_component.h, swagger.h, main.cpp: dispatch of requests
    behind the interceptor, start, signals, shutdown, and the runs of the whole program (\<open>app_step\<close>).
    \<open>App_Properties\<close>: answers are as declared, routes do not compete. \<open>Effects\<close>,
    \<open>App_Invariant\<close>: requests act on the session through \<open>session_step\<close> only, so the session's
    invariant holds in every state of the program; a shutdown is final. \<open>Credentials\<close>: the settings
    endpoints neither show nor change who may use the interface. \<open>Swagger\<close>: the controller of the API
    documentation (web/swagger.h), its page, and that no other endpoint competes with its two.

  \<^bold>\<open>State and effects.\<close> Objects are records that operations take and return. Readers are shared
  between file, torrent and response, so they live in a heap (\<open>reader_heap\<close>) and are named by
  addresses. Threads are steps: an interleaving of the program is a sequence of steps of
  \<open>session_step\<close> or \<open>app_step\<close>; removing a torrent is two steps, because the code gives its lock back in between.

  \<^bold>\<open>Loops.\<close> A loop that may run forever is a \<open>while_option\<close>, whose value \<open>None\<close> means that it
  does not return: \<open>trim_loop\<close> (it returns when a second buffer is in use, and not otherwise),
  \<open>readahead_loop\<close> (it always returns), \<open>wait_loop\<close> (it returns after at most
  \<open>timeout * 1000 div 300 + 1\<close> polls, 201 for the default of a minute), \<open>consume_alerts\<close> (it returns when the application closes).
  \<open>prioritize_thread\<close>, whose rounds may themselves fail to return, is a \<open>partial_function\<close> on
  options (it returns when the application closes). All other loops are structural recursion or folds; no fuel is used.

  \<^bold>\<open>Interfaces.\<close> \<open>registry\<close> (maps of readers: \<open>std::map\<close>, file, torrent), \<open>js_enum\<close>
  (eight enumerations with their names), \<open>piece_source\<close> (what a reader needs of a storage, provided by the
  memory storage), \<open>simulation\<close> (the storage and the abstract cache), \<open>effect\<close> (what handlers of
  requests do to the state, for the steps of the session and for the credentials).

  \<^bold>\<open>Machine integers.\<close> Sizes, offsets and indices are \<open>int\<close>; conversions that cut bits
  (\<open>to_int32\<close>, \<open>to_int64\<close>, the 16-bit ports) are written out where the sources have them. Progress values
  (\<open>double\<close>) are rational numbers.

  \<^bold>\<open>Not modelled.\<close> The vendored date.h and ifaddrs.c (a date library and the list of
  network interfaces, of which the sources only call a few functions), the text of the changelog, and the creation of
  threads. libtorrent, oatpp, cpp-httplib, json_struct and boost are parameters with the documented behaviour that a
  property needs as its named hypothesis. The empty overrides of libtorrent's storage interface (renaming,
  moving, releasing files) do nothing and have no definition, nor have plain accessors of a field. The mutexes are
  not objects of the model: a call that holds one for its whole length is one step, and where the code gives its lock
  back there are two steps.
\<close>

end
